(* ===== verification/Prelude.thy ===== *)
theory Prelude
  imports Main "HOL-Library.Word" "HOL-Library.List_Lexorder"
begin

text \<open>
  Shared vocabulary of the development: Rust's machine integers as words, the address and
  hash types of the EVM side, the reserved principals of the Internet Computer, the outcome
  type of fallible and panicking code, and the generic lemmas on lists, options and words
  that the component theories use.
\<close>

section \<open>Machine integers and identifiers\<close>

text \<open>
  The canisters are built with \<open>cargo build --release\<close> and no \<open>overflow-checks\<close>, so
  \<open>+\<close> and \<open>-\<close> on the unsigned types wrap around; words have exactly that arithmetic.
\<close>

type_synonym u8 = "8 word"
type_synonym u32 = "32 word"
type_synonym u64 = "64 word"
type_synonym u128 = "128 word"
type_synonym u256 = "256 word"

type_synonym bytes = "u8 list"

text \<open>An EVM address (\<open>did::H160\<close>) and a 32-byte hash (\<open>did::H256\<close>), read big-endian.\<close>

type_synonym h160 = "160 word"
type_synonym h256 = "256 word"

definition h160_bytes :: "h160 \<Rightarrow> bytes" where
  "h160_bytes a = map (\<lambda>i. ucast (drop_bit (8 * (19 - i)) a)) [0..<20]"

text \<open>
  The two reserved principals the code names (\<open>Principal::management_canister()\<close> and
  \<open>Principal::anonymous()\<close>) and every other principal, by its raw bytes.
\<close>

datatype principal = ManagementCanister | Anonymous | Principal bytes

text \<open>\<open>minter_did::id256::Id256\<close>: a 32-byte identifier, a tuple struct over its bytes.\<close>

datatype id256 = Id256 (id256_bytes: bytes)

definition wf_id256 :: "id256 \<Rightarrow> bool" where
  "wf_id256 i \<longleftrightarrow> length (id256_bytes i) = 32"

text \<open>\<open>minter_did::order::SignedMintOrder\<close>: the encoded order followed by its signature.\<close>

type_synonym signed_mint_order = bytes

section \<open>Text\<close>

text \<open>\<open>trim_start_matches("0x")\<close> removes the prefix as often as it is there.\<close>

fun trim_0x :: "string \<Rightarrow> string" where
  "trim_0x (c # d # s) = (if c = CHR ''0'' \<and> d = CHR ''x'' then trim_0x s else c # d # s)"
| "trim_0x s = s"

section \<open>Outcomes\<close>

text \<open>
  A Rust \<open>Result\<close> whose evaluation may also panic. A panic inside a canister message traps
  the message; the models say which state the caller is left with.
\<close>

datatype ('e, 'a) outcome = Ok 'a | Err 'e | Panic

section \<open>Collections of rewrite rules\<close>

named_theorems omap_simps \<open>lookup laws of ordered maps\<close>
named_theorems store_defs \<open>definitions of the operation store\<close>
named_theorems handler_defs \<open>definitions of task handlers\<close>

section \<open>Lists and options\<close>

lemma map_of_filter_key:
  "map_of (filter (\<lambda>e. P (fst e)) m) k = (if P k then map_of m k else None)"
  by (induction m) auto

lemma sorted_list_of_set_snoc:
  fixes x :: "'a::linorder"
  assumes "finite A" and "\<And>a. a \<in> A \<Longrightarrow> a < x"
  shows "sorted_list_of_set (insert x A) = sorted_list_of_set A @ [x]"
proof (rule sorted_distinct_set_unique)
  have "x \<notin> A" using assms(2) by blast
  then show "distinct (sorted_list_of_set A @ [x])" using assms(1) by auto
  show "sorted (sorted_list_of_set A @ [x])"
    using assms by (auto simp: sorted_append less_imp_le)
  show "set (sorted_list_of_set (insert x A)) = set (sorted_list_of_set A @ [x])"
    using assms(1) by (simp del: sorted_list_of_set_insert_remove)
qed (rule sorted_list_of_set)+

lemma filter_sorted_list_of_set:
  assumes "finite A"
  shows "filter (\<lambda>y. y \<noteq> x) (sorted_list_of_set A) = sorted_list_of_set (A - {x})"
  using assms
  by (intro sorted_distinct_set_unique) (auto simp: sorted_wrt_filter)

lemma List_map_filter_append:
  "List.map_filter f (xs @ ys) = List.map_filter f xs @ List.map_filter f ys"
  by (induction xs) (auto split: option.splits)

lemma List_map_filter_cong:
  "(\<And>x. x \<in> set xs \<Longrightarrow> f x = g x) \<Longrightarrow> List.map_filter f xs = List.map_filter g xs"
  by (induction xs) (auto split: option.splits)

lemma find_Some_in_set: "List.find P xs = Some x \<Longrightarrow> x \<in> set xs \<and> P x"
  by (auto simp: find_Some_iff)

lemma find_unique:
  assumes "x \<in> set xs" and "P x" and "\<And>y. y \<in> set xs \<Longrightarrow> P y \<Longrightarrow> y = x"
  shows "List.find P xs = Some x"
proof -
  obtain y where "List.find P xs = Some y"
    using assms(1,2) by (cases "List.find P xs") (auto simp: find_None_iff)
  then show ?thesis using assms(3) find_Some_in_set by metis
qed

text \<open>A list of pairs ordered by its keys is determined by its set.\<close>

lemma sorted_wrt_fst_unique:
  fixes xs ys :: "('k::linorder \<times> 'v) list"
  assumes "sorted_wrt (\<lambda>x y. fst x < fst y) xs" and "sorted_wrt (\<lambda>x y. fst x < fst y) ys"
    and "set xs = set ys"
  shows "xs = ys"
  using assms
proof (induction xs arbitrary: ys)
  case (Cons x xs)
  obtain y ys' where ys: "ys = y # ys'" using Cons.prems(3) by (cases ys) auto
  have "x = y"
  proof (rule ccontr)
    assume "x \<noteq> y"
    then have "x \<in> set ys'" "y \<in> set xs" using Cons.prems(3) ys by auto
    then show False using Cons.prems(1,2) ys by fastforce
  qed
  moreover have "x \<notin> set xs" "y \<notin> set ys'" using Cons.prems(1,2) ys by auto
  ultimately have "set xs = set ys'" using Cons.prems(3) ys by auto
  then show ?case using Cons ys \<open>x = y\<close> by simp
qed simp

section \<open>Words\<close>

lemma word_less_succ: "x \<noteq> - 1 \<Longrightarrow> (x :: 'a::len word) < x + 1"
  by (metis inc_less_eq_self_iff_eq linorder_not_less)

lemma word_less_succ_iff: "x \<noteq> - 1 \<Longrightarrow> (y :: 'a::len word) < x + 1 \<longleftrightarrow> y \<le> x"
  by (metis less_inc_imp_less_eq order_le_less_trans word_less_succ)

lemma unat_bound: "unat (x :: 'a::len word) < 2 ^ LENGTH('a)"
  by (rule unsigned_less)

lemma unat_ucast_up:
  assumes "LENGTH('a::len) \<le> LENGTH('b::len)"
  shows "unat (ucast (x :: 'a word) :: 'b word) = unat x"
proof -
  have "unat x < 2 ^ LENGTH('b)"
    by (rule order_less_le_trans[OF unsigned_less]) (simp add: assms)
  then show ?thesis
    by (simp add: unsigned_ucast_eq take_bit_nat_eq_self)
qed

lemma ucast_down_up:
  assumes "LENGTH('a::len) \<le> LENGTH('b::len)"
  shows "ucast (ucast (x :: 'a word) :: 'b word) = x"
  using unat_ucast_up[OF assms, of x]
  by (metis of_nat_unat ucast_id)

lemma ucast_ucast_small:
  fixes v :: "'b::len word"
  assumes "unat v < 2 ^ LENGTH('a::len)"
  shows "ucast (ucast v :: 'a word) = v"
proof -
  have "unat (ucast v :: 'a word) = unat v"
    using assms by (simp add: unsigned_ucast_eq take_bit_nat_eq_self)
  then show ?thesis by (metis of_nat_unat ucast_id)
qed

end
