(* ===== verification/Task_Monad.thy ===== *)
theory Task_Monad
  imports Prelude
begin

text \<open>
  The execution of a task of the persistent scheduler, as the task handlers of all bridges use
  it. A handler runs as a sequence of canister messages, one per awaited call: when it panics,
  the Internet Computer undoes the state changes since the last awaited call. A task is
  therefore a function on a pair of states, the one committed at the last call and the current
  one. While a call is awaited other messages run; what they do to the state is an argument of
  the handler (\<open>aw n\<close> for its \<open>n\<close>-th call), so that statements about a handler can fix or
  quantify over the interference.
\<close>

section \<open>Errors and options\<close>

text \<open>
  \<open>SchedulerError::TaskExecutionFailed\<close> with the kind of its message: the errors the handlers
  make themselves, and those of a call or of a library they pass on.
\<close>

datatype failure =
    OperationNotFound
  | WrongStatus
  | EvmParamsNotSet
  | BridgeContractNotSet
  | InvalidRecipient
  | InvalidSender
  | InvalidToken
  | InvalidAddress
  | InvalidData
  | NonceNotFound
  | CallFailed
  | QueryFailed
  | OtherFailure string

datatype scheduler_error = TaskExecutionFailed failure

datatype backoff_policy = Fixed u32 | Exponential u32 u32

datatype retry_policy = MaxRetries u32 | Infinite

text \<open>\<open>TaskOptions\<close>; \<open>None\<close> where the handler keeps the scheduler's default.\<close>

record task_options =
  retry_policy :: "retry_policy option"
  backoff_policy :: "backoff_policy option"

definition default_options :: task_options where
  "default_options = \<lparr>retry_policy = None, backoff_policy = None\<rparr>"

section \<open>Tasks\<close>

type_synonym ('s, 'a) task = "'s \<times> 's \<Rightarrow> (scheduler_error, 'a) outcome \<times> 's \<times> 's"

named_theorems task_simps \<open>unfolding of task combinators\<close>

definition return :: "'a \<Rightarrow> ('s, 'a) task" where
  "return x = (\<lambda>cs. (Ok x, cs))"

definition fail :: "failure \<Rightarrow> ('s, 'a) task" where
  "fail f = (\<lambda>cs. (Err (TaskExecutionFailed f), cs))"

definition panic :: "('s, 'a) task" where
  "panic = (\<lambda>cs. (Panic, cs))"

definition andThen :: "('s, 'a) task \<Rightarrow> ('a \<Rightarrow> ('s, 'b) task) \<Rightarrow> ('s, 'b) task" where
  "andThen m k = (\<lambda>cs. case m cs of
       (Ok x, cs') \<Rightarrow> k x cs' | (Err e, cs') \<Rightarrow> (Err e, cs') | (Panic, cs') \<Rightarrow> (Panic, cs'))"

text \<open>Reading and changing the current state.\<close>

definition reading :: "('s \<Rightarrow> 'a) \<Rightarrow> ('s, 'a) task" where
  "reading f = (\<lambda>(c, s). (Ok (f s), (c, s)))"

definition modify :: "('s \<Rightarrow> 's) \<Rightarrow> ('s, unit) task" where
  "modify f = (\<lambda>(c, s). (Ok (), (c, f s)))"

text \<open>\<open>opt.ok_or(...)?\<close>\<close>

definition expect_some :: "'a option \<Rightarrow> failure \<Rightarrow> ('s, 'a) task" where
  "expect_some x f = (case x of None \<Rightarrow> fail f | Some v \<Rightarrow> return v)"

text \<open>\<open>unwrap()\<close>, and code that panics where the model has \<open>None\<close>.\<close>

definition unwrap :: "'a option \<Rightarrow> ('s, 'a) task" where
  "unwrap x = (case x of None \<Rightarrow> panic | Some v \<Rightarrow> return v)"

text \<open>
  An awaited call with the given response. The changes made so far are committed, then other
  messages run. An answer \<open>None\<close> is an error of the call; for \<open>forever\<close> it is a call that
  never returns, which leaves the task without a result.
\<close>

definition call :: "('s \<Rightarrow> 's) \<Rightarrow> 'a option \<Rightarrow> ('s, 'a) task" where
  "call aw response = (\<lambda>(c, s). (case response of
       None \<Rightarrow> (Err (TaskExecutionFailed CallFailed), (aw s, aw s))
     | Some x \<Rightarrow> (Ok x, (aw s, aw s))))"

definition call_forever :: "('s \<Rightarrow> 's) \<Rightarrow> 'a option \<Rightarrow> ('s, 'a) task" where
  "call_forever aw response = (\<lambda>(c, s). (case response of
       None \<Rightarrow> (Panic, (aw s, aw s)) | Some x \<Rightarrow> (Ok x, (aw s, aw s))))"

text \<open>A call whose answer is processed by code that may fail or panic.\<close>

definition call_outcome :: "('s \<Rightarrow> 's) \<Rightarrow> ('e, 'a) outcome \<Rightarrow> ('s, 'a) task" where
  "call_outcome aw response = (\<lambda>(c, s). (case response of
       Ok x \<Rightarrow> (Ok x, (aw s, aw s))
     | Err e \<Rightarrow> (Err (TaskExecutionFailed QueryFailed), (aw s, aw s))
     | Panic \<Rightarrow> (Panic, (aw s, aw s))))"

text \<open>A sequence of calls that reads and changes the state after it is resumed.\<close>

definition call_state :: "('s \<Rightarrow> 's) \<Rightarrow> ('s \<Rightarrow> 'a \<times> 's) \<Rightarrow> ('s, 'a) task" where
  "call_state aw f = (\<lambda>(c, s). case f (aw s) of (x, s') \<Rightarrow> (Ok x, (s', s')))"

text \<open>Code that runs on every regular exit of a task (\<open>Drop\<close>), but not on a panic.\<close>

definition ensure :: "('s, 'a) task \<Rightarrow> ('s \<Rightarrow> 's) \<Rightarrow> ('s, 'a) task" where
  "ensure m f = (\<lambda>cs. case m cs of
       (Panic, cs') \<Rightarrow> (Panic, cs') | (r, (c, s)) \<Rightarrow> (r, (c, f s)))"

text \<open>Handlers that return a \<open>Result\<close>: an awaited answer, and \<open>?\<close>.\<close>

definition answer :: "('s \<Rightarrow> 's) \<Rightarrow> 'a \<Rightarrow> ('s, 'a) task" where
  "answer aw x = call_state aw (\<lambda>s. (x, s))"

definition andTry :: "('s, 'e + 'a) task \<Rightarrow> ('a \<Rightarrow> ('s, 'e + 'b) task) \<Rightarrow> ('s, 'e + 'b) task" where
  "andTry m k = andThen m (\<lambda>r. case r of Inl e \<Rightarrow> return (Inl e) | Inr x \<Rightarrow> k x)"

text \<open>Running a task: a panic leaves the committed state.\<close>

definition run_task :: "('s, 'a) task \<Rightarrow> 's \<Rightarrow> (scheduler_error, 'a) outcome \<times> 's" where
  "run_task m s = (case m (s, s) of
       (Panic, (c, s')) \<Rightarrow> (Panic, c) | (r, (c, s')) \<Rightarrow> (r, s'))"

section \<open>Unfolding\<close>

lemma return_app [task_simps]: "return x cs = (Ok x, cs)"
  by (simp add: return_def)

lemma fail_app [task_simps]: "fail f cs = (Err (TaskExecutionFailed f), cs)"
  by (simp add: fail_def)

lemma panic_app [task_simps]: "panic cs = (Panic, cs)"
  by (simp add: panic_def)

lemma andThen_app [task_simps]:
  "andThen m k cs = (case m cs of
     (Ok x, cs') \<Rightarrow> k x cs' | (Err e, cs') \<Rightarrow> (Err e, cs') | (Panic, cs') \<Rightarrow> (Panic, cs'))"
  by (simp add: andThen_def)

lemma reading_app [task_simps]: "reading f (c, s) = (Ok (f s), (c, s))"
  by (simp add: reading_def)

lemma modify_app [task_simps]: "modify f (c, s) = (Ok (), (c, f s))"
  by (simp add: modify_def)

lemma expect_some_simps [task_simps]:
  "expect_some None f cs = (Err (TaskExecutionFailed f), cs)"
  "expect_some (Some x) f cs = (Ok x, cs)"
  by (simp_all add: expect_some_def task_simps)

lemma unwrap_simps [task_simps]:
  "unwrap None cs = (Panic, cs)"
  "unwrap (Some x) cs = (Ok x, cs)"
  by (simp_all add: unwrap_def task_simps)

lemma call_simps [task_simps]:
  "call aw None (c, s) = (Err (TaskExecutionFailed CallFailed), (aw s, aw s))"
  "call aw (Some x) (c, s) = (Ok x, (aw s, aw s))"
  "call_forever aw None (c, s) = (Panic, (aw s, aw s))"
  "call_forever aw (Some x) (c, s) = (Ok x, (aw s, aw s))"
  by (simp_all add: call_def call_forever_def)

lemma call_outcome_simps [task_simps]:
  "call_outcome aw (Ok x) (c, s) = (Ok x, (aw s, aw s))"
  "call_outcome aw (Err e) (c, s) = (Err (TaskExecutionFailed QueryFailed), (aw s, aw s))"
  "call_outcome aw Panic (c, s) = (Panic, (aw s, aw s))"
  by (simp_all add: call_outcome_def)

lemma call_state_app [task_simps]:
  "call_state aw f (c, s) = (case f (aw s) of (x, s') \<Rightarrow> (Ok x, (s', s')))"
  by (simp add: call_state_def)

lemma ensure_app [task_simps]:
  "ensure m f cs = (case m cs of
     (Panic, cs') \<Rightarrow> (Panic, cs') | (r, (c, s)) \<Rightarrow> (r, (c, f s)))"
  by (simp add: ensure_def)

lemma answer_app [task_simps]: "answer aw x (c, s) = (Ok x, (aw s, aw s))"
  by (simp add: answer_def task_simps)

lemma andTry_app [task_simps]:
  "andTry m k cs = (case m cs of
     (Ok (Inl e), cs') \<Rightarrow> (Ok (Inl e), cs') | (Ok (Inr x), cs') \<Rightarrow> k x cs'
   | (Err e, cs') \<Rightarrow> (Err e, cs') | (Panic, cs') \<Rightarrow> (Panic, cs'))"
  by (simp add: andTry_def task_simps split: prod.split outcome.split sum.split)

section \<open>Weakest preconditions\<close>

text \<open>
  \<open>wp m Q c s\<close>: from committed state \<open>c\<close> and current state \<open>s\<close>, the result of \<open>m\<close> and the
  states it leaves satisfy \<open>Q\<close>. The rules below reduce it to the parts of \<open>m\<close>.
\<close>

definition wp ::
  "('s, 'a) task \<Rightarrow> ((scheduler_error, 'a) outcome \<Rightarrow> 's \<Rightarrow> 's \<Rightarrow> bool) \<Rightarrow> 's \<Rightarrow> 's \<Rightarrow> bool"
where
  "wp m Q c s \<longleftrightarrow> (case m (c, s) of (r, (c', s')) \<Rightarrow> Q r c' s')"

named_theorems wp_simps \<open>weakest preconditions of the task combinators\<close>

lemma wp_return [wp_simps]: "wp (return x) Q c s = Q (Ok x) c s"
  by (simp add: wp_def task_simps)

lemma wp_fail [wp_simps]: "wp (fail f) Q c s = Q (Err (TaskExecutionFailed f)) c s"
  by (simp add: wp_def task_simps)

lemma wp_panic [wp_simps]: "wp panic Q c s = Q Panic c s"
  by (simp add: wp_def task_simps)

lemma wp_andThen [wp_simps]:
  "wp (andThen m k) Q c s =
     wp m (\<lambda>r c' s'. case r of Ok x \<Rightarrow> wp (k x) Q c' s' | Err e \<Rightarrow> Q (Err e) c' s'
       | Panic \<Rightarrow> Q Panic c' s') c s"
  by (simp add: wp_def task_simps split: prod.split outcome.split)

lemma wp_reading [wp_simps]: "wp (reading f) Q c s = Q (Ok (f s)) c s"
  by (simp add: wp_def task_simps)

lemma wp_modify [wp_simps]: "wp (modify f) Q c s = Q (Ok ()) c (f s)"
  by (simp add: wp_def task_simps)

lemma wp_expect_some [wp_simps]:
  "wp (expect_some x f) Q c s =
     (case x of None \<Rightarrow> Q (Err (TaskExecutionFailed f)) c s | Some v \<Rightarrow> Q (Ok v) c s)"
  by (simp add: wp_def task_simps split: option.split)

lemma wp_unwrap [wp_simps]:
  "wp (unwrap x) Q c s = (case x of None \<Rightarrow> Q Panic c s | Some v \<Rightarrow> Q (Ok v) c s)"
  by (simp add: wp_def task_simps split: option.split)

lemma wp_call [wp_simps]:
  "wp (call aw r) Q c s = (case r of
     None \<Rightarrow> Q (Err (TaskExecutionFailed CallFailed)) (aw s) (aw s)
   | Some x \<Rightarrow> Q (Ok x) (aw s) (aw s))"
  by (simp add: wp_def task_simps split: option.split)

lemma wp_call_forever [wp_simps]:
  "wp (call_forever aw r) Q c s = (case r of
     None \<Rightarrow> Q Panic (aw s) (aw s) | Some x \<Rightarrow> Q (Ok x) (aw s) (aw s))"
  by (simp add: wp_def task_simps split: option.split)

lemma wp_call_outcome [wp_simps]:
  "wp (call_outcome aw r) Q c s = (case r of
     Ok x \<Rightarrow> Q (Ok x) (aw s) (aw s)
   | Err e \<Rightarrow> Q (Err (TaskExecutionFailed QueryFailed)) (aw s) (aw s)
   | Panic \<Rightarrow> Q Panic (aw s) (aw s))"
  by (simp add: wp_def task_simps split: outcome.split)

lemma wp_call_state [wp_simps]:
  "wp (call_state aw f) Q c s = (case f (aw s) of (x, s') \<Rightarrow> Q (Ok x) s' s')"
  by (simp add: wp_def task_simps split: prod.split)

lemma wp_answer [wp_simps]: "wp (answer aw x) Q c s = Q (Ok x) (aw s) (aw s)"
  by (simp add: answer_def wp_simps)

lemma wp_andTry [wp_simps]:
  "wp (andTry m k) Q c s = wp m (\<lambda>r c' s'. case r of
     Ok (Inl e) \<Rightarrow> Q (Ok (Inl e)) c' s' | Ok (Inr x) \<Rightarrow> wp (k x) Q c' s'
   | Err e \<Rightarrow> Q (Err e) c' s' | Panic \<Rightarrow> Q Panic c' s') c s"
  unfolding andTry_def wp_andThen
  by (rule arg_cong[where f = "\<lambda>P. wp m P c s"])
    (auto simp: fun_eq_iff wp_simps split: outcome.split sum.split)

lemma wp_ensure [wp_simps]:
  "wp (ensure m f) Q c s = wp m (\<lambda>r c' s'. Q r c' (if r = Panic then s' else f s')) c s"
  by (simp add: wp_def task_simps split: prod.split outcome.split)

lemma wp_mono: "wp m P c s \<Longrightarrow> (\<And>r c' s'. P r c' s' \<Longrightarrow> Q r c' s') \<Longrightarrow> wp m Q c s"
  by (auto simp: wp_def split: prod.splits)

lemma run_task_wp:
  assumes "wp m (\<lambda>r c' s'. P r (if r = Panic then c' else s')) s s"
    and "run_task m s = (r, t)"
  shows "P r t"
  using assms by (auto simp: wp_def run_task_def split: prod.splits outcome.splits)

lemma run_task_wpD:
  assumes "run_task m s = (r, t)" and "wp m (\<lambda>r' c' s'. P r' (if r' = Panic then c' else s')) s s"
  shows "P r t"
  using run_task_wp[OF assms(2,1)] .

section \<open>Invariants\<close>

text \<open>A task maintains \<open>I\<close>: if the committed and the current state satisfy it, they do afterwards.\<close>

definition maintains :: "('s \<Rightarrow> bool) \<Rightarrow> ('s, 'a) task \<Rightarrow> bool" where
  "maintains I m \<longleftrightarrow> (\<forall>c s. I c \<longrightarrow> I s \<longrightarrow> wp m (\<lambda>_ c' s'. I c' \<and> I s') c s)"

named_theorems maintains_intros \<open>invariants of the task combinators\<close>

lemma maintainsI: "(\<And>c s. I c \<Longrightarrow> I s \<Longrightarrow> wp m (\<lambda>_ c' s'. I c' \<and> I s') c s) \<Longrightarrow> maintains I m"
  by (simp add: maintains_def)

lemma maintains_wp:
  assumes "maintains I m" and "I c" and "I s" and "\<And>r c' s'. I c' \<Longrightarrow> I s' \<Longrightarrow> Q r c' s'"
  shows "wp m Q c s"
  using assms(1-3) unfolding maintains_def by (blast intro: wp_mono assms(4))

lemma maintains_pure [maintains_intros]:
  "maintains I (return x)" "maintains I (fail f)" "maintains I panic" "maintains I (reading g)"
  "maintains I (expect_some y f)" "maintains I (unwrap y)"
  by (auto intro!: maintainsI simp: wp_simps split: option.split)

lemma maintains_modify [maintains_intros]: "(\<And>s. I s \<Longrightarrow> I (f s)) \<Longrightarrow> maintains I (modify f)"
  by (auto intro!: maintainsI simp: wp_simps)

lemma maintains_answer [maintains_intros]: "(\<And>s. I s \<Longrightarrow> I (aw s)) \<Longrightarrow> maintains I (answer aw x)"
  by (auto intro!: maintainsI simp: wp_simps)

lemma maintains_andThen [maintains_intros]:
  assumes "maintains I m" and "\<And>x. maintains I (k x)"
  shows "maintains I (andThen m k)"
proof (rule maintainsI)
  fix c s assume "I c" "I s"
  then show "wp (andThen m k) (\<lambda>_ c' s'. I c' \<and> I s') c s"
    unfolding wp_andThen
    by (rule maintains_wp[OF assms(1)]) (auto split: outcome.split intro: maintains_wp[OF assms(2)])
qed

lemma maintains_andTry [maintains_intros]:
  assumes "maintains I m" and "\<And>x. maintains I (k x)"
  shows "maintains I (andTry m k)"
  unfolding andTry_def
  using assms by (intro maintains_intros) (auto split: sum.split intro: maintains_intros)

text \<open>The interference during the calls of a handler keeps \<open>I\<close>.\<close>

definition keeps :: "('s \<Rightarrow> bool) \<Rightarrow> (nat \<Rightarrow> 's \<Rightarrow> 's) \<Rightarrow> bool" where
  "keeps I aw \<longleftrightarrow> (\<forall>n s. I s \<longrightarrow> I (aw n s))"

lemma keepsD: "keeps I aw \<Longrightarrow> I s \<Longrightarrow> I (aw n s)"
  by (simp add: keeps_def)

lemma keeps_shift: "keeps I aw \<Longrightarrow> keeps I (\<lambda>k. aw (f k))"
  by (simp add: keeps_def)

lemma keeps_id: "keeps I (\<lambda>_ s. s)"
  by (simp add: keeps_def)

lemma maintains_call [maintains_intros]:
  "(\<And>s. I s \<Longrightarrow> I (aw s)) \<Longrightarrow> maintains I (call aw r)"
  "(\<And>s. I s \<Longrightarrow> I (aw s)) \<Longrightarrow> maintains I (call_forever aw r)"
  "(\<And>s. I s \<Longrightarrow> I (aw s)) \<Longrightarrow> maintains I (call_outcome aw r')"
  by (auto intro!: maintainsI simp: wp_simps split: option.split outcome.split)

lemma maintains_run:
  assumes "maintains I m" and "I s" and "run_task m s = (r, s')"
  shows "I s'"
  by (rule run_task_wpD[OF assms(3), of "\<lambda>_ t. I t"]) (rule maintains_wp[OF assms(1,2,2)], simp)

end
