(* ===== verification/Abi.thy ===== *)
theory Abi
  imports Prelude
begin

text \<open>
  The ABI vocabulary of \<open>ethabi\<close> that the bridge API is written in: parameter kinds, function
  and event declarations, and decoded tokens with the conversions the code calls. Encoding and
  decoding themselves belong to \<open>ethabi\<close> and are parameters of the models that use them.
\<close>

section \<open>Declarations\<close>

datatype param_kind =
    PAddress | PBytes | PString | PBool | PUint nat | PFixedBytes nat | PArray param_kind

datatype state_mutability = View | NonPayable | Payable

record abi_param =
  p_name :: string
  p_kind :: param_kind

record abi_function =
  fn_name :: string
  fn_inputs :: "abi_param list"
  fn_outputs :: "abi_param list"
  fn_state_mutability :: state_mutability

record event_param =
  ep_name :: string
  ep_kind :: param_kind
  ep_indexed :: bool

record abi_event =
  ev_name :: string
  ev_inputs :: "event_param list"
  ev_anonymous :: bool

section \<open>Tokens\<close>

datatype token =
    TAddress h160 | TBytes bytes | TFixedBytes bytes | TUint u256 | TInt u256
  | TBool bool | TString string | TArray "token list"

text \<open>\<open>Token::{into_address, into_uint, into_bytes, into_fixed_bytes}\<close>\<close>

fun into_address :: "token \<Rightarrow> h160 option" where
  "into_address (TAddress a) = Some a"
| "into_address _ = None"

fun into_uint :: "token \<Rightarrow> u256 option" where
  "into_uint (TUint v) = Some v"
| "into_uint _ = None"

fun into_bytes :: "token \<Rightarrow> bytes option" where
  "into_bytes (TBytes b) = Some b"
| "into_bytes _ = None"

fun into_fixed_bytes :: "token \<Rightarrow> bytes option" where
  "into_fixed_bytes (TFixedBytes b) = Some b"
| "into_fixed_bytes _ = None"

text \<open>\<open>U256::{as_u32, as_u64, as_u128}\<close> panic when the value does not fit; \<open>None\<close> is the panic.\<close>

definition as_u32 :: "u256 \<Rightarrow> u32 option" where
  "as_u32 v = (if unat v < 2 ^ 32 then Some (ucast v) else None)"

definition as_u64 :: "u256 \<Rightarrow> u64 option" where
  "as_u64 v = (if unat v < 2 ^ 64 then Some (ucast v) else None)"

definition as_u128 :: "u256 \<Rightarrow> u128 option" where
  "as_u128 v = (if unat v < 2 ^ 128 then Some (ucast v) else None)"

lemma as_u32_of_u32 [simp]: "as_u32 (ucast (x :: u32)) = Some x"
proof -
  have "unat x < 2 ^ 32" using unat_bound[of x] by simp
  moreover have "unat (ucast x :: u256) = unat x" by (rule unat_ucast_up) simp
  moreover have "ucast (ucast x :: u256) = x" by (rule ucast_down_up) simp
  ultimately show ?thesis by (simp add: as_u32_def)
qed

lemma as_u32_of_u8 [simp]: "as_u32 (ucast (x :: u8)) = Some (ucast x)"
proof -
  have "unat x < 2 ^ 32" using unat_bound[of x] by simp
  moreover have "unat (ucast x :: u256) = unat x" by (rule unat_ucast_up) simp
  moreover have "ucast (ucast x :: u256) = (ucast x :: u32)"
    using \<open>unat (ucast x :: u256) = unat x\<close> by (metis of_nat_unat)
  ultimately show ?thesis by (simp add: as_u32_def)
qed

lemma as_u64_of_u64 [simp]: "as_u64 (ucast (x :: u64)) = Some x"
proof -
  have "unat x < 2 ^ 64" using unat_bound[of x] by simp
  moreover have "unat (ucast x :: u256) = unat x" by (rule unat_ucast_up) simp
  moreover have "ucast (ucast x :: u256) = x" by (rule ucast_down_up) simp
  ultimately show ?thesis by (simp add: as_u64_def)
qed

text \<open>A token is of a declared kind and in its range.\<close>

fun token_fits :: "param_kind \<Rightarrow> token \<Rightarrow> bool" where
  "token_fits PAddress t \<longleftrightarrow> (\<exists>a. t = TAddress a)"
| "token_fits PBytes t \<longleftrightarrow> (\<exists>b. t = TBytes b)"
| "token_fits PString t \<longleftrightarrow> (\<exists>s. t = TString s)"
| "token_fits PBool t \<longleftrightarrow> (\<exists>b. t = TBool b)"
| "token_fits (PUint n) t \<longleftrightarrow> (\<exists>v. t = TUint v \<and> unat v < 2 ^ n)"
| "token_fits (PFixedBytes n) t \<longleftrightarrow> (\<exists>b. t = TFixedBytes b \<and> length b = n)"
| "token_fits (PArray k) t \<longleftrightarrow> (\<exists>ts. t = TArray ts \<and> list_all (token_fits k) ts)"

text \<open>
  The named parameters of a parsed log conform to the declaration of an event: the declared
  names in the declared order, each with a token of its kind.
\<close>

definition conforms :: "abi_event \<Rightarrow> (string \<times> token) list \<Rightarrow> bool" where
  "conforms ev ps \<longleftrightarrow>
     list_all2 (\<lambda>p (n, t). n = ep_name p \<and> token_fits (ep_kind p) t) (ev_inputs ev) ps"

end
