(* ===== verification/Bft_Bridge_Api.thy ===== *)
theory Bft_Bridge_Api
  imports Abi
begin

text \<open>
  The interface to the \<open>BFTBridge\<close> contract (\<open>minter-contract-utils/src/bft_bridge_api.rs\<close>):
  the declarations of its functions and events, the decoding of its three events from EVM
  logs, the paging loop that collects the logs of a block range, and the \<open>mint\<close> transaction.
  \<open>ethabi\<close>'s \<open>parse_log\<close>, \<open>encode_input\<close> and \<open>decode_output\<close> and the JSON-RPC client are
  parameters.
\<close>

section \<open>Contract declarations\<close>

definition CONSTRUCTOR :: "abi_param list" where
  "CONSTRUCTOR = []"

definition MINTER_CANISTER_ADDRESS :: abi_function where
  "MINTER_CANISTER_ADDRESS = \<lparr>fn_name = ''minterCanisterAddress'', fn_inputs = [],
     fn_outputs = [\<lparr>p_name = [], p_kind = PAddress\<rparr>],
     fn_state_mutability = View\<rparr>"

definition NOTIFY_MINTER :: abi_function where
  "NOTIFY_MINTER = \<lparr>fn_name = ''notifyMinter'',
     fn_inputs = [\<lparr>p_name = ''notificationType'', p_kind = PUint 32\<rparr>,
     \<lparr>p_name = ''userData'', p_kind = PBytes\<rparr>],
     fn_outputs = [],
     fn_state_mutability = NonPayable\<rparr>"

definition BURN :: abi_function where
  "BURN = \<lparr>fn_name = ''burn'',
     fn_inputs = [\<lparr>p_name = ''amount'', p_kind = PUint 256\<rparr>,
     \<lparr>p_name = ''fromERC20'', p_kind = PAddress\<rparr>,
     \<lparr>p_name = ''recipientID'', p_kind = PBytes\<rparr>],
     fn_outputs = [\<lparr>p_name = [], p_kind = PUint 32\<rparr>],
     fn_state_mutability = NonPayable\<rparr>"

definition GET_PENDING_BURN_INFO :: abi_function where
  "GET_PENDING_BURN_INFO = \<lparr>fn_name = ''getPendingBurnInfo'',
     fn_inputs = [\<lparr>p_name = ''user'', p_kind = PAddress\<rparr>,
     \<lparr>p_name = ''operationID'', p_kind = PUint 32\<rparr>],
     fn_outputs = [\<lparr>p_name = ''sender'', p_kind = PAddress\<rparr>,
     \<lparr>p_name = ''amount'', p_kind = PUint 256\<rparr>,
     \<lparr>p_name = ''fromERC20'', p_kind = PAddress\<rparr>,
     \<lparr>p_name = ''recipientID'', p_kind = PFixedBytes 32\<rparr>,
     \<lparr>p_name = ''toToken'', p_kind = PFixedBytes 32\<rparr>,
     \<lparr>p_name = ''name'', p_kind = PFixedBytes 32\<rparr>,
     \<lparr>p_name = ''symbol'', p_kind = PFixedBytes 16\<rparr>,
     \<lparr>p_name = ''decimals'', p_kind = PUint 8\<rparr>],
     fn_state_mutability = View\<rparr>"

definition MINT :: abi_function where
  "MINT = \<lparr>fn_name = ''mint'',
     fn_inputs = [\<lparr>p_name = ''encodedOrder'', p_kind = PBytes\<rparr>],
     fn_outputs = [],
     fn_state_mutability = NonPayable\<rparr>"

definition DEPLOY_WRAPPED_TOKEN :: abi_function where
  "DEPLOY_WRAPPED_TOKEN = \<lparr>fn_name = ''deployERC20'',
     fn_inputs = [\<lparr>p_name = ''name'', p_kind = PString\<rparr>,
     \<lparr>p_name = ''symbol'', p_kind = PString\<rparr>,
     \<lparr>p_name = ''baseTokenID'', p_kind = PFixedBytes 32\<rparr>],
     fn_outputs = [\<lparr>p_name = [], p_kind = PAddress\<rparr>],
     fn_state_mutability = NonPayable\<rparr>"

definition GET_WRAPPED_TOKEN :: abi_function where
  "GET_WRAPPED_TOKEN = \<lparr>fn_name = ''getWrappedToken'',
     fn_inputs = [\<lparr>p_name = ''baseTokenID'', p_kind = PFixedBytes 32\<rparr>],
     fn_outputs = [\<lparr>p_name = [], p_kind = PAddress\<rparr>],
     fn_state_mutability = View\<rparr>"

definition LIST_TOKEN_PAIRS :: abi_function where
  "LIST_TOKEN_PAIRS = \<lparr>fn_name = ''listTokenPairs'',
     fn_inputs = [],
     fn_outputs = [\<lparr>p_name = ''wrapped'', p_kind = PArray PAddress\<rparr>,
     \<lparr>p_name = ''base'', p_kind = PArray (PFixedBytes 32)\<rparr>],
     fn_state_mutability = View\<rparr>"

definition PROXY_CONSTRUCTOR :: "abi_param list" where
  "PROXY_CONSTRUCTOR =
    [\<lparr>p_name = ''_implementation'', p_kind = PAddress\<rparr>,
     \<lparr>p_name = ''_data'', p_kind = PBytes\<rparr>]"

definition PROXY_INITIALISER :: abi_function where
  "PROXY_INITIALISER = \<lparr>fn_name = ''initialize'',
     fn_inputs = [\<lparr>p_name = ''minterAddress'', p_kind = PAddress\<rparr>,
     \<lparr>p_name = ''feeChargeAddress'', p_kind = PAddress\<rparr>,
     \<lparr>p_name = ''_isWrappedSide'', p_kind = PBool\<rparr>],
     fn_outputs = [],
     fn_state_mutability = NonPayable\<rparr>"

definition BURNT_EVENT :: abi_event where
  "BURNT_EVENT = \<lparr>ev_name = ''BurnTokenEvent'', ev_inputs = [
     \<lparr>ep_name = ''sender'', ep_kind = PAddress, ep_indexed = False\<rparr>,
     \<lparr>ep_name = ''amount'', ep_kind = PUint 256, ep_indexed = False\<rparr>,
     \<lparr>ep_name = ''fromERC20'', ep_kind = PAddress, ep_indexed = False\<rparr>,
     \<lparr>ep_name = ''recipientID'', ep_kind = PBytes, ep_indexed = False\<rparr>,
     \<lparr>ep_name = ''toToken'', ep_kind = PFixedBytes 32, ep_indexed = False\<rparr>,
     \<lparr>ep_name = ''operationID'', ep_kind = PUint 32, ep_indexed = False\<rparr>,
     \<lparr>ep_name = ''name'', ep_kind = PFixedBytes 32, ep_indexed = False\<rparr>,
     \<lparr>ep_name = ''symbol'', ep_kind = PFixedBytes 16, ep_indexed = False\<rparr>,
     \<lparr>ep_name = ''decimals'', ep_kind = PUint 8, ep_indexed = False\<rparr>],
     ev_anonymous = False\<rparr>"

definition MINTED_EVENT :: abi_event where
  "MINTED_EVENT = \<lparr>ev_name = ''MintTokenEvent'', ev_inputs = [
     \<lparr>ep_name = ''amount'', ep_kind = PUint 256, ep_indexed = False\<rparr>,
     \<lparr>ep_name = ''fromToken'', ep_kind = PFixedBytes 32, ep_indexed = False\<rparr>,
     \<lparr>ep_name = ''senderID'', ep_kind = PFixedBytes 32, ep_indexed = False\<rparr>,
     \<lparr>ep_name = ''toERC20'', ep_kind = PAddress, ep_indexed = False\<rparr>,
     \<lparr>ep_name = ''recipient'', ep_kind = PAddress, ep_indexed = False\<rparr>,
     \<lparr>ep_name = ''nonce'', ep_kind = PUint 32, ep_indexed = False\<rparr>],
     ev_anonymous = False\<rparr>"

definition NOTIFY_EVENT :: abi_event where
  "NOTIFY_EVENT = \<lparr>ev_name = ''NotifyMinterEvent'', ev_inputs = [
     \<lparr>ep_name = ''notificationType'', ep_kind = PUint 32, ep_indexed = False\<rparr>,
     \<lparr>ep_name = ''txSender'', ep_kind = PAddress, ep_indexed = False\<rparr>,
     \<lparr>ep_name = ''userData'', ep_kind = PBytes, ep_indexed = False\<rparr>],
     ev_anonymous = False\<rparr>"

section \<open>Events\<close>

record burnt_event_data =
  be_sender :: h160
  be_amount :: u256
  be_from_erc20 :: h160
  be_recipient_id :: bytes
  be_to_token :: bytes
  be_operation_id :: u32
  be_name :: bytes
  be_symbol :: bytes
  be_decimals :: u8

record minted_event_data =
  me_amount :: u256
  me_from_token :: bytes
  me_sender_id :: bytes
  me_to_erc20 :: h160
  me_recipient :: h160
  me_nonce :: u32

record notify_minter_event_data =
  ne_notification_type :: u32
  ne_tx_sender :: h160
  ne_user_data :: bytes

datatype bridge_event =
    Burnt burnt_event_data
  | Minted minted_event_data
  | Notify notify_minter_event_data

record raw_log =
  topics :: "h256 list"
  data :: bytes

text \<open>\<open>ethers_core::types::Log\<close>, of which the code reads the topics and the data.\<close>

record evm_log =
  log_address :: h160
  log_topics :: "h256 list"
  log_data :: bytes

text \<open>\<open>ethers_core::abi::Error\<close>: the errors of \<open>parse_log\<close>, and \<open>not_found(field)\<close>.\<close>

datatype abi_error = ParseError | MissingField string

type_synonym 'a decoded = "(abi_error, 'a) outcome"
type_synonym log_parser = "abi_event \<Rightarrow> raw_log \<Rightarrow> (string \<times> token) list option"

text \<open>\<open>opt.ok_or_else(not_found(field))?\<close> and \<open>value.into_uint().map(|v| v.as_u32())\<close>.\<close>

definition require :: "string \<Rightarrow> 'a option \<Rightarrow> ('a \<Rightarrow> 'b decoded) \<Rightarrow> 'b decoded" where
  "require field x k = (case x of None \<Rightarrow> Err (MissingField field) | Some v \<Rightarrow> k v)"

definition set_u32 :: "token \<Rightarrow> (u32 option \<Rightarrow> 'b) \<Rightarrow> 'b decoded" where
  "set_u32 t k = (case into_uint t of
       None \<Rightarrow> Ok (k None)
     | Some v \<Rightarrow> (case as_u32 v of None \<Rightarrow> Panic | Some w \<Rightarrow> Ok (k (Some w))))"

text \<open>The loop \<open>for param in parsed.params\<close> over a builder.\<close>

fun fill :: "('b \<Rightarrow> string \<Rightarrow> token \<Rightarrow> 'b decoded) \<Rightarrow> (string \<times> token) list \<Rightarrow> 'b \<Rightarrow> 'b decoded"
where
  "fill with_field [] b = Ok b"
| "fill with_field ((n, t) # ps) b = (case with_field b n t of
      Ok b' \<Rightarrow> fill with_field ps b' | Err e \<Rightarrow> Err e | Panic \<Rightarrow> Panic)"

subsection \<open>Burnt\<close>

record burnt_builder =
  bb_sender :: "h160 option"
  bb_amount :: "u256 option"
  bb_from_erc20 :: "h160 option"
  bb_recipient_id :: "bytes option"
  bb_to_token :: "bytes option"
  bb_operation_id :: "u32 option"
  bb_name :: "bytes option"
  bb_symbol :: "bytes option"
  bb_decimals :: "u8 option"

definition burnt_builder_default :: burnt_builder where
  "burnt_builder_default = \<lparr>bb_sender = None, bb_amount = None, bb_from_erc20 = None,
     bb_recipient_id = None, bb_to_token = None, bb_operation_id = None, bb_name = None,
     bb_symbol = None, bb_decimals = None\<rparr>"

definition burnt_build :: "burnt_builder \<Rightarrow> burnt_event_data decoded" where
  "burnt_build b =
     require ''sender'' (bb_sender b) (\<lambda>sender.
     require ''amount'' (bb_amount b) (\<lambda>amount.
     require ''fromERC20'' (bb_from_erc20 b) (\<lambda>from_erc20.
     require ''recipientID'' (bb_recipient_id b) (\<lambda>recipient_id.
     require ''toToken'' (bb_to_token b) (\<lambda>to_token.
     require ''operationID'' (bb_operation_id b) (\<lambda>operation_id.
     require ''name'' (bb_name b) (\<lambda>name.
     require ''symbol'' (bb_symbol b) (\<lambda>symbol.
     require ''decimals'' (bb_decimals b) (\<lambda>decimals.
       Ok \<lparr>be_sender = sender, be_amount = amount, be_from_erc20 = from_erc20,
           be_recipient_id = recipient_id, be_to_token = to_token,
           be_operation_id = operation_id, be_name = name, be_symbol = symbol,
           be_decimals = decimals\<rparr>)))))))))"

definition burnt_with_field :: "burnt_builder \<Rightarrow> string \<Rightarrow> token \<Rightarrow> burnt_builder decoded" where
  "burnt_with_field b n t =
     (if n = ''sender'' then Ok (b\<lparr>bb_sender := into_address t\<rparr>)
      else if n = ''amount'' then Ok (b\<lparr>bb_amount := into_uint t\<rparr>)
      else if n = ''fromERC20'' then Ok (b\<lparr>bb_from_erc20 := into_address t\<rparr>)
      else if n = ''recipientID'' then Ok (b\<lparr>bb_recipient_id := into_bytes t\<rparr>)
      else if n = ''toToken'' then Ok (b\<lparr>bb_to_token := into_fixed_bytes t\<rparr>)
      else if n = ''operationID'' then set_u32 t (\<lambda>v. b\<lparr>bb_operation_id := v\<rparr>)
      else if n = ''name'' then Ok (b\<lparr>bb_name := into_fixed_bytes t\<rparr>)
      else if n = ''symbol'' then Ok (b\<lparr>bb_symbol := into_fixed_bytes t\<rparr>)
      else if n = ''decimals'' then set_u32 t (\<lambda>v. b\<lparr>bb_decimals := map_option ucast v\<rparr>)
      else Ok b)"

text \<open>\<open>impl TryFrom<RawLog>\<close>, shared by the three event types.\<close>

definition decode_event ::
  "log_parser \<Rightarrow> abi_event \<Rightarrow> ('b \<Rightarrow> string \<Rightarrow> token \<Rightarrow> 'b decoded) \<Rightarrow> 'b \<Rightarrow>
     ('b \<Rightarrow> 'a decoded) \<Rightarrow> raw_log \<Rightarrow> 'a decoded"
where
  "decode_event parse_log ev with_field builder build log = (case parse_log ev log of
       None \<Rightarrow> Err ParseError
     | Some params \<Rightarrow> (case fill with_field params builder of
           Ok b \<Rightarrow> build b | Err e \<Rightarrow> Err e | Panic \<Rightarrow> Panic))"

definition burnt_try_from :: "log_parser \<Rightarrow> raw_log \<Rightarrow> burnt_event_data decoded" where
  "burnt_try_from parse_log =
     decode_event parse_log BURNT_EVENT burnt_with_field burnt_builder_default burnt_build"

subsection \<open>Minted\<close>

record minted_builder =
  mb_amount :: "u256 option"
  mb_from_token :: "bytes option"
  mb_sender_id :: "bytes option"
  mb_to_erc20 :: "h160 option"
  mb_recipient :: "h160 option"
  mb_nonce :: "u32 option"

definition minted_builder_default :: minted_builder where
  "minted_builder_default = \<lparr>mb_amount = None, mb_from_token = None, mb_sender_id = None,
     mb_to_erc20 = None, mb_recipient = None, mb_nonce = None\<rparr>"

definition minted_build :: "minted_builder \<Rightarrow> minted_event_data decoded" where
  "minted_build b =
     require ''amount'' (mb_amount b) (\<lambda>amount.
     require ''fromToken'' (mb_from_token b) (\<lambda>from_token.
     require ''senderID'' (mb_sender_id b) (\<lambda>sender_id.
     require ''toERC20'' (mb_to_erc20 b) (\<lambda>to_erc20.
     require ''recipient'' (mb_recipient b) (\<lambda>recipient.
     require ''nonce'' (mb_nonce b) (\<lambda>nonce.
       Ok \<lparr>me_amount = amount, me_from_token = from_token, me_sender_id = sender_id,
           me_to_erc20 = to_erc20, me_recipient = recipient, me_nonce = nonce\<rparr>))))))"

definition minted_with_field :: "minted_builder \<Rightarrow> string \<Rightarrow> token \<Rightarrow> minted_builder decoded" where
  "minted_with_field b n t =
     (if n = ''amount'' then Ok (b\<lparr>mb_amount := into_uint t\<rparr>)
      else if n = ''fromToken'' then Ok (b\<lparr>mb_from_token := into_fixed_bytes t\<rparr>)
      else if n = ''senderID'' then Ok (b\<lparr>mb_sender_id := into_fixed_bytes t\<rparr>)
      else if n = ''toERC20'' then Ok (b\<lparr>mb_to_erc20 := into_address t\<rparr>)
      else if n = ''recipient'' then Ok (b\<lparr>mb_recipient := into_address t\<rparr>)
      else if n = ''nonce'' then set_u32 t (\<lambda>v. b\<lparr>mb_nonce := v\<rparr>)
      else Ok b)"

definition minted_try_from :: "log_parser \<Rightarrow> raw_log \<Rightarrow> minted_event_data decoded" where
  "minted_try_from parse_log =
     decode_event parse_log MINTED_EVENT minted_with_field minted_builder_default minted_build"

subsection \<open>Notify\<close>

record notify_builder =
  nb_notification_type :: "u32 option"
  nb_tx_sender :: "h160 option"
  nb_user_data :: "bytes option"

definition notify_builder_default :: notify_builder where
  "notify_builder_default =
     \<lparr>nb_notification_type = None, nb_tx_sender = None, nb_user_data = None\<rparr>"

definition notify_build :: "notify_builder \<Rightarrow> notify_minter_event_data decoded" where
  "notify_build b =
     require ''notificationType'' (nb_notification_type b) (\<lambda>notification_type.
     require ''txSender'' (nb_tx_sender b) (\<lambda>tx_sender.
     require ''userData'' (nb_user_data b) (\<lambda>user_data.
       Ok \<lparr>ne_notification_type = notification_type, ne_tx_sender = tx_sender,
           ne_user_data = user_data\<rparr>)))"

definition notify_with_field :: "notify_builder \<Rightarrow> string \<Rightarrow> token \<Rightarrow> notify_builder decoded" where
  "notify_with_field b n t =
     (if n = ''notificationType'' then set_u32 t (\<lambda>v. b\<lparr>nb_notification_type := v\<rparr>)
      else if n = ''txSender'' then Ok (b\<lparr>nb_tx_sender := into_address t\<rparr>)
      else if n = ''userData'' then Ok (b\<lparr>nb_user_data := into_bytes t\<rparr>)
      else Ok b)"

definition notify_try_from :: "log_parser \<Rightarrow> raw_log \<Rightarrow> notify_minter_event_data decoded" where
  "notify_try_from parse_log =
     decode_event parse_log NOTIFY_EVENT notify_with_field notify_builder_default notify_build"

subsection \<open>Any bridge event\<close>

text \<open>\<open>impl TryFrom<RawLog> for BridgeEvent\<close>: the first decoder that succeeds.\<close>

definition bridge_event_try_from :: "log_parser \<Rightarrow> raw_log \<Rightarrow> bridge_event decoded" where
  "bridge_event_try_from parse_log log = (case burnt_try_from parse_log log of
       Ok d \<Rightarrow> Ok (Burnt d)
     | Panic \<Rightarrow> Panic
     | Err _ \<Rightarrow> (case minted_try_from parse_log log of
           Ok d \<Rightarrow> Ok (Minted d)
         | Panic \<Rightarrow> Panic
         | Err _ \<Rightarrow> (case notify_try_from parse_log log of
               Ok d \<Rightarrow> Ok (Notify d) | Panic \<Rightarrow> Panic | Err e \<Rightarrow> Err e)))"

definition from_log :: "log_parser \<Rightarrow> evm_log \<Rightarrow> bridge_event decoded" where
  "from_log parse_log log =
     bridge_event_try_from parse_log \<lparr>topics = log_topics log, data = log_data log\<rparr>"

section \<open>Collecting logs\<close>

text \<open>
  The parameters of \<open>eth_getLogs\<close>; \<open>signature\<close> is \<open>Event::signature\<close>. The client's answers may
  change from call to call, so that it is also given the number of the call; \<open>None\<close> is an error.
\<close>

record get_logs_params =
  gl_address :: "h160 list option"
  gl_from_block :: u64
  gl_to_block :: u64
  gl_topics :: "h256 list list option"

type_synonym log_client = "nat \<Rightarrow> get_logs_params \<Rightarrow> evm_log list option"

definition collect_logs_from_to ::
  "(abi_event \<Rightarrow> h256) \<Rightarrow> log_client \<Rightarrow> nat \<Rightarrow> h160 \<Rightarrow> u64 \<Rightarrow> u64 \<Rightarrow> evm_log list option"
where
  "collect_logs_from_to signature get_logs n bridge_contract from_block to_block =
     get_logs n \<lparr>gl_address = Some [bridge_contract], gl_from_block = from_block,
       gl_to_block = to_block,
       gl_topics = Some [[signature BURNT_EVENT, signature MINTED_EVENT, signature NOTIFY_EVENT]]\<rparr>"

text \<open>The \<open>while\<close> loop of \<open>collect_logs\<close>; \<open>None\<close> stands for not returning.\<close>

partial_function (option) collect_logs_loop ::
  "(nat \<Rightarrow> u64 \<Rightarrow> u64 \<Rightarrow> evm_log list option) \<Rightarrow> u64 \<Rightarrow> nat \<Rightarrow> u64 \<Rightarrow> u64 \<Rightarrow> evm_log list \<Rightarrow>
     evm_log list option"
where
  "collect_logs_loop query to_block n from_block offset logs =
     (if from_block \<le> to_block then
        let to_block_for_page = min (from_block + offset) to_block in
        case query n from_block to_block_for_page of
          Some new_logs \<Rightarrow>
            collect_logs_loop query to_block (n + 1) (to_block_for_page + 1) 128 (logs @ new_logs)
        | None \<Rightarrow>
            if offset > 0
            then collect_logs_loop query to_block (n + 1) from_block (offset div 2) logs
            else collect_logs_loop query to_block (n + 1) (from_block + 1) offset logs
      else Some logs)"

definition collect_logs ::
  "(abi_event \<Rightarrow> h256) \<Rightarrow> log_client \<Rightarrow> u64 \<Rightarrow> u64 \<Rightarrow> h160 \<Rightarrow> evm_log list option"
where
  "collect_logs signature get_logs from_block to_block bridge_contract =
     collect_logs_loop (\<lambda>n f t. collect_logs_from_to signature get_logs n bridge_contract f t)
       to_block 0 from_block 128 []"

section \<open>Transactions\<close>

record evm_transaction =
  tx_from :: h160
  tx_to :: "h160 option"
  tx_nonce :: u256
  tx_value :: u256
  tx_gas :: u256
  tx_gas_price :: "u256 option"
  tx_input :: bytes
  tx_chain_id :: "u256 option"
  tx_r :: u256
  tx_s :: u256
  tx_v :: u64
  tx_hash :: h256

text \<open>\<open>mint_transaction\<close>; the \<open>expect\<close> on \<open>encode_input\<close> is the panic.\<close>

definition mint_transaction ::
  "(abi_function \<Rightarrow> token list \<Rightarrow> bytes option) \<Rightarrow> h160 \<Rightarrow> h160 \<Rightarrow> u256 \<Rightarrow> u256 \<Rightarrow> bytes \<Rightarrow> u32 \<Rightarrow>
     ('e, evm_transaction) outcome"
where
  "mint_transaction encode_input sender bridge nonce gas_price mint_order_data chain_id =
     (case encode_input MINT [TBytes mint_order_data] of
        None \<Rightarrow> Panic
      | Some bytes \<Rightarrow> Ok \<lparr>tx_from = sender, tx_to = Some bridge, tx_nonce = nonce,
          tx_value = 0, tx_gas = 3000000, tx_gas_price = Some gas_price, tx_input = bytes,
          tx_chain_id = Some (ucast chain_id), tx_r = 0, tx_s = 0, tx_v = 0, tx_hash = 0\<rparr>)"

datatype burn_id_error = DecodeError | NoTokens | WrongToken

definition decode_burn_operation_id ::
  "(abi_function \<Rightarrow> bytes \<Rightarrow> token list option) \<Rightarrow> bytes \<Rightarrow> (burn_id_error, u32) outcome"
where
  "decode_burn_operation_id decode_output raw_data = (case decode_output BURN raw_data of
       None \<Rightarrow> Err DecodeError
     | Some [] \<Rightarrow> Err NoTokens
     | Some (t # _) \<Rightarrow> (case into_uint t of
           None \<Rightarrow> Err WrongToken
         | Some v \<Rightarrow> (case as_u32 v of None \<Rightarrow> Panic | Some i \<Rightarrow> Ok i)))"

section \<open>Decoding is total on conforming logs\<close>

text \<open>The declaration and the parameters an event was emitted with.\<close>

fun event_decl :: "bridge_event \<Rightarrow> abi_event" where
  "event_decl (Burnt _) = BURNT_EVENT"
| "event_decl (Minted _) = MINTED_EVENT"
| "event_decl (Notify _) = NOTIFY_EVENT"

fun event_tokens :: "bridge_event \<Rightarrow> (string \<times> token) list" where
  "event_tokens (Burnt d) =
     [(''sender'', TAddress (be_sender d)), (''amount'', TUint (be_amount d)),
      (''fromERC20'', TAddress (be_from_erc20 d)), (''recipientID'', TBytes (be_recipient_id d)),
      (''toToken'', TFixedBytes (be_to_token d)),
      (''operationID'', TUint (ucast (be_operation_id d))),
      (''name'', TFixedBytes (be_name d)), (''symbol'', TFixedBytes (be_symbol d)),
      (''decimals'', TUint (ucast (be_decimals d)))]"
| "event_tokens (Minted d) =
     [(''amount'', TUint (me_amount d)), (''fromToken'', TFixedBytes (me_from_token d)),
      (''senderID'', TFixedBytes (me_sender_id d)), (''toERC20'', TAddress (me_to_erc20 d)),
      (''recipient'', TAddress (me_recipient d)), (''nonce'', TUint (ucast (me_nonce d)))]"
| "event_tokens (Notify d) =
     [(''notificationType'', TUint (ucast (ne_notification_type d))),
      (''txSender'', TAddress (ne_tx_sender d)), (''userData'', TBytes (ne_user_data d))]"

lemma as_u32_small: "unat v < 2 ^ 32 \<Longrightarrow> as_u32 v = Some (ucast v)"
  by (simp add: as_u32_def)

lemma u32_round_trip: "unat (v :: u256) < 2 ^ 32 \<Longrightarrow> ucast (ucast v :: u32) = v"
  by (rule ucast_ucast_small) simp

lemma u8_round_trip:
  assumes "unat (v :: u256) < 2 ^ 8"
  shows "ucast (ucast (ucast v :: u32) :: u8) = v"
proof -
  have "unat (ucast v :: u32) = unat v"
    using assms by (simp add: unsigned_ucast_eq take_bit_nat_eq_self)
  then have "ucast (ucast v :: u32) = (ucast v :: u8)" by (metis of_nat_unat)
  then show ?thesis using ucast_ucast_small[of v, where 'a = 8] assms by simp
qed

lemmas decode_simps =
  decode_event_def set_u32_def require_def as_u32_small u32_round_trip u8_round_trip

lemma burnt_decodes:
  assumes "parse_log BURNT_EVENT log = Some ps" and "conforms BURNT_EVENT ps"
  shows "\<exists>d. burnt_try_from parse_log log = Ok d \<and> event_tokens (Burnt d) = ps"
  using assms
  by (auto simp: burnt_try_from_def decode_simps conforms_def BURNT_EVENT_def list_all2_Cons1
      burnt_with_field_def burnt_builder_default_def burnt_build_def)

lemma minted_decodes:
  assumes "parse_log MINTED_EVENT log = Some ps" and "conforms MINTED_EVENT ps"
  shows "\<exists>d. minted_try_from parse_log log = Ok d \<and> event_tokens (Minted d) = ps"
  using assms
  by (auto simp: minted_try_from_def decode_simps conforms_def MINTED_EVENT_def list_all2_Cons1
      minted_with_field_def minted_builder_default_def minted_build_def)

lemma notify_decodes:
  assumes "parse_log NOTIFY_EVENT log = Some ps" and "conforms NOTIFY_EVENT ps"
  shows "\<exists>d. notify_try_from parse_log log = Ok d \<and> event_tokens (Notify d) = ps"
  using assms
  by (auto simp: notify_try_from_def decode_simps conforms_def NOTIFY_EVENT_def list_all2_Cons1
      notify_with_field_def notify_builder_default_def notify_build_def)

lemma try_from_no_parse:
  "parse_log BURNT_EVENT log = None \<Longrightarrow> burnt_try_from parse_log log = Err ParseError"
  "parse_log MINTED_EVENT log = None \<Longrightarrow> minted_try_from parse_log log = Err ParseError"
  "parse_log NOTIFY_EVENT log = None \<Longrightarrow> notify_try_from parse_log log = Err ParseError"
  by (simp_all add: burnt_try_from_def minted_try_from_def notify_try_from_def decode_event_def)

section \<open>The paging loop\<close>

text \<open>How often an offset can be halved before a block is skipped.\<close>

fun halvings :: "nat \<Rightarrow> nat" where
  "halvings k = (if k = 0 then 0 else Suc (halvings (k div 2)))"

declare halvings.simps [simp del]

lemma halvings_half: "0 < k \<Longrightarrow> Suc (halvings (k div 2)) = halvings k"
  by (subst (2) halvings.simps) simp

lemma halvings_128 [simp]: "halvings 128 = 8"
  by (simp add: halvings.simps)

text \<open>
  A page starts at its first block and ends inside the range; nothing overflows as long as the
  range ends a page below the maximal block number.
\<close>

lemma page_bounds:
  fixes f k t :: u64
  assumes "f \<le> t" and "k \<le> 128" and "unat t + 129 < 2 ^ 64"
  defines "p \<equiv> min (f + k) t"
  shows "f \<le> p" and "p \<le> t" and "unat (p + 1) = unat p + 1"
    and "k = 0 \<Longrightarrow> p = f"
proof -
  have le: "unat f \<le> unat t" "unat k \<le> 128" using assms(1,2) by (simp_all add: word_le_nat_alt)
  then have "unat (f + k) = unat f + unat k"
    using assms(3) by (intro unat_add_lem[THEN iffD1]) simp
  then show p: "f \<le> p" "p \<le> t" using assms(1) by (auto simp: p_def word_le_nat_alt min_def)
  then have "unat p \<le> unat t" by (simp add: word_le_nat_alt)
  then show "unat (p + 1) = unat p + 1"
    using assms(3) by (simp add: unat_word_ariths)
  show "k = 0 \<Longrightarrow> p = f" using assms(1) by (simp add: p_def)
qed

text \<open>The number of queries the loop still needs at most.\<close>

definition queries_left :: "u64 \<Rightarrow> u64 \<Rightarrow> u64 \<Rightarrow> nat" where
  "queries_left t f k = 9 * (unat t + 1 - unat f) + halvings (unat k)"

lemma halvings_le: "k \<le> 128 \<Longrightarrow> halvings k \<le> 8"
proof -
  have mono: "halvings j \<le> halvings k" if "j \<le> k" for j k
    using that
  proof (induction k arbitrary: j rule: halvings.induct)
    case (1 k)
    show ?case
    proof (cases "j = 0")
      case False
      then have "halvings (j div 2) \<le> halvings (k div 2)"
        using 1 by (intro 1(1)) (auto simp: div_le_mono)
      then show ?thesis
        using False 1(2) by (simp add: halvings.simps[of j] halvings.simps[of k])
    qed (simp add: halvings.simps[of 0])
  qed
  show "k \<le> 128 \<Longrightarrow> halvings k \<le> 8" using mono[of k 128] by simp
qed

text \<open>Each query of the loop makes progress, whatever the client answers.\<close>

lemma queries_left_page:
  assumes "f \<le> t" and "k \<le> 128" and "unat t + 129 < 2 ^ 64"
  shows "queries_left t (min (f + k) t + 1) 128 < queries_left t f k"
    and "0 < k \<Longrightarrow> queries_left t f (k div 2) < queries_left t f k"
    and "k = 0 \<Longrightarrow> queries_left t (f + 1) k < queries_left t f k"
proof -
  note page = page_bounds[OF assms]
  have "unat f \<le> unat (min (f + k) t)" "unat (min (f + k) t) \<le> unat t"
    using page(1,2) by (simp_all add: word_le_nat_alt)
  then show "queries_left t (min (f + k) t + 1) 128 < queries_left t f k"
    using page(3) unfolding queries_left_def by simp
  show "queries_left t f (k div 2) < queries_left t f k" if "0 < k"
  proof -
    have "0 < unat k" using that by (simp add: word_less_nat_alt)
    then show ?thesis
      using halvings_half[of "unat k"] by (simp add: queries_left_def unat_div_distrib)
  qed
  show "queries_left t (f + 1) k < queries_left t f k" if "k = 0"
    using page(3) page(4)[OF that] \<open>unat f \<le> _\<close> \<open>_ \<le> unat t\<close> by (simp add: queries_left_def)
qed

lemma collect_logs_loop_returns:
  assumes "k \<le> 128" and "unat t + 129 < 2 ^ 64"
  shows "\<exists>new. collect_logs_loop q t n f k logs = Some (logs @ new)"
  using assms(1)
proof (induction "queries_left t f k" arbitrary: n f k logs rule: less_induct)
  case less
  show ?case
  proof (cases "f \<le> t")
    case True
    note progress = queries_left_page[OF True less.prems assms(2)]
    have half: "k div 2 \<le> 128"
      using less.prems by (simp add: word_le_nat_alt unat_div_distrib)
    show ?thesis
    proof (cases "q n f (min (f + k) t)")
      case None
      then show ?thesis
        using True less.hyps[OF progress(2) half, of "n + 1" logs]
          less.hyps[OF progress(3) less.prems, of "n + 1" logs] word_gt_0[of k]
        by (subst collect_logs_loop.simps) (auto simp: Let_def)
    next
      case (Some new)
      then show ?thesis
        using True less.hyps[OF progress(1), of "n + 1" "logs @ new"]
        by (subst collect_logs_loop.simps) (auto simp: Let_def)
    qed
  qed (simp add: collect_logs_loop.simps)
qed

text \<open>A client that rejects every query contributes no logs.\<close>

lemma collect_logs_loop_rejected:
  assumes "collect_logs_loop q t n f k logs = Some res" and "\<And>n f t. q n f t = None"
  shows "res = logs"
proof (induction rule: collect_logs_loop.raw_induct
    [OF _ assms(1), of "\<lambda>q t n f k logs res. (\<forall>n f t. q n f t = None) \<longrightarrow> res = logs", THEN mp])
  case (1 loop q t n f k logs res)
  then show ?case by (fastforce simp: Let_def split: if_splits)
qed (simp add: assms(2))

text \<open>The blocks of an inclusive range, and a client that fails on some of them.\<close>

definition blocks :: "u64 \<Rightarrow> u64 \<Rightarrow> u64 list" where
  "blocks f t = map of_nat [unat f..<Suc (unat t)]"

definition block_client ::
  "(u64 \<Rightarrow> bool) \<Rightarrow> (u64 \<Rightarrow> evm_log list) \<Rightarrow> u64 \<Rightarrow> u64 \<Rightarrow> evm_log list option"
where
  "block_client bad logs_of f t =
     (if list_ex bad (blocks f t) then None else Some (concat (map logs_of (blocks f t))))"

lemma blocks_split:
  assumes "f \<le> p" and "p \<le> t" and "unat (p + 1) = unat p + 1"
  shows "blocks f t = blocks f p @ blocks (p + 1) t"
proof -
  have "unat f \<le> Suc (unat p)" "Suc (unat p) \<le> Suc (unat t)"
    using assms(1,2) by (simp_all add: word_le_nat_alt)
  then have "[unat f..<Suc (unat t)] = [unat f..<Suc (unat p)] @ [Suc (unat p)..<Suc (unat t)]"
    using upt_add_eq_append[of "unat f" "Suc (unat p)" "Suc (unat t) - Suc (unat p)"] by simp
  then show ?thesis using assms(3) by (simp only: blocks_def map_append Suc_eq_plus1)
qed

lemma blocks_single [simp]: "blocks f f = [f]"
  by (simp add: blocks_def)

lemma blocks_nonempty: "f \<le> t \<Longrightarrow> blocks f t \<noteq> []"
  by (simp add: blocks_def word_le_nat_alt)

lemma blocks_empty: "t < f \<Longrightarrow> blocks f t = []"
  by (simp add: blocks_def word_less_nat_alt)

lemma collect_logs_loop_good:
  assumes "k \<le> 128" and "unat t + 129 < 2 ^ 64" and "\<And>n f t. f \<le> t \<Longrightarrow> q n f t = block_client bad logs_of f t"
  shows "collect_logs_loop q t n f k logs =
    Some (logs @ concat (map logs_of (filter (\<lambda>b. \<not> bad b) (blocks f t))))"
  using assms(1)
proof (induction "queries_left t f k" arbitrary: n f k logs rule: less_induct)
  case less
  show ?case
  proof (cases "f \<le> t")
    case True
    let ?p = "min (f + k) t"
    note page = page_bounds[OF True less.prems assms(2)]
      and progress = queries_left_page[OF True less.prems assms(2)]
    have split: "blocks f t = blocks f ?p @ blocks (?p + 1) t" by (rule blocks_split[OF page(1-3)])
    have half: "k div 2 \<le> 128"
      using less.prems by (simp add: word_le_nat_alt unat_div_distrib)
    have query: "q n f ?p = block_client bad logs_of f ?p" by (rule assms(3)[OF page(1)])
    consider (good) "\<not> list_ex bad (blocks f ?p)" | (retry) "list_ex bad (blocks f ?p)" "0 < k"
      | (skip) "list_ex bad (blocks f ?p)" "k = 0"
      using word_gt_0 by blast
    then show ?thesis
    proof cases
      case good
      then have "filter (\<lambda>b. \<not> bad b) (blocks f ?p) = blocks f ?p"
        by (simp add: list_ex_iff filter_True)
      then show ?thesis
        using True good less.hyps[OF progress(1), of "n + 1"] split query
        by (subst collect_logs_loop.simps) (simp add: Let_def block_client_def)
    next
      case retry
      then show ?thesis
        using True less.hyps[OF progress(2) half, of "n + 1"] query
        by (subst collect_logs_loop.simps) (simp add: Let_def block_client_def)
    next
      case skip
      then show ?thesis
        using True less.hyps[OF progress(3) less.prems, of "n + 1"] query page(4) split
        by (subst collect_logs_loop.simps) (simp add: Let_def block_client_def)
    qed
  next
    case False
    then show ?thesis by (simp add: collect_logs_loop.simps blocks_empty)
  qed
qed

section \<open>Properties\<close>



text \<open>
  a parsed burn event whose operation id does not fit into 32 bits makes the decoder panic
  instead of returning an error, so that the caller cannot skip the log.
\<close>

theorem burnt_operation_id_panics:
  assumes "parse_log BURNT_EVENT \<lparr>topics = log_topics log, data = log_data log\<rparr> =
      Some ([(''sender'', TAddress a), (''amount'', TUint v), (''fromERC20'', TAddress t),
             (''recipientID'', TBytes r), (''toToken'', TFixedBytes u),
             (''operationID'', TUint i)] @ rest)"
    and "2 ^ 32 \<le> unat i"
  shows "from_log parse_log log = Panic"
  using assms
  by (simp add: from_log_def bridge_event_try_from_def burnt_try_from_def decode_event_def
      burnt_with_field_def set_u32_def as_u32_def)

theorem burnt_operation_id_panics_witness:
  "from_log (\<lambda>_ _. Some ([(''sender'', TAddress 1), (''amount'', TUint 2),
      (''fromERC20'', TAddress 3), (''recipientID'', TBytes []), (''toToken'', TFixedBytes []),
      (''operationID'', TUint 4294967296)] @ []))
    \<lparr>log_address = 1, log_topics = [], log_data = []\<rparr> = Panic"
  by (rule burnt_operation_id_panics[where i = 4294967296 and rest = "[]"]) simp_all



text \<open>
  C16: when the node fails exactly on the queries that touch some bad blocks, the loop returns
  the logs of all other blocks of the range, each block once and in order: halving the page
  isolates the bad blocks and loses nothing else.
\<close>

theorem collect_logs_complete:
  assumes "unat to_block + 129 < 2 ^ 64"
    and "\<And>n f t. f \<le> t \<Longrightarrow>
           collect_logs_from_to signature get_logs n bridge_contract f t =
           block_client bad logs_of f t"
  shows "collect_logs signature get_logs from_block to_block bridge_contract =
    Some (concat (map logs_of (filter (\<lambda>b. \<not> bad b) (blocks from_block to_block))))"
  unfolding collect_logs_def
  by (subst collect_logs_loop_good[OF _ assms(1), where bad = bad and logs_of = logs_of])
    (simp_all add: assms(2))

theorem collect_logs_complete_witness:
  "collect_logs (\<lambda>_. 0)
     (\<lambda>n p. block_client (\<lambda>b. b = 6) (\<lambda>b. [\<lparr>log_address = 7, log_topics = [ucast b], log_data = []\<rparr>])
        (gl_from_block p) (gl_to_block p)) 5 8 7 =
   Some (map (\<lambda>b. \<lparr>log_address = 7, log_topics = [b], log_data = []\<rparr>) [5, 7, 8])"
proof -
  have "blocks 5 8 = [5, 6, 7, 8]" by (simp add: blocks_def upt_rec)
  then show ?thesis
    by (subst collect_logs_complete
        [where bad = "\<lambda>b. b = 6" and
          logs_of = "\<lambda>b. [\<lparr>log_address = 7, log_topics = [ucast b], log_data = []\<rparr>]"])
      (simp_all add: collect_logs_from_to_def)
qed

text \<open>
  A node that rejects every query makes the loop return an empty list of logs as a success:
  the caller cannot tell an empty range from an unreachable node.
\<close>

theorem collect_logs_failing_node:
  assumes "unat to_block + 129 < 2 ^ 64" and "\<And>n p. get_logs n p = None"
  shows "collect_logs signature get_logs from_block to_block bridge_contract = Some []"
proof -
  have "collect_logs_from_to signature get_logs n bridge_contract f t =
      block_client (\<lambda>_. True) (\<lambda>_. []) f t" if "f \<le> t" for n f t
    using that blocks_nonempty[OF that]
    by (simp add: collect_logs_from_to_def assms(2) block_client_def list_ex_iff)
  from collect_logs_loop_good[OF _ assms(1), of 128, OF _ this] show ?thesis
    by (simp add: collect_logs_def)
qed

theorem collect_logs_failing_node_witness:
  "collect_logs (\<lambda>_. 0) (\<lambda>_ _. None) 5 1000 7 = Some []"
  by (rule collect_logs_failing_node) simp_all

text \<open>
  given an encoder that accepts arguments of the declared kinds, building a mint
  transaction never panics; the transaction calls the bridge with the encoded order, transfers
  no value and carries the given nonce, gas price and chain id.
\<close>

theorem mint_transaction_ok:
  assumes "\<And>f ts. list_all2 (\<lambda>p. token_fits (p_kind p)) (fn_inputs f) ts \<Longrightarrow> encode_input f ts \<noteq> None"
  shows "\<exists>tx. mint_transaction encode_input sender bridge n gas_price order chain_id = Ok tx \<and>
    tx_from tx = sender \<and> tx_to tx = Some bridge \<and> tx_nonce tx = n \<and> tx_value tx = 0 \<and>
    tx_gas_price tx = Some gas_price \<and> tx_chain_id tx = Some (ucast chain_id) \<and>
    encode_input MINT [TBytes order] = Some (tx_input tx)"
proof -
  have "encode_input MINT [TBytes order] \<noteq> None"
    by (rule assms) (simp add: MINT_def)
  then show ?thesis by (auto simp: mint_transaction_def)
qed

theorem mint_transaction_ok_witness:
  "\<exists>tx. mint_transaction (\<lambda>_ _. Some [1]) 2 3 4 5 [6] 7 = Ok tx \<and> tx_to tx = Some 3"
  using mint_transaction_ok[of "\<lambda>_ _. Some [1]" 2 3 4 5 "[6]" 7] by blast

end
