(* ===== verification/Evm_Bridge.thy ===== *)
theory Evm_Bridge
  imports Bft_Bridge_Api
begin

text \<open>
  How a bridge canister sees an EVM (\<open>minter-contract-utils/src/{evm_bridge, query, evm_link}.rs\<close>
  and the EVM-RPC canister client): the link to a node, batched JSON-RPC queries, the
  parameters a bridge keeps per side, and the choice of an RPC service. Answers of the node and
  of the EVM-RPC canister are parameters, as is the deserialisation of JSON values.
\<close>

section \<open>Links\<close>

datatype eth_sepolia_service = SepoliaAlchemy | SepoliaBlockPi | SepoliaPublicNode | SepoliaAnkr

datatype l2_mainnet_service = L2Alchemy | L2BlockPi | L2PublicNode | L2Ankr

datatype eth_mainnet_service =
    MainnetAlchemy | MainnetBlockPi | MainnetCloudflare | MainnetPublicNode | MainnetAnkr

record http_header =
  header_value :: string
  header_name :: string

record rpc_api =
  rpc_url :: string
  rpc_headers :: "http_header list option"

datatype rpc_service =
    EthSepolia eth_sepolia_service
  | BaseMainnet l2_mainnet_service
  | Custom rpc_api
  | OptimismMainnet l2_mainnet_service
  | ArbitrumOne l2_mainnet_service
  | EthMainnet eth_mainnet_service
  | Chain u64
  | Provider u64

datatype evm_link = Http string | Ic principal | EvmRpcCanister principal "rpc_service list"

definition default_evm_link :: evm_link where
  "default_evm_link = Ic Anonymous"

datatype clients =
    CanisterClient principal
  | HttpOutCallClient string
  | EvmRpcCanisterClient principal "rpc_service list"

fun get_client :: "evm_link \<Rightarrow> clients" where
  "get_client (Http url) = HttpOutCallClient url"
| "get_client (Ic p) = CanisterClient p"
| "get_client (EvmRpcCanister p services) = EvmRpcCanisterClient p services"

definition address_to_icrc_subaccount :: "h160 \<Rightarrow> bytes" where
  "address_to_icrc_subaccount address = h160_bytes address @ replicate 12 0"

section \<open>The EVM-RPC canister client\<close>

text \<open>\<open>did.rs\<close>: the errors the canister reports.\<close>

record json_rpc_error =
  je_code :: "64 word"
  je_message :: string

datatype provider_error = TooFewCycles nat nat | MissingRequiredProvider | ProviderNotFound | NoPermission

datatype validation_error =
    CredentialPathNotAllowed | HostNotAllowed string | CredentialHeaderNotAllowed
  | UrlParseError string | CustomServiceNotAllowed string | InvalidHex string

datatype rpc_rejection_code =
    RpcNoError | RpcCanisterError | RpcSysTransient | RpcDestinationInvalid | RpcUnknown | RpcSysFatal
  | RpcCanisterReject

datatype http_outcall_error =
    IcError rpc_rejection_code string
  | InvalidHttpJsonRpcResponse "16 word" string "string option"

datatype rpc_error =
    JsonRpcError json_rpc_error
  | ProviderError provider_error
  | ValidationError validation_error
  | HttpOutcallError http_outcall_error

datatype request_result = RequestOk string | RequestErr rpc_error

datatype request_cost_result = CostOk nat | CostErr rpc_error

datatype rpc_client_error =
    RequestCostFailed | CyclesConversionFailed | RequestCostError rpc_error
  | RequestFailed | RequestError rpc_error | InvalidResponse | NoServices

text \<open>
  The EVM-RPC canister (\<open>Service\<close>): \<open>requestCost\<close> and \<open>request\<close> as asynchronous calls that may be
  rejected (\<open>None\<close>), with the text of the request and the allowed size of the response. The first
  argument numbers the attempts. The cost is an unbounded natural number.
\<close>

record 'r evm_rpc_canister =
  ec_request_cost :: "nat \<Rightarrow> rpc_service \<Rightarrow> string \<Rightarrow> u64 \<Rightarrow> request_cost_result option"
  ec_request :: "nat \<Rightarrow> rpc_service \<Rightarrow> string \<Rightarrow> u64 \<Rightarrow> u128 \<Rightarrow> request_result option"
  ec_from_str :: "string \<Rightarrow> 'r option"

definition MAX_RESPONSE_SIZE :: u64 where
  "MAX_RESPONSE_SIZE = 2000000"

text \<open>\<open>__send_rpc_request\<close>\<close>

definition send_rpc_request ::
  "'r evm_rpc_canister \<Rightarrow> string \<Rightarrow> nat \<Rightarrow> rpc_service \<Rightarrow> rpc_client_error + 'r"
where
  "send_rpc_request ec req n service = (case ec_request_cost ec n service req MAX_RESPONSE_SIZE of
       None \<Rightarrow> Inl RequestCostFailed
     | Some (CostErr e) \<Rightarrow> Inl (RequestCostError e)
     | Some (CostOk cost) \<Rightarrow>
         if cost \<ge> 2 ^ 128 then Inl CyclesConversionFailed
         else (case ec_request ec n service req MAX_RESPONSE_SIZE (of_nat cost) of
             None \<Rightarrow> Inl RequestFailed
           | Some (RequestErr e) \<Rightarrow> Inl (RequestError e)
           | Some (RequestOk response) \<Rightarrow> (case ec_from_str ec response of
                 None \<Rightarrow> Inl InvalidResponse | Some r \<Rightarrow> Inr r)))"

text \<open>The loop of \<open>try_rpc_request\<close>, with the error of the last attempt.\<close>

fun try_services ::
  "(nat \<Rightarrow> rpc_service \<Rightarrow> rpc_client_error + 'r) \<Rightarrow> u64 \<Rightarrow> rpc_service list \<Rightarrow> nat list \<Rightarrow>
     rpc_client_error option \<Rightarrow> rpc_client_error + 'r"
where
  "try_services send time services [] last_error =
     (case last_error of Some err \<Rightarrow> Inl err | None \<Rightarrow> Inl NoServices)"
| "try_services send time services (n # ns) last_error =
     (let index = time mod of_nat (length services);
          service = services ! unat index
      in case send n service of
           Inr response \<Rightarrow> Inr response
         | Inl err \<Rightarrow> try_services send time services ns (Some err))"

definition try_rpc_request ::
  "(nat \<Rightarrow> rpc_service \<Rightarrow> rpc_client_error + 'r) \<Rightarrow> u64 \<Rightarrow> rpc_service list \<Rightarrow> rpc_client_error + 'r"
where
  "try_rpc_request send time services =
     try_services send time services [0..<length services] None"

text \<open>
  \<open>Clients::send_rpc_request\<close>: the clients of an EVM canister and of HTTP outcalls are parameters, as is
  the canister at each principal; \<open>None\<close> is an error, \<open>req\<close> the text of the request.
\<close>

definition clients_send ::
  "(principal \<Rightarrow> string \<Rightarrow> 'r option) \<Rightarrow> (string \<Rightarrow> string \<Rightarrow> 'r option) \<Rightarrow>
     (principal \<Rightarrow> 'r evm_rpc_canister) \<Rightarrow> u64 \<Rightarrow> clients \<Rightarrow> string \<Rightarrow> 'r option"
where
  "clients_send canister_send http_send rpc time c req = (case c of
       CanisterClient p \<Rightarrow> canister_send p req
     | HttpOutCallClient url \<Rightarrow> http_send url req
     | EvmRpcCanisterClient p services \<Rightarrow>
         (case try_rpc_request (send_rpc_request (rpc p) req) time services of Inl _ \<Rightarrow> None | Inr r \<Rightarrow> Some r))"

section \<open>Batched queries\<close>

datatype query_type = GasPrice | NonceOf h160 | LatestBlock | ChainID

datatype rpc_id = IdStr string | IdNum u64 | IdNull

datatype rpc_param = AddressParam h160 | PendingParam

record method_call =
  mc_method :: string
  mc_params :: "rpc_param list"
  mc_id :: rpc_id

definition CHAINID_ID :: string where "CHAINID_ID = ''chainID''"
definition GAS_PRICE_ID :: string where "GAS_PRICE_ID = ''gasPrice''"
definition LATEST_BLOCK_ID :: string where "LATEST_BLOCK_ID = ''latestBlock''"
definition NONCE_ID :: string where "NONCE_ID = ''nonce''"

fun to_method_call :: "query_type \<Rightarrow> method_call" where
  "to_method_call GasPrice =
     \<lparr>mc_method = ''eth_gasPrice'', mc_params = [], mc_id = IdStr GAS_PRICE_ID\<rparr>"
| "to_method_call (NonceOf address) =
     \<lparr>mc_method = ''eth_getTransactionCount'', mc_params = [AddressParam address, PendingParam],
      mc_id = IdStr NONCE_ID\<rparr>"
| "to_method_call LatestBlock =
     \<lparr>mc_method = ''eth_blockNumber'', mc_params = [], mc_id = IdStr LATEST_BLOCK_ID\<rparr>"
| "to_method_call ChainID =
     \<lparr>mc_method = ''eth_chainId'', mc_params = [], mc_id = IdStr CHAINID_ID\<rparr>"

datatype 'v rpc_output = Success rpc_id 'v | Failure

datatype 'v rpc_response = BatchResponse "'v rpc_output list" | SingleResponse "'v rpc_output"

datatype query_error =
    RequestRejected | UnexpectedFormat | FailedResponse | FieldNotFound | BadValue | BlockRejected

fun response_map ::
  "'v rpc_output list \<Rightarrow> (rpc_id \<rightharpoonup> 'v) \<Rightarrow> (query_error, rpc_id \<rightharpoonup> 'v) outcome"
where
  "response_map [] m = Ok m"
| "response_map (Success i v # rs) m = response_map rs (m(i \<mapsto> v))"
| "response_map (Failure # rs) m = Err FailedResponse"

definition batch_query ::
  "(method_call list \<Rightarrow> 'v rpc_response option) \<Rightarrow> query_type list \<Rightarrow>
     (query_error, rpc_id \<rightharpoonup> 'v) outcome"
where
  "batch_query request queries = (case request (map to_method_call queries) of
       None \<Rightarrow> Err RequestRejected
     | Some (SingleResponse _) \<Rightarrow> Err UnexpectedFormat
     | Some (BatchResponse responses) \<Rightarrow> response_map responses Map.empty)"

definition get_value_by_id ::
  "('v \<Rightarrow> 'r option) \<Rightarrow> (rpc_id \<rightharpoonup> 'v) \<Rightarrow> rpc_id \<Rightarrow> (query_error, 'r) outcome"
where
  "get_value_by_id from_value m i = (case m i of
       None \<Rightarrow> Err FieldNotFound
     | Some v \<Rightarrow> (case from_value v of None \<Rightarrow> Err BadValue | Some r \<Rightarrow> Ok r))"

section \<open>Parameters of a side of the bridge\<close>

datatype bridge_side = Base | Wrapped

fun other_side :: "bridge_side \<Rightarrow> bridge_side" where
  "other_side Base = Wrapped"
| "other_side Wrapped = Base"

record evm_params =
  chain_id :: u64
  next_block :: u64
  evm_nonce :: u64
  gas_price :: u256

record evm_info =
  link :: evm_link
  bridge_contract :: h160
  params :: "evm_params option"

text \<open>
  The fold over the gas prices of the latest block; the sum of \<open>U256\<close> values panics on overflow.
\<close>

fun sum_prices :: "u256 option list \<Rightarrow> u64 \<Rightarrow> u256 \<Rightarrow> (u64 \<times> u256) option" where
  "sum_prices [] count acc = Some (count, acc)"
| "sum_prices (None # txs) count acc = sum_prices txs count acc"
| "sum_prices (Some price # txs) count acc =
     (if unat acc + unat price < 2 ^ 256 then sum_prices txs (count + 1) (acc + price)
      else None)"

definition DEFAULT_GAS_PRICE :: u64 where
  "DEFAULT_GAS_PRICE = 46 * 10 ^ 9"

text \<open>
  \<open>EvmParams::query\<close>. \<open>latest_block\<close> gives the gas prices of the transactions of the latest
  full block; \<open>as_u64\<close> panics when a value does not fit.
\<close>

definition query_params ::
  "(method_call list \<Rightarrow> 'v rpc_response option) \<Rightarrow> ('v \<Rightarrow> u256 option) \<Rightarrow>
     u256 option list option \<Rightarrow> h160 \<Rightarrow> (query_error, evm_params) outcome"
where
  "query_params request from_value latest_block address =
     (case batch_query request [ChainID, LatestBlock, NonceOf address] of
        Panic \<Rightarrow> Panic | Err e \<Rightarrow> Err e | Ok responses \<Rightarrow>
      (case get_value_by_id from_value responses (IdStr CHAINID_ID) of
        Panic \<Rightarrow> Panic | Err e \<Rightarrow> Err e | Ok chain \<Rightarrow>
      (case get_value_by_id from_value responses (IdStr LATEST_BLOCK_ID) of
        Panic \<Rightarrow> Panic | Err e \<Rightarrow> Err e | Ok block \<Rightarrow>
      (case get_value_by_id from_value responses (IdStr NONCE_ID) of
        Panic \<Rightarrow> Panic | Err e \<Rightarrow> Err e | Ok nonce \<Rightarrow>
      (case latest_block of
        None \<Rightarrow> Err BlockRejected
      | Some txs \<Rightarrow>
      (case sum_prices txs 0 0 of
        None \<Rightarrow> Panic
      | Some (count, acc) \<Rightarrow>
          let mean_price = acc div ucast (max count 1);
              price = (if mean_price = 0 then ucast DEFAULT_GAS_PRICE else mean_price)
          in (case (as_u64 chain, as_u64 block, as_u64 nonce) of
                (Some c, Some b, Some n) \<Rightarrow>
                  Ok \<lparr>chain_id = c, next_block = b, evm_nonce = n, gas_price = price\<rparr>
              | _ \<Rightarrow> Panic)))))))"

section \<open>Lemmas\<close>

lemma other_side_involution [simp]: "other_side (other_side s) = s"
  by (cases s) auto

lemma other_side_neq [simp]: "other_side s \<noteq> s" "s \<noteq> other_side s"
  by (cases s; simp)+

text \<open>The prices of a block, as numbers.\<close>

definition block_prices :: "u256 option list \<Rightarrow> nat list" where
  "block_prices txs = map unat (List.map_filter (\<lambda>tx. tx) txs)"

lemma block_prices_simps [simp]:
  "block_prices [] = []"
  "block_prices (None # txs) = block_prices txs"
  "block_prices (Some p # txs) = unat p # block_prices txs"
  by (simp_all add: block_prices_def)

lemma block_prices_length: "length (block_prices txs) \<le> length txs"
  by (induction txs) (auto simp: block_prices_def split: option.splits)

lemma sum_prices_correct:
  "unat acc + sum_list (block_prices txs) < 2 ^ 256 \<Longrightarrow>
     \<exists>t. sum_prices txs count acc = Some (count + of_nat (length (block_prices txs)), t) \<and>
       unat t = unat acc + sum_list (block_prices txs)"
proof (induction txs count acc rule: sum_prices.induct)
  case (3 price txs count acc)
  then have "unat (acc + price) = unat acc + unat price"
    by (intro unat_add_lem[THEN iffD1]) simp
  then show ?case using 3 by (auto simp: algebra_simps)
qed simp_all

lemma sum_prices_overflow:
  "2 ^ 256 \<le> unat acc + sum_list (block_prices txs) \<Longrightarrow> sum_prices txs count acc = None"
proof (induction txs count acc rule: sum_prices.induct)
  case (1 count acc)
  then show ?case using unat_bound[of acc] by simp
next
  case (3 price txs count acc)
  have "unat (acc + price) = unat acc + unat price" if "unat acc + unat price < 2 ^ 256"
    using that by (intro unat_add_lem[THEN iffD1]) simp
  then show ?case using 3 by simp
qed simp_all

text \<open>
  When every response succeeded, an id that was always answered with \<open>v\<close> is found with \<open>v\<close>,
  in whatever order the responses come.
\<close>

lemma response_map_lookup:
  assumes "Failure \<notin> set rs" and "Success i v \<in> set rs"
    and "\<And>v'. Success i v' \<in> set rs \<Longrightarrow> v' = v"
  shows "\<exists>m'. response_map rs m = Ok m' \<and> m' i = Some v"
  using assms
proof (induction rs arbitrary: m)
  case (Cons r rs)
  obtain j w where r: "r = Success j w" using Cons.prems(1) by (cases r) auto
  show ?case
  proof (cases "Success i v \<in> set rs")
    case True
    have "\<exists>m'. response_map rs (m(j \<mapsto> w)) = Ok m' \<and> m' i = Some v"
      using True Cons.prems(1,3) by (intro Cons.IH) auto
    then show ?thesis using r by simp
  next
    case False
    then have no: "\<And>v'. Success i v' \<notin> set rs" and j: "j = i" "w = v"
      using Cons.prems r by auto
    have "\<exists>m'. response_map rs m = Ok m' \<and> m' i = m i" for m
      using no Cons.prems(1)
    proof (induction rs arbitrary: m)
      case (Cons r rs)
      then show ?case by (cases r) fastforce+
    qed simp
    then show ?thesis using r j by (metis fun_upd_same response_map.simps(2))
  qed
qed simp

lemma try_services_same:
  assumes "\<And>n. n \<in> set ns \<Longrightarrow>
      \<exists>e. send n (services ! unat (time mod of_nat (length services))) = Inl e"
  shows "\<exists>e. try_services send time services ns last_error = Inl e"
  using assms
proof (induction ns arbitrary: last_error)
  case (Cons n ns)
  obtain e where "send n (services ! unat (time mod of_nat (length services))) = Inl e"
    using Cons.prems[of n] by auto
  then show ?case using Cons by simp
qed (simp split: option.split)

section \<open>Properties\<close>

text \<open>
  C25: when the node answers every call of the batch, in any order, the queried parameters are
  the answers to the chain id, block number and nonce calls, and the gas price is the mean
  price of the latest block rounded down, or 46 gwei when that is zero.
\<close>

theorem query_params_correct:
  assumes "request (map to_method_call [ChainID, LatestBlock, NonceOf address]) =
      Some (BatchResponse rs)"
    and "set rs = {Success (IdStr CHAINID_ID) c, Success (IdStr LATEST_BLOCK_ID) b,
                   Success (IdStr NONCE_ID) n}"
    and "from_value c = Some (ucast (chain :: u64))" and "from_value b = Some (ucast (block :: u64))"
    and "from_value n = Some (ucast (nonce :: u64))"
    and "sum_list (block_prices txs) < 2 ^ 256" and "length txs < 2 ^ 64"
  shows "\<exists>p. query_params request from_value (Some txs) address = Ok p \<and>
    chain_id p = chain \<and> next_block p = block \<and> evm_nonce p = nonce \<and>
    unat (gas_price p) =
      (let mean = sum_list (block_prices txs) div max 1 (length (block_prices txs))
       in if mean = 0 then 46 * 10 ^ 9 else mean)"
proof -
  have ids: "CHAINID_ID \<noteq> LATEST_BLOCK_ID" "CHAINID_ID \<noteq> NONCE_ID" "LATEST_BLOCK_ID \<noteq> NONCE_ID"
    by (simp_all add: CHAINID_ID_def LATEST_BLOCK_ID_def NONCE_ID_def)
  have no_failure: "Failure \<notin> set rs" using assms(2) by simp
  have found: "\<exists>m. response_map rs Map.empty = Ok m \<and> m i = Some v"
    if "Success i v \<in> set rs" "\<And>v'. Success i v' \<in> set rs \<Longrightarrow> v' = v" for i v
    using no_failure that by (rule response_map_lookup)
  have "\<exists>m. response_map rs Map.empty = Ok m \<and> m (IdStr CHAINID_ID) = Some c"
    "\<exists>m. response_map rs Map.empty = Ok m \<and> m (IdStr LATEST_BLOCK_ID) = Some b"
    "\<exists>m. response_map rs Map.empty = Ok m \<and> m (IdStr NONCE_ID) = Some n"
    by (rule found; simp add: assms(2) ids ids[symmetric])+
  then obtain m where vals: "response_map rs Map.empty = Ok m" "m (IdStr CHAINID_ID) = Some c"
    "m (IdStr LATEST_BLOCK_ID) = Some b" "m (IdStr NONCE_ID) = Some n"
    by auto
  let ?ps = "block_prices txs"
  obtain t where t: "sum_prices txs 0 0 = Some (of_nat (length ?ps), t)" "unat t = sum_list ?ps"
    using sum_prices_correct[of 0 txs 0] assms(6) by auto
  have len: "length ?ps < 2 ^ 64"
    using assms(7) block_prices_length[of txs] by simp
  have "unat (max (of_nat (length ?ps)) (1 :: u64)) = max 1 (length ?ps)"
    using len by (auto simp: max_def word_le_nat_alt unat_of_nat)
  then have mean: "unat (t div ucast (max (of_nat (length ?ps)) (1 :: u64))) =
      sum_list ?ps div max 1 (length ?ps)"
    using t(2) by (simp add: unat_div_distrib unat_ucast_up)
  have zero: "t div ucast (max (of_nat (length ?ps)) (1 :: u64)) = 0 \<longleftrightarrow>
      sum_list ?ps div max 1 (length ?ps) = 0"
    using mean unat_eq_zero by metis
  show ?thesis
    using assms(1,3-5) vals t(1) mean zero
    by (simp add: query_params_def batch_query_def get_value_by_id_def Let_def
        DEFAULT_GAS_PRICE_def)
qed

theorem query_params_correct_witness:
  "\<exists>p. query_params
     (\<lambda>_. Some (BatchResponse [Success (IdStr NONCE_ID) 3, Success (IdStr CHAINID_ID) 1,
        Success (IdStr LATEST_BLOCK_ID) 2])) Some (Some [Some 10, None, Some 21]) 7 = Ok p \<and>
     chain_id p = 1 \<and> next_block p = 2 \<and> evm_nonce p = 3 \<and> unat (gas_price p) = 15"
  using query_params_correct
    [of "\<lambda>_. Some (BatchResponse [Success (IdStr NONCE_ID) 3, Success (IdStr CHAINID_ID) 1,
        Success (IdStr LATEST_BLOCK_ID) 2])" 7
      "[Success (IdStr NONCE_ID) 3, Success (IdStr CHAINID_ID) 1, Success (IdStr LATEST_BLOCK_ID) 2]"
      1 2 3 Some 1 2 3 "[Some 10, None, Some 21]"]
  by (simp add: insert_commute Let_def numeral_2_eq_2[symmetric])

text \<open>
  \<open>try_rpc_request\<close> sends every attempt to the same service, the one the time selects: when
  that service fails, the request fails, however many other services are configured.
\<close>

theorem try_rpc_request_single_service:
  assumes "\<And>n. \<exists>e. send n (services ! unat (time mod of_nat (length services))) = Inl e"
  shows "\<exists>e. try_rpc_request send time services = Inl e"
  unfolding try_rpc_request_def by (rule try_services_same) (rule assms)

theorem try_rpc_request_single_service_witness:
  "\<exists>e. try_rpc_request (\<lambda>n s. if s = Chain 1 then Inr ''ok'' else Inl RequestFailed) 2
     [Provider 5, Chain 1] = Inl e"
  by (rule try_rpc_request_single_service) simp

text \<open>A request over a link without services fails, and the canister is not called.\<close>

lemma clients_send_no_services:
  "clients_send canister_send http_send rpc time (get_client (EvmRpcCanister p [])) req = None"
  by (simp add: clients_send_def try_rpc_request_def)

end
