(* ===== verification/Stable_Map.thy ===== *)
theory Stable_Map
  imports Prelude
begin

text \<open>
  The stable-memory containers of \<open>ic_stable_structures\<close> that the canisters keep their state
  in. The code relies on their documented contract only: a \<open>StableBTreeMap\<close> is a finite map
  whose iterator visits the entries in ascending key order, a \<open>StableMultimap\<close> is a finite
  map on pairs of keys whose \<open>range\<close> visits the entries of one first key in ascending order of
  the second. The contract is the locale \<open>ordered_map\<close>; an association list ordered by key
  meets it, and is what the models compute with.
\<close>

section \<open>The contract\<close>

locale ordered_map =
  fixes empty :: 'm
    and get :: "'m \<Rightarrow> 'k::linorder \<Rightarrow> 'v option"
    and put :: "'k \<Rightarrow> 'v \<Rightarrow> 'm \<Rightarrow> 'm"
    and del :: "'k \<Rightarrow> 'm \<Rightarrow> 'm"
    and entries :: "'m \<Rightarrow> ('k \<times> 'v) list"
    and inv :: "'m \<Rightarrow> bool"
  assumes inv_empty: "inv empty"
    and inv_put: "inv m \<Longrightarrow> inv (put k v m)"
    and inv_del: "inv m \<Longrightarrow> inv (del k m)"
    and get_empty: "get empty k = None"
    and get_put: "get (put k v m) k' = (if k' = k then Some v else get m k')"
    and get_del: "get (del k m) k' = (if k' = k then None else get m k')"
    and get_entries: "inv m \<Longrightarrow> get m k = Some v \<longleftrightarrow> (k, v) \<in> set (entries m)"
    and keys_ascending: "inv m \<Longrightarrow> sorted_wrt (<) (map fst (entries m))"
begin

lemma keys_distinct: "inv m \<Longrightarrow> distinct (map fst (entries m))"
  using keys_ascending strict_sorted_iff by blast

lemma keys_set: "inv m \<Longrightarrow> set (map fst (entries m)) = {k. get m k \<noteq> None}"
  by (auto simp: get_entries image_iff) force

lemma size_card: "inv m \<Longrightarrow> length (entries m) = card {k. get m k \<noteq> None}"
  by (metis distinct_card keys_distinct keys_set length_map)

lemma finite_keys: "inv m \<Longrightarrow> finite {k. get m k \<noteq> None}"
  by (metis keys_set List.finite_set)

lemma size_put:
  assumes "inv m"
  shows "length (entries (put k v m)) =
    (if get m k = None then Suc (length (entries m)) else length (entries m))"
proof -
  have "{j. get (put k v m) j \<noteq> None} = insert k {j. get m j \<noteq> None}"
    by (auto simp: get_put)
  then show ?thesis
    using assms finite_keys[OF assms] size_card[OF assms] size_card[OF inv_put[OF assms]]
    by (auto simp: card_insert_if)
qed

lemma size_del:
  assumes "inv m"
  shows "length (entries (del k m)) =
    (if get m k = None then length (entries m) else length (entries m) - 1)"
proof -
  have "{j. get (del k m) j \<noteq> None} = {j. get m j \<noteq> None} - {k}"
    by (auto simp: get_del)
  then show ?thesis
    using assms finite_keys[OF assms] size_card[OF assms] size_card[OF inv_del[OF assms]]
    by (auto simp: card_Diff_singleton_if)
qed

lemma first_least:
  assumes "inv m" and "entries m = (k, v) # es" and "get m k' = Some v'"
  shows "k \<le> k'"
proof -
  have "k' \<in> set (map fst (entries m))"
    using assms(1,3) by (force simp: get_entries)
  moreover have "sorted_wrt (<) (map fst (entries m))"
    using assms(1) by (rule keys_ascending)
  ultimately show ?thesis
    using assms(2) by auto
qed

lemma first_get: "inv m \<Longrightarrow> entries m = (k, v) # es \<Longrightarrow> get m k = Some v"
  by (simp add: get_entries)

end

section \<open>Ordered association lists\<close>

type_synonym ('k, 'v) omap = "('k \<times> 'v) list"

abbreviation omap_get :: "('k, 'v) omap \<Rightarrow> 'k \<Rightarrow> 'v option" where
  "omap_get m k \<equiv> map_of m k"

definition omap_insert :: "'k::linorder \<Rightarrow> 'v \<Rightarrow> ('k, 'v) omap \<Rightarrow> ('k, 'v) omap" where
  "omap_insert k v m =
     filter (\<lambda>e. fst e < k) m @ (k, v) # filter (\<lambda>e. k < fst e) m"

definition omap_remove :: "'k \<Rightarrow> ('k, 'v) omap \<Rightarrow> ('k, 'v) omap" where
  "omap_remove k m = filter (\<lambda>e. fst e \<noteq> k) m"

definition ordered :: "('k::linorder, 'v) omap \<Rightarrow> bool" where
  "ordered m \<longleftrightarrow> sorted_wrt (<) (map fst m)"

lemma omap_get_insert [omap_simps]:
  "omap_get (omap_insert k v m) k' = (if k' = k then Some v else omap_get m k')"
  by (auto simp: omap_insert_def map_add_def map_of_filter_key[of "\<lambda>x. x < k"]
      map_of_filter_key[of "\<lambda>x. k < x"] split: option.splits)

lemma omap_get_remove [omap_simps]:
  "omap_get (omap_remove k m) k' = (if k' = k then None else omap_get m k')"
  by (simp add: omap_remove_def map_of_filter_key[of "\<lambda>x. x \<noteq> k"])

lemma ordered_Nil [simp]: "ordered []"
  by (simp add: ordered_def)

lemma ordered_filter: "ordered m \<Longrightarrow> ordered (filter P m)"
  by (simp add: ordered_def sorted_wrt_map sorted_wrt_filter)

lemma ordered_insert [simp]: "ordered m \<Longrightarrow> ordered (omap_insert k v m)"
  using ordered_filter[of m] unfolding ordered_def omap_insert_def
  by (fastforce simp: sorted_wrt_append)

lemma ordered_remove [simp]: "ordered m \<Longrightarrow> ordered (omap_remove k m)"
  by (simp add: omap_remove_def ordered_filter)

interpretation om: ordered_map
  "[]" omap_get omap_insert omap_remove "\<lambda>m. m" ordered
proof unfold_locales
  fix m :: "('a, 'b) omap" and k v
  assume "ordered m"
  then have "distinct (map fst m)"
    unfolding ordered_def using strict_sorted_iff by blast
  then show "omap_get m k = Some v \<longleftrightarrow> (k, v) \<in> set m"
    by (metis map_of_eq_Some_iff)
qed (auto simp: omap_simps ordered_def[symmetric])

section \<open>Multimaps\<close>

text \<open>\<open>StableMultimap<K1, K2, V, M>\<close>: one ordered map on pairs of keys.\<close>

type_synonym ('k1, 'k2, 'v) multimap = "('k1, ('k2, 'v) omap) omap"

definition mmap_row :: "('k1, 'k2, 'v) multimap \<Rightarrow> 'k1 \<Rightarrow> ('k2, 'v) omap" where
  "mmap_row m k = (case omap_get m k of None \<Rightarrow> [] | Some row \<Rightarrow> row)"

definition mmap_get :: "('k1, 'k2, 'v) multimap \<Rightarrow> 'k1 \<Rightarrow> 'k2 \<Rightarrow> 'v option" where
  "mmap_get m k j = omap_get (mmap_row m k) j"

definition mmap_insert ::
  "'k1::linorder \<Rightarrow> 'k2::linorder \<Rightarrow> 'v \<Rightarrow> ('k1, 'k2, 'v) multimap \<Rightarrow> ('k1, 'k2, 'v) multimap"
where
  "mmap_insert k j v m = omap_insert k (omap_insert j v (mmap_row m k)) m"

definition mmap_remove ::
  "'k1::linorder \<Rightarrow> 'k2 \<Rightarrow> ('k1, 'k2, 'v) multimap \<Rightarrow> ('k1, 'k2, 'v) multimap"
where
  "mmap_remove k j m = omap_insert k (omap_remove j (mmap_row m k)) m"

definition mmap_ordered :: "('k1::linorder, 'k2::linorder, 'v) multimap \<Rightarrow> bool" where
  "mmap_ordered m \<longleftrightarrow> ordered m \<and> list_all (\<lambda>e. ordered (snd e)) m"

lemma mmap_row_insert [omap_simps]:
  "mmap_row (mmap_insert k j v m) k' =
     (if k' = k then omap_insert j v (mmap_row m k) else mmap_row m k')"
  by (simp add: mmap_row_def mmap_insert_def omap_simps)

lemma mmap_row_remove [omap_simps]:
  "mmap_row (mmap_remove k j m) k' =
     (if k' = k then omap_remove j (mmap_row m k) else mmap_row m k')"
  by (simp add: mmap_row_def mmap_remove_def omap_simps)

lemma mmap_row_ordered: "mmap_ordered m \<Longrightarrow> ordered (mmap_row m k)"
  unfolding mmap_ordered_def mmap_row_def
  by (auto simp: list_all_iff split: option.split dest!: map_of_SomeD)

lemma omap_insert_all:
  "list_all P m \<Longrightarrow> P (k, v) \<Longrightarrow> list_all P (omap_insert k v m)"
  by (auto simp: omap_insert_def list_all_iff)

lemma mmap_ordered_insert: "mmap_ordered m \<Longrightarrow> mmap_ordered (mmap_insert k j v m)"
  using mmap_row_ordered[of m k]
  by (simp add: mmap_ordered_def mmap_insert_def omap_insert_all)

lemma mmap_ordered_remove: "mmap_ordered m \<Longrightarrow> mmap_ordered (mmap_remove k j m)"
  using mmap_row_ordered[of m k]
  by (simp add: mmap_ordered_def mmap_remove_def omap_insert_all)

end
