(* ===== verification/Operation_Store.thy ===== *)
theory Operation_Store
  imports Stable_Map
begin

text \<open>
  The store of user operations (\<open>minter-contract-utils/src/operation_store.rs\<close>) that the ERC-20,
  ICRC-2 and Rune minters keep: running operations, a bounded log of completed ones and an
  index from wallet addresses to operation ids. The store is a record of ordered maps together
  with the thread-local id counter; every method is a function on it, with the payload's
  \<open>is_complete\<close> as a parameter, as the Rust code is generic over \<open>MinterOperation\<close>.
  The locale \<open>operation_registry\<close> is the contract the minters rely on.
\<close>

section \<open>Identifiers and entries\<close>

type_synonym operation_id = u64

text \<open>\<open>MinterOperationId::nonce\<close>\<close>

definition nonce :: "operation_id \<Rightarrow> u32" where
  "nonce i = ucast (i mod 4294967295)"

record 'p operation_store_entry =
  dst_address :: h160
  payload :: 'p

type_synonym 'p operations = "(operation_id, 'p operation_store_entry) omap"

record 'p op_store =
  incomplete_operations :: "'p operations"
  operations_log :: "'p operations"
  address_operation_map :: "(h160, operation_id list) omap"
  max_operation_log_size :: u64
  operation_id_counter :: u64

record store_options =
  max_operations_count :: u64
  cache_size :: u32

definition default_store_options :: store_options where
  "default_store_options = \<lparr>max_operations_count = 100000, cache_size = 1000\<rparr>"

text \<open>
  \<open>with_memory\<close> on fresh memory; the id counter is a cell of its own that outlives the store.
\<close>

definition with_memory :: "store_options option \<Rightarrow> u64 \<Rightarrow> 'p op_store" where
  "with_memory opts counter =
     (let options = (case opts of None \<Rightarrow> default_store_options | Some o' \<Rightarrow> o') in
      \<lparr>incomplete_operations = [], operations_log = [], address_operation_map = [],
       max_operation_log_size = max_operations_count options,
       operation_id_counter = counter\<rparr>)"

section \<open>Operations\<close>

text \<open>\<open>MinterOperationId::next\<close>\<close>

definition next_id :: "'p op_store \<Rightarrow> operation_id \<times> 'p op_store" where
  "next_id st =
     (operation_id_counter st, st\<lparr>operation_id_counter := operation_id_counter st + 1\<rparr>)"

text \<open>\<open>address_operation_map.get(a).unwrap_or_default()\<close>\<close>

definition ids_of :: "'p op_store \<Rightarrow> h160 \<Rightarrow> operation_id list" where
  "ids_of st a = (case omap_get (address_operation_map st) a of None \<Rightarrow> [] | Some ids \<Rightarrow> ids)"

definition remove_oldest :: "'p op_store \<Rightarrow> 'p op_store" where
  "remove_oldest st = (case operations_log st of
       [] \<Rightarrow> st
     | (i, oldest) # _ \<Rightarrow>
         let st = st\<lparr>operations_log := omap_remove i (operations_log st)\<rparr>;
             ids = ids_of st (dst_address oldest);
             kept = filter (\<lambda>stored_id. stored_id \<noteq> i) ids
         in if length kept \<noteq> length ids
            then if kept = []
              then st\<lparr>address_operation_map :=
                        omap_remove (dst_address oldest) (address_operation_map st)\<rparr>
              else st\<lparr>address_operation_map :=
                        omap_insert (dst_address oldest) kept (address_operation_map st)\<rparr>
            else st)"

definition move_to_log ::
  "operation_id \<Rightarrow> 'p operation_store_entry \<Rightarrow> 'p op_store \<Rightarrow> 'p op_store"
where
  "move_to_log i entry st =
     (let st = st\<lparr>incomplete_operations := omap_remove i (incomplete_operations st),
                  operations_log := omap_insert i entry (operations_log st)\<rparr>
      in if length (operations_log st) > unat (max_operation_log_size st)
         then remove_oldest st else st)"

definition new_operation ::
  "('p \<Rightarrow> bool) \<Rightarrow> h160 \<Rightarrow> 'p \<Rightarrow> 'p op_store \<Rightarrow> operation_id \<times> 'p op_store"
where
  "new_operation is_complete a p st =
     (let (i, st) = next_id st;
          entry = \<lparr>dst_address = a, payload = p\<rparr>;
          st = (if is_complete p then move_to_log i entry st
                else st\<lparr>incomplete_operations :=
                          omap_insert i entry (incomplete_operations st)\<rparr>);
          ids = ids_of st a @ [i]
      in (i, st\<lparr>address_operation_map := omap_insert a ids (address_operation_map st)\<rparr>))"

definition get_entry :: "'p op_store \<Rightarrow> operation_id \<Rightarrow> 'p operation_store_entry option" where
  "get_entry st i = (case omap_get (incomplete_operations st) i of
       Some e \<Rightarrow> Some e
     | None \<Rightarrow> omap_get (operations_log st) i)"

definition get_with_id :: "'p op_store \<Rightarrow> operation_id \<Rightarrow> (operation_id \<times> 'p) option" where
  "get_with_id st i = map_option (\<lambda>entry. (i, payload entry)) (get_entry st i)"

definition get_operation :: "'p op_store \<Rightarrow> operation_id \<Rightarrow> 'p option" where
  "get_operation st i = map_option snd (get_with_id st i)"

definition get_for_address :: "'p op_store \<Rightarrow> h160 \<Rightarrow> (operation_id \<times> 'p) list" where
  "get_for_address st a = List.map_filter (get_with_id st) (ids_of st a)"

definition update_operation ::
  "('p \<Rightarrow> bool) \<Rightarrow> operation_id \<Rightarrow> 'p \<Rightarrow> 'p op_store \<Rightarrow> 'p op_store"
where
  "update_operation is_complete i p st = (case omap_get (incomplete_operations st) i of
       None \<Rightarrow> st
     | Some entry \<Rightarrow>
         let entry = entry\<lparr>payload := p\<rparr>
         in if is_complete p then move_to_log i entry st
            else st\<lparr>incomplete_operations :=
                      omap_insert i entry (incomplete_operations st)\<rparr>)"

section \<open>The invariant\<close>

text \<open>The ids of the live operations of a wallet.\<close>

definition owned :: "'p op_store \<Rightarrow> h160 \<Rightarrow> operation_id set" where
  "owned st a = {i. \<exists>e. get_entry st i = Some e \<and> dst_address e = a}"

text \<open>
  The part of the invariant that speaks of the two operation maps: they are ordered and
  disjoint, running operations are incomplete and logged ones complete, and every id was
  issued by the counter.
\<close>

definition wf_maps :: "('p \<Rightarrow> bool) \<Rightarrow> 'p op_store \<Rightarrow> bool" where
  "wf_maps is_complete st \<longleftrightarrow>
     ordered (incomplete_operations st) \<and> ordered (operations_log st) \<and>
     ordered (address_operation_map st) \<and> 0 < max_operation_log_size st \<and>
     (\<forall>i e. omap_get (incomplete_operations st) i = Some e \<longrightarrow>
        \<not> is_complete (payload e) \<and> omap_get (operations_log st) i = None \<and>
        i < operation_id_counter st) \<and>
     (\<forall>i e. omap_get (operations_log st) i = Some e \<longrightarrow>
        is_complete (payload e) \<and> i < operation_id_counter st)"

text \<open>The index lists exactly the live ids of each wallet, except those in \<open>X\<close>.\<close>

definition indexed :: "operation_id set \<Rightarrow> 'p op_store \<Rightarrow> bool" where
  "indexed X st \<longleftrightarrow>
     (\<forall>a. ids_of st a = sorted_list_of_set (owned st a - X)) \<and>
     (\<forall>a. omap_get (address_operation_map st) a \<noteq> Some [])"

definition log_bounded :: "'p op_store \<Rightarrow> bool" where
  "log_bounded st \<longleftrightarrow> length (operations_log st) \<le> unat (max_operation_log_size st)"

definition wf_store :: "('p \<Rightarrow> bool) \<Rightarrow> 'p op_store \<Rightarrow> bool" where
  "wf_store is_complete st \<longleftrightarrow> wf_maps is_complete st \<and> indexed {} st \<and> log_bounded st"

subsection \<open>The live operations\<close>

lemma finite_owned [simp]: "finite (owned st a)"
proof (rule finite_subset)
  show "owned st a \<subseteq> fst ` set (incomplete_operations st) \<union> fst ` set (operations_log st)"
    by (auto simp: owned_def get_entry_def split: option.splits
        intro: rev_image_eqI dest!: map_of_SomeD)
qed auto

lemma get_entry_bound: "wf_maps c st \<Longrightarrow> get_entry st i = Some e \<Longrightarrow> i < operation_id_counter st"
  by (auto simp: wf_maps_def get_entry_def split: option.splits)

lemma owned_bound: "wf_maps c st \<Longrightarrow> i \<in> owned st a \<Longrightarrow> i < operation_id_counter st"
  by (auto simp: owned_def dest: get_entry_bound)

lemma fresh_id: "wf_maps c st \<Longrightarrow> get_entry st (operation_id_counter st) = None"
  using get_entry_bound by (metis not_None_eq order_less_irrefl)

text \<open>An entry of a well-formed store is complete exactly when it is in the log.\<close>

lemma complete_iff_logged:
  "wf_maps c st \<Longrightarrow> get_entry st i = Some e \<Longrightarrow>
     c (payload e) \<longleftrightarrow> omap_get (incomplete_operations st) i = None"
  by (auto simp: wf_maps_def get_entry_def split: option.splits)

subsection \<open>Eviction\<close>

lemma remove_oldest_fields [simp]:
  "incomplete_operations (remove_oldest st) = incomplete_operations st"
  "max_operation_log_size (remove_oldest st) = max_operation_log_size st"
  "operation_id_counter (remove_oldest st) = operation_id_counter st"
  by (auto simp: remove_oldest_def Let_def split: list.splits prod.splits)

lemma remove_oldest_log:
  "operations_log st = (i, e) # es \<Longrightarrow>
     operations_log (remove_oldest st) = omap_remove i (operations_log st)"
  by (simp add: remove_oldest_def Let_def)

lemma ordered_Cons_remove: "ordered ((i, e) # es) \<Longrightarrow> omap_remove i ((i, e) # es) = es"
  by (auto simp: ordered_def omap_remove_def intro!: filter_True)

lemma remove_oldest_ids:
  assumes "operations_log st = (i, e) # es"
  shows "ids_of (remove_oldest st) a =
    (if a = dst_address e then filter (\<lambda>j. j \<noteq> i) (ids_of st a) else ids_of st a)"
proof -
  have "length (filter (\<lambda>j. j \<noteq> i) xs) = length xs \<longleftrightarrow> filter (\<lambda>j. j \<noteq> i) xs = xs" for xs
    by (metis filter_True length_filter_less less_irrefl)
  then show ?thesis
    using assms by (auto simp: remove_oldest_def Let_def ids_of_def omap_simps
        split: option.splits)
qed

lemma remove_oldest_row_nonempty:
  assumes "\<forall>a. omap_get (address_operation_map st) a \<noteq> Some []"
  shows "omap_get (address_operation_map (remove_oldest st)) a \<noteq> Some []"
  using assms by (auto simp: remove_oldest_def Let_def omap_simps split: list.splits prod.splits)

lemma remove_oldest_wf_maps:
  assumes "wf_maps c st"
  shows "wf_maps c (remove_oldest st)"
proof (cases "operations_log st")
  case Nil
  then show ?thesis using assms by (simp add: remove_oldest_def)
next
  case (Cons p es)
  obtain i e where log: "operations_log st = (i, e) # es" using Cons by (cases p) auto
  have "ordered (address_operation_map (remove_oldest st))"
    using assms by (auto simp: wf_maps_def remove_oldest_def Let_def split: list.splits)
  then show ?thesis
    using assms unfolding wf_maps_def remove_oldest_fields remove_oldest_log[OF log]
    by (simp add: omap_get_remove) blast
qed

lemma remove_oldest_get:
  assumes "wf_maps c st" and "operations_log st = (i, e) # es"
  shows "get_entry (remove_oldest st) j = (if j = i then None else get_entry st j)"
proof -
  have "omap_get (operations_log st) i = Some e" using assms(2) by simp
  then have "omap_get (incomplete_operations st) i = None"
    using assms(1) unfolding wf_maps_def by (metis not_None_eq option.distinct(1))
  then show ?thesis
    using assms(2) unfolding get_entry_def remove_oldest_fields remove_oldest_log[OF assms(2)]
    by (simp add: omap_get_remove split: option.splits)
qed

lemma remove_oldest_indexed:
  assumes "wf_maps c st" and "indexed X st"
  shows "indexed X (remove_oldest st)"
proof (cases "operations_log st")
  case Nil
  then show ?thesis using assms by (simp add: remove_oldest_def)
next
  case (Cons p es)
  obtain i e where log: "operations_log st = (i, e) # es" using Cons by (cases p) auto
  note get = remove_oldest_get[OF assms(1) log]
  have live: "get_entry st i = Some e"
  proof -
    have "omap_get (incomplete_operations st) i = None"
      using assms(1) log unfolding wf_maps_def
      by (metis map_of_Cons_code(2) not_None_eq option.distinct(1))
    then show ?thesis using log by (simp add: get_entry_def)
  qed
  have owned: "owned (remove_oldest st) a = owned st a - {i}" for a
    using get by (auto simp: owned_def)
  have rows: "ids_of st a = sorted_list_of_set (owned st a - X)" for a
    using assms(2) by (simp add: indexed_def)
  have "ids_of (remove_oldest st) a = sorted_list_of_set (owned (remove_oldest st) a - X)" for a
  proof (cases "a = dst_address e")
    case True
    have "owned st a - {i} - X = owned st a - X - {i}" by blast
    then show ?thesis
      using True filter_sorted_list_of_set[of "owned st a - X" i]
      unfolding owned remove_oldest_ids[OF log] rows by simp
  next
    case False
    then have "owned st a - {i} = owned st a" using live by (auto simp: owned_def)
    then show ?thesis
      using False unfolding owned remove_oldest_ids[OF log] rows by simp
  qed
  moreover have "omap_get (address_operation_map (remove_oldest st)) a \<noteq> Some []" for a
    using assms(2) remove_oldest_row_nonempty unfolding indexed_def by blast
  ultimately show ?thesis
    unfolding indexed_def by blast
qed

subsection \<open>Completion\<close>

text \<open>
  \<open>move_to_log\<close> before a possible eviction. Either the operation was running (and keeps its
  wallet) or its id is new and not in the index yet.
\<close>

definition logged ::
  "operation_id \<Rightarrow> 'p operation_store_entry \<Rightarrow> 'p op_store \<Rightarrow> 'p op_store"
where
  "logged i entry st = st\<lparr>incomplete_operations := omap_remove i (incomplete_operations st),
                           operations_log := omap_insert i entry (operations_log st)\<rparr>"

lemma move_to_log_alt:
  "move_to_log i entry st =
     (if length (operations_log (logged i entry st)) > unat (max_operation_log_size st)
      then remove_oldest (logged i entry st) else logged i entry st)"
  by (simp add: move_to_log_def logged_def Let_def)

lemma logged_get:
  "get_entry (logged i entry st) j = (if j = i then Some entry else get_entry st j)"
  by (simp add: logged_def get_entry_def omap_simps split: option.splits)

lemma logged_wf_maps:
  assumes "wf_maps c st" and "c (payload entry)" and "i < operation_id_counter st"
  shows "wf_maps c (logged i entry st)"
  using assms unfolding wf_maps_def logged_def by (simp add: omap_simps)

lemma logged_ids [simp]: "ids_of (logged i entry st) a = ids_of st a"
  by (simp add: ids_of_def logged_def)

lemma logged_fields [simp]:
  "address_operation_map (logged i entry st) = address_operation_map st"
  "max_operation_log_size (logged i entry st) = max_operation_log_size st"
  "operation_id_counter (logged i entry st) = operation_id_counter st"
  by (simp_all add: logged_def)

lemma logged_owned:
  "owned (logged i entry st) a =
     (if a = dst_address entry then insert i (owned st a) else owned st a - {i})"
  by (auto simp: owned_def logged_get)

lemma logged_indexed_old:
  assumes "indexed X st" and "get_entry st i = Some e" and "dst_address e = dst_address entry"
  shows "indexed X (logged i entry st)"
proof -
  have "owned (logged i entry st) a = owned st a" for a
    using assms(2,3) unfolding logged_owned by (auto simp: owned_def)
  then show ?thesis using assms(1) by (simp add: indexed_def)
qed

lemma logged_indexed_new:
  assumes "indexed {} st" and "get_entry st i = None"
  shows "indexed {i} (logged i entry st)"
proof -
  have "owned (logged i entry st) a - {i} = owned st a" for a
    using assms(2) unfolding logged_owned by (auto simp: owned_def)
  then show ?thesis using assms(1) by (simp add: indexed_def)
qed

lemma logged_length:
  assumes "wf_maps c st"
  shows "length (operations_log (logged i entry st)) =
    (if omap_get (operations_log st) i = None then Suc (length (operations_log st))
     else length (operations_log st))"
  using assms om.size_put[of "operations_log st" i entry]
  by (simp add: logged_def wf_maps_def)

lemma remove_oldest_length:
  assumes "operations_log st \<noteq> []" and "wf_maps c st"
  shows "Suc (length (operations_log (remove_oldest st))) = length (operations_log st)"
proof -
  obtain i e es where log: "operations_log st = (i, e) # es"
    using assms(1) by (metis list.exhaust prod.exhaust)
  have "ordered ((i, e) # es)" using assms(2) log by (simp add: wf_maps_def)
  then show ?thesis
    using remove_oldest_log[OF log] log ordered_Cons_remove[of i e es] by simp
qed

text \<open>
  What completing an operation does to every id: the entry is logged, and when the log is
  over its limit the smallest logged id is forgotten.
\<close>

definition evicted :: "operation_id \<Rightarrow> 'p operation_store_entry \<Rightarrow> 'p op_store \<Rightarrow> operation_id option"
where
  "evicted i entry st =
     (if length (operations_log (logged i entry st)) > unat (max_operation_log_size st)
      then Some (fst (hd (operations_log (logged i entry st)))) else None)"

lemma logged_log_nonempty [simp]: "operations_log (logged i entry st) \<noteq> []"
  by (simp add: logged_def omap_insert_def)

lemma move_to_log_get:
  assumes "wf_maps c st" and "c (payload entry)" and "i < operation_id_counter st"
  shows "get_entry (move_to_log i entry st) j =
    (if evicted i entry st = Some j then None
     else if j = i then Some entry else get_entry st j)"
proof -
  obtain k e es where log: "operations_log (logged i entry st) = (k, e) # es"
    using logged_log_nonempty by (metis list.exhaust prod.exhaust)
  show ?thesis
    using remove_oldest_get[OF logged_wf_maps[OF assms] log] log
    by (simp add: move_to_log_alt evicted_def logged_get)
qed

lemma move_to_log_fields [simp]:
  "max_operation_log_size (move_to_log i entry st) = max_operation_log_size st"
  "operation_id_counter (move_to_log i entry st) = operation_id_counter st"
  "incomplete_operations (move_to_log i entry st) = omap_remove i (incomplete_operations st)"
  by (simp_all add: move_to_log_alt) (simp_all add: logged_def)

lemma move_to_log_wf_maps:
  assumes "wf_maps c st" and "c (payload entry)" and "i < operation_id_counter st"
  shows "wf_maps c (move_to_log i entry st)"
  using logged_wf_maps[OF assms] remove_oldest_wf_maps by (auto simp: move_to_log_alt)

lemma move_to_log_indexed:
  assumes "wf_maps c st" and "c (payload entry)" and "i < operation_id_counter st"
    and "indexed X (logged i entry st)"
  shows "indexed X (move_to_log i entry st)"
  using assms logged_wf_maps[OF assms(1-3)] remove_oldest_indexed
  by (auto simp: move_to_log_alt)

lemma move_to_log_bounded:
  assumes "wf_maps c st" and "c (payload entry)" and "i < operation_id_counter st"
    and "log_bounded st"
  shows "log_bounded (move_to_log i entry st)"
  using assms(4) logged_length[OF assms(1), of i entry]
    remove_oldest_length[OF logged_log_nonempty logged_wf_maps[OF assms(1-3)]]
  by (auto simp: move_to_log_alt log_bounded_def split: if_splits)

text \<open>The evicted id is the smallest one of the log, the new entry included.\<close>

lemma evicted_least:
  assumes "wf_maps c st" and "evicted i entry st = Some k"
  shows "k \<le> i" and "omap_get (operations_log st) j = Some e \<Longrightarrow> k \<le> j"
    and "k = i \<or> omap_get (operations_log st) k \<noteq> None"
    and "omap_get (operations_log st) i = None \<Longrightarrow> log_bounded st \<Longrightarrow>
           length (operations_log st) = unat (max_operation_log_size st)"
proof -
  let ?log = "omap_insert i entry (operations_log st)"
  have ord: "ordered ?log" using assms(1) by (simp add: wf_maps_def)
  obtain e' es where log: "?log = (k, e') # es"
    using assms(2) unfolding evicted_def logged_def
    by (cases ?log) (auto split: if_splits simp: omap_insert_def)
  note least = om.first_least[OF ord log]
  show "k \<le> i" using least by (auto simp: omap_simps)
  show "k \<le> j" if "omap_get (operations_log st) j = Some e"
    using least[of j] that by (cases "j = i") (auto simp: omap_simps)
  show "k = i \<or> omap_get (operations_log st) k \<noteq> None"
    using om.first_get[OF ord log] by (auto simp: omap_simps split: if_splits)
  show "length (operations_log st) = unat (max_operation_log_size st)"
    if "omap_get (operations_log st) i = None" "log_bounded st"
    using assms(2) that logged_length[OF assms(1), of i entry]
    by (auto simp: evicted_def log_bounded_def split: if_splits)
qed

subsection \<open>Creation and update\<close>

lemma next_id_wf_maps: "wf_maps c st \<Longrightarrow> operation_id_counter st \<noteq> - 1 \<Longrightarrow> wf_maps c (snd (next_id st))"
  using word_less_succ_iff[of "operation_id_counter st"]
  by (auto simp: next_id_def wf_maps_def intro: less_imp_le)

lemma next_id_simps [simp]:
  "fst (next_id st) = operation_id_counter st"
  "get_entry (snd (next_id st)) i = get_entry st i"
  "incomplete_operations (snd (next_id st)) = incomplete_operations st"
  "operations_log (snd (next_id st)) = operations_log st"
  "ids_of (snd (next_id st)) a = ids_of st a"
  "address_operation_map (snd (next_id st)) = address_operation_map st"
  "max_operation_log_size (snd (next_id st)) = max_operation_log_size st"
  "operation_id_counter (snd (next_id st)) = operation_id_counter st + 1"
  by (simp_all add: next_id_def get_entry_def ids_of_def cong: option.case_cong)

lemma next_id_owned [simp]: "owned (snd (next_id st)) a = owned st a"
  by (simp add: owned_def)

lemma next_id_indexed [simp]: "indexed X (snd (next_id st)) = indexed X st"
  by (simp add: indexed_def)

text \<open>Storing a payload that is not complete.\<close>

definition running ::
  "operation_id \<Rightarrow> 'p operation_store_entry \<Rightarrow> 'p op_store \<Rightarrow> 'p op_store"
where
  "running i entry st =
     st\<lparr>incomplete_operations := omap_insert i entry (incomplete_operations st)\<rparr>"

definition stored ::
  "('p \<Rightarrow> bool) \<Rightarrow> operation_id \<Rightarrow> 'p operation_store_entry \<Rightarrow> 'p op_store \<Rightarrow> 'p op_store"
where
  "stored c i entry st =
     (if c (payload entry) then move_to_log i entry st else running i entry st)"

definition pushed :: "h160 \<Rightarrow> operation_id \<Rightarrow> 'p op_store \<Rightarrow> 'p op_store" where
  "pushed a i st =
     st\<lparr>address_operation_map := omap_insert a (ids_of st a @ [i]) (address_operation_map st)\<rparr>"

lemma new_operation_alt:
  "new_operation c a p st =
     (operation_id_counter st,
      pushed a (operation_id_counter st)
        (stored c (operation_id_counter st) \<lparr>dst_address = a, payload = p\<rparr> (snd (next_id st))))"
  by (simp add: new_operation_def next_id_def stored_def pushed_def running_def Let_def)

lemma update_operation_alt:
  "update_operation c i p st = (case omap_get (incomplete_operations st) i of
       None \<Rightarrow> st | Some entry \<Rightarrow> stored c i (entry\<lparr>payload := p\<rparr>) st)"
  by (simp add: update_operation_def stored_def running_def Let_def split: option.split)

lemma running_get:
  "get_entry (running i entry st) j = (if j = i then Some entry else get_entry st j)"
  by (simp add: running_def get_entry_def omap_simps split: option.splits)

lemma running_simps [simp]:
  "ids_of (running i entry st) a = ids_of st a"
  "operations_log (running i entry st) = operations_log st"
  "address_operation_map (running i entry st) = address_operation_map st"
  "max_operation_log_size (running i entry st) = max_operation_log_size st"
  "operation_id_counter (running i entry st) = operation_id_counter st"
  by (simp_all add: running_def ids_of_def)

lemma running_wf_maps:
  assumes "wf_maps c st" and "\<not> c (payload entry)" and "i < operation_id_counter st"
    and "omap_get (operations_log st) i = None"
  shows "wf_maps c (running i entry st)"
  using assms unfolding wf_maps_def running_def by (simp add: omap_simps)

lemma running_owned: "owned (running i entry st) a = owned (logged i entry st) a"
  by (simp add: owned_def running_get logged_get)

lemma running_indexed: "indexed X (running i entry st) = indexed X (logged i entry st)"
  by (simp add: indexed_def running_owned)

lemma stored_fields [simp]:
  "max_operation_log_size (stored c i entry st) = max_operation_log_size st"
  "operation_id_counter (stored c i entry st) = operation_id_counter st"
  by (simp_all add: stored_def)

lemma stored_wf:
  assumes "wf_maps c st" and "i < operation_id_counter st"
    and "omap_get (operations_log st) i = None" and "indexed X (logged i entry st)"
    and "log_bounded st"
  shows "wf_maps c (stored c i entry st)" and "indexed X (stored c i entry st)"
    and "log_bounded (stored c i entry st)"
  using assms move_to_log_wf_maps[of c st entry i] move_to_log_indexed[of c st entry i X]
    move_to_log_bounded[of c st entry i] running_wf_maps[of c st entry i]
    running_indexed[of X i entry st]
  by (auto simp: stored_def log_bounded_def)

lemma stored_get:
  assumes "wf_maps c st" and "i < operation_id_counter st"
  shows "get_entry (stored c i entry st) j =
    (if c (payload entry) \<and> evicted i entry st = Some j then None
     else if j = i then Some entry else get_entry st j)"
  using move_to_log_get[OF assms(1) _ assms(2), of entry j]
  by (auto simp: stored_def running_get)

lemma pushed_simps [simp]:
  "get_entry (pushed a i st) j = get_entry st j"
  "operations_log (pushed a i st) = operations_log st"
  "incomplete_operations (pushed a i st) = incomplete_operations st"
  "max_operation_log_size (pushed a i st) = max_operation_log_size st"
  "operation_id_counter (pushed a i st) = operation_id_counter st"
  "owned (pushed a i st) b = owned st b"
  by (simp_all add: pushed_def get_entry_def owned_def cong: option.case_cong)

lemma pushed_indexed:
  assumes "indexed {i} st" and "i \<in> owned st a" and "\<And>b j. j \<in> owned st b \<Longrightarrow> j \<noteq> i \<Longrightarrow> j < i"
  shows "indexed {} (pushed a i st)"
proof -
  have "ids_of (pushed a i st) b = sorted_list_of_set (owned st b)" for b
  proof (cases "b = a")
    case True
    have "owned st a = insert i (owned st a - {i})" using assms(2) by blast
    moreover have "sorted_list_of_set (insert i (owned st a - {i})) =
        sorted_list_of_set (owned st a - {i}) @ [i]"
      using assms(3)[of _ a] by (intro sorted_list_of_set_snoc) auto
    ultimately show ?thesis
      using assms(1) True by (simp add: pushed_def ids_of_def[of "_\<lparr>address_operation_map := _\<rparr>"]
          omap_simps indexed_def del: sorted_list_of_set_insert_remove)
  next
    case False
    then have "owned st b - {i} = owned st b" using assms(2) by (auto simp: owned_def)
    then show ?thesis
      using assms(1) False by (simp add: pushed_def ids_of_def omap_simps indexed_def)
  qed
  moreover have "omap_get (address_operation_map (pushed a i st)) b \<noteq> Some []" for b
    using assms(1) by (auto simp: pushed_def omap_simps indexed_def)
  ultimately show ?thesis by (simp add: indexed_def)
qed

lemma update_operation_wf:
  assumes "wf_store c st"
  shows "wf_store c (update_operation c i p st)"
proof (cases "omap_get (incomplete_operations st) i")
  case None
  then show ?thesis using assms by (simp add: update_operation_alt)
next
  case (Some e)
  have maps: "wf_maps c st" "indexed {} st" "log_bounded st"
    using assms by (simp_all add: wf_store_def)
  have "i < operation_id_counter st" "omap_get (operations_log st) i = None"
    using maps(1) Some by (auto simp: wf_maps_def)
  moreover have "indexed {} (logged i (e\<lparr>payload := p\<rparr>) st)"
    using maps(2) Some by (intro logged_indexed_old[where e = e]) (simp_all add: get_entry_def)
  ultimately show ?thesis
    using maps Some stored_wf[of c st i "{}" "e\<lparr>payload := p\<rparr>"]
    by (simp add: update_operation_alt wf_store_def)
qed

text \<open>An id that is new to a well-formed store is never the one evicted by its own completion.\<close>

lemma new_id_not_evicted:
  assumes "wf_maps c st" and "log_bounded st" and "\<And>j e. get_entry st j = Some e \<Longrightarrow> j < i"
  shows "evicted i entry st \<noteq> Some i"
proof
  assume ev: "evicted i entry st = Some i"
  have "get_entry st i = None" using assms(3)[of i] by (cases "get_entry st i") auto
  then have "omap_get (operations_log st) i = None"
    by (auto simp: get_entry_def split: option.splits)
  then have "length (operations_log st) = unat (max_operation_log_size st)"
    using evicted_least(4)[OF assms(1) ev] assms(2) by blast
  moreover have "0 < unat (max_operation_log_size st)"
    using assms(1) by (simp add: wf_maps_def word_gt_0 unat_gt_0)
  ultimately obtain j e es where "operations_log st = (j, e) # es"
    by (cases "operations_log st") auto
  then have log: "omap_get (operations_log st) j = Some e" by simp
  then have "i \<le> j" using evicted_least(2)[OF assms(1) ev] by blast
  moreover have "get_entry st j \<noteq> None" using log by (simp add: get_entry_def split: option.split)
  ultimately show False using assms(3) by fastforce
qed

lemma new_operation_stored:
  fixes a p
  assumes "wf_store c st" and "operation_id_counter st \<noteq> - 1"
  defines "st' \<equiv> stored c (operation_id_counter st) \<lparr>dst_address = a, payload = p\<rparr> (snd (next_id st))"
  shows "wf_maps c st'" and "indexed {operation_id_counter st} st'" and "log_bounded st'"
    and "get_entry st' (operation_id_counter st) = Some \<lparr>dst_address = a, payload = p\<rparr>"
    and "get_entry st' j = Some e \<Longrightarrow> j \<noteq> operation_id_counter st \<Longrightarrow> get_entry st j = Some e"
proof -
  let ?i = "operation_id_counter st" and ?st = "snd (next_id st)"
    and ?e = "\<lparr>dst_address = a, payload = p\<rparr>"
  have wf: "wf_maps c ?st" using assms by (intro next_id_wf_maps) (auto simp: wf_store_def)
  have lt: "?i < operation_id_counter ?st" using assms(2) word_less_succ by simp
  have fresh: "get_entry ?st ?i = None" using assms(1) fresh_id by (auto simp: wf_store_def)
  then have "omap_get (operations_log ?st) ?i = None"
    by (auto simp: get_entry_def split: option.splits)
  moreover have "indexed {?i} (logged ?i ?e ?st)"
    using assms(1) fresh by (intro logged_indexed_new) (simp_all add: wf_store_def)
  moreover have lb: "log_bounded ?st" using assms(1) by (simp add: wf_store_def log_bounded_def)
  ultimately show "wf_maps c st'" "indexed {?i} st'" "log_bounded st'"
    using stored_wf[OF wf lt] unfolding st'_def by blast+
  have "evicted ?i ?e ?st \<noteq> Some ?i"
    using assms(1) get_entry_bound by (intro new_id_not_evicted[OF wf lb]) (auto simp: wf_store_def)
  then show "get_entry st' ?i = Some ?e" "get_entry st' j = Some e \<Longrightarrow> j \<noteq> ?i \<Longrightarrow> get_entry st j = Some e"
    unfolding st'_def stored_get[OF wf lt] by (auto split: if_splits)
qed

lemma new_operation_wf:
  assumes "wf_store c st" and "operation_id_counter st \<noteq> - 1"
  shows "wf_store c (snd (new_operation c a p st))"
proof -
  let ?i = "operation_id_counter st"
  let ?st = "stored c ?i \<lparr>dst_address = a, payload = p\<rparr> (snd (next_id st))"
  note new = new_operation_stored[OF assms, of a p]
  have "j < ?i" if "j \<in> owned ?st b" "j \<noteq> ?i" for b j
    using that new(5) get_entry_bound assms(1) by (fastforce simp: owned_def wf_store_def)
  moreover have "?i \<in> owned ?st a" using new(4) by (simp add: owned_def)
  ultimately have "indexed {} (pushed a ?i ?st)" using new(2) by (intro pushed_indexed)
  moreover have "wf_maps c (pushed a ?i ?st)"
    using new(1) by (auto simp: wf_maps_def pushed_def)
  ultimately show ?thesis
    using new(3) by (simp add: new_operation_alt wf_store_def log_bounded_def)
qed

lemma with_memory_wf:
  fixes c :: "'p \<Rightarrow> bool"
  assumes "max_operations_count (case opts of None \<Rightarrow> default_store_options | Some o' \<Rightarrow> o') \<noteq> 0"
  shows "wf_store c (with_memory opts n)"
proof -
  have "owned (with_memory opts n :: 'p op_store) a = {}" for a
    by (simp add: owned_def get_entry_def with_memory_def Let_def)
  then show ?thesis
    using assms by (simp add: wf_store_def wf_maps_def indexed_def log_bounded_def ids_of_def
        with_memory_def Let_def word_gt_0)
qed

section \<open>The contract of the store\<close>

text \<open>
  What a minter relies on. \<open>lookup\<close> gives the wallet and the payload of a live operation,
  \<open>room\<close> counts the ids the counter can still issue, \<open>issued\<close> holds of those it has issued.
\<close>

locale operation_registry =
  fixes inv :: "'s \<Rightarrow> bool"
    and room :: "'s \<Rightarrow> nat"
    and issued :: "'s \<Rightarrow> 'i \<Rightarrow> bool"
    and lookup :: "'s \<Rightarrow> 'i \<Rightarrow> (h160 \<times> 'p) option"
    and create :: "h160 \<Rightarrow> 'p \<Rightarrow> 's \<Rightarrow> 'i \<times> 's"
    and update :: "'i \<Rightarrow> 'p \<Rightarrow> 's \<Rightarrow> 's"
    and complete :: "'p \<Rightarrow> bool"
  assumes create_inv: "inv s \<Longrightarrow> 0 < room s \<Longrightarrow> inv (snd (create a p s))"
    and create_room: "0 < room s \<Longrightarrow> Suc (room (snd (create a p s))) = room s"
    and lookup_issued: "inv s \<Longrightarrow> lookup s i = Some x \<Longrightarrow> issued s i"
    and create_fresh: "inv s \<Longrightarrow> \<not> issued s (fst (create a p s))"
    and create_issued: "inv s \<Longrightarrow> 0 < room s \<Longrightarrow> issued s i \<Longrightarrow> issued (snd (create a p s)) i"
    and create_unknown:
      "inv s \<Longrightarrow> 0 < room s \<Longrightarrow> i \<noteq> fst (create a p s) \<Longrightarrow> lookup s i = None \<Longrightarrow>
         lookup (snd (create a p s)) i = None"
    and create_lookup:
      "inv s \<Longrightarrow> 0 < room s \<Longrightarrow> lookup (snd (create a p s)) (fst (create a p s)) = Some (a, p)"
    and create_others:
      "inv s \<Longrightarrow> 0 < room s \<Longrightarrow> lookup s i = Some (b, q) \<Longrightarrow>
         lookup (snd (create a p s)) i = Some (b, q) \<or>
         complete q \<and> lookup (snd (create a p s)) i = None"
    and update_inv: "inv s \<Longrightarrow> inv (update i p s)"
    and update_room: "room (update i p s) = room s"
    and update_issued: "issued (update i p s) j = issued s j"
    and update_incomplete:
      "inv s \<Longrightarrow> lookup s i = Some (a, q) \<Longrightarrow> \<not> complete q \<Longrightarrow> \<not> complete p \<Longrightarrow>
         lookup (update i p s) i = Some (a, p)"
    and update_others:
      "inv s \<Longrightarrow> j \<noteq> i \<Longrightarrow> lookup s j = Some (b, q) \<Longrightarrow>
         lookup (update i p s) j = Some (b, q) \<or> complete q \<and> lookup (update i p s) j = None"
    and update_complete: "inv s \<Longrightarrow> lookup s i = Some (a, q) \<Longrightarrow> complete q \<Longrightarrow> update i p s = s"
    and update_unknown: "inv s \<Longrightarrow> lookup s i = None \<Longrightarrow> update i p s = s"
    and update_unknown_kept: "inv s \<Longrightarrow> lookup s i = None \<Longrightarrow> lookup (update j p s) i = None"

text \<open>A minter's use of the store: a sequence of creations and updates.\<close>

datatype ('i, 'p) store_cmd = Create h160 'p | Update 'i 'p

fun creations :: "('i, 'p) store_cmd list \<Rightarrow> nat" where
  "creations [] = 0"
| "creations (Create a p # cs) = Suc (creations cs)"
| "creations (Update i p # cs) = creations cs"

text \<open>The payload last written to \<open>i\<close> by the updates of a command sequence, \<open>q\<close> if none.\<close>

fun last_written :: "'i \<Rightarrow> 'p \<Rightarrow> ('i, 'p) store_cmd list \<Rightarrow> 'p" where
  "last_written i q [] = q"
| "last_written i q (Create a p # cs) = last_written i q cs"
| "last_written i q (Update j p # cs) = last_written i (if j = i then p else q) cs"

text \<open>No update of the sequence completes \<open>i\<close>.\<close>

fun stays_open :: "('p \<Rightarrow> bool) \<Rightarrow> 'i \<Rightarrow> ('i, 'p) store_cmd list \<Rightarrow> bool" where
  "stays_open complete i [] \<longleftrightarrow> True"
| "stays_open complete i (Create a p # cs) \<longleftrightarrow> stays_open complete i cs"
| "stays_open complete i (Update j p # cs) \<longleftrightarrow>
     (j = i \<longrightarrow> \<not> complete p) \<and> stays_open complete i cs"

fun run_cmds ::
  "(h160 \<Rightarrow> 'p \<Rightarrow> 's \<Rightarrow> 'i \<times> 's) \<Rightarrow> ('i \<Rightarrow> 'p \<Rightarrow> 's \<Rightarrow> 's) \<Rightarrow>
     ('i, 'p) store_cmd list \<Rightarrow> 's \<Rightarrow> 's"
where
  "run_cmds create update [] s = s"
| "run_cmds create update (Create a p # cs) s = run_cmds create update cs (snd (create a p s))"
| "run_cmds create update (Update i p # cs) s = run_cmds create update cs (update i p s)"

context operation_registry
begin

abbreviation run :: "('i, 'p) store_cmd list \<Rightarrow> 's \<Rightarrow> 's" where
  "run \<equiv> run_cmds create update"

lemma run_inv: "inv s \<Longrightarrow> creations cs \<le> room s \<Longrightarrow> inv (run cs s)"
proof (induction cs arbitrary: s rule: creations.induct)
  case (2 a p cs)
  then have "0 < room s" by simp
  then show ?case using 2 create_inv create_room[of s a p] by simp
qed (simp_all add: update_inv update_room)

text \<open>An operation that is not completed is never lost, whatever else happens to the store.\<close>

lemma run_keeps_open:
  assumes "inv s" and "creations cs \<le> room s" and "lookup s i = Some (a, q)" and "\<not> complete q"
    and "stays_open complete i cs"
  shows "lookup (run cs s) i = Some (a, last_written i q cs)"
  using assms
proof (induction cs arbitrary: s q rule: creations.induct)
  case (2 b p cs)
  then have "0 < room s" by simp
  then have "lookup (snd (create b p s)) i = Some (a, q)"
    using create_others[OF 2(2) _ 2(4)] 2(5) by blast
  then show ?case
    using 2 \<open>0 < room s\<close> create_inv create_room[of s b p] by simp
next
  case (3 j p cs)
  show ?case
  proof (cases "j = i")
    case True
    then show ?thesis
      using 3 update_incomplete[OF 3(2,4,5)] by (simp add: update_inv update_room)
  next
    case False
    then show ?thesis
      using 3 update_others[OF 3(2) _ 3(4), of j p] by (auto simp: update_inv update_room)
  qed
qed simp

text \<open>An id that was issued and is no longer known is never given out again.\<close>

lemma run_forgotten:
  assumes "inv s" and "creations cs \<le> room s" and "issued s i" and "lookup s i = None"
  shows "lookup (run cs s) i = None"
  using assms
proof (induction cs arbitrary: s rule: creations.induct)
  case (2 b p cs)
  then have pos: "0 < room s" by simp
  have "i \<noteq> fst (create b p s)" using 2 create_fresh by blast
  then show ?case
    using 2 pos create_inv create_room[of s b p] create_issued create_unknown by simp
next
  case (3 j p cs)
  show ?case
  proof (cases "j = i")
    case True
    then show ?thesis using 3 update_unknown by simp
  next
    case False
    have "lookup (update j p s) i = None"
      using 3 False update_unknown_kept by simp
    then show ?thesis using 3 by (simp add: update_inv update_room update_issued)
  qed
qed simp

text \<open>A completed operation keeps its payload until it is forgotten, and never returns.\<close>

lemma run_complete_final:
  assumes "inv s" and "creations cs \<le> room s" and "lookup s i = Some (a, q)" and "complete q"
  shows "lookup (run cs s) i = Some (a, q) \<or> lookup (run cs s) i = None"
  using assms
proof (induction cs arbitrary: s rule: creations.induct)
  case (2 b p cs)
  then have pos: "0 < room s" by simp
  have next_ok: "inv (snd (create b p s))" "creations cs \<le> room (snd (create b p s))"
    using 2 pos create_inv create_room[of s b p] by simp_all
  have "issued (snd (create b p s)) i"
    using 2 pos create_issued lookup_issued by blast
  then show ?case
    using create_others[OF 2(2) pos 2(4), of b p] 2(1)[OF next_ok] 2(5) run_forgotten[OF next_ok]
    by auto
next
  case (3 j p cs)
  have next_ok: "inv (update j p s)" "creations cs \<le> room (update j p s)"
    using 3 by (simp_all add: update_inv update_room)
  have "issued (update j p s) i"
    using 3 lookup_issued update_issued by blast
  moreover have "lookup (update j p s) i = Some (a, q) \<or> lookup (update j p s) i = None"
    using 3 update_others[OF 3(2) _ 3(4), of j p] update_complete[OF 3(2,4,5)] by metis
  ultimately show ?case
    using 3(1)[OF next_ok] 3(5) run_forgotten[OF next_ok] by auto
qed simp

end

section \<open>The store meets its contract\<close>

definition find_operation :: "'p op_store \<Rightarrow> operation_id \<Rightarrow> (h160 \<times> 'p) option" where
  "find_operation st i = map_option (\<lambda>e. (dst_address e, payload e)) (get_entry st i)"

definition ids_left :: "'p op_store \<Rightarrow> nat" where
  "ids_left st = unat (- 1 - operation_id_counter st)"

definition is_issued :: "'p op_store \<Rightarrow> operation_id \<Rightarrow> bool" where
  "is_issued st i \<longleftrightarrow> i < operation_id_counter st"

lemma get_operation_find: "get_operation st i = map_option snd (find_operation st i)"
  by (simp add: get_operation_def get_with_id_def find_operation_def option.map_comp comp_def)

lemma get_for_address_get: "(i, p) \<in> set (get_for_address st a) \<Longrightarrow> get_operation st i = Some p"
  by (auto simp: get_for_address_def get_operation_def get_with_id_def map_filter_def)

lemma ids_left_pos: "0 < ids_left st \<longleftrightarrow> operation_id_counter st \<noteq> - 1"
  by (metis add.inverse_inverse ids_left_def neq0_conv right_minus_eq unat_gt_0)

lemma unat_minus_one_sub:
  "n \<noteq> - 1 \<Longrightarrow> Suc (unat (- 1 - (n + 1))) = unat (- 1 - (n :: 'a::len word))"
proof -
  assume "n \<noteq> - 1"
  then have nz: "- 1 - n \<noteq> 0" by auto
  have eq: "- 1 - (n + 1) = (- 1 - n) - 1" by simp
  have "0 < unat (- 1 - n)" using nz unat_gt_0 by blast
  then show ?thesis
    unfolding eq unat_minus_one[OF nz] by (rule Suc_pred'[symmetric])
qed

lemma new_operation_counter [simp]:
  "operation_id_counter (snd (new_operation c a p st)) = operation_id_counter st + 1"
  "fst (new_operation c a p st) = operation_id_counter st"
  by (simp_all add: new_operation_alt)

lemma update_operation_counter [simp]:
  "operation_id_counter (update_operation c i p st) = operation_id_counter st"
  by (simp add: update_operation_alt split: option.split)

text \<open>Exactly what creating an operation does to every id.\<close>

lemma new_operation_get:
  assumes "wf_store c st" and "operation_id_counter st \<noteq> - 1"
  defines "i \<equiv> operation_id_counter st"
  shows "get_entry (snd (new_operation c a p st)) j =
    (if c p \<and> evicted i \<lparr>dst_address = a, payload = p\<rparr> (snd (next_id st)) = Some j then None
     else if j = i then Some \<lparr>dst_address = a, payload = p\<rparr> else get_entry st j)"
proof -
  have "wf_maps c (snd (next_id st))"
    using assms by (intro next_id_wf_maps) (auto simp: wf_store_def)
  moreover have "i < operation_id_counter (snd (next_id st))"
    using assms(2) word_less_succ by (simp add: i_def)
  ultimately show ?thesis
    by (simp add: new_operation_alt stored_get i_def)
qed

text \<open>Exactly what updating an operation does to every id.\<close>

lemma update_operation_get:
  assumes "wf_maps c st"
  shows "get_entry (update_operation c i p st) j = (case omap_get (incomplete_operations st) i of
      None \<Rightarrow> get_entry st j
    | Some e \<Rightarrow>
        if c p \<and> evicted i (e\<lparr>payload := p\<rparr>) st = Some j then None
        else if j = i then Some (e\<lparr>payload := p\<rparr>) else get_entry st j)"
proof (cases "omap_get (incomplete_operations st) i")
  case (Some e)
  then have "i < operation_id_counter st" using assms by (auto simp: wf_maps_def)
  then show ?thesis
    using Some stored_get[OF assms, of i "e\<lparr>payload := p\<rparr>" j] by (simp add: update_operation_alt)
qed (simp add: update_operation_alt)

text \<open>Only a completed operation can be evicted by another one.\<close>

lemma evicted_complete:
  assumes "wf_maps c st" and "evicted i entry st = Some j" and "j \<noteq> i"
    and "get_entry st j = Some e"
  shows "c (payload e)"
  using evicted_least(3)[OF assms(1,2)] assms complete_iff_logged[OF assms(1,4)]
  by (auto simp: wf_maps_def)

lemma find_open:
  "wf_maps c st \<Longrightarrow> find_operation st i = Some (a, q) \<Longrightarrow>
     \<exists>e. get_entry st i = Some e \<and> dst_address e = a \<and> payload e = q \<and>
       (if c q then omap_get (incomplete_operations st) i = None
        else omap_get (incomplete_operations st) i = Some e)"
  using complete_iff_logged[of c st i]
  by (auto simp: find_operation_def get_entry_def split: option.splits)

lemma new_operation_others:
  assumes "wf_store c st" and "operation_id_counter st \<noteq> - 1"
    and "find_operation st i = Some (b, q)"
  shows "find_operation (snd (new_operation c a p st)) i = Some (b, q) \<or>
    c q \<and> find_operation (snd (new_operation c a p st)) i = None"
proof -
  obtain e where e: "get_entry st i = Some e" "dst_address e = b" "payload e = q"
    using find_open[of c st i b q] assms(1,3) by (auto simp: wf_store_def)
  have "i \<noteq> operation_id_counter st"
    using e(1) fresh_id assms(1) by (force simp: wf_store_def)
  then show ?thesis
    using new_operation_get[OF assms(1,2), of a p i] e
      evicted_complete[of c "snd (next_id st)" "operation_id_counter st" _ i e]
      next_id_wf_maps[of c st] assms(1,2)
    by (auto simp: find_operation_def wf_store_def)
qed

lemma update_operation_others:
  assumes "wf_maps c st" and "j \<noteq> i" and "find_operation st j = Some (b, q)"
  shows "find_operation (update_operation c i p st) j = Some (b, q) \<or>
    c q \<and> find_operation (update_operation c i p st) j = None"
proof -
  obtain e where e: "get_entry st j = Some e" "dst_address e = b" "payload e = q"
    using find_open[OF assms(1,3)] by blast
  show ?thesis
  proof (cases "get_entry (update_operation c i p st) j")
    case None
    then obtain entry where "evicted i entry st = Some j"
      using update_operation_get[OF assms(1), of i p j] e(1) assms(2)
      by (auto split: option.splits if_splits)
    then show ?thesis
      using None e evicted_complete[OF assms(1) _ assms(2) e(1)] by (simp add: find_operation_def)
  next
    case (Some e')
    then have "e' = e"
      using update_operation_get[OF assms(1), of i p j] e(1) assms(2)
      by (auto split: option.splits if_splits)
    then show ?thesis using Some e by (simp add: find_operation_def)
  qed
qed

lemma completed_or_evicted:
  assumes "wf_store c st" and "find_operation st i = Some (a, q)" and "\<not> c q"
  shows "find_operation (update_operation c i p st) i \<in> {Some (a, p), None}"
proof -
  have wf: "wf_maps c st" using assms(1) by (simp add: wf_store_def)
  obtain e where "omap_get (incomplete_operations st) i = Some e" "dst_address e = a"
    using find_open[OF wf assms(2)] assms(3) by auto
  then show ?thesis
    using update_operation_get[OF wf, of i p i] by (auto simp: find_operation_def)
qed

interpretation os: operation_registry
  "wf_store c" ids_left is_issued find_operation "new_operation c" "update_operation c" c
  for c
proof unfold_locales
  fix s :: "'a op_store" and a b p q i j x
  note pos = ids_left_pos[of s]
  show "wf_store c s \<Longrightarrow> 0 < ids_left s \<Longrightarrow> wf_store c (snd (new_operation c a p s))"
    by (simp add: pos new_operation_wf)
  show "0 < ids_left s \<Longrightarrow> Suc (ids_left (snd (new_operation c a p s))) = ids_left s"
    unfolding pos using unat_minus_one_sub[of "operation_id_counter s"]
    by (simp only: ids_left_def new_operation_counter) blast
  show "wf_store c s \<Longrightarrow> find_operation s i = Some x \<Longrightarrow> is_issued s i"
    by (auto simp: find_operation_def is_issued_def wf_store_def dest: get_entry_bound)
  show "wf_store c s \<Longrightarrow> \<not> is_issued s (fst (new_operation c a p s))"
    by (simp add: is_issued_def)
  show "wf_store c s \<Longrightarrow> 0 < ids_left s \<Longrightarrow> is_issued s i \<Longrightarrow> is_issued (snd (new_operation c a p s)) i"
    unfolding pos is_issued_def by (metis new_operation_counter(1) order_less_trans word_less_succ)
  show "wf_store c s \<Longrightarrow> 0 < ids_left s \<Longrightarrow> i \<noteq> fst (new_operation c a p s) \<Longrightarrow>
      find_operation s i = None \<Longrightarrow> find_operation (snd (new_operation c a p s)) i = None"
    unfolding pos by (auto simp: find_operation_def new_operation_get)
  show "wf_store c s \<Longrightarrow> 0 < ids_left s \<Longrightarrow>
      find_operation (snd (new_operation c a p s)) (fst (new_operation c a p s)) = Some (a, p)"
    unfolding pos using new_operation_stored(4)[of c s a p]
    by (simp add: find_operation_def new_operation_alt)
  show "wf_store c s \<Longrightarrow> 0 < ids_left s \<Longrightarrow> find_operation s i = Some (b, q) \<Longrightarrow>
      find_operation (snd (new_operation c a p s)) i = Some (b, q) \<or>
      c q \<and> find_operation (snd (new_operation c a p s)) i = None"
    unfolding pos by (rule new_operation_others)
  show "wf_store c s \<Longrightarrow> wf_store c (update_operation c i p s)"
    by (rule update_operation_wf)
  show "ids_left (update_operation c i p s) = ids_left s"
    by (simp add: ids_left_def)
  show "is_issued (update_operation c i p s) j = is_issued s j"
    by (simp add: is_issued_def)
  show "wf_store c s \<Longrightarrow> find_operation s i = Some (a, q) \<Longrightarrow> \<not> c q \<Longrightarrow> \<not> c p \<Longrightarrow>
      find_operation (update_operation c i p s) i = Some (a, p)"
    using find_open[of c s i a q]
    by (auto simp: find_operation_def wf_store_def update_operation_get)
  show "wf_store c s \<Longrightarrow> j \<noteq> i \<Longrightarrow> find_operation s j = Some (b, q) \<Longrightarrow>
      find_operation (update_operation c i p s) j = Some (b, q) \<or>
      c q \<and> find_operation (update_operation c i p s) j = None"
    by (simp add: wf_store_def update_operation_others)
  show "wf_store c s \<Longrightarrow> find_operation s i = Some (a, q) \<Longrightarrow> c q \<Longrightarrow> update_operation c i p s = s"
    using find_open[of c s i a q] by (auto simp: wf_store_def update_operation_alt)
  show none: "wf_store c s \<Longrightarrow> find_operation s i = None \<Longrightarrow> update_operation c i p s = s" for i
    by (auto simp: find_operation_def get_entry_def update_operation_alt split: option.splits)
  show "wf_store c s \<Longrightarrow> find_operation s i = None \<Longrightarrow> find_operation (update_operation c j p s) i = None"
    using none[of i] update_operation_get[of c s j p i]
    by (cases "i = j") (auto simp: find_operation_def wf_store_def split: option.splits)
qed

section \<open>What a lookup can find\<close>

lemma find_update_cases:
  assumes "wf_store c st" and "find_operation (update_operation c i p st) j = Some (a, x)"
  shows "find_operation st j = Some (a, x) \<or>
    j = i \<and> x = p \<and> (\<exists>q. find_operation st i = Some (a, q) \<and> \<not> c q)"
proof (cases "find_operation st j")
  case None
  then show ?thesis using os.update_unknown_kept[OF assms(1) None, of i p] assms(2) by simp
next
  case (Some y)
  obtain b q where y: "y = (b, q)" by force
  consider "j \<noteq> i" | "j = i" "c q" | "j = i" "\<not> c q" by blast
  then show ?thesis
  proof cases
    case 1
    then show ?thesis using os.update_others[OF assms(1), of j i b q p] Some y assms(2) by auto
  next
    case 2
    then show ?thesis using os.update_complete[OF assms(1), of i b q p] Some y assms(2) by simp
  next
    case 3
    then show ?thesis
      using completed_or_evicted[OF assms(1), of i b q p] Some y assms(2) by auto
  qed
qed

lemma find_create_cases:
  assumes "wf_store c st" and "0 < ids_left st"
    and "find_operation (snd (new_operation c b p st)) j = Some (a, x)"
  shows "find_operation st j = Some (a, x) \<or>
    j = operation_id_counter st \<and> a = b \<and> x = p"
proof (cases "j = operation_id_counter st")
  case True
  then show ?thesis using os.create_lookup[OF assms(1,2), of b p] assms(3) by simp
next
  case False
  show ?thesis
  proof (cases "find_operation st j")
    case None
    then show ?thesis using os.create_unknown[OF assms(1,2), of j b p] False assms(3) by simp
  next
    case (Some y)
    then show ?thesis
      using os.create_others[OF assms(1,2), of j "fst y" "snd y" b p] assms(3) by auto
  qed
qed

section \<open>Properties\<close>

lemma with_memory_ids_left [simp]: "ids_left (with_memory opts n) = unat (- 1 - n)"
  by (simp add: ids_left_def with_memory_def Let_def)

lemma evicted_iff:
  assumes "wf_store c st" and "omap_get (operations_log st) i = None"
  shows "evicted i entry st = Some k \<longleftrightarrow>
    length (operations_log st) = unat (max_operation_log_size st) \<and>
    k = Min (insert i (fst ` set (operations_log st)))"
proof -
  let ?L = "insert i (fst ` set (operations_log st))"
  have wf: "wf_maps c st" and lb: "log_bounded st" using assms(1) by (simp_all add: wf_store_def)
  have len: "length (operations_log (logged i entry st)) = Suc (length (operations_log st))"
    using logged_length[OF wf, of i entry] assms(2) by simp
  have least: "j = Min ?L" if "evicted i entry st = Some j" for j
  proof (rule Min_eqI[symmetric])
    show "j \<le> k" if "k \<in> ?L" for k
      using that \<open>evicted i entry st = Some j\<close> evicted_least(1,2)[OF wf] wf
      by (auto simp: wf_maps_def om.get_entries)
    show "j \<in> ?L"
      using evicted_least(3)[OF wf that] by (auto simp: map_of_eq_None_iff)
  qed simp
  have full: "evicted i entry st \<noteq> None \<longleftrightarrow>
      length (operations_log st) = unat (max_operation_log_size st)"
    using len lb by (auto simp: evicted_def log_bounded_def)
  show ?thesis
    using least full by (cases "evicted i entry st") auto
qed

text \<open>
  C1: whatever the minter does with the store, starting from fresh memory, the store stays
  well-formed: running and logged operations are disjoint and separated by \<open>is_complete\<close>, the
  log never exceeds its limit, and the address index lists exactly the live operations of each
  wallet, in the order of their creation.
\<close>

theorem store_run_wf:
  assumes "max_operations_count (case opts of None \<Rightarrow> default_store_options | Some o' \<Rightarrow> o') \<noteq> 0"
    and "creations cs \<le> unat (- 1 - n)"
  shows "wf_store c (run_cmds (new_operation c) (update_operation c) cs (with_memory opts n))"
  using os.run_inv[OF with_memory_wf[OF assms(1)]] assms(2) by simp

theorem store_run_wf_witness:
  "wf_store even (run_cmds (new_operation even) (update_operation even)
     [Create 7 (1 :: nat), Create 8 2, Update 0 4] (with_memory None 0))"
  by (rule store_run_wf) (simp_all add: default_store_options_def unsigned_minus_1_eq_mask mask_eq_exp_minus_1)

text \<open>
  C2: an operation that is not complete is never lost or changed by anything but its own
  updates: after any sequence of creations and updates that does not complete it, it is found
  under its id with its wallet and the payload last written.
\<close>

theorem store_open_never_lost:
  assumes "wf_store c st" and "creations cs \<le> ids_left st"
    and "find_operation st i = Some (a, q)" and "\<not> c q" and "stays_open c i cs"
  shows "find_operation (run_cmds (new_operation c) (update_operation c) cs st) i =
    Some (a, last_written i q cs)"
  using assms by (rule os.run_keeps_open)

theorem store_open_never_lost_witness:
  "find_operation (run_cmds (new_operation even) (update_operation even)
     [Create 8 2, Update 0 5, Create 8 4]
     (snd (new_operation even 7 (1 :: nat)
        (with_memory (Some \<lparr>max_operations_count = 1, cache_size = 1\<rparr>) 0)))) 0 = Some (7, 5)"
proof -
  let ?st = "snd (new_operation even 7 (1 :: nat)
    (with_memory (Some \<lparr>max_operations_count = 1, cache_size = 1\<rparr>) 0))"
  have wf: "wf_store even ?st"
    by (intro new_operation_wf with_memory_wf) (simp_all add: with_memory_def)
  have left: "creations [Create 8 2, Update 0 5, Create 8 4] \<le> ids_left ?st"
    by (simp add: ids_left_def with_memory_def unat_word_ariths)
  have found: "find_operation ?st 0 = Some (7, 1)"
    by (simp add: find_operation_def get_entry_def new_operation_def next_id_def with_memory_def
        omap_insert_def)
  show ?thesis
    using store_open_never_lost[OF wf left found] by simp
qed



lemma get_for_address_listing:
  assumes "wf_store c st"
  shows "map fst (get_for_address st a) = sorted_list_of_set (owned st a)"
    and "set (get_for_address st a) = {(i, p). find_operation st i = Some (a, p)}"
proof -
  let ?f = "\<lambda>i. (i, payload (the (get_entry st i)))"
  have ids: "ids_of st a = sorted_list_of_set (owned st a)"
    using assms by (simp add: wf_store_def indexed_def)
  have "get_with_id st i = Some (?f i)" if "i \<in> owned st a" for i
    using that by (auto simp: get_with_id_def owned_def)
  then have "get_for_address st a = List.map_filter (\<lambda>i. Some (?f i)) (sorted_list_of_set (owned st a))"
    unfolding get_for_address_def ids by (intro List_map_filter_cong) simp
  then have eq: "get_for_address st a = map ?f (sorted_list_of_set (owned st a))"
    by (simp add: map_filter_def)
  show "set (get_for_address st a) = {(i, p). find_operation st i = Some (a, p)}"
    unfolding eq by (auto simp: owned_def find_operation_def)
  show "map fst (get_for_address st a) = sorted_list_of_set (owned st a)"
    unfolding eq by (simp add: comp_def)
qed

lemmas get_for_address_set = get_for_address_listing(2)

text \<open>How the minters find the operation of a \<open>Minted\<close> event.\<close>

lemma find_by_nonce:
  assumes "wf_store c st" and "find_operation st i = Some (a, p)" and "nonce i = n"
    and "\<And>j q. find_operation st j = Some (a, q) \<Longrightarrow> nonce j = n \<Longrightarrow> j = i"
  shows "List.find (\<lambda>(j, _). nonce j = n) (get_for_address st a) = Some (i, p)"
proof (rule find_unique)
  have mem: "(j, q) \<in> set (get_for_address st a) \<longleftrightarrow> find_operation st j = Some (a, q)" for j q
    using get_for_address_set[OF assms(1), of a] by blast
  show "(i, p) \<in> set (get_for_address st a)" using mem assms(2) by blast
  show "case (i, p) of (j, _) \<Rightarrow> nonce j = n" by (simp add: assms(3))
  fix y
  assume y: "y \<in> set (get_for_address st a)" "case y of (j, _) \<Rightarrow> nonce j = n"
  obtain j q where "y = (j, q)" by force
  then show "y = (i, p)" using y mem assms(2) assms(4)[of j q] by auto
qed

text \<open>
  C22: \<open>get_for_address\<close> refines the abstract listing of a wallet: it returns exactly the live
  operations whose \<open>dst_address\<close> is the wallet, each once, in the order of their ids.
\<close>

theorem get_for_address_live:
  assumes "wf_store c st"
  shows "sorted_wrt (<) (map fst (get_for_address st a)) \<and>
    set (get_for_address st a) = {(i, p). find_operation st i = Some (a, p)}"
  using get_for_address_listing[OF assms, of a] by (simp add: strict_sorted_iff)

theorem get_for_address_live_witness:
  "set (get_for_address (snd (new_operation even 7 (2 :: nat) (with_memory None 0))) 7) =
     {(i, p). find_operation (snd (new_operation even 7 (2 :: nat) (with_memory None 0))) i = Some (7, p)}"
proof -
  have "wf_store even (snd (new_operation even 7 (2 :: nat) (with_memory None 0)))"
    by (intro new_operation_wf with_memory_wf) (simp_all add: with_memory_def default_store_options_def)
  then show ?thesis using get_for_address_live by blast
qed

lemma completion_find:
  assumes "wf_store c st" and "omap_get (incomplete_operations st) i = Some e" and "c p"
  shows "find_operation (update_operation c i p st) j =
    (if length (operations_log st) = unat (max_operation_log_size st) \<and>
        j = Min (insert i (fst ` set (operations_log st))) then None
     else if j = i then Some (dst_address e, p) else find_operation st j)"
proof -
  have wf: "wf_maps c st" using assms(1) by (simp add: wf_store_def)
  then have "omap_get (operations_log st) i = None" using assms(2) by (auto simp: wf_maps_def)
  from evicted_iff[OF assms(1) this] show ?thesis
    using update_operation_get[OF wf, of i p j] assms(2,3) by (simp add: find_operation_def)
qed

lemma open_update_others:
  assumes "\<not> c p" and "j \<noteq> i"
  shows "find_operation (update_operation c i p st) j = find_operation st j"
  using assms by (simp add: update_operation_def find_operation_def get_entry_def omap_simps split: option.split)

lemma open_update_wallet:
  assumes "\<not> c p"
  shows "map_option fst (find_operation (update_operation c i p st) j) = map_option fst (find_operation st j)"
  using assms
  by (simp add: update_operation_def find_operation_def get_entry_def omap_simps option.map_comp o_def
      split: option.split)

lemma open_update_log:
  assumes "\<not> c p"
  shows "operations_log (update_operation c i p st) = operations_log st"
    and "max_operation_log_size (update_operation c i p st) = max_operation_log_size st"
  using assms by (simp_all add: update_operation_def split: option.split)

text \<open>
  Completing a running operation logs it, and only if the log is full one operation is
  forgotten: the one with the smallest id of the log, the completed one included. An operation
  that is older than a full log is therefore forgotten at the moment it completes.
\<close>

theorem completion_evicts_oldest:
  assumes "wf_store c st" and "omap_get (incomplete_operations st) i = Some e" and "c p"
  shows "find_operation (update_operation c i p st) j =
    (if length (operations_log st) = unat (max_operation_log_size st) \<and>
        j = Min (insert i (fst ` set (operations_log st))) then None
     else if j = i then Some (dst_address e, p) else find_operation st j)"
  by (rule completion_find[OF assms])

theorem completion_evicts_oldest_witness:
  "find_operation (update_operation even 0 (6 :: nat)
     (snd (new_operation even 8 2 (snd (new_operation even 7 1
        (with_memory (Some \<lparr>max_operations_count = 1, cache_size = 1\<rparr>) 0)))))) 0 = None"
proof -
  let ?st = "snd (new_operation even 8 2 (snd (new_operation even 7 (1 :: nat)
    (with_memory (Some \<lparr>max_operations_count = 1, cache_size = 1\<rparr>) 0))))"
  have wf: "wf_store even ?st"
    by (intro new_operation_wf with_memory_wf) (simp_all add: with_memory_def)
  have inc: "omap_get (incomplete_operations ?st) 0 = Some \<lparr>dst_address = 7, payload = 1\<rparr>"
    and log: "operations_log ?st = [(1, \<lparr>dst_address = 8, payload = 2\<rparr>)]"
    by (simp_all add: new_operation_def next_id_def with_memory_def
        omap_insert_def move_to_log_def omap_remove_def)
  have max: "max_operation_log_size ?st = 1"
    by (simp add: new_operation_def next_id_def with_memory_def
        omap_insert_def move_to_log_def omap_remove_def)
  show ?thesis
    using completion_evicts_oldest[OF wf inc, of 6 0] unfolding log max by simp
qed

text \<open>
  Two operations share a nonce exactly when their ids agree modulo \<open>u32::MAX\<close>, that is
  modulo \<open>2 ^ 32 - 1\<close>: the nonce is not unique, but it repeats only at that distance.
\<close>

theorem nonce_eq_iff: "nonce i = nonce j \<longleftrightarrow> unat i mod 4294967295 = unat j mod 4294967295"
proof -
  have "unat (nonce k) = unat k mod 4294967295" for k
  proof -
    have "unat k mod 4294967295 < 2 ^ 32"
      by (rule order_less_trans[OF mod_less_divisor]) simp_all
    then show ?thesis
      by (simp add: nonce_def unsigned_ucast_eq unat_mod_distrib take_bit_eq_mod)
  qed
  then show ?thesis
    by (metis word_eq_iff_unsigned)
qed

subsection \<open>A store with one operation\<close>

definition single_store :: "('p \<Rightarrow> bool) \<Rightarrow> h160 \<Rightarrow> 'p \<Rightarrow> 'p op_store" where
  "single_store c a p = snd (new_operation c a p (with_memory None 0))"

lemma single_store_wf: "wf_store c (single_store c a p)"
  unfolding single_store_def
  by (intro new_operation_wf with_memory_wf; simp add: with_memory_def default_store_options_def)

lemma single_store_find:
  "\<not> c p \<Longrightarrow> find_operation (single_store c a p) j = (if j = 0 then Some (a, p) else None)"
  by (simp add: single_store_def find_operation_def get_entry_def new_operation_def next_id_def
      with_memory_def omap_insert_def)

end
