(* ===== verification/Bridge_Env.thy ===== *)
theory Bridge_Env
  imports Task_Monad Evm_Bridge Operation_Store
begin

text \<open>
  What the bridge canisters call and cannot be read in this repository: the identifier codec
  and the mint order of \<open>minter_did\<close>, the signer of \<open>eth_signer\<close>, \<open>ethabi\<close> and the JSON-RPC
  client. A \<open>bridge_env\<close> holds the answers one execution of a handler gets.
\<close>

section \<open>Mint orders and identifiers\<close>

text \<open>\<open>minter_did::order::MintOrder\<close>, with the fields the handlers fill in.\<close>

record mint_order =
  mo_amount :: u256
  mo_sender :: id256
  mo_src_token :: id256
  mo_recipient :: h160
  mo_dst_token :: h160
  mo_nonce :: u32
  mo_sender_chain_id :: u32
  mo_recipient_chain_id :: u32
  mo_name :: bytes
  mo_symbol :: bytes
  mo_decimals :: u8
  mo_approve_spender :: h160
  mo_approve_amount :: u256
  mo_fee_payer :: h160

text \<open>\<open>Id256::{from_slice, from_evm_address, to_evm_address, from_principal, to_principal}\<close>\<close>

record id256_codec =
  from_slice :: "bytes \<Rightarrow> id256 option"
  from_evm_address :: "h160 \<Rightarrow> u32 \<Rightarrow> id256"
  to_evm_address :: "id256 \<Rightarrow> (u32 \<times> h160) option"
  from_principal :: "principal \<Rightarrow> id256"
  to_principal :: "id256 \<Rightarrow> principal option"

text \<open>The documented behaviour of the codec: both encodings decode to what was encoded.\<close>

definition codec_laws :: "id256_codec \<Rightarrow> bool" where
  "codec_laws cd \<longleftrightarrow>
     (\<forall>a c. to_evm_address cd (from_evm_address cd a c) = Some (c, a)) \<and>
     (\<forall>p. to_principal cd (from_principal cd p) = Some p) \<and>
     (\<forall>i. wf_id256 i \<longrightarrow> from_slice cd (id256_bytes i) = Some i)"

section \<open>The environment of a handler\<close>

record 'v bridge_env =
  env_codec :: id256_codec
  env_signer_address :: "h160 option"
  env_encode_and_sign :: "mint_order \<Rightarrow> signed_mint_order option"
  env_sign_transaction :: "evm_transaction \<Rightarrow> (u256 \<times> u256 \<times> u64) option"
  env_tx_hash :: "evm_transaction \<Rightarrow> h256"
  env_parse_log :: log_parser
  env_signature :: "abi_event \<Rightarrow> h256"
  env_encode_input :: "abi_function \<Rightarrow> token list \<Rightarrow> bytes option"
  env_block_number :: "evm_link \<Rightarrow> u64 option"
  env_get_logs :: "evm_link \<Rightarrow> log_client"
  env_request :: "evm_link \<Rightarrow> method_call list \<Rightarrow> 'v rpc_response option"
  env_from_value :: "'v \<Rightarrow> u256 option"
  env_latest_block :: "evm_link \<Rightarrow> u256 option list option"
  env_transaction_count :: "evm_link \<Rightarrow> h160 \<Rightarrow> u256 option"
  env_send_raw_transaction :: "evm_link \<Rightarrow> evm_transaction \<Rightarrow> h256 option"

text \<open>\<open>EvmParams::query\<close> and \<open>BridgeEvent::collect_logs\<close> on a link.\<close>

definition query_link :: "'v bridge_env \<Rightarrow> evm_link \<Rightarrow> h160 \<Rightarrow> (query_error, evm_params) outcome" where
  "query_link env lnk address =
     query_params (env_request env lnk) (env_from_value env) (env_latest_block env lnk) address"

definition collect_link ::
  "'v bridge_env \<Rightarrow> evm_link \<Rightarrow> u64 \<Rightarrow> u64 \<Rightarrow> h160 \<Rightarrow> evm_log list option"
where
  "collect_link env lnk from_block to_block bridge =
     collect_logs (env_signature env) (env_get_logs env lnk) from_block to_block bridge"

text \<open>
  The nonce and gas price query of the \<open>update_evm_params\<close> handlers, with \<open>as_u64\<close> on the nonce.
\<close>

definition query_nonce_and_gas ::
  "'v bridge_env \<Rightarrow> evm_link \<Rightarrow> h160 \<Rightarrow> (query_error, u64 \<times> u256) outcome"
where
  "query_nonce_and_gas env lnk address =
     (case batch_query (env_request env lnk) [NonceOf address, GasPrice] of
        Panic \<Rightarrow> Panic | Err e \<Rightarrow> Err e | Ok responses \<Rightarrow>
      (case get_value_by_id (env_from_value env) responses (IdStr NONCE_ID) of
        Panic \<Rightarrow> Panic | Err e \<Rightarrow> Err e | Ok n \<Rightarrow>
      (case get_value_by_id (env_from_value env) responses (IdStr GAS_PRICE_ID) of
        Panic \<Rightarrow> Panic | Err e \<Rightarrow> Err e | Ok price \<Rightarrow>
      (case as_u64 n of None \<Rightarrow> Panic | Some n' \<Rightarrow> Ok (n', price)))))"

section \<open>An environment for concrete runs\<close>

text \<open>
  An environment in which every call fails; concrete runs replace the answers they need. Its
  codec reads 32 bytes as an identifier and keeps an address in the last 20 of them.
\<close>

definition h160_of_bytes :: "bytes \<Rightarrow> h160" where
  "h160_of_bytes bs = fold (\<lambda>b a. push_bit 8 a + ucast b) bs 0"

definition plain_codec :: id256_codec where
  "plain_codec = \<lparr>
     from_slice = (\<lambda>bs. if length bs = 32 then Some (Id256 bs) else None),
     from_evm_address = (\<lambda>a c. Id256 (replicate 11 0 @ [ucast c] @ h160_bytes a)),
     to_evm_address = (\<lambda>i. Some (ucast (id256_bytes i ! 11), h160_of_bytes (drop 12 (id256_bytes i)))),
     from_principal = (\<lambda>p. Id256 (case p of Principal bs \<Rightarrow> bs | _ \<Rightarrow> [])),
     to_principal = (\<lambda>i. Some (Principal (id256_bytes i)))\<rparr>"

definition offline_env :: "u256 bridge_env" where
  "offline_env = \<lparr>env_codec = plain_codec, env_signer_address = None,
     env_encode_and_sign = (\<lambda>_. None), env_sign_transaction = (\<lambda>_. None),
     env_tx_hash = (\<lambda>_. 0), env_parse_log = (\<lambda>_ _. None), env_signature = (\<lambda>_. 0),
     env_encode_input = (\<lambda>_ _. None), env_block_number = (\<lambda>_. None),
     env_get_logs = (\<lambda>_ _ _. None), env_request = (\<lambda>_ _. None), env_from_value = Some,
     env_latest_block = (\<lambda>_. None), env_transaction_count = (\<lambda>_ _. None),
     env_send_raw_transaction = (\<lambda>_ _. None)\<rparr>"

text \<open>A parser that reads every log as the given event, and sample data.\<close>

definition sample_parser :: "bridge_event \<Rightarrow> log_parser" where
  "sample_parser e ev log = (if ev = event_decl e then Some (event_tokens e) else None)"

lemma sample_parser_burnt: "from_log (sample_parser (Burnt d)) log = Ok (Burnt d)"
  by (simp add: from_log_def bridge_event_try_from_def burnt_try_from_def decode_event_def
      sample_parser_def burnt_with_field_def burnt_builder_default_def burnt_build_def
      set_u32_def require_def ucast_down_up)

definition sample_params :: "u64 \<Rightarrow> evm_params" where
  "sample_params c = \<lparr>chain_id = c, next_block = 10, evm_nonce = 0, gas_price = 5\<rparr>"

definition sample_burn :: burnt_event_data where
  "sample_burn = \<lparr>be_sender = 7, be_amount = 100, be_from_erc20 = 8,
     be_recipient_id = replicate 32 1, be_to_token = replicate 32 2, be_operation_id = 3,
     be_name = replicate 32 0, be_symbol = replicate 16 0, be_decimals = 18\<rparr>"

lemma collect_link_rejected:
  assumes "collect_link env lnk f t b = Some logs" and "\<And>n p. env_get_logs env lnk n p = None"
  shows "logs = []"
  using assms(1) unfolding collect_link_def collect_logs_def
  by (rule collect_logs_loop_rejected) (simp add: collect_logs_from_to_def assms(2))

end
