(* ===== verification/Erc20_Minter.thy ===== *)
theory Erc20_Minter
  imports Bridge_Env
begin

text \<open>
  The ERC-20 bridge (\<open>erc20-minter\<close>): two EVMs, a burn on one side is answered by a mint order
  for the other. Configuration (\<open>state/config.rs\<close>), the payload of an operation
  (\<open>operation.rs\<close>), the scheduler tasks (\<open>tasks.rs\<close>) and the canister's calls (\<open>canister.rs\<close>).
\<close>

section \<open>Configuration\<close>

record erc20_config =
  cfg20_admin :: principal
  cfg20_base_evm :: evm_info
  cfg20_wrapped_evm :: evm_info
  cfg20_base_bft_bridge :: "h160 option"
  cfg20_wrapped_bft_bridge :: "h160 option"

definition default_evm_info :: evm_info where
  "default_evm_info = \<lparr>link = default_evm_link, bridge_contract = 0, params = None\<rparr>"

definition default_evm_params :: evm_params where
  "default_evm_params = \<lparr>chain_id = 0, next_block = 0, evm_nonce = 0, gas_price = 0\<rparr>"

definition erc20_default_config :: erc20_config where
  "erc20_default_config = \<lparr>cfg20_admin = ManagementCanister,
     cfg20_base_evm = default_evm_info, cfg20_wrapped_evm = default_evm_info,
     cfg20_base_bft_bridge = None, cfg20_wrapped_bft_bridge = None\<rparr>"

text \<open>\<open>ConfigData::{evm_info_by_side, evm_info_by_side_mut, bridge_contract_by_side(_mut)}\<close>\<close>

fun evm_info_by_side :: "erc20_config \<Rightarrow> bridge_side \<Rightarrow> evm_info" where
  "evm_info_by_side cfg Base = cfg20_base_evm cfg"
| "evm_info_by_side cfg Wrapped = cfg20_wrapped_evm cfg"

fun set_evm_info_by_side :: "bridge_side \<Rightarrow> evm_info \<Rightarrow> erc20_config \<Rightarrow> erc20_config" where
  "set_evm_info_by_side Base info cfg = cfg\<lparr>cfg20_base_evm := info\<rparr>"
| "set_evm_info_by_side Wrapped info cfg = cfg\<lparr>cfg20_wrapped_evm := info\<rparr>"

fun bridge_contract_by_side :: "erc20_config \<Rightarrow> bridge_side \<Rightarrow> h160 option" where
  "bridge_contract_by_side cfg Base = cfg20_base_bft_bridge cfg"
| "bridge_contract_by_side cfg Wrapped = cfg20_wrapped_bft_bridge cfg"

fun set_bridge_contract :: "bridge_side \<Rightarrow> h160 \<Rightarrow> erc20_config \<Rightarrow> erc20_config" where
  "set_bridge_contract Base a cfg = cfg\<lparr>cfg20_base_bft_bridge := Some a\<rparr>"
| "set_bridge_contract Wrapped a cfg = cfg\<lparr>cfg20_wrapped_bft_bridge := Some a\<rparr>"

text \<open>\<open>Config::{init, get_evm_params, update_evm_params, set_admin, check_admin}\<close>\<close>

definition erc20_config_init ::
  "principal \<Rightarrow> evm_link \<Rightarrow> evm_link \<Rightarrow> erc20_config \<Rightarrow> erc20_config"
where
  "erc20_config_init admin base_evm_link wrapped_evm_link cfg =
     (let cfg = cfg\<lparr>cfg20_admin := admin\<rparr>;
          cfg = set_evm_info_by_side Base ((evm_info_by_side cfg Base)\<lparr>link := base_evm_link\<rparr>) cfg
      in set_evm_info_by_side Wrapped
           ((evm_info_by_side cfg Wrapped)\<lparr>link := wrapped_evm_link\<rparr>) cfg)"

definition get_evm_params :: "erc20_config \<Rightarrow> bridge_side \<Rightarrow> evm_params option" where
  "get_evm_params cfg side = params (evm_info_by_side cfg side)"

definition update_params ::
  "(evm_params \<Rightarrow> evm_params) \<Rightarrow> bridge_side \<Rightarrow> erc20_config \<Rightarrow> erc20_config"
where
  "update_params f side cfg =
     (let info = evm_info_by_side cfg side;
          ps = (case params info of None \<Rightarrow> default_evm_params | Some ps \<Rightarrow> ps)
      in set_evm_info_by_side side (info\<lparr>params := Some (f ps)\<rparr>) cfg)"

definition set_admin :: "principal \<Rightarrow> erc20_config \<Rightarrow> erc20_config" where
  "set_admin admin cfg = cfg\<lparr>cfg20_admin := admin\<rparr>"

definition check_admin :: "erc20_config \<Rightarrow> principal \<Rightarrow> bool" where
  "check_admin cfg caller \<longleftrightarrow> cfg20_admin cfg = caller"

section \<open>Operations\<close>

datatype erc20_status =
    Scheduled burnt_event_data
  | MintOrderSigned id256 u256 signed_mint_order
  | MintOrderSent id256 u256 signed_mint_order h256
  | OrderMinted id256 u256 h256

record erc20_payload =
  op20_side :: bridge_side
  op20_status :: erc20_status

definition erc20_payload_new :: "bridge_side \<Rightarrow> burnt_event_data \<Rightarrow> erc20_payload" where
  "erc20_payload_new side burnt = \<lparr>op20_side = side, op20_status = Scheduled burnt\<rparr>"

definition erc20_signed_mint_order :: "erc20_payload \<Rightarrow> id256 option \<Rightarrow> signed_mint_order option" where
  "erc20_signed_mint_order p for_token = (case op20_status p of
       MintOrderSigned token_id _ order \<Rightarrow>
         if for_token = None \<or> for_token = Some token_id then Some order else None
     | MintOrderSent token_id _ order _ \<Rightarrow>
         if for_token = None \<or> for_token = Some token_id then Some order else None
     | _ \<Rightarrow> None)"

definition erc20_complete :: "erc20_payload \<Rightarrow> bool" where
  "erc20_complete p \<longleftrightarrow> (case op20_status p of OrderMinted _ _ _ \<Rightarrow> True | _ \<Rightarrow> False)"

section \<open>State and tasks\<close>

datatype erc20_task =
    InitEvmState bridge_side
  | CollectEvmEvents bridge_side
  | PrepareMintOrder operation_id
  | RemoveMintOrder minted_event_data bridge_side
  | SendMintTransaction operation_id

record erc20_state =
  s20_config :: erc20_config
  s20_ops :: "erc20_payload op_store"
  s20_tasks :: "(erc20_task \<times> task_options) list"

definition config_mod :: "(erc20_config \<Rightarrow> erc20_config) \<Rightarrow> erc20_state \<Rightarrow> erc20_state" where
  "config_mod f s = s\<lparr>s20_config := f (s20_config s)\<rparr>"

definition ops_update :: "operation_id \<Rightarrow> erc20_payload \<Rightarrow> erc20_state \<Rightarrow> erc20_state" where
  "ops_update i p s = s\<lparr>s20_ops := update_operation erc20_complete i p (s20_ops s)\<rparr>"

definition append_tasks :: "(erc20_task \<times> task_options) list \<Rightarrow> erc20_state \<Rightarrow> erc20_state" where
  "append_tasks ts s = s\<lparr>s20_tasks := s20_tasks s @ ts\<rparr>"

subsection \<open>EVM parameters\<close>

definition erc20_init_evm_state ::
  "'v bridge_env \<Rightarrow> (nat \<Rightarrow> erc20_state \<Rightarrow> erc20_state) \<Rightarrow> bridge_side \<Rightarrow> (erc20_state, unit) task"
where
  "erc20_init_evm_state env aw side =
     andThen (reading (\<lambda>s. link (evm_info_by_side (s20_config s) side))) (\<lambda>client.
     andThen (call (aw 0) (env_signer_address env)) (\<lambda>address.
     andThen (call_outcome (aw 1) (query_link env client address)) (\<lambda>evm_params.
     modify (config_mod (update_params (\<lambda>old. evm_params) side)))))"

definition erc20_update_evm_params ::
  "'v bridge_env \<Rightarrow> (nat \<Rightarrow> erc20_state \<Rightarrow> erc20_state) \<Rightarrow> bridge_side \<Rightarrow> (erc20_state, unit) task"
where
  "erc20_update_evm_params env aw side =
     andThen (reading (\<lambda>s. evm_info_by_side (s20_config s) side)) (\<lambda>evm_info.
     andThen (reading (\<lambda>s. get_evm_params (s20_config s) side)) (\<lambda>initial.
     andThen (expect_some initial EvmParamsNotSet) (\<lambda>initial_params.
     andThen (call (aw 0) (env_signer_address env)) (\<lambda>address.
     andThen (call_outcome (aw 1) (query_nonce_and_gas env (link evm_info) address))
       (\<lambda>(nonce, price).
     modify (config_mod (update_params
       (\<lambda>p. initial_params\<lparr>evm_nonce := nonce, gas_price := price\<rparr>) side)))))))"

subsection \<open>Collecting events\<close>

definition retry_options :: task_options where
  "retry_options = \<lparr>retry_policy = Some (MaxRetries (- 1)), backoff_policy = Some (Fixed 5)\<rparr>"

text \<open>
  \<open>task_by_log\<close>: the task for a log and the operation it creates. \<open>todo!()\<close> on a notification is
  the panic.
\<close>

definition erc20_task_by_log ::
  "log_parser \<Rightarrow> bridge_side \<Rightarrow> evm_log \<Rightarrow> erc20_state \<Rightarrow>
     (scheduler_error, (erc20_task \<times> task_options) option) outcome \<times> erc20_state"
where
  "erc20_task_by_log parse_log sender_side log s = (case from_log parse_log log of
       Ok (Burnt burnt) \<Rightarrow>
         (let (i, ops) = new_operation erc20_complete (be_sender burnt)
                (erc20_payload_new (other_side sender_side) burnt) (s20_ops s)
          in (Ok (Some (PrepareMintOrder i, retry_options)), s\<lparr>s20_ops := ops\<rparr>))
     | Ok (Minted minted) \<Rightarrow>
         (Ok (Some (RemoveMintOrder minted sender_side, retry_options)), s)
     | Ok (Notify _) \<Rightarrow> (Panic, s)
     | Err _ \<Rightarrow> (Ok None, s)
     | Panic \<Rightarrow> (Panic, s))"

text \<open>\<open>logs.into_iter().filter_map(task_by_log).collect()\<close>\<close>

fun erc20_tasks_by_logs ::
  "log_parser \<Rightarrow> bridge_side \<Rightarrow> evm_log list \<Rightarrow> erc20_state \<Rightarrow>
     (scheduler_error, (erc20_task \<times> task_options) list) outcome \<times> erc20_state"
where
  "erc20_tasks_by_logs parse_log side [] s = (Ok [], s)"
| "erc20_tasks_by_logs parse_log side (l # ls) s = (case erc20_task_by_log parse_log side l s of
      (Ok t, s') \<Rightarrow> (case erc20_tasks_by_logs parse_log side ls s' of
          (Ok ts, s'') \<Rightarrow> (Ok (case t of None \<Rightarrow> ts | Some t' \<Rightarrow> t' # ts), s'')
        | (Err e, s'') \<Rightarrow> (Err e, s'')
        | (Panic, s'') \<Rightarrow> (Panic, s''))
    | (Err e, s') \<Rightarrow> (Err e, s')
    | (Panic, s') \<Rightarrow> (Panic, s'))"

definition erc20_append_logs ::
  "log_parser \<Rightarrow> bridge_side \<Rightarrow> evm_log list \<Rightarrow> (erc20_state, unit) task"
where
  "erc20_append_logs parse_log side logs = (\<lambda>(c, s).
     case erc20_tasks_by_logs parse_log side logs s of
       (Ok ts, s') \<Rightarrow> (Ok (), (c, append_tasks ts s'))
     | (Err e, s') \<Rightarrow> (Err e, (c, s'))
     | (Panic, s') \<Rightarrow> (Panic, (c, s')))"

definition erc20_collect_evm_events ::
  "'v bridge_env \<Rightarrow> (nat \<Rightarrow> erc20_state \<Rightarrow> erc20_state) \<Rightarrow> bridge_side \<Rightarrow> (erc20_state, unit) task"
where
  "erc20_collect_evm_events env aw side =
     andThen (reading (\<lambda>s. evm_info_by_side (s20_config s) side)) (\<lambda>evm_info.
     case params evm_info of
       None \<Rightarrow> erc20_init_evm_state env aw side
     | Some ps \<Rightarrow>
         andThen (reading (\<lambda>s. bridge_contract_by_side (s20_config s) side)) (\<lambda>contract.
         andThen (expect_some contract BridgeContractNotSet) (\<lambda>bft_bridge.
         andThen (call (aw 0) (env_block_number env (link evm_info))) (\<lambda>last_block.
         andThen (call_forever (aw 1)
           (collect_link env (link evm_info) (next_block ps) last_block bft_bridge)) (\<lambda>logs.
         andThen (modify (config_mod (update_params (\<lambda>p. p\<lparr>next_block := last_block + 1\<rparr>) side)))
           (\<lambda>_.
         andThen (erc20_append_logs (env_parse_log env) side logs) (\<lambda>_.
         erc20_update_evm_params env (\<lambda>n. aw (n + 2)) side)))))))"

subsection \<open>Mint orders\<close>

text \<open>
  The mint order of a burn event: sender chain of \<open>burn_params\<close>, recipient chain of
  \<open>mint_params\<close>. \<open>to_array\<close> requires a name of 32 and a symbol of 16 bytes.
\<close>

definition erc20_make_order ::
  "id256_codec \<Rightarrow> evm_params \<Rightarrow> evm_params \<Rightarrow> burnt_event_data \<Rightarrow> failure + mint_order"
where
  "erc20_make_order cd burn_params mint_params burn =
     (case Option.bind (from_slice cd (be_recipient_id burn)) (to_evm_address cd) of
        None \<Rightarrow> Inl InvalidRecipient
      | Some (_, recipient) \<Rightarrow>
          let dst_token = (case Option.bind (from_slice cd (be_to_token burn)) (to_evm_address cd) of
                None \<Rightarrow> 0 | Some (_, a) \<Rightarrow> a);
              sender_chain_id = ucast (chain_id burn_params);
              recipient_chain_id = ucast (chain_id mint_params)
          in if length (be_name burn) \<noteq> 32 \<or> length (be_symbol burn) \<noteq> 16 then Inl InvalidData
             else Inr \<lparr>mo_amount = be_amount burn,
               mo_sender = from_evm_address cd (be_sender burn) sender_chain_id,
               mo_src_token = from_evm_address cd (be_from_erc20 burn) sender_chain_id,
               mo_recipient = recipient, mo_dst_token = dst_token, mo_nonce = be_operation_id burn,
               mo_sender_chain_id = sender_chain_id, mo_recipient_chain_id = recipient_chain_id,
               mo_name = be_name burn, mo_symbol = be_symbol burn, mo_decimals = be_decimals burn,
               mo_approve_spender = 0, mo_approve_amount = 0, mo_fee_payer = be_sender burn\<rparr>)"

definition erc20_prepare_mint_order ::
  "'v bridge_env \<Rightarrow> (nat \<Rightarrow> erc20_state \<Rightarrow> erc20_state) \<Rightarrow> operation_id \<Rightarrow> (erc20_state, unit) task"
where
  "erc20_prepare_mint_order env aw i =
     andThen (reading (\<lambda>s. get_operation (s20_ops s) i)) (\<lambda>found.
     andThen (expect_some found OperationNotFound) (\<lambda>operation.
     let burn_side = op20_side operation in
     case op20_status operation of
       Scheduled burn_event \<Rightarrow>
         andThen (reading (\<lambda>s. get_evm_params (s20_config s) burn_side)) (\<lambda>bp.
         andThen (expect_some bp EvmParamsNotSet) (\<lambda>burn_evm_params.
         andThen (reading (\<lambda>s. get_evm_params (s20_config s) (other_side burn_side))) (\<lambda>mp.
         andThen (expect_some mp EvmParamsNotSet) (\<lambda>mint_evm_params.
         case erc20_make_order (env_codec env) burn_evm_params mint_evm_params burn_event of
           Inl f \<Rightarrow> fail f
         | Inr order \<Rightarrow>
             andThen (call (aw 0) (env_encode_and_sign env order)) (\<lambda>signed_mint_order.
             andThen (modify (ops_update i \<lparr>op20_side = burn_side,
               op20_status = MintOrderSigned (mo_src_token order) (mo_amount order)
                 signed_mint_order\<rparr>)) (\<lambda>_.
             andThen (erc20_update_evm_params env (\<lambda>n. aw (n + 1)) burn_side) (\<lambda>_.
             modify (append_tasks [(SendMintTransaction i, default_options)]))))))))
     | _ \<Rightarrow> fail WrongStatus))"

text \<open>\<open>remove_mint_order\<close>, which runs without awaiting anything.\<close>

definition erc20_wallet_of_minted ::
  "id256_codec \<Rightarrow> minted_event_data \<Rightarrow> bridge_side \<Rightarrow> failure + h160"
where
  "erc20_wallet_of_minted cd minted sender_side = (case sender_side of
       Base \<Rightarrow> Inr (me_recipient minted)
     | Wrapped \<Rightarrow> (case from_slice cd (me_sender_id minted) of
           None \<Rightarrow> Inl InvalidSender
         | Some i \<Rightarrow> (case to_evm_address cd i of
               None \<Rightarrow> Inl InvalidSender | Some (_, a) \<Rightarrow> Inr a)))"

definition erc20_remove_mint_order ::
  "id256_codec \<Rightarrow> minted_event_data \<Rightarrow> bridge_side \<Rightarrow> (erc20_state, unit) task"
where
  "erc20_remove_mint_order cd minted sender_side =
     (case erc20_wallet_of_minted cd minted sender_side of
        Inl f \<Rightarrow> fail f
      | Inr wallet \<Rightarrow>
          andThen (reading (\<lambda>s. List.find (\<lambda>(i, _). nonce i = me_nonce minted)
            (get_for_address (s20_ops s) wallet))) (\<lambda>found.
          andThen (expect_some found NonceNotFound) (\<lambda>(i, operation).
          andThen (expect_some (from_slice cd (me_from_token minted)) InvalidToken) (\<lambda>src_token.
          case op20_status operation of
            MintOrderSent token_id amount _ tx_id \<Rightarrow>
              if token_id = src_token
              then modify (ops_update i \<lparr>op20_side = op20_side operation,
                     op20_status = OrderMinted token_id amount tx_id\<rparr>)
              else return ()
          | _ \<Rightarrow> return ()))))"

definition erc20_send_mint_transaction ::
  "'v bridge_env \<Rightarrow> (nat \<Rightarrow> erc20_state \<Rightarrow> erc20_state) \<Rightarrow> operation_id \<Rightarrow> (erc20_state, unit) task"
where
  "erc20_send_mint_transaction env aw i =
     andThen (reading (\<lambda>s. get_operation (s20_ops s) i)) (\<lambda>found.
     andThen (expect_some found OperationNotFound) (\<lambda>operation.
     let side = op20_side operation in
     case op20_status operation of
       MintOrderSigned token_id amount order \<Rightarrow>
         andThen (call (aw 0) (env_signer_address env)) (\<lambda>sender.
         andThen (reading (\<lambda>s. evm_info_by_side (s20_config s) side)) (\<lambda>evm_info.
         andThen (reading (\<lambda>s. get_evm_params (s20_config s) side)) (\<lambda>ps.
         andThen (expect_some ps EvmParamsNotSet) (\<lambda>evm_params.
         andThen (reading (\<lambda>s. bridge_contract_by_side (s20_config s) side)) (\<lambda>contract.
         andThen (expect_some contract BridgeContractNotSet) (\<lambda>bft_bridge.
         andThen (call (aw 1) (env_transaction_count env (link evm_info) sender)) (\<lambda>tx_count.
         case mint_transaction (env_encode_input env) sender bft_bridge tx_count
                (gas_price evm_params) order (ucast (chain_id evm_params)) of
           Ok tx \<Rightarrow>
             andThen (call (aw 2) (env_sign_transaction env tx)) (\<lambda>(r, s, v).
             let tx = tx\<lparr>tx_r := r, tx_s := s, tx_v := v\<rparr>;
                 tx = tx\<lparr>tx_hash := env_tx_hash env tx\<rparr> in
             andThen (call (aw 3) (env_send_raw_transaction env (link evm_info) tx)) (\<lambda>tx_id.
             modify (ops_update i \<lparr>op20_side = side,
               op20_status = MintOrderSent token_id amount order tx_id\<rparr>)))
         | Err (f :: failure) \<Rightarrow> fail f
         | Panic \<Rightarrow> panic)))))))
     | _ \<Rightarrow> fail WrongStatus))"

text \<open>\<open>BridgeTask::execute\<close>\<close>

fun erc20_execute ::
  "'v bridge_env \<Rightarrow> (nat \<Rightarrow> erc20_state \<Rightarrow> erc20_state) \<Rightarrow> erc20_task \<Rightarrow> (erc20_state, unit) task"
where
  "erc20_execute env aw (InitEvmState side) = erc20_init_evm_state env aw side"
| "erc20_execute env aw (CollectEvmEvents side) = erc20_collect_evm_events env aw side"
| "erc20_execute env aw (PrepareMintOrder i) = erc20_prepare_mint_order env aw i"
| "erc20_execute env aw (RemoveMintOrder minted side) =
     erc20_remove_mint_order (env_codec env) minted side"
| "erc20_execute env aw (SendMintTransaction i) = erc20_send_mint_transaction env aw i"

section \<open>The canister\<close>

definition erc20_init ::
  "principal \<Rightarrow> evm_link \<Rightarrow> evm_link \<Rightarrow> erc20_state \<Rightarrow> (unit, unit) outcome \<times> erc20_state"
where
  "erc20_init caller base_evm_link wrapped_evm_link s =
     (if caller = Anonymous then (Panic, s)
      else (let s' = config_mod (erc20_config_init caller base_evm_link wrapped_evm_link) s;
                opts = \<lparr>retry_policy = Some (MaxRetries 5), backoff_policy = Some (Exponential 2 2)\<rparr>
            in (Ok (), append_tasks [(InitEvmState Base, opts), (InitEvmState Wrapped, opts)] s')))"

text \<open>The tasks the canister's timer appends every second.\<close>

definition erc20_timer :: "erc20_state \<Rightarrow> erc20_state" where
  "erc20_timer s =
     (let opts = \<lparr>retry_policy = Some Infinite, backoff_policy = Some (Fixed 1)\<rparr>
      in append_tasks [(CollectEvmEvents Base, opts), (CollectEvmEvents Wrapped, opts)] s)"

definition erc20_list_mint_orders ::
  "erc20_state \<Rightarrow> h160 \<Rightarrow> id256 \<Rightarrow> (u32 \<times> signed_mint_order) list"
where
  "erc20_list_mint_orders s wallet src_token =
     List.map_filter (\<lambda>(i, status). map_option (\<lambda>order. (nonce i, order))
         (erc20_signed_mint_order status (Some src_token)))
       (get_for_address (s20_ops s) wallet)"

definition erc20_get_mint_order ::
  "erc20_state \<Rightarrow> h160 \<Rightarrow> id256 \<Rightarrow> u32 \<Rightarrow> signed_mint_order option"
where
  "erc20_get_mint_order s wallet src_token operation_id =
     map_option snd (List.find (\<lambda>(n, _). n = operation_id)
       (erc20_list_mint_orders s wallet src_token))"

definition erc20_get_operations_list :: "erc20_state \<Rightarrow> h160 \<Rightarrow> (operation_id \<times> erc20_payload) list"
where
  "erc20_get_operations_list s wallet = get_for_address (s20_ops s) wallet"

definition erc20_set_bft_bridge_contract :: "h160 \<Rightarrow> bridge_side \<Rightarrow> erc20_state \<Rightarrow> erc20_state" where
  "erc20_set_bft_bridge_contract address side s = config_mod (set_bridge_contract side address) s"

definition erc20_get_bft_bridge_contract :: "erc20_state \<Rightarrow> bridge_side \<Rightarrow> h160 option" where
  "erc20_get_bft_bridge_contract s side = bridge_contract_by_side (s20_config s) side"

definition erc20_get_evm_address ::
  "'v bridge_env \<Rightarrow> (erc20_state \<Rightarrow> erc20_state) \<Rightarrow> (erc20_state, h160 option) task"
where
  "erc20_get_evm_address env aw = answer aw (env_signer_address env)"

section \<open>Progress of operations\<close>

text \<open>The life of an operation: it is signed, sent and minted, in that order.\<close>

inductive erc20_step :: "erc20_status \<Rightarrow> erc20_status \<Rightarrow> bool" where
  sign: "erc20_step (Scheduled burn) (MintOrderSigned token_id amount order)"
| send: "erc20_step (MintOrderSigned token_id amount order) (MintOrderSent token_id amount order tx)"
| mint: "erc20_step (MintOrderSent token_id amount order tx) (OrderMinted token_id amount tx)"

inductive_cases erc20_step_from_minted [elim!]: "erc20_step (OrderMinted t a x) st"

inductive_simps erc20_step_complete: "erc20_step st (OrderMinted t a x)"

text \<open>What the handlers do to the store: nothing, or one step of one operation.\<close>

definition erc20_advances :: "erc20_payload op_store \<Rightarrow> erc20_payload op_store \<Rightarrow> bool" where
  "erc20_advances ops ops' \<longleftrightarrow> ops' = ops \<or>
     (\<exists>i p p'. get_operation ops i = Some p \<and> op20_side p' = op20_side p \<and>
        erc20_step (op20_status p) (op20_status p') \<and>
        ops' = update_operation erc20_complete i p' ops)"

lemma erc20_advances_refl [simp]: "erc20_advances ops ops"
  by (simp add: erc20_advances_def)

lemma erc20_advances_step:
  "get_operation ops i = Some p \<Longrightarrow> op20_side p' = op20_side p \<Longrightarrow>
     erc20_step (op20_status p) (op20_status p') \<Longrightarrow>
     erc20_advances ops (update_operation erc20_complete i p' ops)"
  by (auto simp: erc20_advances_def)

lemmas erc20_state_defs = config_mod_def ops_update_def append_tasks_def

lemma erc20_update_evm_params_ops:
  assumes "\<And>n s. s20_ops (aw n s) = s20_ops s"
  shows "wp (erc20_update_evm_params env aw side)
    (\<lambda>r c' s'. (r = Panic \<longrightarrow> s20_ops c' = s20_ops s) \<and> s20_ops s' = s20_ops s) c s"
  using assms
  by (simp add: erc20_update_evm_params_def wp_simps erc20_state_defs
      split: option.split outcome.split prod.split)

lemma erc20_init_evm_state_ops:
  assumes "\<And>n s. s20_ops (aw n s) = s20_ops s"
  shows "wp (erc20_init_evm_state env aw side)
    (\<lambda>r c' s'. (r = Panic \<longrightarrow> s20_ops c' = s20_ops s) \<and> s20_ops s' = s20_ops s) c s"
  using assms
  by (simp add: erc20_init_evm_state_def wp_simps erc20_state_defs
      split: option.split outcome.split prod.split)

text \<open>Preparing a mint order either leaves the store alone or stores the signed order.\<close>

definition erc20_signed ::
  "'v bridge_env \<Rightarrow> erc20_config \<Rightarrow> operation_id \<Rightarrow> erc20_payload op_store \<Rightarrow>
     erc20_payload op_store \<Rightarrow> bool"
where
  "erc20_signed env cfg i ops ops' \<longleftrightarrow> ops' = ops \<or>
     (\<exists>p burn bp mp order signed. get_operation ops i = Some p \<and> op20_status p = Scheduled burn \<and>
        get_evm_params cfg (op20_side p) = Some bp \<and>
        get_evm_params cfg (other_side (op20_side p)) = Some mp \<and>
        erc20_make_order (env_codec env) bp mp burn = Inr order \<and>
        env_encode_and_sign env order = Some signed \<and>
        ops' = update_operation erc20_complete i \<lparr>op20_side = op20_side p,
          op20_status = MintOrderSigned (mo_src_token order) (mo_amount order) signed\<rparr> ops)"

lemma erc20_prepare_signed:
  assumes "\<And>n s. s20_ops (aw n s) = s20_ops s"
  shows "wp (erc20_prepare_mint_order env aw i) (\<lambda>r c' s'.
    erc20_signed env (s20_config s) i (s20_ops s) (if r = Panic then s20_ops c' else s20_ops s')) s s"
proof -
  have aw: "\<And>n s. s20_ops (aw (Suc n) s) = s20_ops s" by (rule assms)
  show ?thesis
    apply (simp add: erc20_prepare_mint_order_def wp_simps assms erc20_state_defs Let_def
        erc20_signed_def split: option.split erc20_status.split sum.split)
    apply (intro allI impI)
    apply (rule wp_mono[OF erc20_update_evm_params_ops[OF aw]])
    apply (auto simp: assms wp_simps erc20_state_defs split: outcome.split)
    done
qed

lemma erc20_signed_advances: "erc20_signed env cfg i ops ops' \<Longrightarrow> erc20_advances ops ops'"
  by (auto simp: erc20_signed_def intro!: erc20_advances_step erc20_step.intros)

lemma erc20_prepare_ops:
  assumes "\<And>n s. s20_ops (aw n s) = s20_ops s"
  shows "wp (erc20_prepare_mint_order env aw i)
    (\<lambda>r c' s'. erc20_advances (s20_ops s) (if r = Panic then s20_ops c' else s20_ops s')) s s"
  by (rule wp_mono[OF erc20_prepare_signed[OF assms]]) (rule erc20_signed_advances)

lemma erc20_send_ops:
  assumes "\<And>n s. s20_ops (aw n s) = s20_ops s"
  shows "wp (erc20_send_mint_transaction env aw i)
    (\<lambda>r c' s'. erc20_advances (s20_ops s) (if r = Panic then s20_ops c' else s20_ops s')) s s"
  by (auto simp: erc20_send_mint_transaction_def wp_simps assms erc20_state_defs Let_def
      split: option.split erc20_status.split sum.split outcome.split prod.split
      intro!: erc20_advances_step erc20_step.intros)

lemma erc20_remove_ops:
  "wp (erc20_remove_mint_order cd minted side)
    (\<lambda>r c' s'. erc20_advances (s20_ops s) (if r = Panic then s20_ops c' else s20_ops s')) s s"
  by (auto simp: erc20_remove_mint_order_def wp_simps erc20_state_defs
      split: option.split erc20_status.split sum.split prod.split
      dest!: find_Some_in_set get_for_address_get
      intro!: erc20_advances_step erc20_step.intros)

text \<open>The operations created for the burn events of the collected logs.\<close>

fun erc20_created ::
  "log_parser \<Rightarrow> bridge_side \<Rightarrow> evm_log list \<Rightarrow> (operation_id, erc20_payload) store_cmd list"
where
  "erc20_created parse_log side [] = []"
| "erc20_created parse_log side (l # ls) = (case from_log parse_log l of
      Ok (Burnt burnt) \<Rightarrow>
        Create (be_sender burnt) (erc20_payload_new (other_side side) burnt) #
          erc20_created parse_log side ls
    | _ \<Rightarrow> erc20_created parse_log side ls)"

lemma erc20_tasks_by_logs_ops:
  "erc20_tasks_by_logs parse_log side ls s = (Ok ts, s') \<Longrightarrow>
     s' = s\<lparr>s20_ops := run_cmds (new_operation erc20_complete) (update_operation erc20_complete)
       (erc20_created parse_log side ls) (s20_ops s)\<rparr>"
proof (induction ls arbitrary: s ts)
  case (Cons l ls)
  then show ?case
    by (auto simp: erc20_task_by_log_def Let_def
        split: outcome.splits bridge_event.splits prod.splits dest!: Cons.IH)
qed simp

lemma erc20_tasks_by_logs_no_err: "erc20_tasks_by_logs parse_log side ls s \<noteq> (Err e, s')"
proof (induction ls arbitrary: s)
  case (Cons l ls)
  then show ?case
    by (auto simp: erc20_task_by_log_def Let_def
        split: outcome.splits bridge_event.splits prod.splits)
qed simp

lemma erc20_append_logs_ops:
  "wp (erc20_append_logs parse_log side logs)
    (\<lambda>r c' s'. c' = c \<and> (r = Panic \<or> r = Ok () \<and>
       s20_config s' = s20_config s \<and>
       s20_ops s' = run_cmds (new_operation erc20_complete) (update_operation erc20_complete)
         (erc20_created parse_log side logs) (s20_ops s))) c s"
  using erc20_tasks_by_logs_no_err[of parse_log side logs s]
  by (auto simp: wp_def erc20_append_logs_def append_tasks_def dest: erc20_tasks_by_logs_ops
      split: prod.split outcome.split)

text \<open>What collecting events does to the store.\<close>

definition erc20_collected ::
  "'v bridge_env \<Rightarrow> bridge_side \<Rightarrow> erc20_payload op_store \<Rightarrow> erc20_payload op_store \<Rightarrow> bool"
where
  "erc20_collected env side ops ops' \<longleftrightarrow> ops' = ops \<or>
     (\<exists>lnk f t b logs. collect_link env lnk f t b = Some logs \<and>
        ops' = run_cmds (new_operation erc20_complete) (update_operation erc20_complete)
          (erc20_created (env_parse_log env) side logs) ops)"

lemma erc20_collected_refl [simp]: "erc20_collected env side ops ops"
  by (simp add: erc20_collected_def)

lemma erc20_collected_logs:
  "collect_link env lnk f t b = Some logs \<Longrightarrow>
     erc20_collected env side ops (run_cmds (new_operation erc20_complete)
       (update_operation erc20_complete) (erc20_created (env_parse_log env) side logs) ops)"
  unfolding erc20_collected_def by blast

lemma erc20_collect_ops:
  assumes "\<And>n s. s20_ops (aw n s) = s20_ops s"
  shows "wp (erc20_collect_evm_events env aw side)
    (\<lambda>r c' s'. erc20_collected env side (s20_ops s) (if r = Panic then s20_ops c' else s20_ops s')) s s"
proof -
  have aw: "\<And>n s. s20_ops (aw (Suc (Suc n)) s) = s20_ops s" by (rule assms)
  show ?thesis
    apply (simp add: erc20_collect_evm_events_def wp_simps assms split: option.split)
    apply (intro conjI allI impI)
     apply (rule wp_mono[OF erc20_init_evm_state_ops[OF assms]], simp)
    apply (rule wp_mono[OF erc20_append_logs_ops])
    apply (auto simp: assms config_mod_def split: outcome.split)
    apply (rule wp_mono[OF erc20_update_evm_params_ops[OF aw]])
    apply (auto simp: assms config_mod_def intro: erc20_collected_logs)
    done
qed

lemma erc20_execute_ops:
  assumes "\<And>n s. s20_ops (aw n s) = s20_ops s"
    and "run_task (erc20_execute env aw t) s = (r, s')"
  shows "erc20_advances (s20_ops s) (s20_ops s') \<or>
    (\<exists>side. erc20_collected env side (s20_ops s) (s20_ops s'))"
proof -
  have "wp (erc20_execute env aw t) (\<lambda>r c' s'. (\<lambda>x. erc20_advances (s20_ops s) (s20_ops x) \<or>
      (\<exists>side. erc20_collected env side (s20_ops s) (s20_ops x))) (if r = Panic then c' else s')) s s"
  proof (cases t)
    case (InitEvmState side)
    show ?thesis
      unfolding InitEvmState erc20_execute.simps
      by (rule wp_mono[OF erc20_init_evm_state_ops[OF assms(1)]]) simp
  next
    case (CollectEvmEvents side)
    show ?thesis
      unfolding CollectEvmEvents erc20_execute.simps
      by (rule wp_mono[OF erc20_collect_ops[OF assms(1)]]) (auto split: if_splits)
  next
    case (PrepareMintOrder i)
    show ?thesis
      unfolding PrepareMintOrder erc20_execute.simps
      by (rule wp_mono[OF erc20_prepare_ops[OF assms(1)]]) (auto split: if_splits)
  next
    case (RemoveMintOrder m side)
    show ?thesis
      unfolding RemoveMintOrder erc20_execute.simps
      by (rule wp_mono[OF erc20_remove_ops]) (auto split: if_splits)
  next
    case (SendMintTransaction i)
    show ?thesis
      unfolding SendMintTransaction erc20_execute.simps
      by (rule wp_mono[OF erc20_send_ops[OF assms(1)]]) (auto split: if_splits)
  qed
  from run_task_wp[OF this assms(2)] show ?thesis .
qed

lemma erc20_created_length: "creations (erc20_created parse_log side logs) \<le> length logs"
  by (induction logs) (auto split: outcome.split bridge_event.split)

lemma erc20_created_only_creates:
  "stays_open c i (erc20_created parse_log side logs) \<and>
   last_written i q (erc20_created parse_log side logs) = q"
  by (induction logs) (auto split: outcome.split bridge_event.split)

text \<open>An operation after a task: unchanged, advanced by one step, or forgotten once it is minted.\<close>

definition erc20_progress :: "erc20_payload \<Rightarrow> erc20_payload \<Rightarrow> bool" where
  "erc20_progress p p' \<longleftrightarrow> p' = p \<or>
     op20_side p' = op20_side p \<and> erc20_step (op20_status p) (op20_status p')"

lemma erc20_complete_iff: "erc20_complete p \<longleftrightarrow> (\<exists>t a x. op20_status p = OrderMinted t a x)"
  by (auto simp: erc20_complete_def split: erc20_status.split)

lemma erc20_advances_progress:
  assumes "wf_store erc20_complete ops" and "erc20_advances ops ops'"
    and "find_operation ops j = Some (a, p)"
  shows "(\<exists>p'. find_operation ops' j = Some (a, p') \<and> erc20_progress p p') \<or>
    find_operation ops' j = None \<and> (erc20_complete p \<or> (\<exists>q. erc20_complete q \<and> erc20_progress p q))"
proof (cases "ops' = ops")
  case True
  then show ?thesis using assms(3) by (simp add: erc20_progress_def)
next
  case False
  then obtain i q q' where q: "get_operation ops i = Some q" "op20_side q' = op20_side q"
      "erc20_step (op20_status q) (op20_status q')"
      and ops': "ops' = update_operation erc20_complete i q' ops"
    using assms(2) by (auto simp: erc20_advances_def)
  show ?thesis
  proof (cases "j = i")
    case False
    then show ?thesis
      using os.update_others[OF assms(1) False assms(3)] unfolding ops'
      by (auto simp: erc20_progress_def)
  next
    case True
    then have p: "p = q" using q(1) assms(3) by (simp add: get_operation_find)
    have open_op: "\<not> erc20_complete q" using q(3) by (auto simp: erc20_complete_iff)
    show ?thesis
    proof (cases "erc20_complete q'")
      case True
      have "find_operation ops' j \<in> {Some (a, q'), None}"
        using completed_or_evicted[OF assms(1,3)] open_op p True \<open>j = i\<close> ops' by simp
      then show ?thesis using True p q by (auto simp: erc20_progress_def)
    next
      case False
      then show ?thesis
        using os.update_incomplete[OF assms(1,3)] open_op p \<open>j = i\<close> ops' q
        by (auto simp: erc20_progress_def)
    qed
  qed
qed

lemma erc20_collected_progress:
  assumes "wf_store erc20_complete ops" and "erc20_collected env side ops ops'"
    and "\<And>lnk f t b logs. collect_link env lnk f t b = Some logs \<Longrightarrow> length logs \<le> ids_left ops"
    and "find_operation ops j = Some (a, p)"
  shows "find_operation ops' j = Some (a, p) \<or> find_operation ops' j = None \<and> erc20_complete p"
proof (cases "ops' = ops")
  case False
  then obtain logs where ops': "ops' = run_cmds (new_operation erc20_complete)
      (update_operation erc20_complete) (erc20_created (env_parse_log env) side logs) ops"
    and "length logs \<le> ids_left ops"
    using assms(2,3) unfolding erc20_collected_def by blast
  then have room: "creations (erc20_created (env_parse_log env) side logs) \<le> ids_left ops"
    using erc20_created_length order_trans by blast
  show ?thesis
    using os.run_complete_final[OF assms(1) room assms(4)] os.run_keeps_open[OF assms(1) room assms(4)]
      erc20_created_only_creates ops'
    by (cases "erc20_complete p") auto
qed (simp add: assms(4))

section \<open>Configuration laws\<close>

lemma update_params_get:
  "get_evm_params (update_params f side cfg) side' =
     (if side' = side
      then Some (f (case get_evm_params cfg side of None \<Rightarrow> default_evm_params | Some p \<Rightarrow> p))
      else get_evm_params cfg side')"
  by (cases side; cases side') (simp_all add: get_evm_params_def update_params_def Let_def)

section \<open>Properties\<close>


definition erc20_start :: erc20_state where
  "erc20_start = \<lparr>s20_config = erc20_default_config, s20_ops = with_memory None 0, s20_tasks = []\<rparr>"

definition erc20_one_op :: erc20_state where
  "erc20_one_op = erc20_start\<lparr>s20_ops := snd (new_operation erc20_complete 7
     (erc20_payload_new Wrapped sample_burn) (with_memory None 0))\<rparr>"

lemma erc20_one_op_wf: "wf_store erc20_complete (s20_ops erc20_one_op)"
  unfolding erc20_one_op_def
  by simp (intro new_operation_wf with_memory_wf; simp add: with_memory_def default_store_options_def)

lemma erc20_one_op_find:
  "find_operation (s20_ops erc20_one_op) 0 = Some (7, erc20_payload_new Wrapped sample_burn)"
  by (simp add: erc20_one_op_def find_operation_def get_entry_def new_operation_def next_id_def
      with_memory_def omap_insert_def erc20_complete_def erc20_payload_new_def)


text \<open>
  C39: the chain ids of an ERC-20 mint order are swapped. The operation of a burn collected on one
  side is stored with the other side, and preparing its order takes that side for the side of
  the burn: the order names the chain it is to be minted on as the sender chain, and derives the
  sender and source token ids from it. Its nonce is the operation id of the burn event, not the
  nonce of the operation it is listed under.
\<close>

theorem erc20_chain_ids_swapped:
  assumes "\<And>n s. s20_ops (aw n s) = s20_ops s"
    and "wf_store erc20_complete (s20_ops s)" and "0 < ids_left (s20_ops s)"
    and "from_log pl log = Ok (Burnt burn)"
    and "erc20_task_by_log pl side log s = (Ok (Some (PrepareMintOrder i, opts)), s1)"
    and "get_evm_params (s20_config s) side = Some burn_chain"
    and "get_evm_params (s20_config s) (other_side side) = Some mint_chain"
    and "run_task (erc20_prepare_mint_order env aw i) s1 = (r, s2)"
    and "get_operation (s20_ops s2) i = Some p" and "op20_status p = MintOrderSigned t a smo"
  shows "\<exists>order. env_encode_and_sign env order = Some smo \<and>
    mo_sender_chain_id order = ucast (chain_id mint_chain) \<and>
    mo_recipient_chain_id order = ucast (chain_id burn_chain) \<and>
    mo_sender order = from_evm_address (env_codec env) (be_sender burn) (ucast (chain_id mint_chain)) \<and>
    mo_nonce order = be_operation_id burn"
proof -
  let ?p = "erc20_payload_new (other_side side) burn"
  have s1: "s1 = s\<lparr>s20_ops := snd (new_operation erc20_complete (be_sender burn) ?p (s20_ops s))\<rparr>"
    and i: "i = fst (new_operation erc20_complete (be_sender burn) ?p (s20_ops s))"
    using assms(4,5) by (auto simp: erc20_task_by_log_def Let_def simp del: new_operation_counter
        split: prod.splits)
  have op: "get_operation (s20_ops s1) i = Some ?p"
    using os.create_lookup[OF assms(2,3), of "be_sender burn" ?p]
    unfolding s1 i by (simp add: get_operation_find)
  have "erc20_signed env (s20_config s1) i (s20_ops s1) (s20_ops s2)"
    using run_task_wp[of _ "\<lambda>_ t. erc20_signed env (s20_config s1) i (s20_ops s1) (s20_ops t)",
        OF wp_mono[OF erc20_prepare_signed[OF assms(1)]] assms(8)] by (auto split: if_splits)
  moreover have "s20_ops s2 \<noteq> s20_ops s1"
    using op assms(9,10) by (auto simp: erc20_payload_new_def)
  ultimately obtain order so where order:
    "erc20_make_order (env_codec env) mint_chain burn_chain burn = Inr order"
    "env_encode_and_sign env order = Some so"
    "s20_ops s2 = update_operation erc20_complete i \<lparr>op20_side = other_side side,
       op20_status = MintOrderSigned (mo_src_token order) (mo_amount order) so\<rparr> (s20_ops s1)"
    using op assms(6,7) by (auto simp: erc20_signed_def erc20_payload_new_def s1)
  have wf1: "wf_store erc20_complete (s20_ops s1)"
    using os.create_inv[OF assms(2,3)] by (simp add: s1)
  have open_op: "\<not> erc20_complete ?p" by (simp add: erc20_complete_def erc20_payload_new_def)
  obtain w where w: "find_operation (s20_ops s1) i = Some (w, ?p)"
    using op by (auto simp: get_operation_find)
  have "find_operation (s20_ops s2) i = Some (w, \<lparr>op20_side = other_side side,
      op20_status = MintOrderSigned (mo_src_token order) (mo_amount order) so\<rparr>)"
    unfolding order(3) by (rule os.update_incomplete[OF wf1 w open_op]) (simp add: erc20_complete_iff)
  then have "so = smo" using assms(9,10) by (auto simp: get_operation_find)
  then show ?thesis
    using order by (auto simp: erc20_make_order_def Let_def split: option.splits if_splits prod.splits)
qed

text \<open>
  C37: one notification event stops the ERC-20 bridge from collecting events. When the collected
  logs contain a \<open>NotifyMinterEvent\<close>, the handler panics: the state is the one committed at the
  last call, so the next block is not advanced and no task is scheduled, and the same logs are
  collected again by the next attempt.
\<close>

theorem erc20_notify_blocks_collection:
  assumes "evm_info_by_side (s20_config s) side = info" and "params info = Some ps"
    and "bridge_contract_by_side (s20_config s) side = Some bridge"
    and "env_block_number env (link info) = Some last_block"
    and "collect_link env (link info) (next_block ps) last_block bridge = Some logs"
    and "log \<in> set logs" and "from_log (env_parse_log env) log = Ok (Notify n)"
  shows "run_task (erc20_collect_evm_events env aw side) s = (Panic, aw 1 (aw 0 s))"
proof -
  have panics: "\<exists>y. erc20_tasks_by_logs (env_parse_log env) side ls x = (Panic, y)"
    if "log \<in> set ls" for ls x
    using that
  proof (induction ls arbitrary: x)
    case (Cons l ls)
    show ?case
    proof (cases "l = log")
      case True
      then show ?thesis using assms(7) by (simp add: erc20_task_by_log_def)
    next
      case False
      then obtain g where "\<And>y. erc20_tasks_by_logs (env_parse_log env) side ls y = (Panic, g y)"
        using Cons by (metis set_ConsD)
      then show ?thesis
        by (auto simp: erc20_task_by_log_def Let_def split: outcome.splits bridge_event.splits
            prod.splits)
    qed
  qed simp
  obtain g where "\<And>x. erc20_tasks_by_logs (env_parse_log env) side logs x = (Panic, g x)"
    using panics[OF assms(6)] by metis
  then show ?thesis
    using assms(1-5)
    by (simp add: erc20_collect_evm_events_def run_task_def task_simps erc20_append_logs_def)
qed

text \<open>
  C38: when the nonce and gas price query after signing fails, the mint transaction of an ERC-20
  operation is never sent by the bridge: the order is already stored as signed, no
  \<open>SendMintTransaction\<close> task was scheduled, and every retry of the task fails because the
  operation is no longer \<open>Scheduled\<close>.
\<close>

theorem erc20_prepare_not_retried:
  assumes "wf_store erc20_complete (s20_ops s)" and "get_operation (s20_ops s) i = Some p"
    and "op20_status p = Scheduled burn"
    and "get_evm_params (s20_config s) (op20_side p) = Some bp"
    and "get_evm_params (s20_config s) (other_side (op20_side p)) = Some mp"
    and "erc20_make_order (env_codec env) bp mp burn = Inr order"
    and "env_encode_and_sign env order = Some smo" and "\<And>lnk calls. env_request env lnk calls = None"
    and "run_task (erc20_prepare_mint_order env (\<lambda>_ x. x) i) s = (r, s')"
  shows "(\<exists>e. r = Err e) \<and> s20_tasks s' = s20_tasks s \<and>
    run_task (erc20_prepare_mint_order env' aw' i) s' =
      (Err (TaskExecutionFailed WrongStatus), s')"
proof -
  have "query_nonce_and_gas env lnk a = Err RequestRejected" for lnk a
    by (simp add: query_nonce_and_gas_def batch_query_def assms(8))
  then have "\<exists>e. (r, s') = (Err e, ops_update i \<lparr>op20_side = op20_side p,
      op20_status = MintOrderSigned (mo_src_token order) (mo_amount order) smo\<rparr> s)"
    using assms(2-7,9)
    by (auto simp: erc20_prepare_mint_order_def erc20_update_evm_params_def run_task_def task_simps
        Let_def ops_update_def call_def split: option.splits)
  then obtain e where r: "r = Err e" and s': "s' = ops_update i \<lparr>op20_side = op20_side p,
      op20_status = MintOrderSigned (mo_src_token order) (mo_amount order) smo\<rparr> s"
    by blast
  obtain w where w: "find_operation (s20_ops s) i = Some (w, p)"
    using assms(2) by (auto simp: get_operation_find)
  have "\<not> erc20_complete p" using assms(3) by (simp add: erc20_complete_iff)
  moreover have "\<not> erc20_complete \<lparr>op20_side = op20_side p,
      op20_status = MintOrderSigned (mo_src_token order) (mo_amount order) smo\<rparr>"
    by (simp add: erc20_complete_iff)
  ultimately have "get_operation (s20_ops s') i = Some \<lparr>op20_side = op20_side p,
      op20_status = MintOrderSigned (mo_src_token order) (mo_amount order) smo\<rparr>"
    using os.update_incomplete[OF assms(1) w] by (simp add: s' ops_update_def get_operation_find)
  then have "run_task (erc20_prepare_mint_order env' aw' i) s' =
      (Err (TaskExecutionFailed WrongStatus), s')"
    by (simp add: erc20_prepare_mint_order_def run_task_def task_simps Let_def)
  then show ?thesis using r s' by (simp add: ops_update_def)
qed

text \<open>
  updating the EVM parameters of a side writes back the whole record that was read before
  the calls. Whatever other tasks do meanwhile, after a successful update the next block to
  collect is the one read at the start: an advance made during the calls is undone, and its
  events are collected a second time.
\<close>

theorem erc20_params_lost_update:
  assumes "get_evm_params (s20_config s) side = Some initial"
    and "run_task (erc20_update_evm_params env aw side) s = (Ok (), s')"
  shows "\<exists>p. get_evm_params (s20_config s') side = Some p \<and> next_block p = next_block initial \<and>
    chain_id p = chain_id initial"
proof -
  have "wp (erc20_update_evm_params env aw side) (\<lambda>r c' s'. r = Ok () \<longrightarrow>
      (\<exists>p. get_evm_params (s20_config s') side = Some p \<and> next_block p = next_block initial \<and>
         chain_id p = chain_id initial)) s s"
    using assms(1)
    by (simp add: erc20_update_evm_params_def wp_simps config_mod_def update_params_get
        split: option.split outcome.split prod.split)
  then show ?thesis
    using run_task_wp[of _ "\<lambda>r s'. r = Ok () \<longrightarrow> (\<exists>p. get_evm_params (s20_config s') side = Some p \<and>
        next_block p = next_block initial \<and> chain_id p = chain_id initial)", OF _ assms(2)]
    by (auto elim!: wp_mono)
qed

text \<open>
  A mint event completes the operation it belongs to: when the wallet named by the event has
  exactly one live operation with the event's nonce, that operation was sent and the event's
  token is its token, the operation becomes minted (and may at once be evicted from a full log).
\<close>

theorem erc20_minted_completes:
  assumes "wf_store erc20_complete (s20_ops s)"
    and "erc20_wallet_of_minted cd minted side = Inr wallet"
    and "from_slice cd (me_from_token minted) = Some token"
    and "find_operation (s20_ops s) i = Some (wallet, p)"
    and "op20_status p = MintOrderSent token amount order tx" and "nonce i = me_nonce minted"
    and "\<And>j q. find_operation (s20_ops s) j = Some (wallet, q) \<Longrightarrow> nonce j = me_nonce minted \<Longrightarrow> j = i"
    and "run_task (erc20_remove_mint_order cd minted side) s = (r, s')"
  shows "r = Ok () \<and> find_operation (s20_ops s') i \<in>
    {Some (wallet, \<lparr>op20_side = op20_side p, op20_status = OrderMinted token amount tx\<rparr>), None}"
proof -
  have "List.find (\<lambda>(j, _). nonce j = me_nonce minted) (get_for_address (s20_ops s) wallet) = Some (i, p)"
    by (rule find_by_nonce[OF assms(1,4,6,7)])
  then have run: "(r, s') = (Ok (), ops_update i \<lparr>op20_side = op20_side p,
      op20_status = OrderMinted token amount tx\<rparr> s)"
    using assms(2,3,5,8)
    by (simp add: erc20_remove_mint_order_def run_task_def task_simps)
  have "\<not> erc20_complete p" using assms(5) by (simp add: erc20_complete_iff)
  from completed_or_evicted[OF assms(1,4) this] show ?thesis
    using run by (simp add: ops_update_def)
qed

subsection \<open>A concrete bridge\<close>

definition sample_config :: erc20_config where
  "sample_config = \<lparr>cfg20_admin = Principal [1],
     cfg20_base_evm = \<lparr>link = Http ''base'', bridge_contract = 0, params = Some (sample_params 1)\<rparr>,
     cfg20_wrapped_evm = \<lparr>link = Http ''wrapped'', bridge_contract = 0, params = Some (sample_params 2)\<rparr>,
     cfg20_base_bft_bridge = Some 101, cfg20_wrapped_bft_bridge = Some 102\<rparr>"

definition erc20_ready :: erc20_state where
  "erc20_ready = erc20_one_op\<lparr>s20_config := sample_config\<rparr>"

definition signing_env :: "u256 bridge_env" where
  "signing_env = offline_env\<lparr>env_encode_and_sign := (\<lambda>_. Some [1])\<rparr>"

lemma signing_env_simps [simp]:
  "env_codec signing_env = plain_codec"
  "env_encode_and_sign signing_env order = Some [1]"
  "env_request signing_env lnk calls = None"
  "env_signer_address signing_env = None"
  by (simp_all add: signing_env_def offline_env_def)

definition erc20_after_burn :: erc20_state where
  "erc20_after_burn =
     snd (erc20_task_by_log (sample_parser (Burnt sample_burn)) Base
       \<lparr>log_address = 0, log_topics = [], log_data = []\<rparr> (erc20_start\<lparr>s20_config := sample_config\<rparr>))"

lemma erc20_start_wf: "wf_store erc20_complete (s20_ops erc20_start)"
  by (simp add: erc20_start_def with_memory_wf default_store_options_def)

lemma erc20_after_burn_task:
  "erc20_task_by_log (sample_parser (Burnt sample_burn)) Base
     \<lparr>log_address = 0, log_topics = [], log_data = []\<rparr> (erc20_start\<lparr>s20_config := sample_config\<rparr>) =
   (Ok (Some (PrepareMintOrder 0, retry_options)), erc20_after_burn)"
  unfolding erc20_after_burn_def
  by (simp add: erc20_task_by_log_def sample_parser_burnt new_operation_alt erc20_start_def
      with_memory_def)

lemma erc20_after_burn_op:
  "get_operation (s20_ops erc20_after_burn) 0 = Some (erc20_payload_new Wrapped sample_burn)"
  "s20_config erc20_after_burn = sample_config"
  by (simp_all add: erc20_after_burn_def erc20_task_by_log_def sample_parser_burnt erc20_start_def
      get_operation_def get_with_id_def get_entry_def new_operation_def next_id_def with_memory_def
      omap_insert_def erc20_complete_def erc20_payload_new_def)

definition sample_order :: mint_order where
  "sample_order = (case erc20_make_order plain_codec (sample_params 2) (sample_params 1) sample_burn of
     Inr order \<Rightarrow> order)"

lemma sample_order_made:
  "erc20_make_order plain_codec (sample_params 2) (sample_params 1) sample_burn = Inr sample_order"
  by (simp add: sample_order_def erc20_make_order_def sample_burn_def plain_codec_def Let_def)

lemma erc20_after_burn_prepared:
  "run_task (erc20_prepare_mint_order signing_env (\<lambda>_ s. s) 0) erc20_after_burn =
    (Err (TaskExecutionFailed CallFailed), ops_update 0 \<lparr>op20_side = Wrapped,
       op20_status = MintOrderSigned (mo_src_token sample_order) (mo_amount sample_order) [1]\<rparr>
       erc20_after_burn)"
proof -
  have cfg: "get_evm_params sample_config Wrapped = Some (sample_params 2)"
    "get_evm_params sample_config Base = Some (sample_params 1)"
    "get_evm_params (s20_config (ops_update i p erc20_after_burn)) Wrapped = Some (sample_params 2)"
    for i p
    by (simp_all add: get_evm_params_def sample_config_def ops_update_def erc20_after_burn_op)
  show ?thesis
    using sample_order_made
    by (simp add: erc20_prepare_mint_order_def erc20_update_evm_params_def run_task_def task_simps
        erc20_after_burn_op cfg erc20_payload_new_def)
qed

lemma erc20_after_burn_wf: "wf_store erc20_complete (s20_ops erc20_after_burn)"
proof -
  have "s20_ops erc20_after_burn = snd (new_operation erc20_complete 7
      (erc20_payload_new Wrapped sample_burn) (s20_ops erc20_start))"
    by (simp add: erc20_after_burn_def erc20_task_by_log_def sample_parser_burnt erc20_start_def
        sample_burn_def split: prod.split)
  then show ?thesis
    using new_operation_wf[OF erc20_start_wf] by (simp add: erc20_start_def with_memory_def)
qed

theorem erc20_chain_ids_swapped_witness:
  "\<exists>order. env_encode_and_sign signing_env order = Some [1] \<and>
    mo_sender_chain_id order = 2 \<and> mo_recipient_chain_id order = 1 \<and> mo_nonce order = 3"
proof -
  let ?p = "\<lparr>op20_side = Wrapped,
    op20_status = MintOrderSigned (mo_src_token sample_order) (mo_amount sample_order) [1]\<rparr>"
  have "\<not> erc20_complete (erc20_payload_new Wrapped sample_burn)" "\<not> erc20_complete ?p"
    by (simp_all add: erc20_complete_iff erc20_payload_new_def)
  moreover obtain w where "find_operation (s20_ops erc20_after_burn) 0 =
      Some (w, erc20_payload_new Wrapped sample_burn)"
    using erc20_after_burn_op(1) by (auto simp: get_operation_find)
  ultimately have op: "get_operation (s20_ops (ops_update 0 ?p erc20_after_burn)) 0 = Some ?p"
    using os.update_incomplete[OF erc20_after_burn_wf] by (simp add: ops_update_def get_operation_find)
  have room: "0 < ids_left (s20_ops (erc20_start\<lparr>s20_config := sample_config\<rparr>))"
    by (simp add: erc20_start_def unat_gt_0)
  have wf: "wf_store erc20_complete (s20_ops (erc20_start\<lparr>s20_config := sample_config\<rparr>))"
    using erc20_start_wf by simp
  have params: "get_evm_params (s20_config (erc20_start\<lparr>s20_config := sample_config\<rparr>)) Base =
      Some (sample_params 1)"
    "get_evm_params (s20_config (erc20_start\<lparr>s20_config := sample_config\<rparr>)) (other_side Base) =
      Some (sample_params 2)"
    by (simp_all add: get_evm_params_def sample_config_def)
  show ?thesis
    using erc20_chain_ids_swapped[OF _ wf room sample_parser_burnt erc20_after_burn_task params
        erc20_after_burn_prepared op]
    by (auto simp: sample_params_def sample_burn_def)
qed

theorem erc20_notify_blocks_collection_witness:
  "run_task (erc20_collect_evm_events
     (offline_env\<lparr>env_block_number := (\<lambda>_. Some 20),
        env_get_logs := (\<lambda>_ _ p. if gl_from_block p = 10
          then Some [\<lparr>log_address = 0, log_topics = [], log_data = []\<rparr>] else Some []),
        env_parse_log := sample_parser (Notify
          \<lparr>ne_notification_type = 1, ne_tx_sender = 7, ne_user_data = []\<rparr>)\<rparr>) (\<lambda>_ s. s) Base)
     erc20_ready = (Panic, erc20_ready)"
proof -
  let ?log = "\<lparr>log_address = 0, log_topics = [], log_data = []\<rparr>"
  let ?n = "\<lparr>ne_notification_type = 1, ne_tx_sender = 7, ne_user_data = []\<rparr>"
  let ?env = "offline_env\<lparr>env_block_number := (\<lambda>_. Some 20),
    env_get_logs := (\<lambda>_ _ p. if gl_from_block p = 10 then Some [?log] else Some []),
    env_parse_log := sample_parser (Notify ?n)\<rparr>"
  have "collect_link ?env (Http ''base'') 10 20 101 = Some [?log]"
    by (simp add: collect_link_def collect_logs_def collect_logs_from_to_def
        collect_logs_loop.simps Let_def min_def)
  moreover have "from_log (sample_parser (Notify ?n)) ?log = Ok (Notify ?n)"
    by (simp add: from_log_def bridge_event_try_from_def try_from_no_parse sample_parser_def
        BURNT_EVENT_def MINTED_EVENT_def NOTIFY_EVENT_def)
      (simp add: notify_try_from_def decode_event_def sample_parser_def NOTIFY_EVENT_def
        notify_with_field_def notify_builder_default_def notify_build_def set_u32_def require_def
        as_u32_def)
  ultimately show ?thesis
    using erc20_notify_blocks_collection[of erc20_ready Base "cfg20_base_evm sample_config"
        "sample_params 1" 101 ?env 20 "[?log]" ?log ?n "\<lambda>_ s. s"]
    by (simp add: erc20_ready_def sample_config_def sample_params_def)
qed

theorem erc20_prepare_not_retried_witness:
  "run_task (erc20_prepare_mint_order signing_env (\<lambda>_ s. s) 0)
     (snd (run_task (erc20_prepare_mint_order signing_env (\<lambda>_ s. s) 0) erc20_after_burn)) =
   (Err (TaskExecutionFailed WrongStatus),
    snd (run_task (erc20_prepare_mint_order signing_env (\<lambda>_ s. s) 0) erc20_after_burn))"
  using erc20_prepare_not_retried[OF erc20_after_burn_wf erc20_after_burn_op(1) _ _ _ _ _ _
      erc20_after_burn_prepared, of sample_burn "sample_params 2" "sample_params 1" sample_order
      "[1]" signing_env "\<lambda>_ s. s"] sample_order_made
  by (simp add: erc20_after_burn_op erc20_payload_new_def get_evm_params_def sample_config_def
      erc20_after_burn_prepared)

theorem erc20_params_lost_update_witness:
  "\<exists>p. get_evm_params (s20_config (snd (run_task (erc20_update_evm_params
      (offline_env\<lparr>env_signer_address := Some 9, env_request := (\<lambda>_ _. Some (BatchResponse
         [Success (IdStr NONCE_ID) 4, Success (IdStr GAS_PRICE_ID) 6]))\<rparr>)
      (\<lambda>n s. if n = 1 then config_mod (update_params (\<lambda>p. p\<lparr>next_block := 21\<rparr>) Base) s else s)
      Base) erc20_ready))) Base = Some p \<and> next_block p = 10"
proof -
  let ?env = "offline_env\<lparr>env_signer_address := Some 9, env_request := (\<lambda>_ _. Some (BatchResponse
    [Success (IdStr NONCE_ID) 4, Success (IdStr GAS_PRICE_ID) 6]))\<rparr>"
  let ?aw = "\<lambda>n s. if n = 1 then config_mod (update_params (\<lambda>p. p\<lparr>next_block := 21\<rparr>) Base) s else s"
  have "query_nonce_and_gas ?env lnk a = Ok (4, 6)" for lnk a
    by (simp add: query_nonce_and_gas_def batch_query_def get_value_by_id_def NONCE_ID_def
        GAS_PRICE_ID_def offline_env_def as_u64_def)
  then have "fst (run_task (erc20_update_evm_params ?env ?aw Base) erc20_ready) = Ok ()"
    by (simp add: erc20_update_evm_params_def run_task_def task_simps erc20_ready_def sample_config_def
        get_evm_params_def)
  then have run: "run_task (erc20_update_evm_params ?env ?aw Base) erc20_ready =
      (Ok (), snd (run_task (erc20_update_evm_params ?env ?aw Base) erc20_ready))"
    by (simp add: prod_eq_iff)
  have init: "get_evm_params (s20_config erc20_ready) Base = Some (sample_params 1)"
    by (simp add: erc20_ready_def sample_config_def get_evm_params_def)
  have block: "next_block (sample_params 1) = 10" by (simp add: sample_params_def)
  show ?thesis
    using erc20_params_lost_update[OF init run] unfolding block by blast
qed

definition erc20_sent :: erc20_state where
  "erc20_sent = erc20_start\<lparr>s20_ops := snd (new_operation erc20_complete 7
     \<lparr>op20_side = Wrapped, op20_status = MintOrderSent (Id256 (replicate 32 4)) 100 [1] 9\<rparr>
     (with_memory None 0))\<rparr>"

theorem erc20_minted_completes_witness:
  "fst (run_task (erc20_remove_mint_order plain_codec \<lparr>me_amount = 100,
     me_from_token = replicate 32 4, me_sender_id = [], me_to_erc20 = 1, me_recipient = 7,
     me_nonce = 0\<rparr> Base) erc20_sent) = Ok ()"
proof -
  let ?p = "\<lparr>op20_side = Wrapped, op20_status = MintOrderSent (Id256 (replicate 32 4)) 100 [1] 9\<rparr>"
  let ?m = "\<lparr>me_amount = 100, me_from_token = replicate 32 4, me_sender_id = [], me_to_erc20 = 1,
    me_recipient = 7, me_nonce = 0\<rparr>"
  have wf: "wf_store erc20_complete (s20_ops erc20_sent)"
    by (simp add: erc20_sent_def)
      (intro new_operation_wf with_memory_wf; simp add: with_memory_def default_store_options_def)
  have find: "find_operation (s20_ops erc20_sent) j = (if j = 0 then Some (7, ?p) else None)" for j
    by (simp add: erc20_sent_def find_operation_def get_entry_def new_operation_def next_id_def
        with_memory_def omap_insert_def erc20_complete_def)
  have nonce: "nonce 0 = me_nonce ?m" by (simp add: nonce_def)
  have wallet: "erc20_wallet_of_minted plain_codec ?m Base = Inr 7"
    and token: "from_slice plain_codec (me_from_token ?m) = Some (Id256 (replicate 32 4))"
    by (simp_all add: erc20_wallet_of_minted_def plain_codec_def)
  have op: "find_operation (s20_ops erc20_sent) 0 = Some (7, ?p)" by (simp add: find)
  have unique: "j = 0" if "find_operation (s20_ops erc20_sent) j = Some (7, q)" for j q
    using that by (simp add: find split: if_splits)
  obtain r s' where run: "run_task (erc20_remove_mint_order plain_codec ?m Base) erc20_sent = (r, s')"
    by force
  show ?thesis
    using erc20_minted_completes[OF wf wallet token op _ nonce unique run] by (simp add: run)
qed

end
