(* ===== verification/Mint_Orders.thy ===== *)
theory Mint_Orders
  imports Stable_Map
begin

text \<open>
  The table of signed mint orders (\<open>minter-contract-utils/src/mint_orders.rs\<close>): a stable
  multimap from (sender, source token) and an operation id to the signed order. The locale
  \<open>order_book\<close> is the interface the bridges use it through.
\<close>

section \<open>Keys\<close>

text \<open>\<open>Id256\<close> derives \<open>Ord\<close>: the lexicographic order of its bytes.\<close>

instantiation id256 :: linorder
begin

definition less_eq_id256 :: "id256 \<Rightarrow> id256 \<Rightarrow> bool" where
  "less_eq_id256 x y \<longleftrightarrow> id256_bytes x \<le> id256_bytes y"

definition less_id256 :: "id256 \<Rightarrow> id256 \<Rightarrow> bool" where
  "less_id256 x y \<longleftrightarrow> id256_bytes x < id256_bytes y"

instance
  by standard (auto simp: less_eq_id256_def less_id256_def id256.expand)

end

text \<open>\<open>struct MintOrderKey\<close>\<close>

datatype mint_order_key = MintOrderKey (key_sender: id256) (key_src_token: id256)

text \<open>The derived \<open>Ord\<close> compares the fields in the order they are declared.\<close>

instantiation mint_order_key :: linorder
begin

definition less_eq_mint_order_key :: "mint_order_key \<Rightarrow> mint_order_key \<Rightarrow> bool" where
  "less_eq_mint_order_key x y \<longleftrightarrow>
     key_sender x < key_sender y \<or>
     key_sender x = key_sender y \<and> key_src_token x \<le> key_src_token y"

definition less_mint_order_key :: "mint_order_key \<Rightarrow> mint_order_key \<Rightarrow> bool" where
  "less_mint_order_key x y \<longleftrightarrow>
     key_sender x < key_sender y \<or>
     key_sender x = key_sender y \<and> key_src_token x < key_src_token y"

instance
  by standard
    (auto simp: less_eq_mint_order_key_def less_mint_order_key_def intro: mint_order_key.expand)

end

text \<open>\<open>impl Storable for MintOrderKey\<close>; the slices of \<open>from_bytes\<close> panic when out of range.\<close>

definition key_to_bytes :: "mint_order_key \<Rightarrow> bytes" where
  "key_to_bytes k = id256_bytes (key_sender k) @ id256_bytes (key_src_token k)"

definition key_from_bytes :: "bytes \<Rightarrow> ('e, mint_order_key) outcome" where
  "key_from_bytes bs =
     (if length bs < 64 then Panic
      else Ok (MintOrderKey (Id256 (take 32 bs)) (Id256 (take 32 (drop 32 bs)))))"

definition wf_key :: "mint_order_key \<Rightarrow> bool" where
  "wf_key k \<longleftrightarrow> wf_id256 (key_sender k) \<and> wf_id256 (key_src_token k)"

section \<open>The table\<close>

type_synonym mint_orders = "(mint_order_key, u32, signed_mint_order) multimap"

text \<open>\<open>MintOrders::{new, insert, get, get_all, clear, remove}\<close>\<close>

definition mint_orders_new :: mint_orders where
  "mint_orders_new = []"

definition mint_orders_insert ::
  "id256 \<Rightarrow> id256 \<Rightarrow> u32 \<Rightarrow> signed_mint_order \<Rightarrow> mint_orders \<Rightarrow>
     signed_mint_order option \<times> mint_orders"
where
  "mint_orders_insert sender src_token operation_id order m =
     (let key = MintOrderKey sender src_token
      in (mmap_get m key operation_id, mmap_insert key operation_id order m))"

definition mint_orders_get ::
  "mint_orders \<Rightarrow> id256 \<Rightarrow> id256 \<Rightarrow> u32 \<Rightarrow> signed_mint_order option"
where
  "mint_orders_get m sender src_token operation_id =
     mmap_get m (MintOrderKey sender src_token) operation_id"

definition mint_orders_get_all ::
  "mint_orders \<Rightarrow> id256 \<Rightarrow> id256 \<Rightarrow> (u32 \<times> signed_mint_order) list"
where
  "mint_orders_get_all m sender src_token = mmap_row m (MintOrderKey sender src_token)"

definition mint_orders_clear :: "mint_orders \<Rightarrow> mint_orders" where
  "mint_orders_clear m = []"

definition mint_orders_remove ::
  "id256 \<Rightarrow> id256 \<Rightarrow> u32 \<Rightarrow> mint_orders \<Rightarrow> signed_mint_order option \<times> mint_orders"
where
  "mint_orders_remove sender src_token operation_id m =
     (let key = MintOrderKey sender src_token
      in (mmap_get m key operation_id, mmap_remove key operation_id m))"

section \<open>The order book interface\<close>

text \<open>
  A book of orders, addressed by an owner (for the bridges: sender and source token) and a
  nonce: what is read after a write, and what a listing returns.
\<close>

locale order_book =
  fixes inv :: "'b \<Rightarrow> bool"
    and find_order :: "'b \<Rightarrow> 'o \<Rightarrow> u32 \<Rightarrow> signed_mint_order option"
    and list_orders :: "'b \<Rightarrow> 'o \<Rightarrow> (u32 \<times> signed_mint_order) list"
    and put_order :: "'o \<Rightarrow> u32 \<Rightarrow> signed_mint_order \<Rightarrow> 'b \<Rightarrow> 'b"
    and drop_order :: "'o \<Rightarrow> u32 \<Rightarrow> 'b \<Rightarrow> 'b"
  assumes put_inv: "inv b \<Longrightarrow> inv (put_order w n s b)"
    and drop_inv: "inv b \<Longrightarrow> inv (drop_order w n b)"
    and find_put: "find_order (put_order w n s b) w' n' =
        (if w' = w \<and> n' = n then Some s else find_order b w' n')"
    and find_drop: "find_order (drop_order w n b) w' n' =
        (if w' = w \<and> n' = n then None else find_order b w' n')"
    and list_find: "inv b \<Longrightarrow> (n, s) \<in> set (list_orders b w) \<longleftrightarrow> find_order b w n = Some s"
    and list_sorted: "inv b \<Longrightarrow> sorted_wrt (<) (map fst (list_orders b w))"
begin

lemma list_determined:
  assumes "inv b" and "inv b'" and "\<And>n. find_order b w n = find_order b' w n"
  shows "list_orders b w = list_orders b' w"
proof -
  have "set (list_orders b w) = set (list_orders b' w)"
    using assms list_find by (metis (no_types, lifting) subset_antisym subsetI surj_pair)
  moreover have "sorted_wrt (\<lambda>x y. fst x < fst y) (list_orders b w)"
    and "sorted_wrt (\<lambda>x y. fst x < fst y) (list_orders b' w)"
    using list_sorted assms(1,2) by (simp_all add: sorted_wrt_map)
  ultimately show ?thesis
    using sorted_wrt_fst_unique by blast
qed

text \<open>Writing for one owner leaves the listing of every other owner unchanged.\<close>

lemma put_other_listing: "inv b \<Longrightarrow> w' \<noteq> w \<Longrightarrow> list_orders (put_order w n s b) w' = list_orders b w'"
  by (rule list_determined) (simp_all add: put_inv find_put)

lemma put_drop:
  "inv b \<Longrightarrow> find_order b w n = None \<Longrightarrow> list_orders (drop_order w n (put_order w n s b)) w' = list_orders b w'"
  by (rule list_determined) (auto simp: put_inv drop_inv find_put find_drop)

text \<open>A second order under the same owner and nonce replaces the first one.\<close>

lemma put_put_lost:
  "inv b \<Longrightarrow> s \<noteq> s' \<Longrightarrow> (n, s) \<notin> set (list_orders (put_order w n s' (put_order w n s b)) w)"
  by (simp add: list_find put_inv find_put)

end

lemma mmap_get_insert [omap_simps]:
  "mmap_get (mmap_insert k j v m) k' j' = (if k' = k \<and> j' = j then Some v else mmap_get m k' j')"
  by (simp add: mmap_get_def omap_simps)

lemma mmap_get_remove [omap_simps]:
  "mmap_get (mmap_remove k j m) k' j' = (if k' = k \<and> j' = j then None else mmap_get m k' j')"
  by (simp add: mmap_get_def omap_simps)

lemma mmap_row_iff: "mmap_ordered m \<Longrightarrow> (j, v) \<in> set (mmap_row m k) \<longleftrightarrow> mmap_get m k j = Some v"
  using om.get_entries[OF mmap_row_ordered] by (metis mmap_get_def)

lemma mmap_row_sorted: "mmap_ordered m \<Longrightarrow> sorted_wrt (<) (map fst (mmap_row m k))"
  using mmap_row_ordered by (simp add: ordered_def)

text \<open>\<open>MintOrders\<close> is an order book whose owners are pairs of sender and source token.\<close>

interpretation mo: order_book
  mmap_ordered
  "\<lambda>m (sender, token). mint_orders_get m sender token"
  "\<lambda>m (sender, token). mint_orders_get_all m sender token"
  "\<lambda>(sender, token) n s m. snd (mint_orders_insert sender token n s m)"
  "\<lambda>(sender, token) n m. snd (mint_orders_remove sender token n m)"
  by unfold_locales
    (auto simp: mint_orders_get_def mint_orders_get_all_def mint_orders_insert_def
      mint_orders_remove_def Let_def omap_simps mmap_ordered_insert mmap_ordered_remove mmap_row_iff
      mmap_row_sorted split: prod.splits)

section \<open>Properties\<close>

lemma lex_append_same_length:
  fixes xs ys :: "'a::linorder list"
  assumes "length xs = length ys"
  shows "xs @ us < ys @ vs \<longleftrightarrow> xs < ys \<or> xs = ys \<and> us < vs"
  using assms by (induction xs ys rule: list_induct2) auto

text \<open>
  The stored form of an order key is a round trip, and the byte order of stored keys is the
  derived order of the keys, so that the multimap iterates in key order.
\<close>

theorem mint_order_key_storable:
  assumes "wf_key k" and "wf_key k'"
  shows "key_from_bytes (key_to_bytes k) = Ok k \<and>
    (key_to_bytes k < key_to_bytes k' \<longleftrightarrow> k < k')"
proof -
  have "key_to_bytes k < key_to_bytes k' \<longleftrightarrow> k < k'"
    using assms unfolding key_to_bytes_def wf_key_def wf_id256_def
    by (subst lex_append_same_length)
      (auto simp: less_mint_order_key_def less_id256_def id256.expand)
  then show ?thesis
    using assms by (simp add: key_to_bytes_def key_from_bytes_def wf_key_def wf_id256_def)
qed

theorem mint_order_key_storable_witness:
  "key_from_bytes (key_to_bytes (MintOrderKey (Id256 (replicate 32 1)) (Id256 (replicate 32 2)))) =
     (Ok (MintOrderKey (Id256 (replicate 32 1)) (Id256 (replicate 32 2))) :: (unit, _) outcome)"
  using mint_order_key_storable
    [of "MintOrderKey (Id256 (replicate 32 1)) (Id256 (replicate 32 2))"
        "MintOrderKey (Id256 (replicate 32 1)) (Id256 (replicate 32 2))"]
  by (simp add: wf_key_def wf_id256_def)

text \<open>
  C24: the table of mint orders implements an order book: \<open>insert\<close> returns the order it replaces
  and is read back by \<open>get\<close>, \<open>get_all\<close> lists exactly the stored orders of the sender and token
  in the order of their operation ids, other senders and tokens are untouched, and \<open>remove\<close>
  undoes an insertion at a free id.
\<close>

theorem mint_orders_book:
  assumes "mmap_ordered m" and "mint_orders_insert a t n s m = (old, m')"
  shows "old = mint_orders_get m a t n
    \<and> mint_orders_get m' a t n = Some s
    \<and> set (mint_orders_get_all m' a t) = {(j, x). mint_orders_get m' a t j = Some x}
    \<and> sorted_wrt (<) (map fst (mint_orders_get_all m' a t))
    \<and> ((b, u) \<noteq> (a, t) \<longrightarrow> mint_orders_get_all m' b u = mint_orders_get_all m b u)
    \<and> (old = None \<longrightarrow>
         mint_orders_get_all (snd (mint_orders_remove a t n m')) b u = mint_orders_get_all m b u)"
proof -
  have m': "m' = snd (mint_orders_insert a t n s m)" using assms(2) by simp
  have old: "old = mint_orders_get m a t n"
    using assms(2) by (auto simp: mint_orders_insert_def mint_orders_get_def Let_def)
  have inv: "mmap_ordered m'"
    using mo.put_inv[OF assms(1), of "(a, t)" n s] m' by simp
  show ?thesis
    using old mo.find_put[of "(a, t)" n s m "(a, t)" n] mo.list_find[OF inv, of _ _ "(a, t)"]
      mo.list_sorted[OF inv, of "(a, t)"] mo.put_other_listing[OF assms(1), of "(b, u)" "(a, t)" n s]
      mo.put_drop[OF assms(1), of "(a, t)" n s "(b, u)"]
    unfolding m' by (intro conjI) auto
qed

theorem mint_orders_book_witness:
  "mint_orders_get (snd (mint_orders_insert (Id256 [1]) (Id256 [2]) 5 [7] mint_orders_new))
     (Id256 [1]) (Id256 [2]) 5 = Some [7]"
proof -
  have "mmap_ordered mint_orders_new" by (simp add: mint_orders_new_def mmap_ordered_def)
  then show ?thesis
    using mint_orders_book by (metis prod.collapse)
qed

end
