(* ===== verification/Icrc2_Token.thy ===== *)
theory Icrc2_Token
  imports Bridge_Env
begin

text \<open>
  Token transfers of the ICRC-2 bridge (\<open>icrc2-minter/src/tokens/{icrc1, icrc2}.rs\<close>): the cache of
  token configurations, and \<open>mint\<close> and \<open>burn\<close>, which move tokens out of and into the account of
  the bridge. The ledger canisters are a parameter: what each of their methods answers at each
  call, \<open>Inl\<close> a rejected call.
\<close>

section \<open>Types\<close>

datatype rejection_code = SysFatal | SysTransient | DestinationInvalid | CanisterReject | CanisterError | Unknown

datatype transfer_error =
    BadFee nat | BadBurn nat | InsufficientFunds nat | TooOld | CreatedInFuture u64
  | TemporarilyUnavailable | Duplicate nat | GenericError nat string

datatype transfer_from_error =
    FromBadFee nat | FromBadBurn nat | FromInsufficientFunds nat | InsufficientAllowance nat
  | FromTooOld | FromCreatedInFuture u64 | FromDuplicate nat | FromTemporarilyUnavailable
  | FromGenericError nat string

definition is_bad_fee :: "transfer_error \<Rightarrow> bool" where
  "is_bad_fee e \<longleftrightarrow> (case e of BadFee _ \<Rightarrow> True | _ \<Rightarrow> False)"

definition is_from_bad_fee :: "transfer_from_error \<Rightarrow> bool" where
  "is_from_bad_fee e \<longleftrightarrow> (case e of FromBadFee _ \<Rightarrow> True | _ \<Rightarrow> False)"

text \<open>\<open>minter_did::error::Error\<close>, as far as the token calls produce it.\<close>

datatype icrc_error =
    InterCanisterCallFailed rejection_code
  | Icrc2TransferError transfer_error
  | Icrc2TransferFromError transfer_from_error
  | InvalidBurnOperation

record account =
  acc_owner :: principal
  acc_subaccount :: "bytes option"

record token_info =
  ti_name :: string
  ti_symbol :: string
  ti_decimals :: u8

record token_configuration =
  tc_principal :: principal
  tc_fee :: nat
  tc_minting_account :: account
  tc_info :: token_info

record transfer_arg =
  ta_to :: account
  ta_amount :: nat
  ta_fee :: "nat option"
  ta_from_subaccount :: "bytes option"

record transfer_from_args =
  tf_from :: account
  tf_spender_subaccount :: "bytes option"
  tf_to :: account
  tf_amount :: nat
  tf_fee :: "nat option"

record success =
  su_tx_id :: nat
  su_amount :: nat

text \<open>The answers of a token canister; \<open>n\<close> numbers the attempts of one operation.\<close>

record icrc_ledger =
  led_fee :: "nat \<Rightarrow> principal \<Rightarrow> rejection_code + nat"
  led_minting_account :: "nat \<Rightarrow> principal \<Rightarrow> rejection_code + account option"
  led_name :: "nat \<Rightarrow> principal \<Rightarrow> rejection_code + string"
  led_symbol :: "nat \<Rightarrow> principal \<Rightarrow> rejection_code + string"
  led_decimals :: "nat \<Rightarrow> principal \<Rightarrow> rejection_code + u8"
  led_transfer :: "nat \<Rightarrow> principal \<Rightarrow> transfer_arg \<Rightarrow> rejection_code + (transfer_error + nat)"
  led_transfer_from ::
    "nat \<Rightarrow> principal \<Rightarrow> transfer_from_args \<Rightarrow> rejection_code + (transfer_from_error + nat)"

type_synonym token_cache = "principal \<rightharpoonup> token_configuration"

text \<open>Chaining calls whose rejection is passed on (\<open>.await?\<close>).\<close>

definition after :: "rejection_code + 'a \<Rightarrow> ('a \<Rightarrow> icrc_error + 'b) \<Rightarrow> icrc_error + 'b" where
  "after r k = (case r of Inl code \<Rightarrow> Inl (InterCanisterCallFailed code) | Inr x \<Rightarrow> k x)"

section \<open>Token configuration\<close>

definition query_icrc1_token_info :: "icrc_ledger \<Rightarrow> nat \<Rightarrow> principal \<Rightarrow> icrc_error + token_info" where
  "query_icrc1_token_info led n token =
     after (led_name led n token) (\<lambda>name.
     after (led_symbol led n token) (\<lambda>symbol.
     after (led_decimals led n token) (\<lambda>decimals.
       Inr \<lparr>ti_name = name, ti_symbol = symbol, ti_decimals = decimals\<rparr>)))"

definition query_icrc1_configuration ::
  "icrc_ledger \<Rightarrow> nat \<Rightarrow> principal \<Rightarrow> icrc_error + token_configuration"
where
  "query_icrc1_configuration led n token =
     after (led_fee led n token) (\<lambda>fee.
     after (led_minting_account led n token) (\<lambda>minting.
     after (led_name led n token) (\<lambda>name.
     after (led_symbol led n token) (\<lambda>symbol.
     after (led_decimals led n token) (\<lambda>decimals.
       Inr \<lparr>tc_principal = token, tc_fee = fee,
         tc_minting_account = (case minting of
             None \<Rightarrow> \<lparr>acc_owner = ManagementCanister, acc_subaccount = None\<rparr> | Some a \<Rightarrow> a),
         tc_info = \<lparr>ti_name = name, ti_symbol = symbol, ti_decimals = decimals\<rparr>\<rparr>)))))"

definition cache_ic_token_configuration :: "token_configuration \<Rightarrow> token_cache \<Rightarrow> token_cache" where
  "cache_ic_token_configuration config cache = cache(tc_principal config \<mapsto> config)"

definition refresh_token_configuration ::
  "icrc_ledger \<Rightarrow> nat \<Rightarrow> principal \<Rightarrow> token_cache \<Rightarrow> (icrc_error + token_configuration) \<times> token_cache"
where
  "refresh_token_configuration led n token cache = (case query_icrc1_configuration led n token of
       Inl e \<Rightarrow> (Inl e, cache)
     | Inr config \<Rightarrow> (Inr config, cache_ic_token_configuration config cache))"

definition get_token_configuration ::
  "icrc_ledger \<Rightarrow> nat \<Rightarrow> principal \<Rightarrow> token_cache \<Rightarrow> (icrc_error + token_configuration) \<times> token_cache"
where
  "get_token_configuration led n token cache = (case cache token of
       Some config \<Rightarrow> (Inr config, cache)
     | None \<Rightarrow> (case query_icrc1_configuration led n token of
           Inl e \<Rightarrow> (Inl e, cache)
         | Inr config \<Rightarrow> (Inr config, cache_ic_token_configuration config cache)))"

definition query_token_info_or_read_from_cache ::
  "icrc_ledger \<Rightarrow> principal \<Rightarrow> token_cache \<Rightarrow> token_info option \<times> token_cache"
where
  "query_token_info_or_read_from_cache led token cache =
     (case query_icrc1_token_info led 0 token of
        Inl _ \<Rightarrow> (map_option tc_info (cache token), cache)
      | Inr queried \<Rightarrow>
          (Some queried, (case cache token of
             None \<Rightarrow> cache
           | Some config \<Rightarrow> cache_ic_token_configuration (config\<lparr>tc_info := queried\<rparr>) cache)))"

section \<open>Transfers\<close>

text \<open>
  \<open>icrc2::mint\<close>. The recursive call after a \<open>BadFee\<close> answer passes \<open>repeat_on_bad_fee = false\<close>.
\<close>

function icrc2_mint ::
  "icrc_ledger \<Rightarrow> nat \<Rightarrow> principal \<Rightarrow> principal \<Rightarrow> nat \<Rightarrow> bool \<Rightarrow> token_cache \<Rightarrow>
     (icrc_error + success) \<times> token_cache"
where
  "icrc2_mint led n token recipient amount repeat_on_bad_fee cache =
     (case get_token_configuration led n token cache of
        (Inl e, cache) \<Rightarrow> (Inl e, cache)
      | (Inr config, cache) \<Rightarrow>
          let fee = tc_fee config in
          if amount < fee then (Inl InvalidBurnOperation, cache)
          else let effective_amount = amount - fee in
          if effective_amount = 0 then (Inl InvalidBurnOperation, cache)
          else (case led_transfer led n token
                  \<lparr>ta_to = \<lparr>acc_owner = recipient, acc_subaccount = None\<rparr>,
                   ta_amount = effective_amount, ta_fee = Some fee, ta_from_subaccount = None\<rparr> of
              Inl code \<Rightarrow> (Inl (InterCanisterCallFailed code), cache)
            | Inr (Inl e) \<Rightarrow>
                if repeat_on_bad_fee \<and> is_bad_fee e
                then (case refresh_token_configuration led (n + 1) token cache of
                    (Inl e', cache) \<Rightarrow> (Inl e', cache)
                  | (Inr _, cache) \<Rightarrow>
                      icrc2_mint led (n + 1) token recipient amount False cache)
                else (Inl (Icrc2TransferError e), cache)
            | Inr (Inr tx_id) \<Rightarrow> (Inr \<lparr>su_tx_id = tx_id, su_amount = effective_amount\<rparr>, cache)))"
  by pat_completeness auto
termination
  by (relation "measure (\<lambda>(_, _, _, _, _, b, _). if b then 1 else 0)") auto

declare icrc2_mint.simps [simp del]

text \<open>\<open>icrc2::burn\<close>\<close>

function icrc2_burn ::
  "icrc_ledger \<Rightarrow> nat \<Rightarrow> principal \<Rightarrow> principal \<Rightarrow> account \<Rightarrow> bytes option \<Rightarrow> nat \<Rightarrow> bool \<Rightarrow>
     token_cache \<Rightarrow> (icrc_error + success) \<times> token_cache"
where
  "icrc2_burn led n self token from spender_subaccount amount repeat_on_bad_fee cache =
     (if amount = 0 then (Inl InvalidBurnOperation, cache)
      else (case led_transfer_from led n token
              \<lparr>tf_from = from, tf_spender_subaccount = spender_subaccount,
               tf_to = \<lparr>acc_owner = self, acc_subaccount = None\<rparr>, tf_amount = amount,
               tf_fee = None\<rparr> of
          Inl code \<Rightarrow> (Inl (InterCanisterCallFailed code), cache)
        | Inr (Inl e) \<Rightarrow>
            if repeat_on_bad_fee \<and> is_from_bad_fee e
            then (case refresh_token_configuration led (n + 1) token cache of
                (Inl e', cache) \<Rightarrow> (Inl e', cache)
              | (Inr _, cache) \<Rightarrow>
                  icrc2_burn led (n + 1) self token from spender_subaccount amount False cache)
            else (Inl (Icrc2TransferFromError e), cache)
        | Inr (Inr tx_id) \<Rightarrow> (Inr \<lparr>su_tx_id = tx_id, su_amount = amount\<rparr>, cache)))"
  by pat_completeness auto
termination
  by (relation "measure (\<lambda>(_, _, _, _, _, _, _, b, _). if b then 1 else 0)") auto

declare icrc2_burn.simps [simp del]

section \<open>Properties\<close>

text \<open>A cache entry always is the configuration of the token it is stored under.\<close>

definition wf_cache :: "token_cache \<Rightarrow> bool" where
  "wf_cache cache \<longleftrightarrow> (\<forall>token config. cache token = Some config \<longrightarrow> tc_principal config = token)"

lemma query_configuration_principal:
  "query_icrc1_configuration led n token = Inr config \<Longrightarrow> tc_principal config = token"
  by (auto simp: query_icrc1_configuration_def after_def split: sum.splits)

lemma refresh_token_configuration_wf:
  "wf_cache cache \<Longrightarrow> wf_cache (snd (refresh_token_configuration led n token cache))"
  by (auto simp: wf_cache_def refresh_token_configuration_def cache_ic_token_configuration_def
      split: sum.split)

lemma get_token_configuration_cached:
  "get_token_configuration led n token cache = (Inr config, cache') \<Longrightarrow> wf_cache cache \<Longrightarrow>
     cache' token = Some config"
  by (auto simp: get_token_configuration_def cache_ic_token_configuration_def
      dest: query_configuration_principal split: option.splits sum.splits)

text \<open>
  C26: a successful \<open>mint\<close> pays the recipient the amount minus the fee the ledger was asked for, and
  never pays nothing: the ledger has accepted a transfer of exactly that amount with that fee,
  and fee and payment add up to the burnt amount.
\<close>

theorem icrc2_mint_pays_amount_minus_fee:
  assumes "icrc2_mint led n token recipient amount b cache = (Inr res, cache')"
  shows "\<exists>fee k. su_amount res + fee = amount \<and> 0 < su_amount res \<and>
    led_transfer led k token \<lparr>ta_to = \<lparr>acc_owner = recipient, acc_subaccount = None\<rparr>,
      ta_amount = su_amount res, ta_fee = Some fee, ta_from_subaccount = None\<rparr> = Inr (Inr (su_tx_id res))"
  using assms
proof (induction led n token recipient amount b cache rule: icrc2_mint.induct)
  case (1 led n token recipient amount b cache)
  obtain config c1 where conf: "get_token_configuration led n token cache = (Inr config, c1)"
    and fee: "\<not> amount < tc_fee config" "amount - tc_fee config \<noteq> 0"
    using 1(2) by (subst (asm) icrc2_mint.simps)
      (auto simp: Let_def split: prod.splits sum.splits if_splits)
  let ?arg = "\<lparr>ta_to = \<lparr>acc_owner = recipient, acc_subaccount = None\<rparr>,
    ta_amount = amount - tc_fee config, ta_fee = Some (tc_fee config), ta_from_subaccount = None\<rparr>"
  consider (paid) tx where "led_transfer led n token ?arg = Inr (Inr tx)"
      "res = \<lparr>su_tx_id = tx, su_amount = amount - tc_fee config\<rparr>"
    | (again) e c2 conf2 where "led_transfer led n token ?arg = Inr (Inl e)"
      "b \<and> is_bad_fee e" "refresh_token_configuration led (n + 1) token c1 = (Inr conf2, c2)"
      "icrc2_mint led (n + 1) token recipient amount False c2 = (Inr res, cache')"
    using 1(2) conf fee
    by (subst (asm) icrc2_mint.simps) (auto simp: Let_def split: prod.splits sum.splits if_splits)
  then show ?case
  proof cases
    case paid
    then show ?thesis
      using fee by (intro exI[of _ "tc_fee config"] exI[of _ n]) auto
  next
    case again
    show ?thesis
      by (rule 1(1)[OF conf[symmetric] refl refl fee(1) refl fee(2) again(1) refl again(2)
            again(3)[symmetric] refl again(4)])
  qed
qed

definition sample_ledger :: "nat \<Rightarrow> icrc_ledger" where
  "sample_ledger fee = \<lparr>led_fee = (\<lambda>_ _. Inr fee), led_minting_account = (\<lambda>_ _. Inr None),
     led_name = (\<lambda>_ _. Inr ''token''), led_symbol = (\<lambda>_ _. Inr ''TKN''),
     led_decimals = (\<lambda>_ _. Inr 8),
     led_transfer = (\<lambda>_ _ arg. if ta_fee arg = Some fee then Inr (Inr 1) else Inr (Inl (BadFee fee))),
     led_transfer_from = (\<lambda>_ _ _. Inr (Inr 2))\<rparr>"

definition stale_cache :: token_cache where
  "stale_cache = [Principal [5] \<mapsto> \<lparr>tc_principal = Principal [5], tc_fee = 3,
     tc_minting_account = \<lparr>acc_owner = ManagementCanister, acc_subaccount = None\<rparr>,
     tc_info = \<lparr>ti_name = ''token'', ti_symbol = ''TKN'', ti_decimals = 8\<rparr>\<rparr>]"

lemma sample_mint:
  "\<exists>c. icrc2_mint (sample_ledger 10) 0 (Principal [5]) (Principal [6]) 15 True stale_cache =
     (Inr \<lparr>su_tx_id = 1, su_amount = 5\<rparr>, c)"
  by (subst icrc2_mint.simps, subst icrc2_mint.simps)
    (simp add: get_token_configuration_def stale_cache_def sample_ledger_def is_bad_fee_def
      refresh_token_configuration_def query_icrc1_configuration_def after_def
      cache_ic_token_configuration_def)

theorem icrc2_mint_pays_amount_minus_fee_witness:
  "\<exists>fee k. (5 :: nat) + fee = 15 \<and> led_transfer (sample_ledger 10) k (Principal [5])
     \<lparr>ta_to = \<lparr>acc_owner = Principal [6], acc_subaccount = None\<rparr>, ta_amount = 5, ta_fee = Some fee,
      ta_from_subaccount = None\<rparr> = Inr (Inr 1)"
proof -
  obtain c where "icrc2_mint (sample_ledger 10) 0 (Principal [5]) (Principal [6]) 15 True stale_cache =
     (Inr \<lparr>su_tx_id = 1, su_amount = 5\<rparr>, c)"
    using sample_mint by blast
  from icrc2_mint_pays_amount_minus_fee[OF this] show ?thesis by auto
qed



end
