(* ===== verification/Icrc2_Minter.thy ===== *)
theory Icrc2_Minter
  imports Icrc2_Token
begin

text \<open>
  The ICRC-2 bridge (\<open>icrc2-minter\<close>): deposits burn ICRC-2 tokens and mint wrapped ERC-20 tokens,
  withdrawals burn wrapped tokens and transfer ICRC-2 tokens, or are refunded by a mint order.
  Configuration and access list (\<open>state/\<close>), the canister's guarded calls and their inspection
  (\<open>canister.rs\<close>, \<open>canister/inspect.rs\<close>), operations (\<open>operation.rs\<close>) and tasks (\<open>tasks.rs\<close>).
\<close>

section \<open>Configuration and access control\<close>

record icrc2_config =
  cfg2_owner :: principal
  cfg2_evm_principal :: principal
  cfg2_evm_params :: "evm_params option"
  cfg2_bft_bridge_contract :: "h160 option"

definition icrc2_default_config :: icrc2_config where
  "icrc2_default_config = \<lparr>cfg2_owner = ManagementCanister, cfg2_evm_principal = Anonymous,
     cfg2_evm_params = None, cfg2_bft_bridge_contract = None\<rparr>"

text \<open>\<open>Config::{reset, set_owner, set_evm_principal, update_evm_params, set_bft_bridge_contract}\<close>\<close>

definition icrc2_config_reset :: "principal \<Rightarrow> principal \<Rightarrow> icrc2_config" where
  "icrc2_config_reset owner evm_principal = \<lparr>cfg2_owner = owner, cfg2_evm_principal = evm_principal,
     cfg2_evm_params = None, cfg2_bft_bridge_contract = None\<rparr>"

definition icrc2_update_params :: "(evm_params \<Rightarrow> evm_params) \<Rightarrow> icrc2_config \<Rightarrow> icrc2_config" where
  "icrc2_update_params f cfg = cfg\<lparr>cfg2_evm_params := Some (f (case cfg2_evm_params cfg of
     None \<Rightarrow> \<lparr>chain_id = 0, next_block = 0, evm_nonce = 0, gas_price = 0\<rparr> | Some p \<Rightarrow> p))\<rparr>"

text \<open>\<open>get_evm_client\<close>: the EVM is always reached through its canister.\<close>

definition icrc2_evm_client :: "icrc2_config \<Rightarrow> evm_link" where
  "icrc2_evm_client cfg = Ic (cfg2_evm_principal cfg)"

text \<open>\<open>AccessList\<close>: a stable map from principals to unit, that is a finite set of principals.\<close>

datatype minter_error = NotAuthorized | AnonymousPrincipal

definition access_add :: "principal \<Rightarrow> principal set \<Rightarrow> (minter_error + unit) \<times> principal set" where
  "access_add p xs =
     (if p = Anonymous then (Inl AnonymousPrincipal, xs) else (Inr (), insert p xs))"

fun access_batch_add ::
  "principal list \<Rightarrow> principal set \<Rightarrow> (minter_error + unit) \<times> principal set"
where
  "access_batch_add [] xs = (Inr (), xs)"
| "access_batch_add (p # ps) xs = (case access_add p xs of
      (Inl e, xs') \<Rightarrow> (Inl e, xs') | (Inr _, xs') \<Rightarrow> access_batch_add ps xs')"

definition access_remove :: "principal \<Rightarrow> principal set \<Rightarrow> principal set" where
  "access_remove p xs = xs - {p}"

definition access_contains :: "principal set \<Rightarrow> principal \<Rightarrow> bool" where
  "access_contains xs p \<longleftrightarrow> p \<in> xs"

section \<open>Operations\<close>

record approve_after_mint =
  aam_spender :: h160
  aam_amount :: u256

text \<open>\<open>minter_did::reason::Icrc2Burn\<close>\<close>

record icrc2_burn_reason =
  ib_sender :: principal
  ib_amount :: u256
  ib_token :: principal
  ib_from_subaccount :: "bytes option"
  ib_recipient :: h160
  ib_approve_after_mint :: "approve_after_mint option"
  ib_fee_payer :: "h160 option"

record burnt_icrc2_data =
  bd_sender :: principal
  bd_amount :: u256
  bd_src_token :: principal
  bd_recipient :: h160
  bd_operation_id :: u32
  bd_name :: bytes
  bd_symbol :: bytes
  bd_decimals :: u8
  bd_fee_payer :: "h160 option"
  bd_approve_after_mint :: "approve_after_mint option"

datatype deposit_state =
    DepositScheduled icrc2_burn_reason
  | Icrc2Burned burnt_icrc2_data
  | DepositSigned id256 u256 signed_mint_order
  | DepositSent id256 u256 signed_mint_order h256
  | DepositMinted id256 u256 h256

datatype withdrawal_state =
    WithdrawalScheduled burnt_event_data
  | RefundScheduled burnt_icrc2_data
  | Transferred principal account nat nat
  | RefundSigned id256 u256 signed_mint_order
  | RefundSent id256 u256 signed_mint_order h256
  | RefundMinted id256 u256 h256

datatype operation_state = Deposit deposit_state | Withdrawal withdrawal_state

fun icrc2_complete :: "operation_state \<Rightarrow> bool" where
  "icrc2_complete (Deposit d) = (case d of DepositMinted _ _ _ \<Rightarrow> True | _ \<Rightarrow> False)"
| "icrc2_complete (Withdrawal w) =
     (case w of Transferred _ _ _ _ \<Rightarrow> True | RefundMinted _ _ _ \<Rightarrow> True | _ \<Rightarrow> False)"

definition icrc2_signed_mint_order ::
  "operation_state \<Rightarrow> id256 option \<Rightarrow> signed_mint_order option"
where
  "icrc2_signed_mint_order st for_token = (case st of
       Deposit (DepositSigned token_id _ order) \<Rightarrow>
         if for_token = None \<or> for_token = Some token_id then Some order else None
     | Deposit (DepositSent token_id _ order _) \<Rightarrow>
         if for_token = None \<or> for_token = Some token_id then Some order else None
     | Withdrawal (RefundSigned token_id _ order) \<Rightarrow>
         if for_token = None \<or> for_token = Some token_id then Some order else None
     | _ \<Rightarrow> None)"

section \<open>State\<close>

datatype icrc2_task =
    InitEvmInfo
  | CollectEvmEvents2
  | BurnIcrc2Tokens operation_id
  | PrepareMintOrder2 operation_id
  | RemoveMintOrder2 minted_event_data
  | SendMintTransaction2 operation_id
  | MintIcrc2Tokens operation_id

text \<open>
  The lock of the log collection (\<open>COLLECT_EVM_LOGS_TS\<close>) and the token cache are thread-local
  variables; they are part of the state.
\<close>

record icrc2_state =
  s2_config :: icrc2_config
  s2_access_list :: "principal set"
  s2_ops :: "operation_state op_store"
  s2_tasks :: "(icrc2_task \<times> task_options) list"
  s2_lock :: "u64 option"
  s2_cache :: token_cache

definition cfg2_mod :: "(icrc2_config \<Rightarrow> icrc2_config) \<Rightarrow> icrc2_state \<Rightarrow> icrc2_state" where
  "cfg2_mod f s = s\<lparr>s2_config := f (s2_config s)\<rparr>"

definition ops2_update :: "operation_id \<Rightarrow> operation_state \<Rightarrow> icrc2_state \<Rightarrow> icrc2_state" where
  "ops2_update i p s = s\<lparr>s2_ops := update_operation icrc2_complete i p (s2_ops s)\<rparr>"

definition append_tasks2 :: "(icrc2_task \<times> task_options) list \<Rightarrow> icrc2_state \<Rightarrow> icrc2_state" where
  "append_tasks2 ts s = s\<lparr>s2_tasks := s2_tasks s @ ts\<rparr>"

lemmas icrc2_state_defs = cfg2_mod_def ops2_update_def append_tasks2_def

section \<open>The log collection lock\<close>

text \<open>\<open>CollectLogsLock::take\<close> and its \<open>Drop\<close>; times are nanoseconds, the timeout is a minute.\<close>

definition COLLECT_EVM_LOGS_TIMEOUT :: u64 where
  "COLLECT_EVM_LOGS_TIMEOUT = 60000000000"

definition lock_take :: "u64 \<Rightarrow> u64 option \<Rightarrow> u64 option \<times> u64 option" where
  "lock_take now lock = (case lock of
       Some ts \<Rightarrow> if ts + COLLECT_EVM_LOGS_TIMEOUT \<ge> now then (None, lock) else (Some now, Some now)
     | None \<Rightarrow> (Some now, Some now))"

definition lock_drop :: "u64 \<Rightarrow> u64 option \<Rightarrow> u64 option" where
  "lock_drop self_ts lock = (case lock of
       Some ts \<Rightarrow> if ts \<le> self_ts then None else lock
     | None \<Rightarrow> None)"

section \<open>Tasks\<close>

text \<open>
  What the tasks need beyond the common environment: the candid decoder of burn notifications,
  \<open>fit_str_to_array\<close> of \<open>minter_did\<close>, the token ledgers, the canister's own id and the time.
\<close>

record icrc2_env =
  e2_decode_burn :: "bytes \<Rightarrow> icrc2_burn_reason option"
  e2_fit_str :: "nat \<Rightarrow> string \<Rightarrow> bytes"
  e2_ledger :: icrc_ledger
  e2_self :: principal
  e2_now :: u64

definition icrc2_retry_options :: task_options where
  "icrc2_retry_options =
     \<lparr>retry_policy = Some (MaxRetries (- 1)), backoff_policy = Some (Fixed 5)\<rparr>"

definition icrc2_init_evm_info ::
  "'v bridge_env \<Rightarrow> (nat \<Rightarrow> icrc2_state \<Rightarrow> icrc2_state) \<Rightarrow> (icrc2_state, unit) task"
where
  "icrc2_init_evm_info env aw =
     andThen (reading (\<lambda>s. icrc2_evm_client (s2_config s))) (\<lambda>client.
     andThen (call (aw 0) (env_signer_address env)) (\<lambda>address.
     andThen (call_outcome (aw 1) (query_link env client address)) (\<lambda>evm_params.
     modify (cfg2_mod (icrc2_update_params (\<lambda>_. evm_params))))))"

definition icrc2_update_evm_params ::
  "'v bridge_env \<Rightarrow> (nat \<Rightarrow> icrc2_state \<Rightarrow> icrc2_state) \<Rightarrow> (icrc2_state, unit) task"
where
  "icrc2_update_evm_params env aw =
     andThen (reading (\<lambda>s. icrc2_evm_client (s2_config s))) (\<lambda>client.
     andThen (reading (\<lambda>s. cfg2_evm_params (s2_config s))) (\<lambda>ps.
     andThen (expect_some ps EvmParamsNotSet) (\<lambda>initial_params.
     andThen (call (aw 0) (env_signer_address env)) (\<lambda>address.
     andThen (call_outcome (aw 1) (query_nonce_and_gas env client address)) (\<lambda>(nonce, price).
     modify (cfg2_mod (icrc2_update_params
       (\<lambda>_. initial_params\<lparr>evm_nonce := nonce, gas_price := price\<rparr>))))))))"

subsection \<open>Collecting events\<close>

text \<open>
  \<open>task_by_log\<close>: a burn of wrapped tokens starts a withdrawal, a notification a deposit. The
  approval of a deposit is dropped unless the notifier owns the recipient wallet.
\<close>

definition icrc2_task_by_log ::
  "log_parser \<Rightarrow> (bytes \<Rightarrow> icrc2_burn_reason option) \<Rightarrow> evm_log \<Rightarrow> icrc2_state \<Rightarrow>
     (scheduler_error, (icrc2_task \<times> task_options) option) outcome \<times> icrc2_state"
where
  "icrc2_task_by_log parse_log decode log s = (case from_log parse_log log of
       Ok (Burnt burnt) \<Rightarrow>
         (let (i, ops) = new_operation icrc2_complete (be_sender burnt)
                (Withdrawal (WithdrawalScheduled burnt)) (s2_ops s)
          in (Ok (Some (MintIcrc2Tokens i, icrc2_retry_options)), s\<lparr>s2_ops := ops\<rparr>))
     | Ok (Minted minted) \<Rightarrow> (Ok (Some (RemoveMintOrder2 minted, icrc2_retry_options)), s)
     | Ok (Notify notification) \<Rightarrow> (case decode (ne_user_data notification) of
           None \<Rightarrow> (Ok None, s)
         | Some burn \<Rightarrow>
             let burn = (if ne_tx_sender notification \<noteq> ib_recipient burn
                         then burn\<lparr>ib_approve_after_mint := None\<rparr> else burn);
                 (i, ops) = new_operation icrc2_complete (ib_recipient burn)
                   (Deposit (DepositScheduled burn)) (s2_ops s)
             in (Ok (Some (BurnIcrc2Tokens i, icrc2_retry_options)), s\<lparr>s2_ops := ops\<rparr>))
     | Err _ \<Rightarrow> (Ok None, s)
     | Panic \<Rightarrow> (Panic, s))"

fun icrc2_tasks_by_logs ::
  "log_parser \<Rightarrow> (bytes \<Rightarrow> icrc2_burn_reason option) \<Rightarrow> evm_log list \<Rightarrow> icrc2_state \<Rightarrow>
     (scheduler_error, (icrc2_task \<times> task_options) list) outcome \<times> icrc2_state"
where
  "icrc2_tasks_by_logs parse_log decode [] s = (Ok [], s)"
| "icrc2_tasks_by_logs parse_log decode (l # ls) s =
     (case icrc2_task_by_log parse_log decode l s of
        (Ok t, s') \<Rightarrow> (case icrc2_tasks_by_logs parse_log decode ls s' of
            (Ok ts, s'') \<Rightarrow> (Ok (case t of None \<Rightarrow> ts | Some t' \<Rightarrow> t' # ts), s'')
          | (Err e, s'') \<Rightarrow> (Err e, s'')
          | (Panic, s'') \<Rightarrow> (Panic, s''))
      | (Err e, s') \<Rightarrow> (Err e, s')
      | (Panic, s') \<Rightarrow> (Panic, s'))"

definition icrc2_append_logs ::
  "log_parser \<Rightarrow> (bytes \<Rightarrow> icrc2_burn_reason option) \<Rightarrow> evm_log list \<Rightarrow> (icrc2_state, unit) task"
where
  "icrc2_append_logs parse_log decode logs = (\<lambda>(c, s).
     case icrc2_tasks_by_logs parse_log decode logs s of
       (Ok ts, s') \<Rightarrow> (Ok (), (c, append_tasks2 ts s'))
     | (Err e, s') \<Rightarrow> (Err e, (c, s'))
     | (Panic, s') \<Rightarrow> (Panic, (c, s')))"

definition MAX_LOG_REQUEST_COUNT :: u64 where
  "MAX_LOG_REQUEST_COUNT = 1000"

definition icrc2_collect_locked ::
  "'v bridge_env \<Rightarrow> icrc2_env \<Rightarrow> (nat \<Rightarrow> icrc2_state \<Rightarrow> icrc2_state) \<Rightarrow> (icrc2_state, unit) task"
where
  "icrc2_collect_locked env env2 aw =
     andThen (reading (\<lambda>s. icrc2_evm_client (s2_config s))) (\<lambda>client.
     andThen (reading (\<lambda>s. cfg2_evm_params (s2_config s))) (\<lambda>found.
     andThen (expect_some found EvmParamsNotSet) (\<lambda>ps.
     andThen (reading (\<lambda>s. cfg2_bft_bridge_contract (s2_config s))) (\<lambda>contract.
     andThen (expect_some contract BridgeContractNotSet) (\<lambda>bridge.
     andThen (call (aw 0) (env_block_number env client)) (\<lambda>last_chain_block.
     let last_request_block = min last_chain_block (next_block ps + MAX_LOG_REQUEST_COUNT) in
     andThen (call_forever (aw 1) (collect_link env client (next_block ps) last_request_block bridge))
       (\<lambda>logs.
     andThen (modify (cfg2_mod (icrc2_update_params
       (\<lambda>p. p\<lparr>next_block := last_request_block + 1\<rparr>)))) (\<lambda>_.
     andThen (icrc2_append_logs (env_parse_log env) (e2_decode_burn env2) logs) (\<lambda>_.
     icrc2_update_evm_params env (\<lambda>n. aw (n + 2)))))))))))"

definition icrc2_collect_evm_events ::
  "'v bridge_env \<Rightarrow> icrc2_env \<Rightarrow> (nat \<Rightarrow> icrc2_state \<Rightarrow> icrc2_state) \<Rightarrow> (icrc2_state, unit) task"
where
  "icrc2_collect_evm_events env env2 aw =
     andThen (reading (\<lambda>s. lock_take (e2_now env2) (s2_lock s))) (\<lambda>(taken, lock).
     case taken of
       None \<Rightarrow> return ()
     | Some ts \<Rightarrow>
         andThen (modify (\<lambda>s. s\<lparr>s2_lock := lock\<rparr>)) (\<lambda>_.
         ensure (icrc2_collect_locked env env2 aw)
           (\<lambda>s. s\<lparr>s2_lock := lock_drop ts (s2_lock s)\<rparr>)))"

subsection \<open>Deposits and refunds\<close>

definition icrc2_burn_icrc2_tokens ::
  "icrc2_env \<Rightarrow> (nat \<Rightarrow> icrc2_state \<Rightarrow> icrc2_state) \<Rightarrow> operation_id \<Rightarrow> (icrc2_state, unit) task"
where
  "icrc2_burn_icrc2_tokens env2 aw i =
     andThen (reading (\<lambda>s. get_operation (s2_ops s) i)) (\<lambda>found. case found of
       Some (Deposit (DepositScheduled reason)) \<Rightarrow>
         andThen (call_state (aw 0) (\<lambda>s.
           case query_token_info_or_read_from_cache (e2_ledger env2) (ib_token reason) (s2_cache s) of
             (info, cache) \<Rightarrow> (info, s\<lparr>s2_cache := cache\<rparr>))) (\<lambda>info.
         andThen (expect_some info InvalidData) (\<lambda>token_info.
         andThen (call_state (aw 1) (\<lambda>s.
           case icrc2_burn (e2_ledger env2) 0 (e2_self env2) (ib_token reason)
                  \<lparr>acc_owner = ib_sender reason, acc_subaccount = ib_from_subaccount reason\<rparr>
                  (Some (address_to_icrc_subaccount (ib_recipient reason)))
                  (unat (ib_amount reason)) True (s2_cache s) of
             (r, cache) \<Rightarrow> (r, s\<lparr>s2_cache := cache\<rparr>))) (\<lambda>r.
         case r of
           Inl _ \<Rightarrow> fail CallFailed
         | Inr _ \<Rightarrow>
             andThen (modify (ops2_update i (Deposit (Icrc2Burned
               \<lparr>bd_sender = ib_sender reason, bd_amount = ib_amount reason,
                bd_src_token = ib_token reason, bd_recipient = ib_recipient reason,
                bd_operation_id = nonce i, bd_name = e2_fit_str env2 32 (ti_name token_info),
                bd_symbol = e2_fit_str env2 16 (ti_symbol token_info),
                bd_decimals = ti_decimals token_info, bd_fee_payer = ib_fee_payer reason,
                bd_approve_after_mint = ib_approve_after_mint reason\<rparr>)))) (\<lambda>_.
             modify (append_tasks2 [(PrepareMintOrder2 i,
               \<lparr>retry_policy = Some Infinite, backoff_policy = Some (Fixed 4)\<rparr>)])))))
     | _ \<Rightarrow> return ())"

text \<open>The mint order of burnt tokens; the destination token is selected by the contract.\<close>

definition icrc2_make_order :: "id256_codec \<Rightarrow> evm_params \<Rightarrow> burnt_icrc2_data \<Rightarrow> mint_order" where
  "icrc2_make_order cd ps burnt = \<lparr>mo_amount = bd_amount burnt,
     mo_sender = from_principal cd (bd_sender burnt),
     mo_src_token = from_principal cd (bd_src_token burnt),
     mo_recipient = bd_recipient burnt, mo_dst_token = 0, mo_nonce = bd_operation_id burnt,
     mo_sender_chain_id = 0, mo_recipient_chain_id = ucast (chain_id ps),
     mo_name = bd_name burnt, mo_symbol = bd_symbol burnt, mo_decimals = bd_decimals burnt,
     mo_approve_spender = (case bd_approve_after_mint burnt of None \<Rightarrow> 0 | Some a \<Rightarrow> aam_spender a),
     mo_approve_amount = (case bd_approve_after_mint burnt of None \<Rightarrow> 0 | Some a \<Rightarrow> aam_amount a),
     mo_fee_payer = (case bd_fee_payer burnt of None \<Rightarrow> 0 | Some a \<Rightarrow> a)\<rparr>"

definition icrc2_prepare_mint_order ::
  "'v bridge_env \<Rightarrow> (nat \<Rightarrow> icrc2_state \<Rightarrow> icrc2_state) \<Rightarrow> operation_id \<Rightarrow> (icrc2_state, unit) task"
where
  "icrc2_prepare_mint_order env aw i =
     andThen (reading (\<lambda>s. get_operation (s2_ops s) i)) (\<lambda>found.
     case (case found of
         Some (Deposit (Icrc2Burned burnt)) \<Rightarrow> Some (burnt, True)
       | Some (Withdrawal (RefundScheduled burnt)) \<Rightarrow> Some (burnt, False)
       | _ \<Rightarrow> None) of
       None \<Rightarrow> return ()
     | Some (burnt, is_deposit) \<Rightarrow>
         andThen (reading (\<lambda>s. cfg2_evm_params (s2_config s))) (\<lambda>ps.
         andThen (expect_some ps EvmParamsNotSet) (\<lambda>evm_params.
         let order = icrc2_make_order (env_codec env) evm_params burnt;
             should_send_mint_tx = (mo_fee_payer order \<noteq> 0) in
         andThen (call (aw 0) (env_encode_and_sign env order)) (\<lambda>signed_mint_order.
         andThen (modify (ops2_update i (if is_deposit
           then Deposit (DepositSigned (mo_src_token order) (mo_amount order) signed_mint_order)
           else Withdrawal (RefundSigned (mo_src_token order) (mo_amount order) signed_mint_order))))
           (\<lambda>_.
         if should_send_mint_tx
         then andThen (icrc2_update_evm_params env (\<lambda>n. aw (n + 1))) (\<lambda>_.
              modify (append_tasks2 [(SendMintTransaction2 i, default_options)]))
         else return ())))))"

definition icrc2_remove_mint_order ::
  "id256_codec \<Rightarrow> minted_event_data \<Rightarrow> (icrc2_state, unit) task"
where
  "icrc2_remove_mint_order cd minted =
     andThen (expect_some (from_slice cd (me_from_token minted)) InvalidToken) (\<lambda>src_token.
     andThen (reading (\<lambda>s. List.find (\<lambda>(i, _). nonce i = me_nonce minted)
       (get_for_address (s2_ops s) (me_recipient minted)))) (\<lambda>found.
     andThen (expect_some found NonceNotFound) (\<lambda>(i, operation). case operation of
       Deposit (DepositSent token_id _ _ tx_id) \<Rightarrow>
         if token_id = src_token
         then modify (ops2_update i (Deposit (DepositMinted src_token (me_amount minted) tx_id)))
         else fail InvalidToken
     | Withdrawal (RefundSent token_id _ _ tx_id) \<Rightarrow>
         if token_id = src_token
         then modify (ops2_update i (Withdrawal (RefundMinted src_token (me_amount minted) tx_id)))
         else fail InvalidToken
     | _ \<Rightarrow> fail WrongStatus)))"

definition icrc2_send_mint_transaction ::
  "'v bridge_env \<Rightarrow> (nat \<Rightarrow> icrc2_state \<Rightarrow> icrc2_state) \<Rightarrow> operation_id \<Rightarrow> (icrc2_state, unit) task"
where
  "icrc2_send_mint_transaction env aw i =
     andThen (reading (\<lambda>s. get_operation (s2_ops s) i)) (\<lambda>found.
     case (case found of
         Some (Deposit (DepositSigned token_id amount order)) \<Rightarrow> Some (token_id, amount, order, True)
       | Some (Withdrawal (RefundSigned token_id amount order)) \<Rightarrow>
           Some (token_id, amount, order, False)
       | _ \<Rightarrow> None) of
       None \<Rightarrow> return ()
     | Some (token_id, amount, order, is_deposit) \<Rightarrow>
         andThen (call (aw 0) (env_signer_address env)) (\<lambda>sender.
         andThen (reading (\<lambda>s. cfg2_bft_bridge_contract (s2_config s))) (\<lambda>contract.
         andThen (expect_some contract BridgeContractNotSet) (\<lambda>bridge.
         andThen (reading (\<lambda>s. cfg2_evm_params (s2_config s))) (\<lambda>ps.
         andThen (expect_some ps EvmParamsNotSet) (\<lambda>evm_params.
         case mint_transaction (env_encode_input env) sender bridge (ucast (evm_nonce evm_params))
                (gas_price evm_params) order (ucast (chain_id evm_params)) of
           Ok tx \<Rightarrow>
             andThen (call (aw 1) (env_sign_transaction env tx)) (\<lambda>(r, s, v).
             let tx = tx\<lparr>tx_r := r, tx_s := s, tx_v := v\<rparr>;
                 tx = tx\<lparr>tx_hash := env_tx_hash env tx\<rparr> in
             andThen (reading (\<lambda>s. icrc2_evm_client (s2_config s))) (\<lambda>client.
             andThen (call (aw 2) (env_send_raw_transaction env client tx)) (\<lambda>tx_id.
             modify (ops2_update i (if is_deposit
               then Deposit (DepositSent token_id amount order tx_id)
               else Withdrawal (RefundSent token_id amount order tx_id))))))
         | Err (f :: failure) \<Rightarrow> fail f
         | Panic \<Rightarrow> panic))))))"

subsection \<open>Withdrawals\<close>

text \<open>The errors after which the transfer is retried.\<close>

definition icrc2_transient :: "icrc_error \<Rightarrow> bool" where
  "icrc2_transient e \<longleftrightarrow> (case e of
       Icrc2TransferError TooOld \<Rightarrow> True
     | Icrc2TransferError (CreatedInFuture _) \<Rightarrow> True
     | Icrc2TransferError TemporarilyUnavailable \<Rightarrow> True
     | Icrc2TransferError (GenericError _ _) \<Rightarrow> True
     | InterCanisterCallFailed SysTransient \<Rightarrow> True
     | _ \<Rightarrow> False)"

text \<open>\<open>try_into().unwrap_or_default()\<close> on a byte vector.\<close>

definition to_array_or_zero :: "nat \<Rightarrow> bytes \<Rightarrow> bytes" where
  "to_array_or_zero n bs = (if length bs = n then bs else replicate n 0)"

definition icrc2_refund_data ::
  "operation_id \<Rightarrow> burnt_event_data \<Rightarrow> principal \<Rightarrow> principal \<Rightarrow> burnt_icrc2_data"
where
  "icrc2_refund_data i burnt recipient to_token =
     \<lparr>bd_sender = recipient, bd_amount = be_amount burnt, bd_src_token = to_token,
      bd_recipient = be_sender burnt, bd_operation_id = nonce i,
      bd_name = to_array_or_zero 32 (be_name burnt),
      bd_symbol = to_array_or_zero 16 (be_symbol burnt), bd_decimals = be_decimals burnt,
      bd_fee_payer = None, bd_approve_after_mint = None\<rparr>"

definition icrc2_mint_icrc2 ::
  "'v bridge_env \<Rightarrow> icrc2_env \<Rightarrow> (nat \<Rightarrow> icrc2_state \<Rightarrow> icrc2_state) \<Rightarrow> operation_id \<Rightarrow>
     (icrc2_state, unit) task"
where
  "icrc2_mint_icrc2 env env2 aw i =
     andThen (reading (\<lambda>s. get_operation (s2_ops s) i)) (\<lambda>found. case found of
       Some (Withdrawal (WithdrawalScheduled burnt)) \<Rightarrow>
         andThen (expect_some (Option.bind (from_slice (env_codec env) (be_to_token burnt))
           (to_principal (env_codec env))) InvalidToken) (\<lambda>to_token.
         andThen (expect_some (Option.bind (from_slice (env_codec env) (be_recipient_id burnt))
           (to_principal (env_codec env))) InvalidRecipient) (\<lambda>recipient.
         andThen (call_state (aw 0) (\<lambda>s.
           case icrc2_mint (e2_ledger env2) 0 to_token recipient (unat (be_amount burnt)) True
                  (s2_cache s) of
             (r, cache) \<Rightarrow> (r, s\<lparr>s2_cache := cache\<rparr>))) (\<lambda>r.
         case r of
           Inr res \<Rightarrow>
             modify (ops2_update i (Withdrawal (Transferred to_token
               \<lparr>acc_owner = recipient, acc_subaccount = None\<rparr> (su_amount res) (su_tx_id res))))
         | Inl e \<Rightarrow>
             if icrc2_transient e then fail CallFailed
             else andThen (modify (ops2_update i (Withdrawal (RefundScheduled
                    (icrc2_refund_data i burnt recipient to_token))))) (\<lambda>_.
                  modify (append_tasks2 [(PrepareMintOrder2 i,
                    \<lparr>retry_policy = Some Infinite, backoff_policy = Some (Exponential 1 4)\<rparr>)])))))
     | _ \<Rightarrow> return ())"

text \<open>\<open>BridgeTask::execute\<close>\<close>

fun icrc2_execute ::
  "'v bridge_env \<Rightarrow> icrc2_env \<Rightarrow> (nat \<Rightarrow> icrc2_state \<Rightarrow> icrc2_state) \<Rightarrow> icrc2_task \<Rightarrow>
     (icrc2_state, unit) task"
where
  "icrc2_execute env env2 aw InitEvmInfo = icrc2_init_evm_info env aw"
| "icrc2_execute env env2 aw CollectEvmEvents2 = icrc2_collect_evm_events env env2 aw"
| "icrc2_execute env env2 aw (BurnIcrc2Tokens i) = icrc2_burn_icrc2_tokens env2 aw i"
| "icrc2_execute env env2 aw (PrepareMintOrder2 i) = icrc2_prepare_mint_order env aw i"
| "icrc2_execute env env2 aw (RemoveMintOrder2 minted) =
     icrc2_remove_mint_order (env_codec env) minted"
| "icrc2_execute env env2 aw (SendMintTransaction2 i) = icrc2_send_mint_transaction env aw i"
| "icrc2_execute env env2 aw (MintIcrc2Tokens i) = icrc2_mint_icrc2 env env2 aw i"

text \<open>The task the canister's timer appends.\<close>

definition icrc2_timer :: "icrc2_state \<Rightarrow> icrc2_state" where
  "icrc2_timer s = append_tasks2 [(CollectEvmEvents2, default_options)] s"

section \<open>Guarded calls\<close>

definition check_anonymous_principal :: "principal \<Rightarrow> minter_error + unit" where
  "check_anonymous_principal p = (if p = Anonymous then Inl AnonymousPrincipal else Inr ())"

definition inspect_check_is_owner :: "principal \<Rightarrow> icrc2_config \<Rightarrow> minter_error + unit" where
  "inspect_check_is_owner p cfg = (if cfg2_owner cfg \<noteq> p then Inl NotAuthorized else Inr ())"

definition both_checks :: "minter_error + unit \<Rightarrow> minter_error + unit \<Rightarrow> minter_error + unit" where
  "both_checks a b = (case a of Inl e \<Rightarrow> Inl e | Inr _ \<Rightarrow> b)"

definition set_owner_check :: "principal \<Rightarrow> principal \<Rightarrow> icrc2_config \<Rightarrow> minter_error + unit" where
  "set_owner_check caller owner cfg =
     both_checks (check_anonymous_principal owner) (inspect_check_is_owner caller cfg)"

definition set_evm_principal_check :: "principal \<Rightarrow> principal \<Rightarrow> icrc2_config \<Rightarrow> minter_error + unit" where
  "set_evm_principal_check caller evm cfg =
     both_checks (check_anonymous_principal evm) (inspect_check_is_owner caller cfg)"

definition access_control_check :: "principal \<Rightarrow> principal \<Rightarrow> icrc2_config \<Rightarrow> minter_error + unit" where
  "access_control_check caller token cfg =
     both_checks (inspect_check_is_owner caller cfg) (check_anonymous_principal token)"

definition icrc2_set_owner ::
  "principal \<Rightarrow> principal \<Rightarrow> icrc2_state \<Rightarrow> (minter_error + unit) \<times> icrc2_state"
where
  "icrc2_set_owner caller owner s = (case set_owner_check caller owner (s2_config s) of
       Inl e \<Rightarrow> (Inl e, s)
     | Inr _ \<Rightarrow> (Inr (), cfg2_mod (\<lambda>cfg. cfg\<lparr>cfg2_owner := owner\<rparr>) s))"

definition icrc2_set_evm_principal ::
  "principal \<Rightarrow> principal \<Rightarrow> icrc2_state \<Rightarrow> (minter_error + unit) \<times> icrc2_state"
where
  "icrc2_set_evm_principal caller evm s = (case set_evm_principal_check caller evm (s2_config s) of
       Inl e \<Rightarrow> (Inl e, s)
     | Inr _ \<Rightarrow> (Inr (), cfg2_mod (\<lambda>cfg. cfg\<lparr>cfg2_evm_principal := evm\<rparr>) s))"

definition icrc2_set_bft_bridge_contract :: "h160 \<Rightarrow> icrc2_state \<Rightarrow> icrc2_state" where
  "icrc2_set_bft_bridge_contract address s =
     cfg2_mod (\<lambda>cfg. cfg\<lparr>cfg2_bft_bridge_contract := Some address\<rparr>) s"

definition icrc2_add_to_whitelist ::
  "principal \<Rightarrow> principal \<Rightarrow> icrc2_state \<Rightarrow> (minter_error + unit) \<times> icrc2_state"
where
  "icrc2_add_to_whitelist caller token s = (case access_control_check caller token (s2_config s) of
       Inl e \<Rightarrow> (Inl e, s)
     | Inr _ \<Rightarrow> (case access_add token (s2_access_list s) of
           (Inl e, _) \<Rightarrow> (Inl e, s)
         | (Inr _, xs) \<Rightarrow> (Inr (), s\<lparr>s2_access_list := xs\<rparr>)))"

definition icrc2_remove_from_whitelist ::
  "principal \<Rightarrow> principal \<Rightarrow> icrc2_state \<Rightarrow> (minter_error + unit) \<times> icrc2_state"
where
  "icrc2_remove_from_whitelist caller token s =
     (case access_control_check caller token (s2_config s) of
        Inl e \<Rightarrow> (Inl e, s)
      | Inr _ \<Rightarrow> (Inr (), s\<lparr>s2_access_list := access_remove token (s2_access_list s)\<rparr>))"

definition icrc2_init :: "principal \<Rightarrow> principal \<Rightarrow> icrc2_state \<Rightarrow> (unit, unit) outcome \<times> icrc2_state" where
  "icrc2_init owner evm_principal s =
     (if owner = Anonymous then (Panic, s)
      else (Ok (), append_tasks2 [(InitEvmInfo, \<lparr>retry_policy = Some (MaxRetries 5),
             backoff_policy = Some (Exponential 2 2)\<rparr>)]
             (cfg2_mod (\<lambda>_. icrc2_config_reset owner evm_principal) s)))"

text \<open>\<open>inspect_message\<close>: the checks an ingress call has to pass before it is accepted.\<close>

definition inspect_method ::
  "string \<Rightarrow> principal \<Rightarrow> principal \<Rightarrow> icrc2_config \<Rightarrow> minter_error + unit"
where
  "inspect_method method caller arg cfg =
     (if method = ''set_logger_filter'' \<or> method = ''ic_logs'' then inspect_check_is_owner caller cfg
      else if method = ''set_evm_principal'' then set_evm_principal_check caller arg cfg
      else if method = ''set_owner'' then set_owner_check caller arg cfg
      else if method = ''add_to_whitelist'' \<or> method = ''remove_from_whitelist''
        then access_control_check caller arg cfg
      else Inr ())"

section \<open>Queries\<close>

definition icrc2_list_mint_orders ::
  "icrc2_state \<Rightarrow> h160 \<Rightarrow> id256 \<Rightarrow> (u32 \<times> signed_mint_order) list"
where
  "icrc2_list_mint_orders s wallet src_token =
     List.map_filter (\<lambda>(i, status). map_option (\<lambda>order. (nonce i, order))
         (icrc2_signed_mint_order status (Some src_token)))
       (get_for_address (s2_ops s) wallet)"

definition icrc2_get_mint_order ::
  "icrc2_state \<Rightarrow> h160 \<Rightarrow> id256 \<Rightarrow> u32 \<Rightarrow> signed_mint_order option"
where
  "icrc2_get_mint_order s wallet src_token operation_id =
     map_option snd (List.find (\<lambda>(n, _). n = operation_id)
       (icrc2_list_mint_orders s wallet src_token))"

definition icrc2_get_operations_list :: "icrc2_state \<Rightarrow> h160 \<Rightarrow> (operation_id \<times> operation_state) list"
where
  "icrc2_get_operations_list s wallet = get_for_address (s2_ops s) wallet"

definition icrc2_get_owner :: "icrc2_state \<Rightarrow> principal" where
  "icrc2_get_owner s = cfg2_owner (s2_config s)"

definition icrc2_get_evm_principal :: "icrc2_state \<Rightarrow> principal" where
  "icrc2_get_evm_principal s = cfg2_evm_principal (s2_config s)"

definition icrc2_get_bft_bridge_contract :: "icrc2_state \<Rightarrow> h160 option" where
  "icrc2_get_bft_bridge_contract s = cfg2_bft_bridge_contract (s2_config s)"

definition get_minter_canister_evm_address ::
  "'v bridge_env \<Rightarrow> (icrc2_state \<Rightarrow> icrc2_state) \<Rightarrow> (icrc2_state, unit + h160) task"
where
  "get_minter_canister_evm_address env aw =
     answer aw (case env_signer_address env of None \<Rightarrow> Inl () | Some a \<Rightarrow> Inr a)"

definition get_whitelist :: "icrc2_state \<Rightarrow> principal set" where
  "get_whitelist s = s2_access_list s"

end
