(* ===== verification/Icrc2_Refunds.thy ===== *)
theory Icrc2_Refunds
  imports Icrc2_Minter
begin

text \<open>
  Refunds of the ICRC-2 bridge: the reachable states of the bridge, the invariant of its refunds
  and send tasks, that every task keeps it (by weakest preconditions, handler by handler), and the
  run of a bridge that collects one burn event.
\<close>

section \<open>Refunds\<close>

text \<open>
  The states the bridge can reach: it is initialised, its timer and its administrators act, and
  its scheduled tasks run, in any order and with any answers of the environment, as long as the
  id counter does not overflow.
\<close>

definition icrc2_initial :: "principal \<Rightarrow> principal \<Rightarrow> icrc2_state" where
  "icrc2_initial owner evm = snd (icrc2_init owner evm
     \<lparr>s2_config = icrc2_default_config, s2_access_list = {}, s2_ops = with_memory None 0,
      s2_tasks = [], s2_lock = None, s2_cache = Map.empty\<rparr>)"

text \<open>The logs the collection gets; none when it cannot ask or the query never returns.\<close>

definition icrc2_collected :: "'v bridge_env \<Rightarrow> icrc2_config \<Rightarrow> evm_log list" where
  "icrc2_collected env cfg = (let lnk = icrc2_evm_client cfg in
     case (cfg2_evm_params cfg, cfg2_bft_bridge_contract cfg, env_block_number env lnk) of
       (Some ps, Some bridge, Some last_block) \<Rightarrow>
         (case collect_link env lnk (next_block ps)
                (min last_block (next_block ps + MAX_LOG_REQUEST_COUNT)) bridge of
            Some logs \<Rightarrow> logs | None \<Rightarrow> [])
     | _ \<Rightarrow> [])"

inductive icrc2_reach :: "icrc2_state \<Rightarrow> bool" where
  initial: "icrc2_reach (icrc2_initial owner evm)"
| timer: "icrc2_reach s \<Longrightarrow> icrc2_reach (icrc2_timer s)"
| admin: "icrc2_reach s \<Longrightarrow> s2_ops s' = s2_ops s \<Longrightarrow> s2_tasks s' = s2_tasks s \<Longrightarrow> icrc2_reach s'"
| task: "icrc2_reach s \<Longrightarrow> (t, opts) \<in> set (s2_tasks s) \<Longrightarrow>
    length (icrc2_collected env (s2_config s)) \<le> ids_left (s2_ops s) \<Longrightarrow> run_task (icrc2_execute (env :: u256 bridge_env) env2 (\<lambda>_ s. s) t) s = (r, s') \<Longrightarrow>
    icrc2_reach s'"

text \<open>
  A withdrawal in a state the bridge produces: a scheduled refund has no fee payer, and no
  refund order was sent by the bridge.
\<close>

fun refund_ok :: "operation_state \<Rightarrow> bool" where
  "refund_ok (Deposit d) = True"
| "refund_ok (Withdrawal w) = (case w of
      RefundScheduled d \<Rightarrow> bd_fee_payer d = None
    | RefundSent _ _ _ _ \<Rightarrow> False
    | RefundMinted _ _ _ \<Rightarrow> False
    | _ \<Rightarrow> True)"

fun is_deposit :: "operation_state \<Rightarrow> bool" where
  "is_deposit (Deposit _) = True"
| "is_deposit (Withdrawal _) = False"

definition sends_deposits ::
  "operation_state op_store \<Rightarrow> (icrc2_task \<times> task_options) list \<Rightarrow> bool"
where
  "sends_deposits ops ts \<longleftrightarrow> (\<forall>i opts a p. (SendMintTransaction2 i, opts) \<in> set ts \<longrightarrow>
     is_issued ops i \<and> (find_operation ops i = Some (a, p) \<longrightarrow> is_deposit p))"

definition refund_inv :: "operation_state op_store \<Rightarrow> (icrc2_task \<times> task_options) list \<Rightarrow> bool" where
  "refund_inv ops ts \<longleftrightarrow> wf_store icrc2_complete ops \<and>
     (\<forall>i a p. find_operation ops i = Some (a, p) \<longrightarrow> refund_ok p) \<and> sends_deposits ops ts"

lemma refund_inv_update:
  assumes "refund_inv ops ts" and "get_operation ops i = Some p"
    and "is_deposit p' = is_deposit p" and "refund_ok p'"
  shows "refund_inv (update_operation icrc2_complete i p' ops) ts"
proof -
  let ?ops = "update_operation icrc2_complete i p' ops"
  have wf: "wf_store icrc2_complete ops" using assms(1) by (simp add: refund_inv_def)
  have found: "find_operation ops j = Some (a, x) \<or> j = i \<and> x = p' \<and> find_operation ops i = Some (a, p)"
    if "find_operation ?ops j = Some (a, x)" for j a x
    using find_update_cases[OF wf that] assms(2) by (auto simp: get_operation_find)
  have old: "find_operation ops j = Some (a, x) \<Longrightarrow> refund_ok x" for j a x
    using assms(1) by (simp add: refund_inv_def)
  have "refund_ok x" if "find_operation ?ops j = Some (a, x)" for j a x
    using found[OF that] old assms(4) by blast
  moreover have "sends_deposits ?ops ts"
    unfolding sends_deposits_def
  proof (intro allI impI conjI)
    fix j opts a x assume j: "(SendMintTransaction2 j, opts) \<in> set ts"
    then have "is_issued ops j"
      using assms(1) unfolding refund_inv_def sends_deposits_def by blast
    then show "is_issued ?ops j" by (simp add: os.update_issued)
    assume "find_operation ?ops j = Some (a, x)"
    then show "is_deposit x"
      using found[of j a x] j assms(1,3) by (auto simp: refund_inv_def sends_deposits_def)
  qed
  ultimately show ?thesis
    using os.update_inv[OF wf] unfolding refund_inv_def by blast
qed

lemma refund_inv_create:
  assumes "refund_inv ops ts" and "0 < ids_left ops" and "refund_ok p"
  shows "refund_inv (snd (new_operation icrc2_complete a p ops)) ts"
proof -
  let ?ops = "snd (new_operation icrc2_complete a p ops)"
  have wf: "wf_store icrc2_complete ops" using assms(1) by (simp add: refund_inv_def)
  have found: "find_operation ops j = Some (b, x) \<or> \<not> is_issued ops j \<and> x = p"
    if "find_operation ?ops j = Some (b, x)" for j b x
    using find_create_cases[OF wf assms(2) that] by (auto simp: is_issued_def)
  have "refund_ok x" if "find_operation ?ops j = Some (b, x)" for j b x
    using found[OF that] assms(1,3) by (auto simp: refund_inv_def)
  moreover have "sends_deposits ?ops ts"
    unfolding sends_deposits_def
  proof (intro allI impI conjI)
    fix j opts b x assume j: "(SendMintTransaction2 j, opts) \<in> set ts"
    then have issued: "is_issued ops j"
      using assms(1) by (auto simp: refund_inv_def sends_deposits_def)
    then show "is_issued ?ops j" by (rule os.create_issued[OF wf assms(2)])
    assume "find_operation ?ops j = Some (b, x)"
    then show "is_deposit x"
      using found[of j b x] j issued assms(1) by (auto simp: refund_inv_def sends_deposits_def)
  qed
  ultimately show ?thesis
    using os.create_inv[OF wf assms(2)] unfolding refund_inv_def by blast
qed

lemma refund_inv_tasks:
  assumes "refund_inv ops ts" and "\<And>i opts. (SendMintTransaction2 i, opts) \<notin> set ts'"
  shows "refund_inv ops (ts @ ts')"
  using assms unfolding refund_inv_def sends_deposits_def by auto

lemma refund_inv_send:
  assumes "refund_inv ops ts" and "get_operation ops i = Some p" and "is_deposit p"
  shows "refund_inv ops (ts @ [(SendMintTransaction2 i, opts)])"
proof -
  have "is_issued ops i"
    using assms(1,2) os.lookup_issued by (auto simp: refund_inv_def get_operation_find)
  then show ?thesis
    using assms unfolding refund_inv_def sends_deposits_def by (auto simp: get_operation_find)
qed

lemma icrc2_tasks_by_logs_inv:
  assumes "refund_inv (s2_ops s) (s2_tasks s)" and "length ls \<le> ids_left (s2_ops s)"
    and "icrc2_tasks_by_logs parse_log decode ls s = (Ok ts, s')"
  shows "refund_inv (s2_ops s') (s2_tasks s @ ts) \<and> s2_tasks s' = s2_tasks s"
proof -
  have "refund_inv (s2_ops s') (s2_tasks s) \<and> s2_tasks s' = s2_tasks s \<and>
      (\<forall>i opts. (SendMintTransaction2 i, opts) \<notin> set ts)"
    using assms
  proof (induction ls arbitrary: s ts)
    case (Cons l ls)
    obtain t s1 where one: "icrc2_task_by_log parse_log decode l s = (Ok t, s1)"
      using Cons.prems(3) by (auto split: prod.splits outcome.splits)
    obtain ts1 where rest: "icrc2_tasks_by_logs parse_log decode ls s1 = (Ok ts1, s')"
      and ts: "ts = (case t of None \<Rightarrow> ts1 | Some t' \<Rightarrow> t' # ts1)"
      using Cons.prems(3) one by (auto split: prod.splits outcome.splits)
    have pos: "0 < ids_left (s2_ops s)" using Cons.prems(2) by simp
    have new: "refund_inv ops (s2_tasks s) \<and> length ls \<le> ids_left ops"
      if "new_operation icrc2_complete a p (s2_ops s) = (i, ops)" "refund_ok p" for a p i ops
      using refund_inv_create[OF Cons.prems(1) pos that(2), of a] that(1)
        os.create_room[OF pos, of icrc2_complete a p] Cons.prems(2) by simp
    have "refund_inv (s2_ops s1) (s2_tasks s) \<and> s2_tasks s1 = s2_tasks s \<and>
        length ls \<le> ids_left (s2_ops s1) \<and>
        (\<forall>i opts. t \<noteq> Some (SendMintTransaction2 i, opts))"
      using one Cons.prems(1,2)
      by (auto simp: icrc2_task_by_log_def Let_def dest!: new
          split: outcome.splits bridge_event.splits option.splits prod.splits)
    then show ?case
      using Cons.IH[of s1 ts1] rest ts by (auto split: option.splits)
  qed simp
  then show ?thesis using refund_inv_tasks by blast
qed

text \<open>A task keeps the invariant in both the committed and the current state.\<close>

definition refund_safe :: "icrc2_state \<Rightarrow> bool" where
  "refund_safe s \<longleftrightarrow> refund_inv (s2_ops s) (s2_tasks s)"

abbreviation both_safe :: "'r \<Rightarrow> icrc2_state \<Rightarrow> icrc2_state \<Rightarrow> bool" where
  "both_safe \<equiv> \<lambda>r c s. refund_safe c \<and> refund_safe s"

abbreviation undisturbed :: "nat \<Rightarrow> 's \<Rightarrow> 's" where
  "undisturbed \<equiv> \<lambda>_ s. s"

lemma icrc2_state_sel [simp]:
  "s2_ops (cfg2_mod f s) = s2_ops s" "s2_tasks (cfg2_mod f s) = s2_tasks s"
  "s2_tasks (ops2_update i p s) = s2_tasks s"
  "s2_ops (append_tasks2 ts s) = s2_ops s" "s2_tasks (append_tasks2 ts s) = s2_tasks s @ ts"
  by (simp_all add: icrc2_state_defs)

lemma refund_safe_config [simp]:
  "refund_safe (cfg2_mod f s) = refund_safe s"
  "refund_safe (s\<lparr>s2_lock := l\<rparr>) = refund_safe s"
  "refund_safe (s\<lparr>s2_cache := cache\<rparr>) = refund_safe s"
  by (simp_all add: refund_safe_def)

lemma refund_safe_update:
  assumes "refund_safe s" and "get_operation (s2_ops s) i = Some p"
    and "is_deposit p' = is_deposit p" and "refund_ok p'"
  shows "refund_safe (ops2_update i p' s)"
  using refund_inv_update[of "s2_ops s" "s2_tasks s" i p p'] assms
  by (simp add: refund_safe_def ops2_update_def)

lemma refund_safe_get:
  assumes "refund_safe s" and "get_operation (s2_ops s) i = Some p"
  shows "refund_ok p"
  using assms by (auto simp: refund_safe_def refund_inv_def get_operation_find)

lemma refund_safe_task:
  assumes "refund_safe s" and "\<And>i. t \<noteq> SendMintTransaction2 i"
  shows "refund_safe (append_tasks2 [(t, opts)] s)"
  using assms refund_inv_tasks[of "s2_ops s" "s2_tasks s" "[(t, opts)]"]
  by (auto simp: refund_safe_def)

lemma refund_safe_known:
  assumes "refund_safe s" and "get_operation (s2_ops s) i = Some p"
    and "\<not> icrc2_complete p" and "\<not> icrc2_complete p'"
  shows "get_operation (s2_ops (ops2_update i p' s)) i = Some p'"
  using assms os.update_incomplete[of icrc2_complete "s2_ops s" i _ p p']
  by (auto simp: refund_safe_def refund_inv_def get_operation_find ops2_update_def)

lemma icrc2_update_evm_params_safe:
  assumes "refund_safe c" and "refund_safe s"
    and "\<And>r c' s'. refund_safe c' \<Longrightarrow> refund_safe s' \<Longrightarrow> s2_ops s' = s2_ops s \<Longrightarrow> Q r c' s'"
  shows "wp (icrc2_update_evm_params env undisturbed) Q c s"
  using assms unfolding icrc2_update_evm_params_def
  by (simp add: wp_simps split: option.splits outcome.splits prod.splits)

lemma icrc2_init_evm_info_safe:
  assumes "refund_safe c" and "refund_safe s"
  shows "wp (icrc2_init_evm_info env undisturbed) both_safe c s"
  using assms unfolding icrc2_init_evm_info_def
  by (simp add: wp_simps split: option.splits outcome.splits)

lemma icrc2_burn_icrc2_tokens_safe:
  assumes "refund_safe c" and "refund_safe s"
  shows "wp (icrc2_burn_icrc2_tokens env2 undisturbed i) both_safe c s"
  using assms unfolding icrc2_burn_icrc2_tokens_def
  by (auto simp: wp_simps intro!: refund_safe_task refund_safe_update
      split: option.splits outcome.splits prod.splits operation_state.splits deposit_state.splits
        sum.splits)

lemma icrc2_mint_icrc2_safe:
  assumes "refund_safe c" and "refund_safe s"
  shows "wp (icrc2_mint_icrc2 env env2 undisturbed i) both_safe c s"
  using assms unfolding icrc2_mint_icrc2_def
  by (auto simp: wp_simps icrc2_refund_data_def intro!: refund_safe_task refund_safe_update
      split: option.splits outcome.splits prod.splits operation_state.splits withdrawal_state.splits
        sum.splits)

lemma icrc2_remove_mint_order_safe:
  assumes "refund_safe c" and "refund_safe s"
  shows "wp (icrc2_remove_mint_order cd minted) both_safe c s"
proof -
  have found: "get_operation (s2_ops s) i = Some p"
    if "List.find P (get_for_address (s2_ops s) a) = Some (i, p)" for P a i p
    using that by (blast dest: find_Some_in_set get_for_address_get)
  then show ?thesis
    using assms refund_safe_get[OF assms(2)] unfolding icrc2_remove_mint_order_def
    by (fastforce simp: wp_simps intro!: refund_safe_update
        split: option.splits prod.splits operation_state.splits deposit_state.splits
          withdrawal_state.splits)
qed

lemma icrc2_signed_safe:
  assumes "refund_safe s" and "get_operation (s2_ops s) i = Some p" and "is_deposit p"
  shows "refund_safe (append_tasks2 [(SendMintTransaction2 i, opts)] s)"
  using assms refund_inv_send[of "s2_ops s" "s2_tasks s" i p opts] by (simp add: refund_safe_def)

lemma icrc2_prepare_deposit_safe:
  assumes "refund_safe c" and "refund_safe s"
    and "get_operation (s2_ops s) i = Some (Deposit (Icrc2Burned burnt))"
  shows "wp (icrc2_prepare_mint_order env undisturbed i) both_safe c s"
proof -
  let ?s = "\<lambda>p. ops2_update i (Deposit p) s"
  have upd: "refund_safe (?s (DepositSigned t a order))"
    and known: "get_operation (s2_ops (?s (DepositSigned t a order))) i =
      Some (Deposit (DepositSigned t a order))" for t a order
    using assms by (auto intro!: refund_safe_update refund_safe_known)
  show ?thesis
    using assms unfolding icrc2_prepare_mint_order_def
    by (auto simp: wp_simps Let_def upd known
        intro!: icrc2_update_evm_params_safe icrc2_signed_safe
        split: option.splits outcome.splits)
qed

lemma icrc2_prepare_refund_safe:
  assumes "refund_safe c" and "refund_safe s"
    and "get_operation (s2_ops s) i = Some (Withdrawal (RefundScheduled burnt))"
  shows "wp (icrc2_prepare_mint_order env undisturbed i) both_safe c s"
  using assms refund_safe_get[OF assms(2,3)] unfolding icrc2_prepare_mint_order_def
  by (auto simp: wp_simps Let_def icrc2_make_order_def intro!: refund_safe_update
      split: option.splits outcome.splits)

lemma icrc2_prepare_mint_order_safe:
  assumes "refund_safe c" and "refund_safe s"
  shows "wp (icrc2_prepare_mint_order env undisturbed i) both_safe c s"
proof (cases "\<exists>burnt. get_operation (s2_ops s) i \<in>
    {Some (Deposit (Icrc2Burned burnt)), Some (Withdrawal (RefundScheduled burnt))}")
  case True
  then show ?thesis
    using icrc2_prepare_deposit_safe[OF assms] icrc2_prepare_refund_safe[OF assms] by blast
next
  case False
  then show ?thesis
    using assms unfolding icrc2_prepare_mint_order_def
    by (auto simp: wp_simps
        split: option.splits operation_state.splits deposit_state.splits withdrawal_state.splits)
qed

lemma icrc2_send_mint_transaction_safe:
  assumes "refund_safe c" and "refund_safe s" and "(SendMintTransaction2 i, opts) \<in> set (s2_tasks s)"
  shows "wp (icrc2_send_mint_transaction env undisturbed i) both_safe c s"
proof (cases "get_operation (s2_ops s) i")
  case None
  then show ?thesis
    using assms unfolding icrc2_send_mint_transaction_def by (simp add: wp_simps)
next
  case (Some p)
  then have "is_deposit p"
    using assms(2,3)
    by (auto simp: refund_safe_def refund_inv_def sends_deposits_def get_operation_find)
  then show ?thesis
    using assms(1,2) Some unfolding icrc2_send_mint_transaction_def
    by (auto simp: wp_simps Let_def intro!: refund_safe_update
      split: option.splits outcome.splits prod.splits operation_state.splits deposit_state.splits)
qed

lemma icrc2_tasks_by_logs_no_error: "icrc2_tasks_by_logs parse_log decode ls s \<noteq> (Err e, s')"
proof (induction ls arbitrary: s s')
  case (Cons l ls)
  have "icrc2_task_by_log parse_log decode l s \<noteq> (Err e, t)" for t
    by (auto simp: icrc2_task_by_log_def Let_def
        split: outcome.splits bridge_event.splits option.splits prod.splits)
  then show ?case
    using Cons.IH by (auto split: prod.splits outcome.splits)
qed simp

lemma icrc2_append_logs_safe:
  assumes "refund_safe s" and "length ls \<le> ids_left (s2_ops s)"
    and "\<And>s'. refund_safe s' \<Longrightarrow> Q (Ok ()) c s'" and "\<And>s'. Q Panic c s'"
  shows "wp (icrc2_append_logs parse_log decode ls) Q c s"
proof (cases "icrc2_tasks_by_logs parse_log decode ls s")
  case (Pair r s')
  show ?thesis
  proof (cases r)
    case (Ok ts)
    have "refund_inv (s2_ops s') (s2_tasks s @ ts) \<and> s2_tasks s' = s2_tasks s"
      using icrc2_tasks_by_logs_inv assms(1,2) Pair Ok unfolding refund_safe_def by blast
    then show ?thesis
      using Pair Ok assms(3) by (simp add: wp_def icrc2_append_logs_def refund_safe_def)
  next
    case (Err e)
    then show ?thesis using Pair icrc2_tasks_by_logs_no_error by blast
  next
    case Panic
    then show ?thesis using Pair assms(4) by (simp add: wp_def icrc2_append_logs_def)
  qed
qed

text \<open>When a task panics its committed state counts.\<close>

abbreviation run_safe :: "(scheduler_error, 'r) outcome \<Rightarrow> icrc2_state \<Rightarrow> icrc2_state \<Rightarrow> bool" where
  "run_safe \<equiv> \<lambda>r c s. refund_safe (if r = Panic then c else s)"

lemma icrc2_collect_evm_events_safe:
  assumes "refund_safe c" and "refund_safe s"
    and room: "length (icrc2_collected env (s2_config s)) \<le> ids_left (s2_ops s)"
  shows "wp (icrc2_collect_evm_events env env2 undisturbed) run_safe c s"
  using assms(1,2) room unfolding icrc2_collect_evm_events_def icrc2_collect_locked_def
  by (auto simp: wp_simps Let_def icrc2_collected_def
      intro!: icrc2_append_logs_safe icrc2_update_evm_params_safe
      split: option.splits outcome.splits prod.splits)

lemma icrc2_execute_safe:
  assumes "refund_safe s" and "(t, opts) \<in> set (s2_tasks s)"
    and "length (icrc2_collected env (s2_config s)) \<le> ids_left (s2_ops s)"
    and "run_task (icrc2_execute env env2 undisturbed t) s = (r, s')"
  shows "refund_safe s'"
proof -
  have weak: "wp m both_safe s s \<Longrightarrow> wp m run_safe s s" for m :: "(icrc2_state, unit) task"
    by (erule wp_mono) simp
  have "wp (icrc2_execute env env2 undisturbed t) run_safe s s"
    using assms(1-3)
    by (cases t; simp only: icrc2_execute.simps) (blast intro: weak icrc2_init_evm_info_safe icrc2_collect_evm_events_safe
        icrc2_burn_icrc2_tokens_safe icrc2_prepare_mint_order_safe icrc2_remove_mint_order_safe
        icrc2_send_mint_transaction_safe icrc2_mint_icrc2_safe)+
  then show ?thesis using assms(4) by (rule run_task_wp)
qed

lemma icrc2_reach_safe: "icrc2_reach s \<Longrightarrow> refund_safe s"
proof (induction rule: icrc2_reach.induct)
  case (initial owner evm)
  have "s2_ops (icrc2_initial owner evm) = with_memory None 0"
    and "\<And>i opts. (SendMintTransaction2 i, opts) \<notin> set (s2_tasks (icrc2_initial owner evm))"
    by (auto simp: icrc2_initial_def icrc2_init_def)
  moreover have "find_operation (with_memory None 0 :: operation_state op_store) i = None" for i
    by (simp add: find_operation_def get_entry_def with_memory_def)
  ultimately show ?case
    by (simp add: refund_safe_def refund_inv_def sends_deposits_def with_memory_wf
        default_store_options_def)
next
  case (timer s)
  then show ?case unfolding icrc2_timer_def by (auto intro: refund_safe_task)
next
  case (admin s s')
  then show ?case by (simp add: refund_safe_def)
next
  case (task s t opts env env2 r s')
  show ?case by (rule icrc2_execute_safe[OF task.IH task.hyps(2-4)])
qed


text \<open>A run that collects one burn event: the withdrawal is scheduled.\<close>

definition sample_log :: evm_log where
  "sample_log = \<lparr>log_address = 0, log_topics = [], log_data = []\<rparr>"

definition burn_env :: "u256 bridge_env" where
  "burn_env = offline_env\<lparr>env_block_number := (\<lambda>_. Some 20),
     env_get_logs := (\<lambda>_ _ p. if gl_from_block p = 10 then Some [sample_log] else Some []),
     env_parse_log := sample_parser (Burnt sample_burn)\<rparr>"

definition icrc2_ready :: icrc2_state where
  "icrc2_ready = icrc2_timer ((icrc2_initial (Principal [1]) (Principal [2]))\<lparr>s2_config :=
     \<lparr>cfg2_owner = Principal [1], cfg2_evm_principal = Principal [2],
      cfg2_evm_params = Some (sample_params 1), cfg2_bft_bridge_contract = Some 101\<rparr>\<rparr>)"

definition icrc2_withdrawing :: "icrc2_env \<Rightarrow> icrc2_state" where
  "icrc2_withdrawing env2 =
     snd (run_task (icrc2_execute burn_env env2 undisturbed CollectEvmEvents2) icrc2_ready)"

lemma icrc2_ready_reach: "icrc2_reach icrc2_ready"
  unfolding icrc2_ready_def
  by (intro icrc2_reach.timer, rule icrc2_reach.admin[OF icrc2_reach.initial]) simp_all

lemma icrc2_ready_config:
  "s2_config icrc2_ready = \<lparr>cfg2_owner = Principal [1], cfg2_evm_principal = Principal [2],
     cfg2_evm_params = Some (sample_params 1), cfg2_bft_bridge_contract = Some 101\<rparr>"
  "s2_ops icrc2_ready = with_memory None 0" "s2_lock icrc2_ready = None" "s2_cache icrc2_ready = Map.empty"
  "s2_tasks icrc2_ready = [(InitEvmInfo, \<lparr>retry_policy = Some (MaxRetries 5),
     backoff_policy = Some (Exponential 2 2)\<rparr>), (CollectEvmEvents2, default_options)]"
  by (simp_all add: icrc2_ready_def icrc2_timer_def icrc2_initial_def icrc2_init_def icrc2_state_defs)

lemma burn_env_collect: "collect_link burn_env lnk 10 20 101 = Some [sample_log]"
  by (simp add: collect_link_def collect_logs_def collect_logs_from_to_def burn_env_def
      collect_logs_loop.simps Let_def min_def)

lemma burn_env_simps [simp]:
  "env_block_number burn_env lnk = Some 20" "env_signer_address burn_env = None"
  "env_parse_log burn_env = sample_parser (Burnt sample_burn)"
  by (simp_all add: burn_env_def offline_env_def)

lemma icrc2_withdrawing_run:
  "s2_ops (icrc2_withdrawing env2) = snd (new_operation icrc2_complete 7
     (Withdrawal (WithdrawalScheduled sample_burn)) (with_memory None 0))"
  "s2_cache (icrc2_withdrawing env2) = Map.empty"
  unfolding icrc2_withdrawing_def run_task_def
  by (simp_all add: task_simps icrc2_collect_evm_events_def icrc2_collect_locked_def icrc2_ready_config
      lock_take_def sample_params_def icrc2_evm_client_def cfg2_mod_def
      MAX_LOG_REQUEST_COUNT_def min_def burn_env_collect icrc2_append_logs_def icrc2_task_by_log_def
      sample_parser_burnt sample_burn_def append_tasks2_def icrc2_update_evm_params_def
      icrc2_update_params_def split: prod.splits)

lemma icrc2_withdrawing_reach: "icrc2_reach (icrc2_withdrawing env2)"
proof -
  have "length (icrc2_collected burn_env (s2_config icrc2_ready)) \<le> ids_left (s2_ops icrc2_ready)"
    by (simp add: icrc2_collected_def icrc2_ready_config sample_params_def MAX_LOG_REQUEST_COUNT_def
        min_def burn_env_collect Let_def unsigned_minus_1_eq_mask
        mask_eq_exp_minus_1)
  then show ?thesis
    unfolding icrc2_withdrawing_def
    by (intro icrc2_reach.task[OF icrc2_ready_reach _ _ prod.collapse[symmetric]])
      (auto simp: icrc2_ready_config)
qed

lemma icrc2_withdrawing_op:
  "get_operation (s2_ops (icrc2_withdrawing env2)) 0 =
     Some (Withdrawal (WithdrawalScheduled sample_burn))"
  by (simp add: icrc2_withdrawing_run get_operation_def get_with_id_def get_entry_def
      new_operation_def next_id_def with_memory_def omap_insert_def)


end
