(* ===== verification/Icrc2_Safety.thy ===== *)
theory Icrc2_Safety
  imports Icrc2_Refunds
begin

text \<open>
  Safety of the ICRC-2 bridge: what a withdrawal's transfer can end in, what happens to orders
  the user mints, the exclusion of concurrent log collections by their lock, and what callers
  other than the owner can change.
\<close>

section \<open>Withdrawals\<close>

text \<open>
  C5: What a run of \<open>mint_icrc2\<close> does with burnt wrapped tokens, whatever the ledger answers: after
  a successful transfer the withdrawal is completed with the transferred amount; after a transient
  error the task fails and the withdrawal stays scheduled, to be retried; after any other error a
  refund of the whole burnt amount to the burner is scheduled.
\<close>

theorem icrc2_withdrawal_outcomes:
  assumes "wf_store icrc2_complete (s2_ops (aw 0 s))" and "s2_ops (aw 0 s) = s2_ops s"
    and "get_operation (s2_ops s) i = Some (Withdrawal (WithdrawalScheduled burnt))"
    and "Option.bind (from_slice (env_codec env) (be_to_token burnt)) (to_principal (env_codec env)) = Some to_token"
    and "Option.bind (from_slice (env_codec env) (be_recipient_id burnt)) (to_principal (env_codec env)) = Some recipient"
    and "icrc2_mint (e2_ledger env2) 0 to_token recipient (unat (be_amount burnt)) True (s2_cache (aw 0 s)) = (r, cache)"
    and "run_task (icrc2_mint_icrc2 env env2 aw i) s = (out, s')"
  shows "case r of
      Inr res \<Rightarrow> out = Ok () \<and> s2_tasks s' = s2_tasks (aw 0 s) \<and>
        (\<forall>p. get_operation (s2_ops s') i = Some p \<longrightarrow> (\<exists>acc. acc_owner acc = recipient \<and>
          p = Withdrawal (Transferred to_token acc (su_amount res) (su_tx_id res))))
    | Inl e \<Rightarrow> if icrc2_transient e
        then out = Err (TaskExecutionFailed CallFailed) \<and> s2_tasks s' = s2_tasks (aw 0 s) \<and>
          s2_ops s' = s2_ops s
        else out = Ok () \<and>
          (\<exists>opts. s2_tasks s' = s2_tasks (aw 0 s) @ [(PrepareMintOrder2 i, opts)]) \<and>
          (\<exists>d. get_operation (s2_ops s') i = Some (Withdrawal (RefundScheduled d)) \<and>
             bd_amount d = be_amount burnt \<and> bd_recipient d = be_sender burnt \<and>
             bd_src_token d = to_token \<and> bd_operation_id d = nonce i)"
proof -
  obtain a where found: "find_operation (s2_ops s) i = Some (a, Withdrawal (WithdrawalScheduled burnt))"
    using assms(3) by (auto simp: get_operation_find)
  have wf: "wf_store icrc2_complete (s2_ops s)" using assms(1,2) by simp
  have finished: "x = p" if "get_operation (update_operation icrc2_complete i p (s2_ops s)) i = Some x"
    for p x
    using completed_or_evicted[OF wf found, of p] that by (auto simp: get_operation_find)
  have unfinished: "get_operation (update_operation icrc2_complete i (Withdrawal (RefundScheduled d)) (s2_ops s)) i =
      Some (Withdrawal (RefundScheduled d))" for d
    using os.update_incomplete[OF wf found] by (simp add: get_operation_find)
  have run: "run_task (icrc2_mint_icrc2 env env2 aw i) s = (out, s')" by (rule assms(7))
  show ?thesis
    using assms(2-6) run[unfolded icrc2_mint_icrc2_def run_task_def]
    by (auto simp: task_simps icrc2_state_defs unfinished icrc2_refund_data_def dest!: finished
        split: sum.splits if_splits)
qed

theorem icrc2_withdrawal_outcomes_witness:
  "\<exists>env2 s d. run_task (icrc2_mint_icrc2 offline_env env2 undisturbed 0) (icrc2_withdrawing env2) = (Ok (), s) \<and>
     get_operation (s2_ops s) 0 = Some (Withdrawal (RefundScheduled d)) \<and> bd_amount d = 100"
proof -
  let ?led = "(sample_ledger 10)\<lparr>led_fee := (\<lambda>_ _. Inl DestinationInvalid)\<rparr>"
  let ?env2 = "\<lparr>e2_decode_burn = (\<lambda>_. None), e2_fit_str = (\<lambda>n _. replicate n 0), e2_ledger = ?led,
    e2_self = Principal [3], e2_now = 0\<rparr>"
  let ?s = "icrc2_withdrawing ?env2"
  let ?token = "Principal (replicate 32 2)" and ?recipient = "Principal (replicate 32 1)"
  have wf: "wf_store icrc2_complete (s2_ops ?s)"
    using icrc2_reach_safe[OF icrc2_withdrawing_reach] by (simp add: refund_safe_def refund_inv_def)
  have codec: "Option.bind (from_slice (env_codec offline_env) (be_to_token sample_burn))
      (to_principal (env_codec offline_env)) = Some ?token"
    "Option.bind (from_slice (env_codec offline_env) (be_recipient_id sample_burn))
      (to_principal (env_codec offline_env)) = Some ?recipient"
    by (simp_all add: offline_env_def plain_codec_def sample_burn_def)
  have rejected: "\<exists>cache'. icrc2_mint (e2_ledger ?env2) 0 ?token ?recipient (unat (be_amount sample_burn)) True cache =
      (Inl (InterCanisterCallFailed DestinationInvalid), cache')" if "cache ?token = None" for cache
    by (subst icrc2_mint.simps)
      (simp add: that get_token_configuration_def query_icrc1_configuration_def after_def)
  obtain cache' where mint: "icrc2_mint (e2_ledger ?env2) 0 ?token ?recipient
      (unat (be_amount sample_burn)) True (s2_cache ?s) =
      (Inl (InterCanisterCallFailed DestinationInvalid), cache')"
    using rejected[of "s2_cache ?s"] by (auto simp: icrc2_withdrawing_run)
  obtain r s' where run: "run_task (icrc2_mint_icrc2 offline_env ?env2 undisturbed 0) ?s = (r, s')"
    by force
  show ?thesis
    using icrc2_withdrawal_outcomes[OF wf _ icrc2_withdrawing_op codec mint run] run
    by (auto simp: icrc2_transient_def sample_burn_def)
qed

text \<open>
  C27: A mint order that the user's own transaction mints, without the bridge having sent it, is
  never removed: when the \<open>Minted\<close> event of an operation in state \<open>DepositSigned\<close> or
  \<open>RefundSigned\<close> is processed, the task fails and the state is unchanged, so the operation stays
  open and its order stays listed; every retry fails in the same way.
\<close>

theorem icrc2_user_minted_never_completes:
  assumes "wf_store icrc2_complete (s2_ops s)"
    and "find_operation (s2_ops s) i = Some (me_recipient minted, p)" and "nonce i = me_nonce minted"
    and "\<And>j q. find_operation (s2_ops s) j = Some (me_recipient minted, q) \<Longrightarrow>
           nonce j = me_nonce minted \<Longrightarrow> j = i"
    and "p = Deposit (DepositSigned token amount order) \<or> p = Withdrawal (RefundSigned token amount order)"
  shows "(\<exists>e. run_task (icrc2_remove_mint_order cd minted) s = (Err e, s)) \<and>
    (nonce i, order) \<in> set (icrc2_list_mint_orders s (me_recipient minted) token)"
proof -
  have "List.find (\<lambda>(j, _). nonce j = me_nonce minted)
      (get_for_address (s2_ops s) (me_recipient minted)) = Some (i, p)"
    by (rule find_by_nonce[OF assms(1-4)])
  then have "\<exists>e. run_task (icrc2_remove_mint_order cd minted) s = (Err e, s)"
    using assms(5)
    by (cases "from_slice cd (me_from_token minted)")
      (auto simp: icrc2_remove_mint_order_def run_task_def task_simps)
  moreover have "(i, p) \<in> set (get_for_address (s2_ops s) (me_recipient minted))"
    using get_for_address_set[OF assms(1)] assms(2) by blast
  ultimately show ?thesis
    using assms(5)
    by (auto simp: icrc2_list_mint_orders_def map_filter_def icrc2_signed_mint_order_def
        intro!: image_eqI[where x = "(i, p)"])
qed

theorem icrc2_user_minted_never_completes_witness:
  "\<exists>e. run_task (icrc2_remove_mint_order plain_codec \<lparr>me_amount = 100, me_from_token = replicate 32 4,
       me_sender_id = [], me_to_erc20 = 1, me_recipient = 7, me_nonce = 0\<rparr>)
     (icrc2_ready\<lparr>s2_ops := single_store icrc2_complete 7 (Deposit (DepositSigned (Id256 (replicate 32 4)) 100 [1]))\<rparr>) =
   (Err e, icrc2_ready\<lparr>s2_ops := single_store icrc2_complete 7 (Deposit (DepositSigned (Id256 (replicate 32 4)) 100 [1]))\<rparr>)"
proof -
  let ?p = "Deposit (DepositSigned (Id256 (replicate 32 4)) 100 [1])"
  let ?m = "\<lparr>me_amount = 100, me_from_token = replicate 32 4,
       me_sender_id = [], me_to_erc20 = 1, me_recipient = 7, me_nonce = 0\<rparr>"
  let ?s = "icrc2_ready\<lparr>s2_ops := single_store icrc2_complete 7 ?p\<rparr>"
  have wf: "wf_store icrc2_complete (s2_ops ?s)" by (simp add: single_store_wf)
  have op: "find_operation (s2_ops ?s) 0 = Some (me_recipient ?m, ?p)" by (simp add: single_store_find)
  have unique: "j = 0" if "find_operation (s2_ops ?s) j = Some (me_recipient ?m, q)" for j q
    using that by (simp add: single_store_find split: if_splits)
  have nonce: "nonce 0 = me_nonce ?m" by (simp add: nonce_def)
  show ?thesis
    by (rule icrc2_user_minted_never_completes[OF wf op nonce unique disjI1[OF refl], THEN conjunct1])
qed

section \<open>Exclusion of concurrent collections\<close>

text \<open>
  Histories of the collection lock: the time, the lock and the collections that hold it, newest
  first. A collection ends by dropping its lock or, when it traps, never.
\<close>

inductive lock_history :: "u64 \<Rightarrow> u64 option \<Rightarrow> u64 list \<Rightarrow> bool" where
  start: "lock_history now None []"
| take: "lock_history now lock holders \<Longrightarrow> now \<le> now' \<Longrightarrow>
    unat now' + unat COLLECT_EVM_LOGS_TIMEOUT < 2 ^ 64 \<Longrightarrow>
    lock_take now' lock = (Some ts, lock') \<Longrightarrow> lock_history now' lock' (ts # holders)"
| busy: "lock_history now lock holders \<Longrightarrow> now \<le> now' \<Longrightarrow>
    lock_take now' lock = (None, lock') \<Longrightarrow> lock_history now' lock' holders"
| drop: "lock_history now lock holders \<Longrightarrow> ts \<in> set holders \<Longrightarrow>
    lock_history now (lock_drop ts lock) (remove1 ts holders)"

definition spaced :: "u64 list \<Rightarrow> bool" where
  "spaced = sorted_wrt (\<lambda>newer older. unat older + unat COLLECT_EVM_LOGS_TIMEOUT < unat newer)"

definition lock_inv :: "u64 \<Rightarrow> u64 option \<Rightarrow> u64 list \<Rightarrow> bool" where
  "lock_inv now lock holders \<longleftrightarrow> spaced holders \<and> (case lock of
       None \<Rightarrow> \<forall>h \<in> set holders. unat h + unat COLLECT_EVM_LOGS_TIMEOUT < unat now
     | Some ts \<Rightarrow> ts \<le> now \<and> unat ts + unat COLLECT_EVM_LOGS_TIMEOUT < 2 ^ 64 \<and>
         (\<forall>h \<in> set holders. h = ts \<or> unat h + unat COLLECT_EVM_LOGS_TIMEOUT < unat ts))"

lemma spaced_distinct: "spaced hs \<Longrightarrow> distinct hs"
  unfolding spaced_def by (induction hs) auto

lemma spaced_remove1: "spaced hs \<Longrightarrow> spaced (remove1 h hs)"
  unfolding spaced_def by (induction hs) (auto dest: notin_set_remove1)

lemma lock_expired:
  fixes ts now :: u64
  assumes "unat ts + unat COLLECT_EVM_LOGS_TIMEOUT < 2 ^ 64"
  shows "ts + COLLECT_EVM_LOGS_TIMEOUT \<ge> now \<longleftrightarrow> unat ts + unat COLLECT_EVM_LOGS_TIMEOUT \<ge> unat now"
  using assms unat_add_lem[of ts COLLECT_EVM_LOGS_TIMEOUT] by (simp add: word_le_nat_alt)

lemma lock_history_inv: "lock_history now lock holders \<Longrightarrow> lock_inv now lock holders"
proof (induction rule: lock_history.induct)
  case (take now lock holders now' ts lock')
  have "lock' = Some now'" "ts = now'"
    using take.hyps(4) by (auto simp: lock_take_def split: option.splits if_splits)
  moreover have "unat h + unat COLLECT_EVM_LOGS_TIMEOUT < unat now'" if "h \<in> set holders" for h
  proof (cases lock)
    case None
    then show ?thesis
      using take.IH take.hyps(2) that by (fastforce simp: lock_inv_def word_le_nat_alt)
  next
    case (Some t)
    then have "unat t + unat COLLECT_EVM_LOGS_TIMEOUT < unat now'"
      using take.IH take.hyps(4) lock_expired[of t now']
      by (auto simp: lock_inv_def lock_take_def split: if_splits)
    then show ?thesis using take.IH Some that by (auto simp: lock_inv_def)
  qed
  ultimately show ?case
    using take.IH take.hyps(3) by (auto simp: lock_inv_def spaced_def)
next
  case (busy now lock holders now' lock')
  then show ?case
    by (auto simp: lock_inv_def lock_take_def split: option.splits if_splits)
next
  case (drop now lock holders ts)
  show ?case
  proof (cases lock)
    case None
    then show ?thesis
      using drop.IH by (auto simp: lock_inv_def lock_drop_def spaced_remove1 dest: notin_set_remove1)
  next
    case (Some t)
    have rest: "set (remove1 ts holders) = set holders - {ts}"
      using drop.IH by (simp add: lock_inv_def spaced_distinct)
    have held: "ts = t \<or> unat ts + unat COLLECT_EVM_LOGS_TIMEOUT < unat t"
      using drop.IH drop.hyps(2) Some by (simp add: lock_inv_def)
    show ?thesis
    proof (cases "t \<le> ts")
      case True
      then have "ts = t" using held by (auto simp: word_le_nat_alt)
      then show ?thesis
        using drop.IH Some rest spaced_remove1[of holders ts]
        by (auto simp: lock_inv_def lock_drop_def word_le_nat_alt)
    next
      case False
      then show ?thesis
        using drop.IH Some rest spaced_remove1[of holders ts]
        by (auto simp: lock_inv_def lock_drop_def)
    qed
  qed
qed (simp add: lock_inv_def spaced_def)

text \<open>
  C6: The collection lock excludes concurrent collections: of the log collections that hold the
  lock at any point of any history, including histories in which a collection traps and never
  drops its lock, each one started more than the timeout of a minute after the previous one. So at
  most one collection younger than the timeout runs, and an old one that ends late does not
  release the lock of a newer one.
\<close>

theorem lock_exclusion:
  assumes "lock_history now lock holders"
  shows "sorted_wrt (\<lambda>newer older. unat older + unat COLLECT_EVM_LOGS_TIMEOUT < unat newer) holders \<and>
    (\<forall>ts. lock = Some ts \<longrightarrow> unat ts + unat COLLECT_EVM_LOGS_TIMEOUT < unat now' \<longrightarrow>
       lock_take now' lock = (Some now', Some now'))"
proof -
  have inv: "lock_inv now lock holders" by (rule lock_history_inv[OF assms])
  have "lock_take now' (Some ts) = (Some now', Some now')"
    if "lock = Some ts" "unat ts + unat COLLECT_EVM_LOGS_TIMEOUT < unat now'" for ts
    using inv that lock_expired[of ts now'] by (auto simp: lock_take_def lock_inv_def)
  then show ?thesis using inv by (auto simp: lock_inv_def spaced_def)
qed

theorem lock_exclusion_witness:
  "lock_history 70000000000 (Some 70000000000) [70000000000, 5] \<and>
   sorted_wrt (\<lambda>newer older. unat older + unat COLLECT_EVM_LOGS_TIMEOUT < unat newer)
     [70000000000, 5 :: u64] \<and>
   lock_take 140000000000 (Some 70000000000) = (Some 140000000000, Some 140000000000)"
proof -
  have "lock_history 5 (Some 5) [5]"
    by (rule lock_history.take[OF lock_history.start[of 0]])
      (simp_all add: lock_take_def COLLECT_EVM_LOGS_TIMEOUT_def)
  then have h: "lock_history 70000000000 (Some 70000000000) [70000000000, 5]"
    by (rule lock_history.take) (simp_all add: lock_take_def COLLECT_EVM_LOGS_TIMEOUT_def)
  show ?thesis
    using lock_exclusion[OF h, of 140000000000] h by (simp add: COLLECT_EVM_LOGS_TIMEOUT_def)
qed

section \<open>Calls of the canister\<close>

datatype icrc2_call =
    SetOwner principal
  | SetEvmPrincipal principal
  | SetBftBridgeContract h160
  | AddToWhitelist principal
  | RemoveFromWhitelist principal

text \<open>The state-changing calls of the canister, by any caller.\<close>

fun icrc2_dispatch :: "principal \<Rightarrow> icrc2_call \<Rightarrow> icrc2_state \<Rightarrow> icrc2_state" where
  "icrc2_dispatch caller (SetOwner p) s = snd (icrc2_set_owner caller p s)"
| "icrc2_dispatch caller (SetEvmPrincipal p) s = snd (icrc2_set_evm_principal caller p s)"
| "icrc2_dispatch caller (SetBftBridgeContract a) s = icrc2_set_bft_bridge_contract a s"
| "icrc2_dispatch caller (AddToWhitelist p) s = snd (icrc2_add_to_whitelist caller p s)"
| "icrc2_dispatch caller (RemoveFromWhitelist p) s = snd (icrc2_remove_from_whitelist caller p s)"

definition icrc2_calls :: "(principal \<times> icrc2_call) list \<Rightarrow> icrc2_state \<Rightarrow> icrc2_state" where
  "icrc2_calls cs s = fold (\<lambda>(caller, c). icrc2_dispatch caller c) cs s"

fun last_contract :: "(principal \<times> icrc2_call) list \<Rightarrow> h160 option \<Rightarrow> h160 option" where
  "last_contract [] a = a"
| "last_contract ((_, SetBftBridgeContract b) # cs) a = last_contract cs (Some b)"
| "last_contract (_ # cs) a = last_contract cs a"

lemmas icrc2_call_defs = icrc2_set_owner_def icrc2_set_evm_principal_def
  icrc2_set_bft_bridge_contract_def icrc2_add_to_whitelist_def icrc2_remove_from_whitelist_def
  set_owner_check_def set_evm_principal_check_def access_control_check_def both_checks_def
  check_anonymous_principal_def inspect_check_is_owner_def cfg2_mod_def

text \<open>
  C28: What callers other than the owner can do: any sequence of their calls leaves the owner, the
  EVM principal, the whitelist, the operations and the tasks as they are. But it does change the
  address of the bridge contract whose events the bridge trusts: \<open>set_bft_bridge_contract\<close> checks
  no caller, and the contract afterwards is the last one any caller set.
\<close>

theorem icrc2_stranger_calls:
  assumes "\<And>caller c. (caller, c) \<in> set cs \<Longrightarrow> caller \<noteq> cfg2_owner (s2_config s)"
  shows "icrc2_calls cs s = s\<lparr>s2_config := (s2_config s)\<lparr>cfg2_bft_bridge_contract :=
    last_contract cs (cfg2_bft_bridge_contract (s2_config s))\<rparr>\<rparr>"
  using assms
proof (induction cs arbitrary: s)
  case Nil
  then show ?case by (simp add: icrc2_calls_def)
next
  case (Cons x cs)
  obtain caller c where x: "x = (caller, c)" by force
  have "caller \<noteq> cfg2_owner (s2_config s)" using Cons.prems x by auto
  then have one: "icrc2_dispatch caller c s = s\<lparr>s2_config := (s2_config s)\<lparr>cfg2_bft_bridge_contract :=
      last_contract [x] (cfg2_bft_bridge_contract (s2_config s))\<rparr>\<rparr>"
    unfolding x by (cases c) (simp_all add: icrc2_call_defs)
  have last: "last_contract (x # cs) a = last_contract cs (last_contract [x] a)" for a
    unfolding x by (cases c) simp_all
  have "icrc2_calls (x # cs) s = icrc2_calls cs (icrc2_dispatch caller c s)"
    by (simp add: icrc2_calls_def x)
  also have "\<dots> = s\<lparr>s2_config := (s2_config s)\<lparr>cfg2_bft_bridge_contract :=
      last_contract cs (last_contract [x] (cfg2_bft_bridge_contract (s2_config s)))\<rparr>\<rparr>"
    by (subst Cons.IH) (use Cons.prems one in auto)
  finally show ?case unfolding last .
qed

theorem icrc2_stranger_calls_witness:
  "cfg2_bft_bridge_contract (s2_config (icrc2_calls
     [(Anonymous, SetBftBridgeContract 666), (Principal [9], SetOwner (Principal [9]))] icrc2_ready)) =
   Some 666"
  by (subst icrc2_stranger_calls) (auto simp: icrc2_ready_config)

end
