(* ===== verification/Utf8.thy ===== *)
theory Utf8
  imports Prelude
begin

text \<open>
  Rust strings. A \<open>String\<close> is kept as its bytes; \<open>String::from_utf8\<close> accepts exactly the
  well-formed UTF-8 sequences (the table of the Unicode standard that \<open>core::str\<close> follows).
\<close>

definition cont :: "u8 \<Rightarrow> bool" where
  "cont b \<longleftrightarrow> 0x80 \<le> b \<and> b \<le> 0xBF"

definition second_byte_ok :: "u8 \<Rightarrow> u8 \<Rightarrow> bool" where
  "second_byte_ok b c \<longleftrightarrow>
     (if b = 0xE0 then 0xA0 \<le> c \<and> c \<le> 0xBF
      else if b = 0xED then 0x80 \<le> c \<and> c \<le> 0x9F
      else if b = 0xF0 then 0x90 \<le> c \<and> c \<le> 0xBF
      else if b = 0xF4 then 0x80 \<le> c \<and> c \<le> 0x8F
      else cont c)"

definition utf8_width :: "u8 \<Rightarrow> nat" where
  "utf8_width b =
     (if b < 0x80 then 1 else if 0xC2 \<le> b \<and> b \<le> 0xDF then 2
      else if 0xE0 \<le> b \<and> b \<le> 0xEF then 3 else if 0xF0 \<le> b \<and> b \<le> 0xF4 then 4 else 0)"

function utf8_valid :: "bytes \<Rightarrow> bool" where
  "utf8_valid bs = (case bs of
       [] \<Rightarrow> True
     | b # rest \<Rightarrow>
         (let w = utf8_width b in
          w \<noteq> 0 \<and> w - 1 \<le> length rest \<and>
          (w \<ge> 2 \<longrightarrow> second_byte_ok b (hd rest)) \<and> list_all cont (take (w - 2) (tl rest)) \<and>
          utf8_valid (drop (w - 1) rest)))"
  by pat_completeness auto
termination by (relation "measure length") auto

declare utf8_valid.simps [simp del]

definition from_utf8 :: "bytes \<Rightarrow> bytes option" where
  "from_utf8 bs = (if utf8_valid bs then Some bs else None)"

text \<open>ASCII texts, such as Bitcoin addresses, are accepted.\<close>

lemma from_utf8_ascii: "list_all (\<lambda>b. b < 0x80) bs \<Longrightarrow> from_utf8 bs = Some bs"
proof -
  have "list_all (\<lambda>b. b < 0x80) bs \<Longrightarrow> utf8_valid bs"
  proof (induction bs)
    case (Cons b bs)
    then show ?case
      by (subst utf8_valid.simps) (simp add: utf8_width_def)
  qed (simp add: utf8_valid.simps)
  then show "list_all (\<lambda>b. b < 0x80) bs \<Longrightarrow> from_utf8 bs = Some bs"
    by (simp add: from_utf8_def)
qed

end
