(* ===== verification/Btc_Bridge.thy ===== *)
theory Btc_Bridge
  imports Icrc2_Token Mint_Orders Utf8
begin

text \<open>
  The Bitcoin bridge (\<open>btc-bridge\<close>), on top of ckBTC: deposits of ckBTC are turned into mint
  orders of wrapped tokens, burns of wrapped tokens into ckBTC withdrawals. State and
  configuration (\<open>state.rs\<close>), the stores (\<open>orders_store.rs\<close>, \<open>burn_request_store.rs\<close>), the
  operations (\<open>ops.rs\<close>), the scheduler's tasks (\<open>scheduler.rs\<close>) and the canister (\<open>canister.rs\<close>).
  The ckBTC minter and ledger are parameters.
\<close>

section \<open>Interface of ckBTC\<close>

record out_point =
  op_txid :: bytes
  op_vout :: u32

record utxo =
  utxo_outpoint :: out_point
  utxo_value :: u64
  utxo_height :: u32

record pending_utxo =
  pu_outpoint :: out_point
  pu_value :: u64
  pu_confirmations :: u32

record update_balance_args =
  ub_owner :: "principal option"
  ub_subaccount :: "bytes option"

datatype utxo_status =
    UtxoValueTooSmall utxo
  | UtxoTainted utxo
  | UtxoChecked utxo
  | UtxoMinted (um_block_index: u64) (um_minted_amount: u64) (um_utxo: utxo)

datatype update_balance_error =
    UbTemporarilyUnavailable string
  | UbAlreadyProcessing
  | NoNewUtxos "u32 option" u32 "pending_utxo list option"
  | UbGenericError u64 string

record retrieve_btc_args =
  rb_amount :: u64
  rb_address :: bytes

record retrieve_btc_ok =
  rb_block_index :: u64

datatype retrieve_btc_error =
    RbAlreadyProcessing
  | RbAmountTooLow u64
  | RbMalformedAddress string
  | RbInsufficientFunds u64
  | RbTemporarilyUnavailable string
  | RbGenericError string u64

section \<open>Interface of the bridge\<close>

datatype erc20_mint_status =
    MintScheduled u32 u32 "pending_utxo list option"
  | MintSigned signed_mint_order
  | MintSent u64 h256

datatype erc20_mint_error =
    ValueTooSmall
  | Tainted utxo
  | CkBtcMinter update_balance_error
  | CkBtcLedger transfer_error
  | SignError
  | EvmError
  | NotInitialized
  | NothingToMint

section \<open>State\<close>

datatype bitcoin_network = Mainnet | Testnet | Regtest

record btc_config =
  bc_ck_btc_minter :: principal
  bc_ck_btc_ledger :: principal
  bc_network :: bitcoin_network
  bc_evm_link :: evm_link
  bc_admin :: principal
  bc_ck_btc_ledger_fee :: u64

definition btc_default_config :: btc_config where
  "btc_default_config = \<lparr>bc_ck_btc_minter = Anonymous, bc_ck_btc_ledger = Anonymous,
     bc_network = Regtest, bc_evm_link = default_evm_link, bc_admin = ManagementCanister,
     bc_ck_btc_ledger_fee = 10\<rparr>"

record bft_config =
  bf_erc20_chain_id :: u32
  bf_bridge_address :: h160
  bf_token_address :: h160
  bf_token_name :: bytes
  bf_token_symbol :: bytes
  bf_decimals :: u8

definition bft_default_config :: bft_config where
  "bft_default_config = \<lparr>bf_erc20_chain_id = 0, bf_bridge_address = 0, bf_token_address = 0,
     bf_token_name = replicate 32 0, bf_token_symbol = replicate 16 0, bf_decimals = 0\<rparr>"

text \<open>\<open>burn_request_store.rs\<close>\<close>

record burn_request_info =
  br_address :: bytes
  br_amount :: u64
  br_is_transferred :: bool

type_synonym burn_request_store = "(u32, burn_request_info) omap"

definition burn_insert :: "u32 \<Rightarrow> bytes \<Rightarrow> u64 \<Rightarrow> burn_request_store \<Rightarrow> burn_request_store" where
  "burn_insert i address amount m =
     omap_insert i \<lparr>br_address = address, br_amount = amount, br_is_transferred = False\<rparr> m"

definition burn_remove :: "u32 \<Rightarrow> burn_request_store \<Rightarrow> burn_request_store" where
  "burn_remove i m = omap_remove i m"

definition burn_set_transferred :: "u32 \<Rightarrow> burn_request_store \<Rightarrow> burn_request_store" where
  "burn_set_transferred i m = (case omap_get m i of
       None \<Rightarrow> m
     | Some v \<Rightarrow> omap_insert i (v\<lparr>br_is_transferred := True\<rparr>) (omap_remove i m))"

text \<open>\<open>orders_store.rs\<close>\<close>

definition SRC_TOKEN :: id256 where
  "SRC_TOKEN = Id256 (replicate 32 0)"

definition orders_push :: "id256 \<Rightarrow> u32 \<Rightarrow> signed_mint_order \<Rightarrow> mint_orders \<Rightarrow> mint_orders" where
  "orders_push sender n order m = snd (mint_orders_insert sender SRC_TOKEN n order m)"

definition orders_remove :: "id256 \<Rightarrow> u32 \<Rightarrow> mint_orders \<Rightarrow> mint_orders" where
  "orders_remove sender n m = snd (mint_orders_remove sender SRC_TOKEN n m)"

text \<open>
  \<open>State\<close> with the tasks of the scheduler and the transfers the bridge has asked the ckBTC ledger
  for, in order.
\<close>

datatype btc_task =
    BtcInitEvmState
  | BtcCollectEvmEvents
  | BtcRemoveMintOrder minted_event_data
  | MintBtc burnt_event_data
  | MintErc20 h160

record btc_state =
  sb_config :: btc_config
  sb_bft :: bft_config
  sb_orders :: mint_orders
  sb_burns :: burn_request_store
  sb_params :: "evm_params option"
  sb_tasks :: "(btc_task \<times> task_options) list"
  sb_sent :: "transfer_arg list"

definition btc_chain_id :: "btc_config \<Rightarrow> u32" where
  "btc_chain_id cfg = (case bc_network cfg of Mainnet \<Rightarrow> 0 | Testnet \<Rightarrow> 1 | Regtest \<Rightarrow> 2)"

definition btc_evm_info :: "btc_state \<Rightarrow> evm_info" where
  "btc_evm_info s = \<lparr>link = bc_evm_link (sb_config s),
     bridge_contract = bf_bridge_address (sb_bft s), params = sb_params s\<rparr>"

definition btc_default_state :: btc_state where
  "btc_default_state = \<lparr>sb_config = btc_default_config, sb_bft = bft_default_config,
     sb_orders = mint_orders_new, sb_burns = [], sb_params = None, sb_tasks = [], sb_sent = []\<rparr>"

definition btc_append_tasks :: "(btc_task \<times> task_options) list \<Rightarrow> btc_state \<Rightarrow> btc_state" where
  "btc_append_tasks ts s = s\<lparr>sb_tasks := sb_tasks s @ ts\<rparr>"

definition eth_address_to_subaccount :: "h160 \<Rightarrow> bytes" where
  "eth_address_to_subaccount address = h160_bytes address @ replicate 12 0"

section \<open>Operations\<close>

text \<open>
  The answers of ckBTC in one execution. The ledger's answer to a transfer also depends on the
  number of transfers asked before.
\<close>

record ckbtc =
  ck_self :: principal
  ck_update_balance ::
    "update_balance_args \<Rightarrow> rejection_code + (update_balance_error + utxo_status list)"
  ck_transfer :: "nat \<Rightarrow> transfer_arg \<Rightarrow> rejection_code + (transfer_error + nat)"
  ck_withdrawal_account :: "rejection_code + account"
  ck_retrieve_btc :: "retrieve_btc_args \<Rightarrow> rejection_code + (retrieve_btc_error + retrieve_btc_ok)"

text \<open>An asked transfer is recorded, then its answer is awaited.\<close>

definition ask_transfer ::
  "ckbtc \<Rightarrow> (btc_state \<Rightarrow> btc_state) \<Rightarrow> transfer_arg \<Rightarrow>
     (btc_state, rejection_code + (transfer_error + nat)) task"
where
  "ask_transfer ck aw arg =
     andThen (reading (\<lambda>s. ck_transfer ck (length (sb_sent s)) arg)) (\<lambda>response.
     andThen (modify (\<lambda>s. s\<lparr>sb_sent := sb_sent s @ [arg]\<rparr>)) (\<lambda>_. answer aw response))"

subsection \<open>Deposits\<close>

definition request_update_balance ::
  "ckbtc \<Rightarrow> (btc_state \<Rightarrow> btc_state) \<Rightarrow> h160 \<Rightarrow>
     (btc_state, update_balance_error + utxo_status list) task"
where
  "request_update_balance ck aw eth_address =
     answer aw (case ck_update_balance ck \<lparr>ub_owner = Some (ck_self ck),
         ub_subaccount = Some (eth_address_to_subaccount eth_address)\<rparr> of
       Inl _ \<Rightarrow> Inl (UbTemporarilyUnavailable ''Failed to connect to ckBTC minter'')
     | Inr r \<Rightarrow> r)"

definition schedule_mint :: "h160 \<Rightarrow> btc_state \<Rightarrow> btc_state" where
  "schedule_mint eth_address = btc_append_tasks [(MintErc20 eth_address, default_options)]"

definition btc_make_order :: "id256_codec \<Rightarrow> btc_state \<Rightarrow> h160 \<Rightarrow> u64 \<Rightarrow> u32 \<Rightarrow> mint_order" where
  "btc_make_order cd s eth_address amount n =
     \<lparr>mo_amount = ucast amount,
      mo_sender = from_evm_address cd eth_address (btc_chain_id (sb_config s)),
      mo_src_token = from_principal cd (bc_ck_btc_ledger (sb_config s)),
      mo_recipient = eth_address, mo_dst_token = 0, mo_nonce = n,
      mo_sender_chain_id = btc_chain_id (sb_config s),
      mo_recipient_chain_id = bf_erc20_chain_id (sb_bft s),
      mo_name = bf_token_name (sb_bft s), mo_symbol = bf_token_symbol (sb_bft s),
      mo_decimals = bf_decimals (sb_bft s), mo_approve_spender = 0, mo_approve_amount = 0,
      mo_fee_payer = 0\<rparr>"

definition btc_prepare_mint_order ::
  "'v bridge_env \<Rightarrow> (btc_state \<Rightarrow> btc_state) \<Rightarrow> h160 \<Rightarrow> u64 \<Rightarrow> u32 \<Rightarrow>
     (btc_state, erc20_mint_error + signed_mint_order) task"
where
  "btc_prepare_mint_order env aw eth_address amount n =
     andThen (reading (\<lambda>s. btc_make_order (env_codec env) s eth_address amount n)) (\<lambda>order.
     answer aw (case env_encode_and_sign env order of
       None \<Rightarrow> Inl SignError | Some signed_order \<Rightarrow> Inr signed_order))"

definition transfer_ckbtc_from_subaccount ::
  "ckbtc \<Rightarrow> (btc_state \<Rightarrow> btc_state) \<Rightarrow> h160 \<Rightarrow> u64 \<Rightarrow> (btc_state, erc20_mint_error + nat) task"
where
  "transfer_ckbtc_from_subaccount ck aw eth_address amount =
     andThen (reading (\<lambda>s. bc_ck_btc_ledger_fee (sb_config s))) (\<lambda>fee.
     andThen (ask_transfer ck aw
       \<lparr>ta_to = \<lparr>acc_owner = ck_self ck, acc_subaccount = None\<rparr>, ta_amount = unat amount,
        ta_fee = Some (unat fee),
        ta_from_subaccount = Some (eth_address_to_subaccount eth_address)\<rparr>) (\<lambda>response.
     return (case response of
       Inl _ \<Rightarrow> Inl (CkBtcLedger TemporarilyUnavailable)
     | Inr (Inl e) \<Rightarrow> Inl (CkBtcLedger e)
     | Inr (Inr i) \<Rightarrow> Inr i)))"

definition store_mint_order ::
  "id256_codec \<Rightarrow> signed_mint_order \<Rightarrow> h160 \<Rightarrow> u32 \<Rightarrow> btc_state \<Rightarrow> btc_state"
where
  "store_mint_order cd order eth_address n s = s\<lparr>sb_orders :=
     orders_push (from_evm_address cd eth_address (btc_chain_id (sb_config s))) n order (sb_orders s)\<rparr>"

definition send_mint_order ::
  "'v bridge_env \<Rightarrow> (nat \<Rightarrow> btc_state \<Rightarrow> btc_state) \<Rightarrow> signed_mint_order \<Rightarrow>
     (btc_state, erc20_mint_error + h256) task"
where
  "send_mint_order env aw order =
     andTry (answer (aw 0) (case env_signer_address env of
       None \<Rightarrow> Inl SignError | Some a \<Rightarrow> Inr a)) (\<lambda>sender.
     andThen (reading btc_evm_info) (\<lambda>evm_info.
     case params evm_info of
       None \<Rightarrow> return (Inl NotInitialized)
     | Some ps \<Rightarrow>
         (case mint_transaction (env_encode_input env) sender (bridge_contract evm_info)
                (ucast (evm_nonce ps)) (gas_price ps) order (ucast (chain_id ps)) of
            Ok tx \<Rightarrow>
              andTry (answer (aw 1) (case env_sign_transaction env tx of
                None \<Rightarrow> Inl SignError | Some sig \<Rightarrow> Inr sig)) (\<lambda>(r, s, v).
              let tx = tx\<lparr>tx_r := r, tx_s := s, tx_v := v\<rparr>;
                  tx = tx\<lparr>tx_hash := env_tx_hash env tx\<rparr> in
              andTry (answer (aw 2) (case env_send_raw_transaction env (link evm_info) tx of
                None \<Rightarrow> Inl EvmError | Some i \<Rightarrow> Inr i)) (\<lambda>i.
              andThen (modify (\<lambda>s. s\<lparr>sb_params :=
                map_option (\<lambda>p. p\<lparr>evm_nonce := evm_nonce p + 1\<rparr>) (sb_params s)\<rparr>)) (\<lambda>_.
              return (Inr i))))
          | Err (f :: failure) \<Rightarrow> panic
          | Panic \<Rightarrow> panic)))"

definition mint_erc20 ::
  "'v bridge_env \<Rightarrow> ckbtc \<Rightarrow> (nat \<Rightarrow> btc_state \<Rightarrow> btc_state) \<Rightarrow> h160 \<Rightarrow> u64 \<Rightarrow> u32 \<Rightarrow>
     (btc_state, erc20_mint_error + erc20_mint_status) task"
where
  "mint_erc20 env ck aw eth_address amount n =
     andThen (reading (\<lambda>s. bc_ck_btc_ledger_fee (sb_config s))) (\<lambda>fee.
     if amount < fee then return (Inl ValueTooSmall)
     else let amount_minus_fee = amount - fee in
     if amount_minus_fee = 0 then return (Inl ValueTooSmall)
     else
       andTry (btc_prepare_mint_order env (aw 0) eth_address amount_minus_fee n) (\<lambda>order.
       andTry (transfer_ckbtc_from_subaccount ck (aw 1) eth_address amount_minus_fee) (\<lambda>_.
       andThen (modify (store_mint_order (env_codec env) order eth_address n)) (\<lambda>_.
       andThen (send_mint_order env (\<lambda>k. aw (k + 2)) order) (\<lambda>r.
       return (Inr (case r of
         Inr tx_id \<Rightarrow> MintSent amount_minus_fee tx_id
       | Inl _ \<Rightarrow> MintSigned order)))))))"

text \<open>The loop over the UTXOs; each mint awaits at most five calls.\<close>

fun mint_utxos ::
  "'v bridge_env \<Rightarrow> ckbtc \<Rightarrow> (nat \<Rightarrow> btc_state \<Rightarrow> btc_state) \<Rightarrow> h160 \<Rightarrow> utxo_status list \<Rightarrow>
     (btc_state, (erc20_mint_error + erc20_mint_status) list) task"
where
  "mint_utxos env ck aw eth_address [] = return []"
| "mint_utxos env ck aw eth_address (u # us) =
     andThen (case u of
         UtxoMinted _ minted_amount x \<Rightarrow>
           mint_erc20 env ck aw eth_address minted_amount (utxo_height x)
       | UtxoValueTooSmall _ \<Rightarrow> return (Inl ValueTooSmall)
       | UtxoTainted x \<Rightarrow> return (Inl (Tainted x))
       | UtxoChecked _ \<Rightarrow> return (Inl (CkBtcMinter (UbTemporarilyUnavailable
           ''KYT check passed, but mint failed. Try again later.'')))) (\<lambda>res.
     andThen (mint_utxos env ck (\<lambda>k. aw (k + 5)) eth_address us) (\<lambda>results.
     return (res # results)))"

definition btc_to_erc20 ::
  "'v bridge_env \<Rightarrow> ckbtc \<Rightarrow> (nat \<Rightarrow> btc_state \<Rightarrow> btc_state) \<Rightarrow> h160 \<Rightarrow>
     (btc_state, (erc20_mint_error + erc20_mint_status) list) task"
where
  "btc_to_erc20 env ck aw eth_address =
     andThen (request_update_balance ck (aw 0) eth_address) (\<lambda>r. case r of
       Inr minted_utxos \<Rightarrow> mint_utxos env ck (\<lambda>k. aw (k + 1)) eth_address minted_utxos
     | Inl (NoNewUtxos None _ _) \<Rightarrow> return [Inl NothingToMint]
     | Inl (NoNewUtxos (Some current) required pending) \<Rightarrow>
         andThen (modify (schedule_mint eth_address)) (\<lambda>_.
         return [Inr (MintScheduled current required pending)])
     | Inl err \<Rightarrow> return [Inl (CkBtcMinter err)])"

subsection \<open>Withdrawals\<close>

definition get_ckbtc_withdrawal_account ::
  "ckbtc \<Rightarrow> (btc_state \<Rightarrow> btc_state) \<Rightarrow> (btc_state, retrieve_btc_error + account) task"
where
  "get_ckbtc_withdrawal_account ck aw = answer aw (case ck_withdrawal_account ck of
       Inl _ \<Rightarrow> Inl (RbTemporarilyUnavailable ''get withdrawal account'') | Inr a \<Rightarrow> Inr a)"

definition transfer_ckbtc ::
  "ckbtc \<Rightarrow> (btc_state \<Rightarrow> btc_state) \<Rightarrow> account \<Rightarrow> u64 \<Rightarrow> u64 \<Rightarrow>
     (btc_state, retrieve_btc_error + unit) task"
where
  "transfer_ckbtc ck aw account amount fee =
     andThen (ask_transfer ck aw \<lparr>ta_to = account, ta_amount = unat amount,
       ta_fee = Some (unat fee), ta_from_subaccount = None\<rparr>) (\<lambda>response.
     return (case response of
       Inr (Inr _) \<Rightarrow> Inr ()
     | _ \<Rightarrow> Inl (RbTemporarilyUnavailable ''ckBTC transfer failed'')))"

definition request_btc_withdrawal ::
  "ckbtc \<Rightarrow> (btc_state \<Rightarrow> btc_state) \<Rightarrow> bytes \<Rightarrow> u64 \<Rightarrow>
     (btc_state, retrieve_btc_error + retrieve_btc_ok) task"
where
  "request_btc_withdrawal ck aw address amount =
     answer aw (case ck_retrieve_btc ck \<lparr>rb_amount = amount, rb_address = address\<rparr> of
       Inl _ \<Rightarrow> Inl (RbTemporarilyUnavailable ''retrieve_btc call failed'') | Inr r \<Rightarrow> r)"

definition burns_mod :: "(burn_request_store \<Rightarrow> burn_request_store) \<Rightarrow> btc_state \<Rightarrow> btc_state" where
  "burns_mod f s = s\<lparr>sb_burns := f (sb_burns s)\<rparr>"

text \<open>\<open>burn_ckbtc\<close>; the subtraction of the fee wraps around.\<close>

definition burn_ckbtc ::
  "ckbtc \<Rightarrow> (nat \<Rightarrow> btc_state \<Rightarrow> btc_state) \<Rightarrow> u32 \<Rightarrow> bytes \<Rightarrow> u64 \<Rightarrow>
     (btc_state, retrieve_btc_error + retrieve_btc_ok) task"
where
  "burn_ckbtc ck aw request_id address amount =
     andThen (modify (burns_mod (burn_insert request_id address amount))) (\<lambda>_.
     andThen (reading (\<lambda>s. bc_ck_btc_ledger_fee (sb_config s))) (\<lambda>fee.
     andTry (get_ckbtc_withdrawal_account ck (aw 0)) (\<lambda>account.
     let to_transfer = amount - fee in
     andTry (transfer_ckbtc ck (aw 1) account to_transfer fee) (\<lambda>_.
     andThen (modify (burns_mod (burn_set_transferred request_id))) (\<lambda>_.
     andThen (request_btc_withdrawal ck (aw 2) address to_transfer) (\<lambda>result.
     andThen (case result of
         Inr _ \<Rightarrow> modify (burns_mod (burn_remove request_id)) | Inl _ \<Rightarrow> return ()) (\<lambda>_.
     return result)))))))"

section \<open>Tasks\<close>

definition btc_retry_options :: task_options where
  "btc_retry_options =
     \<lparr>retry_policy = Some (MaxRetries (- 1)), backoff_policy = Some (Fixed 5)\<rparr>"

definition btc_init_evm_state ::
  "'v bridge_env \<Rightarrow> (nat \<Rightarrow> btc_state \<Rightarrow> btc_state) \<Rightarrow> (btc_state, unit) task"
where
  "btc_init_evm_state env aw =
     andThen (reading (\<lambda>s. link (btc_evm_info s))) (\<lambda>client.
     andThen (call (aw 0) (env_signer_address env)) (\<lambda>address.
     andThen (call_outcome (aw 1) (query_link env client address)) (\<lambda>evm_params.
     modify (\<lambda>s. s\<lparr>sb_params := Some evm_params\<rparr>))))"

definition btc_update_evm_params ::
  "'v bridge_env \<Rightarrow> (nat \<Rightarrow> btc_state \<Rightarrow> btc_state) \<Rightarrow> (btc_state, unit) task"
where
  "btc_update_evm_params env aw =
     andThen (reading btc_evm_info) (\<lambda>evm_info.
     case params evm_info of
       None \<Rightarrow> return ()
     | Some initial_params \<Rightarrow>
         andThen (call (aw 0) (env_signer_address env)) (\<lambda>address.
         andThen (call_outcome (aw 1) (query_nonce_and_gas env (link evm_info) address))
           (\<lambda>(nonce, price).
         modify (\<lambda>s. s\<lparr>sb_params :=
           Some (initial_params\<lparr>evm_nonce := nonce, gas_price := price\<rparr>)\<rparr>))))"

text \<open>\<open>task_by_log\<close> on all logs; \<open>todo!()\<close> on a notification is the panic.\<close>

definition btc_task_by_log ::
  "log_parser \<Rightarrow> evm_log \<Rightarrow> (scheduler_error, (btc_task \<times> task_options) option) outcome"
where
  "btc_task_by_log parse_log log = (case from_log parse_log log of
       Ok (Burnt burnt) \<Rightarrow> Ok (Some (MintBtc burnt, btc_retry_options))
     | Ok (Minted minted) \<Rightarrow> Ok (Some (BtcRemoveMintOrder minted, btc_retry_options))
     | Ok (Notify _) \<Rightarrow> Panic
     | Err _ \<Rightarrow> Ok None
     | Panic \<Rightarrow> Panic)"

fun btc_tasks_by_logs ::
  "log_parser \<Rightarrow> evm_log list \<Rightarrow> (scheduler_error, (btc_task \<times> task_options) list) outcome"
where
  "btc_tasks_by_logs parse_log [] = Ok []"
| "btc_tasks_by_logs parse_log (l # ls) = (case btc_task_by_log parse_log l of
      Ok t \<Rightarrow> (case btc_tasks_by_logs parse_log ls of
          Ok ts \<Rightarrow> Ok (case t of None \<Rightarrow> ts | Some t' \<Rightarrow> t' # ts) | Err e \<Rightarrow> Err e | Panic \<Rightarrow> Panic)
    | Err e \<Rightarrow> Err e
    | Panic \<Rightarrow> Panic)"

definition btc_collect_evm_events ::
  "'v bridge_env \<Rightarrow> (nat \<Rightarrow> btc_state \<Rightarrow> btc_state) \<Rightarrow> (btc_state, unit) task"
where
  "btc_collect_evm_events env aw =
     andThen (reading btc_evm_info) (\<lambda>evm_info.
     case params evm_info of
       None \<Rightarrow> return ()
     | Some ps \<Rightarrow>
         andThen (call (aw 0) (env_block_number env (link evm_info))) (\<lambda>last_block.
         andThen (call_forever (aw 1) (collect_link env (link evm_info) (next_block ps) last_block
           (bridge_contract evm_info))) (\<lambda>logs.
         if logs = [] then return ()
         else
           andThen (modify (\<lambda>s. s\<lparr>sb_params := Some (ps\<lparr>next_block := last_block + 1\<rparr>)\<rparr>)) (\<lambda>_.
           (case btc_tasks_by_logs (env_parse_log env) logs of
              Ok ts \<Rightarrow>
                andThen (modify (btc_append_tasks ts)) (\<lambda>_.
                btc_update_evm_params env (\<lambda>k. aw (k + 2)))
            | Err (TaskExecutionFailed f) \<Rightarrow> fail f
            | Panic \<Rightarrow> panic)))))"

definition btc_remove_mint_order :: "id256_codec \<Rightarrow> minted_event_data \<Rightarrow> (btc_state, unit) task" where
  "btc_remove_mint_order cd minted =
     andThen (expect_some (from_slice cd (me_sender_id minted)) InvalidSender) (\<lambda>sender_id.
     modify (\<lambda>s. s\<lparr>sb_orders := orders_remove sender_id (me_nonce minted) (sb_orders s)\<rparr>))"

text \<open>\<open>BtcTask::execute\<close>\<close>

fun btc_execute ::
  "'v bridge_env \<Rightarrow> ckbtc \<Rightarrow> (nat \<Rightarrow> btc_state \<Rightarrow> btc_state) \<Rightarrow> btc_task \<Rightarrow> (btc_state, unit) task"
where
  "btc_execute env ck aw BtcInitEvmState = btc_init_evm_state env aw"
| "btc_execute env ck aw BtcCollectEvmEvents = btc_collect_evm_events env aw"
| "btc_execute env ck aw (BtcRemoveMintOrder minted) = btc_remove_mint_order (env_codec env) minted"
| "btc_execute env ck aw (MintErc20 address) =
     andThen (btc_update_evm_params env aw) (\<lambda>_.
     andThen (btc_to_erc20 env ck (\<lambda>k. aw (k + 2)) address) (\<lambda>_. return ()))"
| "btc_execute env ck aw (MintBtc burnt) = (case as_u64 (be_amount burnt) of
      None \<Rightarrow> panic
    | Some amount \<Rightarrow> (case from_utf8 (be_recipient_id burnt) of
          None \<Rightarrow> fail InvalidRecipient
        | Some address \<Rightarrow>
            andThen (burn_ckbtc ck aw (be_operation_id burnt) address amount) (\<lambda>result.
            case result of Inl _ \<Rightarrow> fail CallFailed | Inr _ \<Rightarrow> return ())))"

section \<open>The canister\<close>

definition btc_init :: "btc_config \<Rightarrow> btc_state \<Rightarrow> (unit, unit) outcome \<times> btc_state" where
  "btc_init config s =
     (if bc_admin config = Anonymous then (Panic, s)
      else (Ok (), btc_append_tasks [(BtcInitEvmState, \<lparr>retry_policy = Some (MaxRetries 5),
             backoff_policy = Some (Exponential 2 2)\<rparr>)] (s\<lparr>sb_config := config\<rparr>)))"

definition btc_timer :: "btc_state \<Rightarrow> btc_state" where
  "btc_timer = btc_append_tasks [(BtcCollectEvmEvents,
     \<lparr>retry_policy = Some Infinite, backoff_policy = Some (Fixed 1)\<rparr>)]"

definition btc_check_admin :: "principal \<Rightarrow> btc_state \<Rightarrow> bool" where
  "btc_check_admin caller s \<longleftrightarrow> caller = bc_admin (sb_config s)"

definition admin_configure_bft_bridge ::
  "principal \<Rightarrow> bft_config \<Rightarrow> btc_state \<Rightarrow> (unit, unit) outcome \<times> btc_state"
where
  "admin_configure_bft_bridge caller config s =
     (if btc_check_admin caller s then (Ok (), s\<lparr>sb_bft := config\<rparr>) else (Panic, s))"

text \<open>Queries; \<open>get_btc_address\<close> asks the ckBTC minter.\<close>

definition btc_get_bft_bridge_contract :: "btc_state \<Rightarrow> h160 option" where
  "btc_get_bft_bridge_contract s = Some (bf_bridge_address (sb_bft s))"

definition btc_get_evm_address ::
  "'v bridge_env \<Rightarrow> (btc_state \<Rightarrow> btc_state) \<Rightarrow> (btc_state, h160 option) task"
where
  "btc_get_evm_address env aw = answer aw (env_signer_address env)"

definition btc_get_btc_address ::
  "(principal \<Rightarrow> 'a \<Rightarrow> bytes option) \<Rightarrow> (btc_state \<Rightarrow> btc_state) \<Rightarrow> 'a \<Rightarrow> (btc_state, bytes) task"
where
  "btc_get_btc_address get_btc_address aw args =
     andThen (reading (\<lambda>s. bc_ck_btc_minter (sb_config s))) (\<lambda>ck_btc_minter.
     andThen (answer aw (get_btc_address ck_btc_minter args)) unwrap)"

end
