(* ===== verification/Btc_Safety.thy ===== *)
theory Btc_Safety
  imports Btc_Bridge
begin

text \<open>
  Properties of the Bitcoin bridge: what a deposit transfers, signs and stores, what is lost when
  two deposits come from one block or a transfer fails, and what a retried withdrawal does.
\<close>

section \<open>Weakest preconditions\<close>

lemma wp_ask_transfer [wp_simps]:
  "wp (ask_transfer ck aw arg) Q c s =
     (let s' = aw (s\<lparr>sb_sent := sb_sent s @ [arg]\<rparr>) in
      Q (Ok (ck_transfer ck (length (sb_sent s)) arg)) s' s')"
  by (simp add: ask_transfer_def wp_simps Let_def)

lemma ask_transfer_app [task_simps]:
  "ask_transfer ck aw arg (c, s) =
     (let s' = aw (s\<lparr>sb_sent := sb_sent s @ [arg]\<rparr>) in
      (Ok (ck_transfer ck (length (sb_sent s)) arg), (s', s')))"
  by (simp add: ask_transfer_def task_simps Let_def)

section \<open>The order store\<close>

interpretation bo: order_book
  mmap_ordered "\<lambda>m sender. mint_orders_get m sender SRC_TOKEN"
  "\<lambda>m sender. mint_orders_get_all m sender SRC_TOKEN" orders_push orders_remove
  using mo.put_inv[of _ "(w, SRC_TOKEN)" for w] mo.drop_inv[of _ "(w, SRC_TOKEN)" for w]
    mo.list_sorted[of _ "(w, SRC_TOKEN)" for w] mo.list_find[of _ _ _ "(w, SRC_TOKEN)" for w]
    mo.find_put[of "(w, SRC_TOKEN)" _ _ _ "(w', SRC_TOKEN)" for w w']
    mo.find_drop[of "(w, SRC_TOKEN)" _ _ "(w', SRC_TOKEN)" for w w']
  by unfold_locales (simp_all add: orders_push_def orders_remove_def)

section \<open>Deposits\<close>

text \<open>Interference that leaves the deposits alone.\<close>

definition quiet :: "(nat \<Rightarrow> btc_state \<Rightarrow> btc_state) \<Rightarrow> bool" where
  "quiet aw \<longleftrightarrow> (\<forall>k s. sb_config (aw k s) = sb_config s \<and> sb_bft (aw k s) = sb_bft s \<and>
     sb_orders (aw k s) = sb_orders s \<and> sb_sent (aw k s) = sb_sent s \<and> sb_tasks (aw k s) = sb_tasks s)"

lemma quietD:
  assumes "quiet aw"
  shows "sb_config (aw k s) = sb_config s" "sb_bft (aw k s) = sb_bft s"
    "sb_orders (aw k s) = sb_orders s" "sb_sent (aw k s) = sb_sent s" "sb_tasks (aw k s) = sb_tasks s"
  using assms by (simp_all add: quiet_def)

lemma quiet_shift: "quiet aw \<Longrightarrow> quiet (\<lambda>k. aw (k + n))"
  by (simp add: quiet_def)

abbreviation btc_fee :: "btc_state \<Rightarrow> u64" where
  "btc_fee s \<equiv> bc_ck_btc_ledger_fee (sb_config s)"

abbreviation btc_sender :: "id256_codec \<Rightarrow> btc_state \<Rightarrow> h160 \<Rightarrow> id256" where
  "btc_sender cd s a \<equiv> from_evm_address cd a (btc_chain_id (sb_config s))"

text \<open>The transfer of a deposit to the bridge's own account.\<close>

definition deposit_transfer :: "ckbtc \<Rightarrow> btc_state \<Rightarrow> h160 \<Rightarrow> u64 \<Rightarrow> transfer_arg" where
  "deposit_transfer ck s a amount =
     \<lparr>ta_to = \<lparr>acc_owner = ck_self ck, acc_subaccount = None\<rparr>,
      ta_amount = unat (amount - btc_fee s), ta_fee = Some (unat (btc_fee s)),
      ta_from_subaccount = Some (eth_address_to_subaccount a)\<rparr>"

text \<open>What a successful deposit leaves behind, given the signed order.\<close>

definition deposited ::
  "'v bridge_env \<Rightarrow> ckbtc \<Rightarrow> h160 \<Rightarrow> u64 \<Rightarrow> u32 \<Rightarrow> signed_mint_order \<Rightarrow> btc_state \<Rightarrow> btc_state \<Rightarrow> bool"
where
  "deposited env ck a amount n order s s' \<longleftrightarrow>
     btc_fee s < amount \<and>
     env_encode_and_sign env (btc_make_order (env_codec env) s a (amount - btc_fee s) n) = Some order \<and>
     (\<exists>i. ck_transfer ck (length (sb_sent s)) (deposit_transfer ck s a amount) = Inr (Inr i)) \<and>
     sb_sent s' = sb_sent s @ [deposit_transfer ck s a amount] \<and>
     sb_orders s' = orders_push (btc_sender (env_codec env) s a) n order (sb_orders s) \<and>
     sb_config s' = sb_config s \<and> sb_bft s' = sb_bft s \<and> sb_tasks s' = sb_tasks s"

lemma btc_make_order_cong:
  "sb_config s' = sb_config s \<Longrightarrow> sb_bft s' = sb_bft s \<Longrightarrow>
     btc_make_order cd s' a amount n = btc_make_order cd s a amount n"
  by (simp add: btc_make_order_def)

lemma wp_send_mint_order:
  assumes "quiet aw"
    and "\<And>r c' s'. sb_config s' = sb_config s \<Longrightarrow> sb_bft s' = sb_bft s \<Longrightarrow> sb_orders s' = sb_orders s \<Longrightarrow>
      sb_sent s' = sb_sent s \<Longrightarrow> sb_tasks s' = sb_tasks s \<Longrightarrow> (\<forall>e. r \<noteq> Err e) \<Longrightarrow> Q r c' s'"
  shows "wp (send_mint_order env aw order) Q c s"
  unfolding send_mint_order_def
  by (auto simp: wp_simps Let_def quietD[OF assms(1)] intro!: assms(2)
      split: option.splits outcome.splits sum.splits prod.splits)

definition mint_result ::
  "'v bridge_env \<Rightarrow> ckbtc \<Rightarrow> h160 \<Rightarrow> u64 \<Rightarrow> u32 \<Rightarrow> btc_state \<Rightarrow>
     erc20_mint_error + erc20_mint_status \<Rightarrow> btc_state \<Rightarrow> bool"
where
  "mint_result env ck a amount n s res s' \<longleftrightarrow> (case res of
       Inr st \<Rightarrow> \<exists>order. deposited env ck a amount n order s s' \<and>
         (st = MintSigned order \<or> (\<exists>tx. st = MintSent (amount - btc_fee s) tx))
     | Inl e \<Rightarrow> sb_orders s' = sb_orders s \<and> sb_tasks s' = sb_tasks s \<and> sb_config s' = sb_config s \<and>
         sb_bft s' = sb_bft s \<and> (e = ValueTooSmall \<longleftrightarrow> amount \<le> btc_fee s))"

lemma above_fee: "\<not> amount < fee \<Longrightarrow> amount - fee \<noteq> 0 \<Longrightarrow> fee < amount" for amount fee :: "'a::len word"
  by (metis linorder_less_linear right_minus_eq)

lemma wp_mint_erc20:
  assumes "quiet aw"
    and ok: "\<And>res c' s'. mint_result env ck a amount n s res s' \<Longrightarrow> Q (Ok res) c' s'"
    and pn: "\<And>c' s'. Q Panic c' s'"
  shows "wp (mint_erc20 env ck aw a amount n) Q c s"
proof -
  note quiet = quietD[OF assms(1)]
  have shift: "quiet (\<lambda>k. aw (Suc (Suc k)))" using assms(1) by (simp add: quiet_def)
  have small: "amount < btc_fee s \<or> amount - btc_fee s = 0 \<Longrightarrow> amount \<le> btc_fee s"
    by auto
  have early: "Q (Ok (Inl e)) c' s'"
    if "sb_orders s' = sb_orders s" "sb_tasks s' = sb_tasks s" "sb_config s' = sb_config s"
      "sb_bft s' = sb_bft s" "e = ValueTooSmall \<longleftrightarrow> amount \<le> btc_fee s" for e c' s'
    by (rule ok) (simp add: mint_result_def that)
  show ?thesis
  proof (cases "amount < btc_fee s \<or> amount - btc_fee s = 0")
    case True
    then show ?thesis
      using small by (auto simp: mint_erc20_def wp_simps Let_def intro!: early)
  next
    case False
    then have fee: "btc_fee s < amount" using above_fee by blast
    then have "\<not> amount \<le> btc_fee s" by simp
    then show ?thesis
      using fee False unfolding mint_erc20_def btc_prepare_mint_order_def transfer_ckbtc_from_subaccount_def
      by (auto simp: wp_simps Let_def quiet pn store_mint_order_def mint_result_def deposited_def
          deposit_transfer_def intro!: early wp_send_mint_order[OF shift] ok
          split: option.splits sum.splits outcome.splits)
  qed
qed


text \<open>
  C33: Two deposits of one address that are confirmed in the same Bitcoin block collide. The nonce
  of a mint order is the block height of its UTXO, so both orders have the same sender, token and
  nonce: both transfers are made, but the second order replaces the first one in the store, where
  the first order can no longer be found.
\<close>

theorem btc_same_block_collides:
  assumes "quiet aw" and "mmap_ordered (sb_orders s)" and "utxo_height u = utxo_height v"
    and "run_task (mint_utxos env ck aw a [UtxoMinted i amount u, UtxoMinted j amount' v]) s =
      (Ok [Inr x, Inr y], s')"
  shows "\<exists>order order'.
    env_encode_and_sign env (btc_make_order (env_codec env) s a (amount - btc_fee s) (utxo_height u)) = Some order \<and>
    env_encode_and_sign env (btc_make_order (env_codec env) s a (amount' - btc_fee s) (utxo_height u)) = Some order' \<and>
    sb_sent s' = sb_sent s @ [deposit_transfer ck s a amount, deposit_transfer ck s a amount'] \<and>
    mint_orders_get (sb_orders s') (btc_sender (env_codec env) s a) SRC_TOKEN (utxo_height u) = Some order' \<and>
    (order \<noteq> order' \<longrightarrow> (utxo_height u, order) \<notin>
       set (mint_orders_get_all (sb_orders s') (btc_sender (env_codec env) s a) SRC_TOKEN))"
    (is "?P s'")
proof -
  have quiet5: "quiet (\<lambda>k. aw (k + 5))" by (rule quiet_shift[OF assms(1)])
  have step: "?P s2" if 1: "mint_result env ck a amount (utxo_height u) s (Inr x) s1"
    and 2: "mint_result env ck a amount' (utxo_height v) s1 (Inr y) s2" for s1 s2 x y
  proof -
    obtain order order' where d: "deposited env ck a amount (utxo_height u) order s s1"
        "deposited env ck a amount' (utxo_height u) order' s1 s2"
      using 1 2 assms(3) by (auto simp: mint_result_def)
    have same: "btc_make_order cd s1 a m n = btc_make_order cd s a m n"
      "deposit_transfer ck s1 a m = deposit_transfer ck s a m" for cd m n
      using d(1) by (simp_all add: deposited_def btc_make_order_def deposit_transfer_def)
    have "sb_config s1 = sb_config s" using d(1) by (simp add: deposited_def)
    then show ?thesis
      using d bo.put_put_lost[OF assms(2), of order order'] same
      by (auto simp: deposited_def bo.find_put)
  qed
  have "wp (mint_utxos env ck aw a [UtxoMinted i amount u, UtxoMinted j amount' v])
      (\<lambda>r c' t. \<forall>x y. r = Ok [Inr x, Inr y] \<longrightarrow> ?P (if r = Panic then c' else t)) s s"
    using step by (auto simp: wp_simps intro!: wp_mint_erc20[OF assms(1)] wp_mint_erc20[OF quiet5])
  from run_task_wpD[OF assms(4) this] show ?thesis by blast
qed

text \<open>
  C36: A deposit whose ckBTC transfer the ledger refuses is dropped: the ckBTC minter reports a
  UTXO once, the call answers with the ledger's error, no order is stored and no task is scheduled
  that would try the transfer again. The deposited ckBTC stays in the depositor's subaccount.
\<close>

theorem btc_refused_transfer_dropped:
  assumes "quiet aw"
    and "ck_update_balance ck \<lparr>ub_owner = Some (ck_self ck),
      ub_subaccount = Some (eth_address_to_subaccount a)\<rparr> = Inr (Inr [UtxoMinted i amount u])"
    and "btc_fee s < amount"
    and "env_encode_and_sign env
      (btc_make_order (env_codec env) s a (amount - btc_fee s) (utxo_height u)) = Some order"
    and "ck_transfer ck (length (sb_sent s)) (deposit_transfer ck s a amount) = Inr (Inl e)"
    and "run_task (btc_to_erc20 env ck aw a) s = (r, s')"
  shows "r = Ok [Inl (CkBtcLedger e)] \<and> sb_orders s' = sb_orders s \<and> sb_tasks s' = sb_tasks s"
proof -
  have "\<not> amount < btc_fee s" "amount - btc_fee s \<noteq> 0" using assms(3) by auto
  then have "wp (btc_to_erc20 env ck aw a) (\<lambda>r c' t. r = Ok [Inl (CkBtcLedger e)] \<and>
      sb_orders (if r = Panic then c' else t) = sb_orders s \<and>
      sb_tasks (if r = Panic then c' else t) = sb_tasks s) s s"
    using assms(2-5)
    by (simp add: btc_to_erc20_def request_update_balance_def wp_simps mint_erc20_def Let_def
        btc_prepare_mint_order_def transfer_ckbtc_from_subaccount_def quietD[OF assms(1)]
        btc_make_order_def deposit_transfer_def)
  from run_task_wpD[OF assms(6) this] show ?thesis .
qed

section \<open>Withdrawals\<close>

definition burn_transfer :: "btc_state \<Rightarrow> account \<Rightarrow> u64 \<Rightarrow> transfer_arg" where
  "burn_transfer s account amount = \<lparr>ta_to = account, ta_amount = unat (amount - btc_fee s),
     ta_fee = Some (unat (btc_fee s)), ta_from_subaccount = None\<rparr>"

text \<open>A run of the withdrawal task in which everything but the last call succeeds.\<close>

definition stuck_ckbtc :: "ckbtc \<Rightarrow> account \<Rightarrow> bool" where
  "stuck_ckbtc ck account \<longleftrightarrow> ck_withdrawal_account ck = Inr account \<and>
     (\<forall>n t. \<exists>i. ck_transfer ck n t = Inr (Inr i)) \<and> (\<forall>arg. \<nexists>ok. ck_retrieve_btc ck arg = Inr (Inr ok))"

lemma mint_btc_stuck:
  assumes "as_u64 (be_amount burnt) = Some amount" and "from_utf8 (be_recipient_id burnt) = Some address"
    and "stuck_ckbtc ck account"
  shows "run_task (btc_execute env ck (\<lambda>_ x. x) (MintBtc burnt)) s =
    (Err (TaskExecutionFailed CallFailed),
     s\<lparr>sb_burns := burn_set_transferred (be_operation_id burnt)
          (burn_insert (be_operation_id burnt) address amount (sb_burns s)),
       sb_sent := sb_sent s @ [burn_transfer s account amount]\<rparr>)"
proof -
  let ?arg = "\<lparr>rb_amount = amount - btc_fee s, rb_address = address\<rparr>"
  obtain i where "ck_transfer ck (length (sb_sent s)) (burn_transfer s account amount) = Inr (Inr i)"
    using assms(3) by (meson stuck_ckbtc_def)
  moreover obtain e where "(case ck_retrieve_btc ck ?arg of
      Inl _ \<Rightarrow> Inl (RbTemporarilyUnavailable ''retrieve_btc call failed'') | Inr r \<Rightarrow> r) = Inl e"
    using assms(3) unfolding stuck_ckbtc_def
    by (cases "ck_retrieve_btc ck ?arg") (auto, metis sum.exhaust_sel)
  ultimately show ?thesis
    using assms
    by (simp add: run_task_def task_simps burn_ckbtc_def get_ckbtc_withdrawal_account_def
        transfer_ckbtc_def request_btc_withdrawal_def stuck_ckbtc_def burns_mod_def Let_def
        burn_transfer_def)
qed

lemma burn_retry_get:
  "omap_get (burn_set_transferred i (burn_insert i address amount m)) i =
     Some \<lparr>br_address = address, br_amount = amount, br_is_transferred = True\<rparr>"
  by (simp add: burn_set_transferred_def burn_insert_def omap_simps)

text \<open>
  C34: A withdrawal that is retried transfers its ckBTC again. As long as \<open>retrieve_btc\<close> fails after
  the transfer, the task fails and is scheduled again, and every run asks the ledger for another
  transfer of the full amount to the withdrawal account: the record that the transfer was made is
  kept in the store but never read, and is reset at the start of each run.
\<close>

theorem btc_retry_transfers_again:
  assumes "as_u64 (be_amount burnt) = Some amount" and "from_utf8 (be_recipient_id burnt) = Some address"
    and "stuck_ckbtc ck account"
  shows "sb_sent (((\<lambda>x. snd (run_task (btc_execute env ck (\<lambda>_ x. x) (MintBtc burnt)) x)) ^^ n) s) =
      sb_sent s @ replicate n (burn_transfer s account amount) \<and>
    (0 < n \<longrightarrow> omap_get (sb_burns (((\<lambda>x. snd (run_task (btc_execute env ck (\<lambda>_ x. x) (MintBtc burnt)) x)) ^^ n) s))
        (be_operation_id burnt) =
      Some \<lparr>br_address = address, br_amount = amount, br_is_transferred = True\<rparr>)"
proof -
  define f where "f = (\<lambda>x. snd (run_task (btc_execute env ck (\<lambda>_ x. x) (MintBtc burnt)) x))"
  have f: "sb_sent (f x) = sb_sent x @ [burn_transfer x account amount]" "sb_config (f x) = sb_config x"
    "sb_burns (f x) = burn_set_transferred (be_operation_id burnt)
       (burn_insert (be_operation_id burnt) address amount (sb_burns x))" for x
    by (simp_all only: f_def mint_btc_stuck[OF assms] snd_conv) simp_all
  have config: "sb_config ((f ^^ n) s) = sb_config s" for n
    by (induction n) (simp_all add: f)
  have sent: "sb_sent ((f ^^ n) s) = sb_sent s @ replicate n (burn_transfer s account amount)" for n
    by (induction n) (simp_all add: f config burn_transfer_def replicate_append_same)
  have "0 < n \<Longrightarrow> omap_get (sb_burns ((f ^^ n) s)) (be_operation_id burnt) =
      Some \<lparr>br_address = address, br_amount = amount, br_is_transferred = True\<rparr>" for n
    by (cases n) (simp_all add: f burn_retry_get)
  with sent show ?thesis unfolding f_def by blast
qed

section \<open>Concrete runs\<close>

definition sample_ckbtc :: "(transfer_error + nat) \<Rightarrow> utxo_status list \<Rightarrow> ckbtc" where
  "sample_ckbtc reply utxos = \<lparr>ck_self = Principal [1], ck_update_balance = (\<lambda>_. Inr (Inr utxos)),
     ck_transfer = (\<lambda>_ _. Inr reply),
     ck_withdrawal_account = Inr \<lparr>acc_owner = Principal [2], acc_subaccount = None\<rparr>,
     ck_retrieve_btc = (\<lambda>_. Inr (Inl RbAlreadyProcessing))\<rparr>"

definition sample_utxo :: "u32 \<Rightarrow> utxo" where
  "sample_utxo vout = \<lparr>utxo_outpoint = \<lparr>op_txid = [], op_vout = vout\<rparr>, utxo_value = 1000, utxo_height = 500\<rparr>"

definition btc_sign_env :: "u256 bridge_env" where
  "btc_sign_env = offline_env\<lparr>env_encode_and_sign := (\<lambda>order. Some [ucast (mo_amount order)])\<rparr>"

lemma btc_sign_env_simps [simp]:
  "env_encode_and_sign btc_sign_env order = Some [ucast (mo_amount order)]"
  "env_signer_address btc_sign_env = None" "env_codec btc_sign_env = plain_codec"
  by (simp_all add: btc_sign_env_def offline_env_def)

lemma quiet_id: "quiet (\<lambda>_ s. s)"
  by (simp add: quiet_def)

lemma btc_default_orders: "mmap_ordered (sb_orders btc_default_state)"
  by (simp add: btc_default_state_def mint_orders_new_def mmap_ordered_def)

lemmas btc_run_defs = run_task_def task_simps mint_erc20_def btc_prepare_mint_order_def
  transfer_ckbtc_from_subaccount_def send_mint_order_def Let_def


theorem btc_same_block_collides_witness:
  "\<exists>s. run_task (mint_utxos btc_sign_env (sample_ckbtc (Inr 7) []) (\<lambda>_ s. s) 5
       [UtxoMinted 1 100 (sample_utxo 0), UtxoMinted 2 60 (sample_utxo 1)]) btc_default_state =
       (Ok [Inr (MintSigned [90]), Inr (MintSigned [50])], s) \<and>
     (500, [90]) \<notin> set (mint_orders_get_all (sb_orders s)
        (btc_sender plain_codec btc_default_state 5) SRC_TOKEN)"
proof -
  obtain s where run: "run_task (mint_utxos btc_sign_env (sample_ckbtc (Inr 7) []) (\<lambda>_ s. s) 5
       [UtxoMinted 1 100 (sample_utxo 0), UtxoMinted 2 60 (sample_utxo 1)]) btc_default_state =
       (Ok [Inr (MintSigned [90]), Inr (MintSigned [50])], s)"
    by (simp add: btc_run_defs sample_ckbtc_def btc_default_state_def btc_default_config_def
        btc_make_order_def store_mint_order_def)
  have "utxo_height (sample_utxo 0) = utxo_height (sample_utxo 1)" by (simp add: sample_utxo_def)
  from btc_same_block_collides[OF quiet_id btc_default_orders this run] show ?thesis
    using run by (auto simp: sample_utxo_def btc_make_order_def btc_default_state_def btc_default_config_def)
qed

theorem btc_refused_transfer_dropped_witness:
  "\<exists>s. run_task (btc_to_erc20 btc_sign_env
       (sample_ckbtc (Inl TemporarilyUnavailable) [UtxoMinted 1 100 (sample_utxo 0)]) (\<lambda>_ s. s) 5)
       btc_default_state = (Ok [Inl (CkBtcLedger TemporarilyUnavailable)], s) \<and>
     sb_orders s = [] \<and> sb_tasks s = []"
proof -
  let ?ck = "sample_ckbtc (Inl TemporarilyUnavailable) [UtxoMinted 1 100 (sample_utxo 0)]"
  obtain r s where run: "run_task (btc_to_erc20 btc_sign_env ?ck (\<lambda>_ s. s) 5) btc_default_state = (r, s)"
    by force
  have "r = Ok [Inl (CkBtcLedger TemporarilyUnavailable)] \<and>
      sb_orders s = sb_orders btc_default_state \<and> sb_tasks s = sb_tasks btc_default_state"
    by (rule btc_refused_transfer_dropped[OF quiet_id _ _ _ _ run, where amount = 100 and i = 1
          and u = "sample_utxo 0" and order = "[90]"])
      (simp_all add: sample_ckbtc_def btc_default_state_def btc_default_config_def btc_make_order_def)
  then show ?thesis using run by (simp add: btc_default_state_def mint_orders_new_def)
qed

theorem btc_retry_transfers_again_witness:
  "length (sb_sent (((\<lambda>x. snd (run_task (btc_execute btc_sign_env (sample_ckbtc (Inr 7) []) (\<lambda>_ x. x)
      (MintBtc (sample_burn\<lparr>be_recipient_id := [98, 99, 49]\<rparr>))) x)) ^^ 3) btc_default_state)) = 3"
proof -
  let ?b = "sample_burn\<lparr>be_recipient_id := [98, 99, 49]\<rparr>"
  have a: "as_u64 (be_amount ?b) = Some 100" by (simp add: sample_burn_def as_u64_def)
  have u: "from_utf8 (be_recipient_id ?b) = Some [98, 99, 49]" by (simp add: from_utf8_ascii)
  have "stuck_ckbtc (sample_ckbtc (Inr 7) []) \<lparr>acc_owner = Principal [2], acc_subaccount = None\<rparr>"
    by (simp add: stuck_ckbtc_def sample_ckbtc_def)
  from btc_retry_transfers_again[OF a u this, where env = btc_sign_env and n = 3 and s = btc_default_state] show ?thesis
    by (simp only: length_append length_replicate) (simp add: btc_default_state_def)
qed

end
