(* ===== verification/Rune_Ledger.thy ===== *)
theory Rune_Ledger
  imports Stable_Map Utf8
begin

text \<open>
  The data the rune bridge keeps about Bitcoin outputs and runes: the UTXO ledger
  (\<open>rune-bridge/src/ledger.rs\<close>), the derivation paths of deposit addresses (\<open>key.rs\<close>) and rune
  descriptions (\<open>rune_info.rs\<close>). The locale \<open>utxo_book\<close> is the interface of the ledger.
\<close>

section \<open>Derivation paths\<close>

definition DERIVATION_PATH_PREFIX :: u8 where
  "DERIVATION_PATH_PREFIX = 7"

text \<open>\<open>chunks_exact\<close>: full chunks only, a rest is dropped.\<close>

function chunks_exact :: "nat \<Rightarrow> 'a list \<Rightarrow> 'a list list" where
  "chunks_exact n xs =
     (if n = 0 \<or> length xs < n then [] else take n xs # chunks_exact n (drop n xs))"
  by pat_completeness auto
termination by (relation "measure (\<lambda>(n, xs). length xs)") auto

declare chunks_exact.simps [simp del]

definition get_derivation_path_ic :: "h160 \<Rightarrow> bytes list" where
  "get_derivation_path_ic eth_address =
     map (\<lambda>slice. 0 # slice) (chunks_exact 3 (DERIVATION_PATH_PREFIX # h160_bytes eth_address))"

text \<open>\<open>u32::{from_be_bytes, to_be_bytes}\<close>\<close>

definition u32_from_be :: "bytes \<Rightarrow> u32" where
  "u32_from_be bs = fold (\<lambda>b w. push_bit 8 w + ucast b) bs 0"

definition u32_to_be :: "u32 \<Rightarrow> bytes" where
  "u32_to_be w = map (\<lambda>i. ucast (drop_bit (8 * (3 - i)) w)) [0..<4]"

text \<open>
  A derivation path is a list of child numbers. \<open>None\<close> is the panic of the \<open>unwrap\<close>s: a part that
  is not four bytes long, or an index that is not that of a normal child.
\<close>

type_synonym derivation_path = "u32 list"

definition child_index :: "bytes \<Rightarrow> u32 option" where
  "child_index part =
     (if length part = 4 \<and> u32_from_be part < 0x80000000 then Some (u32_from_be part) else None)"

fun ic_dp_to_derivation_path :: "bytes list \<Rightarrow> derivation_path option" where
  "ic_dp_to_derivation_path [] = Some []"
| "ic_dp_to_derivation_path (part # parts) = (case child_index part of
      None \<Rightarrow> None
    | Some i \<Rightarrow> map_option ((#) i) (ic_dp_to_derivation_path parts))"

definition get_derivation_path :: "h160 \<Rightarrow> derivation_path option" where
  "get_derivation_path eth_address = ic_dp_to_derivation_path (get_derivation_path_ic eth_address)"

definition derivation_path_to_ic :: "derivation_path \<Rightarrow> bytes list" where
  "derivation_path_to_ic path = map u32_to_be path"

section \<open>Runes\<close>

text \<open>\<open>ordinals::RuneId\<close> and \<open>RuneInfo\<close>; a \<open>RuneName\<close> is a number, shown by \<open>ordinals\<close>.\<close>

type_synonym rune_name = u128

record rune_id =
  ri_block :: u64
  ri_tx :: u32

record rune_info =
  rinfo_name :: rune_name
  rinfo_decimals :: u8
  rinfo_block :: u64
  rinfo_tx :: u32

definition rune_info_id :: "rune_info \<Rightarrow> rune_id" where
  "rune_info_id info = \<lparr>ri_block = rinfo_block info, ri_tx = rinfo_tx info\<rparr>"

definition rune_info_invalid :: rune_info where
  "rune_info_invalid = \<lparr>rinfo_name = 0, rinfo_decimals = 0, rinfo_block = 0, rinfo_tx = 0\<rparr>"

definition name_array :: "(rune_name \<Rightarrow> bytes) \<Rightarrow> rune_info \<Rightarrow> bytes" where
  "name_array show_name info =
     (let name_bytes = show_name (rinfo_name info); len = min (length name_bytes) 32
      in take len name_bytes @ replicate (32 - len) 0)"

definition symbol_array :: "(rune_name \<Rightarrow> bytes) \<Rightarrow> rune_info \<Rightarrow> bytes" where
  "symbol_array show_name info =
     (let name_bytes = show_name (rinfo_name info); len = min (length name_bytes) 16
      in take len name_bytes @ replicate (16 - len) 0)"

section \<open>The UTXO ledger\<close>

text \<open>\<open>UtxoKey\<close>; the derived order compares the transaction id, then the output index.\<close>

datatype utxo_key = UtxoKey (key_tx_id: bytes) (key_vout: u32)

instantiation utxo_key :: linorder
begin

definition less_eq_utxo_key :: "utxo_key \<Rightarrow> utxo_key \<Rightarrow> bool" where
  "less_eq_utxo_key x y \<longleftrightarrow>
     key_tx_id x < key_tx_id y \<or> key_tx_id x = key_tx_id y \<and> key_vout x \<le> key_vout y"

definition less_utxo_key :: "utxo_key \<Rightarrow> utxo_key \<Rightarrow> bool" where
  "less_utxo_key x y \<longleftrightarrow>
     key_tx_id x < key_tx_id y \<or> key_tx_id x = key_tx_id y \<and> key_vout x < key_vout y"

instance
  by standard (auto simp: less_eq_utxo_key_def less_utxo_key_def intro: utxo_key.expand)

end

text \<open>An output as the Bitcoin interface of the management canister names it.\<close>

record ic_outpoint =
  iop_txid :: bytes
  iop_vout :: u32

record ic_utxo =
  iu_outpoint :: ic_outpoint
  iu_value :: u64
  iu_height :: u32

text \<open>\<open>From<&Outpoint> for UtxoKey\<close>; \<open>None\<close> is the panic on a transaction id of the wrong length.\<close>

definition utxo_key_of :: "ic_outpoint \<Rightarrow> utxo_key option" where
  "utxo_key_of p = (if length (iop_txid p) = 32 then Some (UtxoKey (iop_txid p) (iop_vout p)) else None)"

record utxo_details =
  ud_value :: u64
  ud_script_buf :: bytes
  ud_derivation_path :: "bytes list"

type_synonym address = string

record used_utxo_details =
  uu_used_at :: u64
  uu_owner_address :: bytes

record utxo_ledger =
  utxo_storage :: "(utxo_key, utxo_details) omap"
  used_utxos_registry :: "(utxo_key, used_utxo_details) omap"

definition ledger_default :: utxo_ledger where
  "ledger_default = \<lparr>utxo_storage = [], used_utxos_registry = []\<rparr>"

text \<open>\<open>TxInputInfo\<close> of \<open>ord_rs\<close>\<close>

record tx_input_info =
  in_outpoint :: utxo_key
  in_value :: u64
  in_script_pubkey :: bytes
  in_derivation_path :: derivation_path

definition ledger_put :: "utxo_key \<Rightarrow> utxo_details \<Rightarrow> utxo_ledger \<Rightarrow> utxo_ledger" where
  "ledger_put k d l = l\<lparr>utxo_storage := omap_insert k d (utxo_storage l)\<rparr>"

text \<open>\<open>UtxoLedger::deposit\<close>, with the script of the address; \<open>None\<close> is a panic.\<close>

fun ledger_deposit ::
  "ic_utxo list \<Rightarrow> bytes \<Rightarrow> bytes list \<Rightarrow> utxo_ledger \<Rightarrow> utxo_ledger option"
where
  "ledger_deposit [] script path l = Some l"
| "ledger_deposit (u # us) script path l = (case utxo_key_of (iu_outpoint u) of
      None \<Rightarrow> None
    | Some k \<Rightarrow> ledger_deposit us script path (ledger_put k
        \<lparr>ud_value = iu_value u, ud_script_buf = script, ud_derivation_path = path\<rparr> l))"

text \<open>\<open>load_unspent_utxos\<close>; the panic of a malformed derivation path is \<open>None\<close>.\<close>

definition unspent_entries :: "utxo_ledger \<Rightarrow> (utxo_key \<times> utxo_details) list" where
  "unspent_entries l = filter (\<lambda>(k, _). omap_get (used_utxos_registry l) k = None) (utxo_storage l)"

definition input_of :: "utxo_key \<times> utxo_details \<Rightarrow> tx_input_info option" where
  "input_of e = map_option (\<lambda>path. \<lparr>in_outpoint = fst e, in_value = ud_value (snd e),
       in_script_pubkey = ud_script_buf (snd e), in_derivation_path = path\<rparr>)
     (ic_dp_to_derivation_path (ud_derivation_path (snd e)))"

fun all_or_none :: "('a \<Rightarrow> 'b option) \<Rightarrow> 'a list \<Rightarrow> 'b list option" where
  "all_or_none f [] = Some []"
| "all_or_none f (x # xs) = (case f x of
      None \<Rightarrow> None | Some y \<Rightarrow> map_option ((#) y) (all_or_none f xs))"

definition load_unspent_utxos :: "utxo_ledger \<Rightarrow> (utxo_key list \<times> tx_input_info list) option" where
  "load_unspent_utxos l = map_option (Pair (map fst (unspent_entries l)))
     (all_or_none input_of (unspent_entries l))"

definition mark_as_used :: "u64 \<Rightarrow> utxo_key \<Rightarrow> bytes \<Rightarrow> utxo_ledger \<Rightarrow> utxo_ledger" where
  "mark_as_used now k owner l = l\<lparr>used_utxos_registry :=
     omap_insert k \<lparr>uu_used_at = now, uu_owner_address = owner\<rparr> (used_utxos_registry l)\<rparr>"

definition load_used_utxos :: "utxo_ledger \<Rightarrow> (utxo_key \<times> used_utxo_details) list" where
  "load_used_utxos l = used_utxos_registry l"

definition remove_spent_utxo :: "utxo_key \<Rightarrow> utxo_ledger \<Rightarrow> utxo_ledger" where
  "remove_spent_utxo k l = l\<lparr>utxo_storage := omap_remove k (utxo_storage l),
     used_utxos_registry := omap_remove k (used_utxos_registry l)\<rparr>"

definition remove_unspent_utxo :: "utxo_key \<Rightarrow> utxo_ledger \<Rightarrow> utxo_ledger" where
  "remove_unspent_utxo k l = l\<lparr>used_utxos_registry := omap_remove k (used_utxos_registry l)\<rparr>"

section \<open>Paths are encodings\<close>

lemma byte_bound: "unat (x :: u8) < 256"
  by (rule order_less_le_trans[OF unsigned_less]) simp

lemma unat_u32_from_be:
  "unat (u32_from_be [a, b, c, d]) = ((unat a * 256 + unat b) * 256 + unat c) * 256 + unat d"
proof -
  note bound = byte_bound
  have small: "unat (ucast x :: u32) = unat x" for x :: u8 by (simp add: unat_ucast_up)
  have step: "unat (push_bit 8 w + ucast x :: u32) = unat w * 256 + unat x"
    if "unat w < 2 ^ 24" for w :: u32 and x :: u8
  proof -
    have "unat (push_bit 8 w) = unat w * 256"
      using that
      by (subst unsigned_push_bit_eq) (simp add: take_bit_nat_eq_self_iff push_bit_eq_mult)
    then show ?thesis
      using that bound[of x] small[of x]
      by (subst unat_add_lem[THEN iffD1]) (auto simp: small)
  qed
  have "unat (ucast a :: u32) < 2 ^ 24" using bound[of a] by (simp add: small)
  then have 1: "unat (push_bit 8 (ucast a) + ucast b :: u32) = unat a * 256 + unat b"
    using step[of "ucast a" b] by (simp add: small)
  have 2: "unat (push_bit 8 (push_bit 8 (ucast a) + ucast b) + ucast c :: u32) =
      (unat a * 256 + unat b) * 256 + unat c"
    using step[of "push_bit 8 (ucast a) + ucast b" c] 1 bound[of a] bound[of b] by simp
  show ?thesis
    using step[of "push_bit 8 (push_bit 8 (ucast a) + ucast b) + ucast c" d] 2
      bound[of a] bound[of b] bound[of c]
    by (simp add: u32_from_be_def)
qed

lemma u32_be_roundtrip: "u32_to_be (u32_from_be [a, b, c, d]) = [a, b, c, d]"
proof -
  let ?w = "u32_from_be [a, b, c, d]"
  note bound = byte_bound
  have byte: "ucast (drop_bit n ?w) = x" if "unat ?w div 2 ^ n mod 256 = unat x" for x :: u8 and n
  proof -
    have "unat (drop_bit n ?w) = unat ?w div 2 ^ n"
      by (subst unsigned_drop_bit_eq)
        (simp add: drop_bit_eq_div take_bit_nat_eq_self[OF order_less_le_trans[OF unsigned_less]])
    then show ?thesis
      using that
      by (intro word_eq_iff_unsigned[where ?'a = nat, THEN iffD2])
        (simp add: unsigned_ucast_eq take_bit_eq_mod)
  qed
  have steps: "unat ?w div 2 ^ 16 = unat ?w div 2 ^ 8 div 2 ^ 8"
    "unat ?w div 2 ^ 24 = unat ?w div 2 ^ 8 div 2 ^ 8 div 2 ^ 8"
    by (simp_all add: div_mult2_eq[symmetric])
  have d8: "unat ?w div 2 ^ 8 = (unat a * 256 + unat b) * 256 + unat c"
    using bound[of d] by (simp add: unat_u32_from_be)
  have d16: "unat ?w div 2 ^ 16 = unat a * 256 + unat b"
    unfolding steps d8 using bound[of c] by simp
  have d24: "unat ?w div 2 ^ 24 = unat a"
    unfolding steps(2) steps(1)[symmetric] d16 using bound[of b] by simp
  have low: "(y * 256 + unat x) mod 256 = unat x" for y and x :: u8 using bound[of x] by simp
  have "ucast (drop_bit 24 ?w) = a" by (rule byte) (simp add: d24[simplified] bound)
  moreover have "ucast (drop_bit 16 ?w) = b" by (rule byte) (simp only: d16 low)
  moreover have "ucast (drop_bit 8 ?w) = c" by (rule byte) (simp only: d8 low)
  moreover have "ucast (drop_bit 0 ?w) = d"
    by (rule byte) (simp only: unat_u32_from_be power_0 div_by_1 low)
  ultimately show ?thesis
    by (simp add: u32_to_be_def upt_rec)
qed

lemma child_index_part: "child_index [0, b, c, d] = Some (u32_from_be [0, b, c, d])"
proof -
  note bound = byte_bound
  show ?thesis
    using bound[of b] bound[of c] bound[of d]
    by (simp add: child_index_def word_less_nat_alt unat_u32_from_be)
qed

text \<open>Every part of a deposit path is a zero byte followed by three bytes.\<close>

definition path_part :: "bytes \<Rightarrow> bool" where
  "path_part p \<longleftrightarrow> (\<exists>b c d. p = [0, b, c, d])"

lemma path_parts_convert:
  assumes "list_all path_part ps"
  shows "\<exists>path. ic_dp_to_derivation_path ps = Some path \<and> derivation_path_to_ic path = ps"
  using assms
proof (induction ps)
  case (Cons p ps)
  then obtain path b c d where "ic_dp_to_derivation_path ps = Some path"
    "derivation_path_to_ic path = ps" "p = [0, b, c, d]"
    by (auto simp: path_part_def)
  then show ?case
    by (simp add: child_index_part derivation_path_to_ic_def u32_be_roundtrip)
qed (simp add: derivation_path_to_ic_def)

lemma chunks_exact_parts: "list_all path_part (map ((#) 0) (chunks_exact 3 bs))"
proof (induction "3 :: nat" bs rule: chunks_exact.induct)
  case (1 xs)
  show ?case
  proof (cases "length xs < 3")
    case True
    then show ?thesis by (simp add: chunks_exact.simps[of 3 xs])
  next
    case False
    then obtain b c d ys where "xs = b # c # d # ys"
      by (cases xs rule: remdups_adj.cases) (auto simp: neq_Nil_conv numeral_3_eq_3 Suc_le_length_iff not_less)
    then show ?thesis
      using 1 False by (subst chunks_exact.simps) (auto simp: path_part_def numeral_3_eq_3)
  qed
qed

lemma chunks_exact_concat:
  assumes "n \<noteq> 0" and "length xs = n * k"
  shows "concat (chunks_exact n xs) = xs"
  using assms
proof (induction k arbitrary: xs)
  case (Suc k)
  then have "concat (chunks_exact n (drop n xs)) = drop n xs" by simp
  then show ?case using Suc.prems by (subst chunks_exact.simps) auto
qed (simp add: chunks_exact.simps)

lemma length_h160_bytes [simp]: "length (h160_bytes a) = 20"
  by (simp add: h160_bytes_def)

lemma h160_bytes_inj: "h160_bytes a = h160_bytes b \<Longrightarrow> a = b"
proof (rule bit_word_eqI)
  fix n assume eq: "h160_bytes a = h160_bytes b" and n: "n < LENGTH(160)"
  define i where "i = 19 - n div 8"
  have i: "i < 20" "8 * (19 - i) + n mod 8 = n" using n by (auto simp: i_def)
  have "bit (h160_bytes x ! i) (n mod 8) = bit x n" for x
    using i by (simp add: h160_bytes_def bit_ucast_iff bit_drop_bit_eq)
  then show "bit a n = bit b n" using eq by metis
qed

lemma derivation_path_inj: "get_derivation_path_ic a = get_derivation_path_ic b \<Longrightarrow> a = b"
proof -
  have whole: "concat (chunks_exact 3 (DERIVATION_PATH_PREFIX # h160_bytes x)) =
      DERIVATION_PATH_PREFIX # h160_bytes x" for x
    by (rule chunks_exact_concat[where k = 7]) simp_all
  assume "get_derivation_path_ic a = get_derivation_path_ic b"
  then have "map ((#) 0) (chunks_exact 3 (DERIVATION_PATH_PREFIX # h160_bytes a)) =
      map ((#) (0 :: u8)) (chunks_exact 3 (DERIVATION_PATH_PREFIX # h160_bytes b))"
    by (simp add: get_derivation_path_ic_def)
  then have "chunks_exact 3 (DERIVATION_PATH_PREFIX # h160_bytes a) =
      chunks_exact 3 (DERIVATION_PATH_PREFIX # h160_bytes b)"
    by (rule map_injective) (simp add: inj_def)
  then have "DERIVATION_PATH_PREFIX # h160_bytes a = DERIVATION_PATH_PREFIX # h160_bytes b"
    using whole by metis
  then show "a = b" using h160_bytes_inj by simp
qed

text \<open>
  C20: Deposit paths are well defined and unambiguous: for every EVM address the path of its deposit
  key exists (none of the conversions panics), converting it to the form of the management
  canister gives back exactly the stored form, and different addresses have different paths.
\<close>

theorem deposit_path_roundtrip:
  "\<exists>path. get_derivation_path a = Some path \<and> derivation_path_to_ic path = get_derivation_path_ic a \<and>
     (get_derivation_path b = Some path \<longleftrightarrow> b = a)"
proof -
  have conv: "\<exists>path. get_derivation_path x = Some path \<and> derivation_path_to_ic path = get_derivation_path_ic x" for x
    unfolding get_derivation_path_def
    by (rule path_parts_convert) (simp add: get_derivation_path_ic_def chunks_exact_parts)
  then show ?thesis using derivation_path_inj by (metis option.inject)
qed

section \<open>The contract of the ledger\<close>

text \<open>
  A book of outputs, some of them reserved: what is stored and reserved after each operation, and
  that the outputs offered for spending are those stored and not reserved.
\<close>

datatype ('k, 'd, 'u) book_cmd = Put 'k 'd | Reserve 'k 'u | Forget 'k | Release 'k

locale utxo_book =
  fixes inv :: "'l \<Rightarrow> bool"
    and ok :: "'d \<Rightarrow> bool"
    and stored :: "'l \<Rightarrow> 'k::linorder \<Rightarrow> 'd option"
    and reserved :: "'l \<Rightarrow> 'k \<Rightarrow> 'u option"
    and put :: "'k \<Rightarrow> 'd \<Rightarrow> 'l \<Rightarrow> 'l"
    and reserve :: "'k \<Rightarrow> 'u \<Rightarrow> 'l \<Rightarrow> 'l"
    and forget :: "'k \<Rightarrow> 'l \<Rightarrow> 'l"
    and release :: "'k \<Rightarrow> 'l \<Rightarrow> 'l"
    and offered :: "'l \<Rightarrow> 'k list option"
  assumes put_inv: "inv l \<Longrightarrow> ok d \<Longrightarrow> inv (put k d l)"
    and reserve_inv: "inv l \<Longrightarrow> inv (reserve k u l)"
    and forget_inv: "inv l \<Longrightarrow> inv (forget k l)"
    and release_inv: "inv l \<Longrightarrow> inv (release k l)"
    and stored_put: "stored (put k d l) j = (if j = k then Some d else stored l j)"
    and reserved_put: "reserved (put k d l) j = reserved l j"
    and stored_reserve: "stored (reserve k u l) j = stored l j"
    and reserved_reserve: "reserved (reserve k u l) j = (if j = k then Some u else reserved l j)"
    and stored_forget: "stored (forget k l) j = (if j = k then None else stored l j)"
    and reserved_forget: "reserved (forget k l) j = (if j = k then None else reserved l j)"
    and stored_release: "stored (release k l) j = stored l j"
    and reserved_release: "reserved (release k l) j = (if j = k then None else reserved l j)"
    and offered_def: "inv l \<Longrightarrow> \<exists>ks. offered l = Some ks \<and> sorted_wrt (<) ks \<and>
       set ks = {k. stored l k \<noteq> None \<and> reserved l k = None}"
begin

fun perform :: "('k, 'd, 'u) book_cmd \<Rightarrow> 'l \<Rightarrow> 'l" where
  "perform (Put k d) = put k d"
| "perform (Reserve k u) = reserve k u"
| "perform (Forget k) = forget k"
| "perform (Release k) = release k"

definition performs :: "('k, 'd, 'u) book_cmd list \<Rightarrow> 'l \<Rightarrow> 'l" where
  "performs cs l = fold perform cs l"

definition valid :: "('k, 'd, 'u) book_cmd list \<Rightarrow> bool" where
  "valid cs \<longleftrightarrow> (\<forall>k d. Put k d \<in> set cs \<longrightarrow> ok d)"

lemma performs_inv: "inv l \<Longrightarrow> valid cs \<Longrightarrow> inv (performs cs l)"
proof (induction cs arbitrary: l)
  case (Cons c cs)
  then show ?case
    by (cases c) (auto simp: performs_def valid_def put_inv reserve_inv forget_inv release_inv)
qed (simp add: performs_def)

text \<open>What was never put into the book is never offered.\<close>

lemma never_put_never_offered:
  assumes "inv l" and "valid cs" and "stored l k = None" and "\<And>d. Put k d \<notin> set cs"
    and "offered (performs cs l) = Some ks"
  shows "k \<notin> set ks"
proof -
  have "stored (performs cs l) k = None"
    using assms(3,4)
  proof (induction cs arbitrary: l)
    case (Cons c cs)
    have "stored (perform c l) k = None"
      using Cons.prems by (cases c) (auto simp: stored_put stored_reserve stored_forget stored_release)
    then show ?case using Cons by (simp add: performs_def)
  qed (simp add: performs_def)
  then show ?thesis
    using offered_def[OF performs_inv[OF assms(1,2)]] assms(5) by auto
qed

text \<open>A reserved output is not offered again until it is forgotten or released.\<close>

lemma reserved_not_offered:
  assumes "inv l" and "valid cs" and "reserved l k \<noteq> None"
    and "Forget k \<notin> set cs" and "Release k \<notin> set cs" and "offered (performs cs l) = Some ks"
  shows "k \<notin> set ks"
proof -
  have "reserved (performs cs l) k \<noteq> None"
    using assms(3-5)
  proof (induction cs arbitrary: l)
    case (Cons c cs)
    have "reserved (perform c l) k \<noteq> None"
      using Cons.prems
      by (cases c) (auto simp: reserved_put reserved_reserve reserved_forget reserved_release)
    then show ?case using Cons by (simp add: performs_def)
  qed (simp add: performs_def)
  then show ?thesis
    using offered_def[OF performs_inv[OF assms(1,2)]] assms(6) by auto
qed

end

section \<open>The ledger meets its contract\<close>

definition path_ok :: "utxo_details \<Rightarrow> bool" where
  "path_ok d \<longleftrightarrow> ic_dp_to_derivation_path (ud_derivation_path d) \<noteq> None"

definition ledger_inv :: "utxo_ledger \<Rightarrow> bool" where
  "ledger_inv l \<longleftrightarrow> ordered (utxo_storage l) \<and> ordered (used_utxos_registry l) \<and>
     list_all (\<lambda>e. path_ok (snd e)) (utxo_storage l)"

lemma all_or_none_Some:
  assumes "\<And>x. x \<in> set xs \<Longrightarrow> f x \<noteq> None"
  shows "\<exists>ys. all_or_none f xs = Some ys \<and> list_all2 (\<lambda>x y. f x = Some y) xs ys"
  using assms
proof (induction xs)
  case (Cons x xs)
  obtain y where "f x = Some y" using Cons.prems by fastforce
  then show ?case using Cons by auto
qed simp

lemma unspent_entries_keys:
  assumes "ordered (utxo_storage l)"
  shows "sorted_wrt (<) (map fst (unspent_entries l))"
    and "fst ` set (unspent_entries l) =
      {k. omap_get (utxo_storage l) k \<noteq> None \<and> omap_get (used_utxos_registry l) k = None}"
proof -
  show "sorted_wrt (<) (map fst (unspent_entries l))"
    using ordered_filter[OF assms] by (simp add: unspent_entries_def ordered_def)
  show "fst ` set (unspent_entries l) =
      {k. omap_get (utxo_storage l) k \<noteq> None \<and> omap_get (used_utxos_registry l) k = None}"
    using om.get_entries[OF assms] by (force simp: unspent_entries_def)
qed

lemma load_unspent_ok:
  assumes "ledger_inv l"
  shows "\<exists>ins. load_unspent_utxos l = Some (map fst (unspent_entries l), ins) \<and>
    map in_outpoint ins = map fst (unspent_entries l)"
proof -
  have "input_of e \<noteq> None" if "e \<in> set (unspent_entries l)" for e
    using that assms by (auto simp: ledger_inv_def unspent_entries_def list_all_iff path_ok_def input_of_def)
  then obtain ins where ins: "all_or_none input_of (unspent_entries l) = Some ins"
      "list_all2 (\<lambda>e i. input_of e = Some i) (unspent_entries l) ins"
    using all_or_none_Some by blast
  from ins(2) have "map in_outpoint ins = map fst (unspent_entries l)"
    by (induction rule: list_all2_induct) (auto simp: input_of_def)
  with ins(1) show ?thesis by (simp add: load_unspent_utxos_def)
qed

fun ledger_do :: "(utxo_key, utxo_details, used_utxo_details) book_cmd \<Rightarrow> utxo_ledger \<Rightarrow> utxo_ledger" where
  "ledger_do (Put k d) = ledger_put k d"
| "ledger_do (Reserve k u) = mark_as_used (uu_used_at u) k (uu_owner_address u)"
| "ledger_do (Forget k) = remove_spent_utxo k"
| "ledger_do (Release k) = remove_unspent_utxo k"

lemmas ledger_op_defs = ledger_put_def mark_as_used_def remove_spent_utxo_def remove_unspent_utxo_def

lemma omap_remove_all: "list_all P m \<Longrightarrow> list_all P (omap_remove k m)"
  by (simp add: omap_remove_def list_all_iff)

interpretation lb: utxo_book
  ledger_inv path_ok "\<lambda>l. omap_get (utxo_storage l)" "\<lambda>l. omap_get (used_utxos_registry l)"
  ledger_put "\<lambda>k u. mark_as_used (uu_used_at u) k (uu_owner_address u)"
  remove_spent_utxo remove_unspent_utxo "\<lambda>l. map_option fst (load_unspent_utxos l)"
proof unfold_locales
  fix l assume "ledger_inv l"
  then show "\<exists>ks. map_option fst (load_unspent_utxos l) = Some ks \<and> sorted_wrt (<) ks \<and>
      set ks = {k. omap_get (utxo_storage l) k \<noteq> None \<and> omap_get (used_utxos_registry l) k = None}"
    using load_unspent_ok[of l] unspent_entries_keys[of l] by (fastforce simp: ledger_inv_def)
qed (auto simp: ledger_op_defs ledger_inv_def omap_simps omap_insert_all omap_remove_all)

lemma perform_ledger: "lb.performs cs l = fold ledger_do cs l"
proof -
  have "lb.perform c = ledger_do c" for c by (cases c) (simp_all add: fun_eq_iff)
  then have "lb.perform = ledger_do" by (simp add: fun_eq_iff)
  then show ?thesis by (simp add: lb.performs_def)
qed

text \<open>
  C19: The UTXO ledger never offers a reserved output for spending: after any sequence of
  deposits, reservations, removals and releases, listing the unspent outputs succeeds, lists each
  output once in key order with its spending information, and does not contain an output that was
  marked as used and neither removed nor released since.
\<close>

theorem ledger_reserved_not_offered:
  assumes "ledger_inv l" and "\<And>j d. Put j d \<in> set cs \<Longrightarrow> path_ok d"
    and "omap_get (used_utxos_registry l) k \<noteq> None" and "Forget k \<notin> set cs" and "Release k \<notin> set cs"
  shows "\<exists>ks ins. load_unspent_utxos (fold ledger_do cs l) = Some (ks, ins) \<and>
    map in_outpoint ins = ks \<and> sorted_wrt (<) ks \<and> k \<notin> set ks"
proof -
  have valid: "lb.valid cs" using assms(2) by (simp add: lb.valid_def)
  have inv: "ledger_inv (fold ledger_do cs l)"
    using lb.performs_inv[OF assms(1) valid] by (simp add: perform_ledger)
  obtain ins where ins: "load_unspent_utxos (fold ledger_do cs l) =
      Some (map fst (unspent_entries (fold ledger_do cs l)), ins)"
      "map in_outpoint ins = map fst (unspent_entries (fold ledger_do cs l))"
    using load_unspent_ok[OF inv] by blast
  moreover have "k \<notin> set (map fst (unspent_entries (fold ledger_do cs l)))"
    using lb.reserved_not_offered[OF assms(1) valid assms(3-5)] ins(1) by (simp add: perform_ledger)
  ultimately show ?thesis
    using unspent_entries_keys(1) inv by (auto simp: ledger_inv_def)
qed

theorem ledger_reserved_not_offered_witness:
  "\<exists>ks ins. load_unspent_utxos (fold ledger_do
       [Put (UtxoKey [1] 0) \<lparr>ud_value = 5, ud_script_buf = [], ud_derivation_path = []\<rparr>]
       (mark_as_used 3 (UtxoKey [1] 0) [] ledger_default)) = Some (ks, ins) \<and> UtxoKey [1] 0 \<notin> set ks"
proof -
  let ?l = "mark_as_used 3 (UtxoKey [1] 0) [] ledger_default"
  have "ledger_inv ?l" by (simp add: ledger_inv_def mark_as_used_def ledger_default_def)
  moreover have "omap_get (used_utxos_registry ?l) (UtxoKey [1] 0) \<noteq> None"
    by (simp add: mark_as_used_def omap_simps)
  ultimately show ?thesis
    using ledger_reserved_not_offered[of ?l "[Put (UtxoKey [1] 0)
        \<lparr>ud_value = 5, ud_script_buf = [], ud_derivation_path = []\<rparr>]" "UtxoKey [1] 0"]
    by (auto simp: path_ok_def)
qed

end
