(* ===== verification/Rune_Bridge.thy ===== *)
theory Rune_Bridge
  imports Bridge_Env Rune_Ledger
begin

text \<open>
  The rune bridge (\<open>rune-bridge\<close>): configuration and state (\<open>state.rs\<close>), operations
  (\<open>operation.rs\<close>), and what its deposits and withdrawals get from Bitcoin and from the indexer
  (\<open>core/utxo_provider.rs\<close>, \<open>core/index_provider.rs\<close>).
\<close>

section \<open>Configuration\<close>

datatype btc_network = BtcMainnet | BtcTestnet | BtcRegtest

datatype signing_strategy = LocalKey | ManagementCanisterKey

record rune_config =
  rc_network :: btc_network
  rc_evm_link :: evm_link
  rc_signing_strategy :: signing_strategy
  rc_admin :: principal
  rc_min_confirmations :: u32
  rc_indexer_url :: string
  rc_deposit_fee :: u64

definition rune_default_config :: rune_config where
  "rune_default_config = \<lparr>rc_network = BtcRegtest, rc_evm_link = default_evm_link,
     rc_signing_strategy = LocalKey, rc_admin = ManagementCanister, rc_min_confirmations = 12,
     rc_indexer_url = [], rc_deposit_fee = 100000\<rparr>"

text \<open>\<open>RuneBridgeConfig::validate\<close>\<close>

definition rune_config_valid :: "rune_config \<Rightarrow> bool" where
  "rune_config_valid config \<longleftrightarrow>
     rc_indexer_url config \<noteq> [] \<and> take 5 (rc_indexer_url config) = ''https''"

text \<open>\<open>State::indexer_url\<close>: without one trailing slash.\<close>

definition indexer_url :: "rune_config \<Rightarrow> string" where
  "indexer_url config = (let url = rc_indexer_url config in
     if url \<noteq> [] \<and> last url = CHR ''/'' then butlast url else url)"

record rune_bft_config =
  rbf_erc20_chain_id :: u32
  rbf_bridge_address :: h160

section \<open>Operations\<close>

text \<open>
  A \<open>HashMap<RuneName, u128>\<close> is a list of its entries in the order of an iteration; equality of
  two of them is equality as maps.
\<close>

type_synonym rune_amounts = "(rune_name \<times> u128) list"

datatype mint_order_status =
    OrderCreated signed_mint_order u32
  | OrderSent signed_mint_order u32 h256
  | OrderCompleted h256

record mint_order_details =
  md_rune_name :: rune_name
  md_amount :: u128
  md_status :: mint_order_status

text \<open>\<open>DepositError\<close>, as far as the code makes it; the texts it carries are dropped.\<close>

datatype deposit_error =
    DeNotInitialized
  | NoRunesToDeposit
  | DeInvalidAmounts rune_amounts rune_amounts
  | DeUnavailable
  | DeSign
  | DeEvm

text \<open>The details of \<open>InternalError\<close>: which of the code's messages it is.\<close>

datatype deposit_failure =
    FailedWith deposit_error
  | ConsumedConcurrently
  | MintOrderFailed deposit_error

datatype deposit_request_status =
    DepositScheduled
  | WaitingForInputs u64 u64 u64 u64 u32
  | NothingToDeposit u32
  | WaitingForConfirmations "ic_utxo list" u32 u32 u32
  | InvalidAmounts rune_amounts rune_amounts
  | MintOrdersCreated "mint_order_details list"
  | DepositMinted "(rune_name \<times> u128 \<times> h256) list"
  | DepositInternalError deposit_failure

record rune_deposit_payload =
  dp_dst_address :: h160
  dp_requested_amounts :: "rune_amounts option"
  dp_request_ts :: u64
  dp_status :: deposit_request_status

definition deposit_complete :: "rune_deposit_payload \<Rightarrow> bool" where
  "deposit_complete p = (case dp_status p of
       NothingToDeposit _ \<Rightarrow> True | InvalidAmounts _ _ \<Rightarrow> True | DepositMinted _ \<Rightarrow> True
     | DepositInternalError _ \<Rightarrow> True | _ \<Rightarrow> False)"

text \<open>A Bitcoin transaction, as far as the bridge looks into it.\<close>

record btc_transaction =
  bt_inputs :: "utxo_key list"
  bt_outputs :: "(u64 \<times> bytes) list"

text \<open>Why a withdrawal request is invalid, one constructor per message of the code.\<close>

datatype invalid_reason =
    RecipientNotUtf8
  | RecipientNotAddress
  | TokenNotId256
  | TokenNotRuneId
  | RuneNotKnown

datatype withdrawal_status =
    InvalidRequest invalid_reason
  | WithdrawalScheduled
  | TxSigned btc_transaction
  | TxSent btc_transaction

record rune_withdrawal_payload =
  wp_rune_info :: rune_info
  wp_amount :: u128
  wp_request_ts :: u64
  wp_sender :: h160
  wp_dst_address :: bytes
  wp_status :: withdrawal_status

definition withdrawal_complete :: "rune_withdrawal_payload \<Rightarrow> bool" where
  "withdrawal_complete p = (case wp_status p of TxSent _ \<Rightarrow> True | InvalidRequest _ \<Rightarrow> True | _ \<Rightarrow> False)"

datatype rune_operation =
    RuneDeposit rune_deposit_payload
  | RuneWithdrawal rune_withdrawal_payload

fun rune_complete :: "rune_operation \<Rightarrow> bool" where
  "rune_complete (RuneDeposit p) = deposit_complete p"
| "rune_complete (RuneWithdrawal p) = withdrawal_complete p"

section \<open>State\<close>

datatype rune_task =
    RuneInitEvmState
  | RuneCollectEvmEvents
  | DepositTask operation_id
  | RuneRemoveMintOrder minted_event_data
  | WithdrawTask operation_id

text \<open>
  \<open>State\<close>, with the operation store, the scheduler's tasks and the \<open>NONCE\<close> counter; whether the
  master key is known. A \<open>HashMap\<close> of runes is the list of its entries.
\<close>

record rune_state =
  sr_config :: rune_config
  sr_bft :: rune_bft_config
  sr_params :: "evm_params option"
  sr_master_key :: bool
  sr_ledger :: utxo_ledger
  sr_runes :: "(rune_name \<times> rune_info) list"
  sr_ops :: "rune_operation op_store"
  sr_tasks :: "(rune_task \<times> task_options) list"
  sr_nonce :: u32

definition rune_default_state :: rune_state where
  "rune_default_state = \<lparr>sr_config = rune_default_config,
     sr_bft = \<lparr>rbf_erc20_chain_id = 0, rbf_bridge_address = 0\<rparr>, sr_params = None,
     sr_master_key = False, sr_ledger = ledger_default, sr_runes = [], sr_ops = with_memory None 0,
     sr_tasks = [], sr_nonce = 0\<rparr>"

text \<open>\<open>btc_signer\<close>; the management canister's key needs the master key.\<close>

definition btc_signer_ready :: "rune_state \<Rightarrow> bool" where
  "btc_signer_ready s \<longleftrightarrow> rc_signing_strategy (sr_config s) = LocalKey \<or> sr_master_key s"

definition rune_chain_id :: "rune_config \<Rightarrow> u32" where
  "rune_chain_id cfg = (case rc_network cfg of BtcMainnet \<Rightarrow> 0 | BtcTestnet \<Rightarrow> 1 | BtcRegtest \<Rightarrow> 2)"

definition rune_evm_info :: "rune_state \<Rightarrow> evm_info" where
  "rune_evm_info s = \<lparr>link = rc_evm_link (sr_config s), bridge_contract = rbf_bridge_address (sr_bft s),
     params = sr_params s\<rparr>"

text \<open>\<open>State::rune_info\<close>: the first rune with the id.\<close>

definition state_rune_info :: "rune_state \<Rightarrow> rune_id \<Rightarrow> rune_info option" where
  "state_rune_info s i = List.find (\<lambda>info. rune_info_id info = i) (map snd (sr_runes s))"

definition rune_ops_update :: "operation_id \<Rightarrow> rune_operation \<Rightarrow> rune_state \<Rightarrow> rune_state" where
  "rune_ops_update i p s = s\<lparr>sr_ops := update_operation rune_complete i p (sr_ops s)\<rparr>"

definition rune_append_tasks :: "(rune_task \<times> task_options) list \<Rightarrow> rune_state \<Rightarrow> rune_state" where
  "rune_append_tasks ts s = s\<lparr>sr_tasks := sr_tasks s @ ts\<rparr>"

definition ledger_mod :: "(utxo_ledger \<Rightarrow> utxo_ledger) \<Rightarrow> rune_state \<Rightarrow> rune_state" where
  "ledger_mod f s = s\<lparr>sr_ledger := f (sr_ledger s)\<rparr>"

section \<open>The environment\<close>

record get_utxos_response =
  gr_utxos :: "ic_utxo list"
  gr_tip_height :: u32

record edict_tx_args =
  ed_rune :: rune_id
  ed_inputs :: "tx_input_info list"
  ed_destination :: address
  ed_change_address :: address
  ed_rune_change_address :: address
  ed_amount :: u128
  ed_fee_rate :: u64

record rune_deposit_request =
  rq_dst_address :: h160
  rq_amounts :: "rune_amounts option"

datatype utxo_filter = MinConfirmations u32 | Page bytes

text \<open>
  What the bridge gets from the crates \<open>bitcoin\<close>, \<open>ordinals\<close>, \<open>ord_rs\<close> and \<open>candid\<close>, from the
  management canister and from the \<open>ord\<close> indexer in one execution.
\<close>

record rune_env =
  rn_now :: u64
  rn_public_key :: "derivation_path \<Rightarrow> bytes"
  rn_derive_pub :: "derivation_path \<Rightarrow> bytes option"
  rn_p2wpkh :: "bytes \<Rightarrow> btc_network \<Rightarrow> address"
  rn_script_pubkey :: "address \<Rightarrow> bytes"
  rn_parse_address :: "bytes \<Rightarrow> address option"
  rn_show_address :: "address \<Rightarrow> bytes"
  rn_valid_for :: "address \<Rightarrow> btc_network \<Rightarrow> bool"
  rn_show_rune :: "rune_name \<Rightarrow> bytes"
  rn_id256_of_rune :: "rune_id \<Rightarrow> id256"
  rn_rune_of_id256 :: "id256 \<Rightarrow> rune_id option"
  rn_get_utxos :: "address \<Rightarrow> get_utxos_response option"
  rn_get_utxos_page :: "address \<Rightarrow> utxo_filter \<Rightarrow> (ic_utxo list \<times> bytes option) option"
  rn_fee_percentiles :: "u64 list option"
  rn_from_sat_per_vb :: "u64 \<Rightarrow> u64 option"
  rn_send_transaction :: "btc_transaction \<Rightarrow> bool"
  rn_rune_outputs :: "ic_utxo \<Rightarrow> (rune_name \<times> u128) list option"
  rn_runes :: "(rune_id \<times> rune_name \<times> u8) list option"
  rn_create_edict_tx :: "edict_tx_args \<Rightarrow> btc_transaction option"
  rn_sign_tx :: "btc_transaction \<Rightarrow> tx_input_info list \<Rightarrow> (unit, btc_transaction) outcome"
  rn_txid :: "btc_transaction \<Rightarrow> bytes"
  rn_decode_deposit :: "bytes \<Rightarrow> rune_deposit_request option"

text \<open>\<open>BtcSignerType::get_transit_address\<close>; a path that does not exist is a panic.\<close>

definition get_transit_address :: "rune_env \<Rightarrow> btc_network \<Rightarrow> h160 \<Rightarrow> address option" where
  "get_transit_address env2 network eth_address =
     map_option (\<lambda>path. rn_p2wpkh env2 (rn_public_key env2 path) network)
       (get_derivation_path eth_address)"

text \<open>\<open>collect()\<close> into a \<open>HashMap\<close>, and \<open>*entry(k).or_default() += v\<close> with wrap-around.\<close>

fun map_put :: "'k \<Rightarrow> 'v \<Rightarrow> ('k \<times> 'v) list \<Rightarrow> ('k \<times> 'v) list" where
  "map_put k v [] = [(k, v)]"
| "map_put k v ((j, w) # m) = (if j = k then (k, v) # m else (j, w) # map_put k v m)"

definition collect_map :: "('k \<times> 'v) list \<Rightarrow> ('k \<times> 'v) list" where
  "collect_map es = fold (\<lambda>(k, v). map_put k v) es []"

definition add_amount :: "rune_name \<times> u128 \<Rightarrow> rune_amounts \<Rightarrow> rune_amounts" where
  "add_amount e m = (case e of (k, v) \<Rightarrow>
     map_put k ((case map_of m k of None \<Rightarrow> 0 | Some w \<Rightarrow> w) + v) m)"

text \<open>\<open>OrdIndexProvider::get_rune_amounts\<close> on the indexer's answer.\<close>

definition get_rune_amounts :: "rune_env \<Rightarrow> ic_utxo \<Rightarrow> rune_amounts option" where
  "get_rune_amounts env2 utxo = map_option collect_map (rn_rune_outputs env2 utxo)"

end
