(* ===== verification/Rune_Deposit.thy ===== *)
theory Rune_Deposit
  imports Rune_Bridge
begin

text \<open>
  Deposits of the rune bridge (\<open>rune-bridge/src/core/deposit.rs\<close>). A request waits for outputs at
  the deposit address of its recipient, then for their confirmations, then one mint order per rune
  is signed and sent. The loop of \<open>process_deposit_request\<close> has fuel; two rounds are always enough
  (\<open>process_deposit_request_returns\<close>).
\<close>

section \<open>Requests\<close>

definition create_deposit_request ::
  "rune_env \<Rightarrow> h160 \<Rightarrow> rune_amounts option \<Rightarrow> rune_state \<Rightarrow> operation_id \<times> rune_state"
where
  "create_deposit_request rn dst amounts s =
     (case new_operation rune_complete dst (RuneDeposit
        \<lparr>dp_dst_address = dst, dp_requested_amounts = amounts, dp_request_ts = rn_now rn,
         dp_status = DepositScheduled\<rparr>) (sr_ops s) of
      (i, ops) \<Rightarrow> (i, s\<lparr>sr_ops := ops\<rparr>))"

definition update_request_status ::
  "operation_id \<Rightarrow> rune_deposit_payload \<Rightarrow> deposit_request_status \<Rightarrow> rune_state \<Rightarrow> rune_state"
where
  "update_request_status i request new_status =
     rune_ops_update i (RuneDeposit (request\<lparr>dp_status := new_status\<rparr>))"

text \<open>The stored request, if it is there and is a deposit.\<close>

definition find_deposit :: "rune_state \<Rightarrow> operation_id \<Rightarrow> rune_deposit_payload option" where
  "find_deposit s i = (case get_operation (sr_ops s) i of
       Some (RuneDeposit p) \<Rightarrow> Some p | _ \<Rightarrow> None)"

section \<open>Waiting\<close>

text \<open>Nanoseconds: 24 hours and 5 minutes.\<close>

definition request_timeout :: u64 where
  "request_timeout = 86400000000000"

definition deposit_retry_interval :: u64 where
  "deposit_retry_interval = 300000000000"

definition is_request_timed_out :: "u64 \<Rightarrow> rune_deposit_payload \<Rightarrow> bool" where
  "is_request_timed_out now request \<longleftrightarrow> now > dp_request_ts request + request_timeout"

definition reschedule_request :: "operation_id \<Rightarrow> rune_state \<Rightarrow> rune_state" where
  "reschedule_request i = rune_append_tasks
     [(DepositTask i, \<lparr>retry_policy = Some (MaxRetries 1), backoff_policy = Some (Fixed 300)\<rparr>)]"

definition wait_for_inputs ::
  "rune_env \<Rightarrow> operation_id \<Rightarrow> deposit_request_status \<Rightarrow> rune_state \<Rightarrow> rune_state"
where
  "wait_for_inputs rn i bail_status s = (case find_deposit s i of
       None \<Rightarrow> s
     | Some p \<Rightarrow>
         if is_request_timed_out (rn_now rn) p then update_request_status i p bail_status s
         else
           let block_height = (case bail_status of
                 NothingToDeposit h \<Rightarrow> h
               | _ \<Rightarrow> (case dp_status p of WaitingForInputs _ _ _ _ h \<Rightarrow> h | _ \<Rightarrow> 0))
           in reschedule_request i (update_request_status i p
                (WaitingForInputs (dp_request_ts p) (rn_now rn) (rn_now rn + deposit_retry_interval)
                   (dp_request_ts p + request_timeout) block_height) s))"

definition wait_for_confirmations ::
  "operation_id \<Rightarrow> get_utxos_response \<Rightarrow> u32 \<Rightarrow> rune_state \<Rightarrow> rune_state"
where
  "wait_for_confirmations i response current_min_confirmations s = (case find_deposit s i of
       None \<Rightarrow> s
     | Some p \<Rightarrow> reschedule_request i (update_request_status i p
         (WaitingForConfirmations (gr_utxos response) current_min_confirmations
            (rc_min_confirmations (sr_config s)) (gr_tip_height response)) s))"

text \<open>\<open>Err\<close> of the smallest number of confirmations when it is too small; the arithmetic wraps.\<close>

definition utxo_min_confirmations :: "get_utxos_response \<Rightarrow> u32" where
  "utxo_min_confirmations response = (case gr_utxos response of
       [] \<Rightarrow> 0
     | us \<Rightarrow> min_list (map (\<lambda>u. gr_tip_height response - iu_height u + 1) us))"

definition validate_utxo_confirmations :: "u32 \<Rightarrow> get_utxos_response \<Rightarrow> u32 + unit" where
  "validate_utxo_confirmations min_confirmations response =
     (if min_confirmations > utxo_min_confirmations response
      then Inl (utxo_min_confirmations response) else Inr ())"

section \<open>Outputs at the deposit address\<close>

definition is_existing :: "tx_input_info list \<Rightarrow> ic_utxo \<Rightarrow> bool" where
  "is_existing existing u \<longleftrightarrow> list_ex (\<lambda>v. key_tx_id (in_outpoint v) = iop_txid (iu_outpoint u) \<and>
     key_vout (in_outpoint v) = iop_vout (iu_outpoint u)) existing"

definition filter_out_used_utxos ::
  "utxo_ledger \<Rightarrow> get_utxos_response \<Rightarrow> get_utxos_response option"
where
  "filter_out_used_utxos l response = map_option (\<lambda>(_, existing).
     response\<lparr>gr_utxos := filter (\<lambda>u. \<not> is_existing existing u) (gr_utxos response)\<rparr>)
     (load_unspent_utxos l)"

definition has_used_utxos :: "utxo_ledger \<Rightarrow> ic_utxo list \<Rightarrow> bool option" where
  "has_used_utxos l utxos =
     map_option (\<lambda>(_, existing). list_ex (is_existing existing) utxos) (load_unspent_utxos l)"

fun mark_used_utxos :: "u64 \<Rightarrow> ic_utxo list \<Rightarrow> bytes \<Rightarrow> utxo_ledger \<Rightarrow> utxo_ledger option" where
  "mark_used_utxos now [] owner l = Some l"
| "mark_used_utxos now (u # us) owner l = (case utxo_key_of (iu_outpoint u) of
      None \<Rightarrow> None
    | Some k \<Rightarrow> mark_used_utxos now us owner (mark_as_used now k owner l))"

definition get_deposit_utxos ::
  "rune_env \<Rightarrow> (rune_state \<Rightarrow> rune_state) \<Rightarrow> address \<Rightarrow>
     (rune_state, deposit_error + get_utxos_response) task"
where
  "get_deposit_utxos rn aw transit_address =
     andTry (answer aw (case rn_get_utxos rn transit_address of
       None \<Rightarrow> Inl DeUnavailable | Some r \<Rightarrow> Inr r)) (\<lambda>response.
     andThen (reading (\<lambda>s. filter_out_used_utxos (sr_ledger s) response)) (\<lambda>filtered.
     andThen (unwrap filtered) (\<lambda>r. return (Inr r))))"

section \<open>Amounts\<close>

text \<open>Equality of two \<open>HashMap\<close>s.\<close>

definition amounts_eq :: "rune_amounts \<Rightarrow> rune_amounts \<Rightarrow> bool" where
  "amounts_eq a b \<longleftrightarrow>
     list_all (\<lambda>(k, v). map_of b k = Some v) a \<and> list_all (\<lambda>(k, v). map_of a k = Some v) b"

definition with_infos ::
  "(rune_name \<times> rune_info) list \<Rightarrow> rune_amounts \<Rightarrow> (rune_info \<times> u128) list option"
where
  "with_infos runes amounts =
     all_or_none (\<lambda>(n, a). map_option (\<lambda>info. (info, a)) (map_of runes n)) amounts"

definition rune_map :: "(rune_id \<times> rune_name \<times> u8) list \<Rightarrow> (rune_name \<times> rune_info) list" where
  "rune_map rune_list = collect_map (map (\<lambda>(i, name, decimals). (name,
     \<lparr>rinfo_name = name, rinfo_decimals = decimals, rinfo_block = ri_block i,
      rinfo_tx = ri_tx i\<rparr>)) rune_list)"

definition fill_rune_infos_from_indexer ::
  "rune_env \<Rightarrow> (rune_state \<Rightarrow> rune_state) \<Rightarrow> rune_amounts \<Rightarrow>
     (rune_state, (rune_info \<times> u128) list option) task"
where
  "fill_rune_infos_from_indexer rn aw amounts =
     andThen (answer aw (rn_runes rn)) (\<lambda>r. case r of
       None \<Rightarrow> return None
     | Some rune_list \<Rightarrow>
         (case with_infos (rune_map rune_list) amounts of
            None \<Rightarrow> return None
          | Some infos \<Rightarrow> andThen (modify (\<lambda>s. s\<lparr>sr_runes := rune_map rune_list\<rparr>)) (\<lambda>_.
              return (Some infos))))"

definition fill_rune_infos ::
  "rune_env \<Rightarrow> (rune_state \<Rightarrow> rune_state) \<Rightarrow> rune_amounts \<Rightarrow>
     (rune_state, (rune_info \<times> u128) list option) task"
where
  "fill_rune_infos rn aw amounts =
     andThen (reading (\<lambda>s. with_infos (sr_runes s) amounts)) (\<lambda>r. case r of
       Some v \<Rightarrow> return (Some v)
     | None \<Rightarrow> fill_rune_infos_from_indexer rn aw amounts)"

fun collect_amounts ::
  "rune_env \<Rightarrow> (nat \<Rightarrow> rune_state \<Rightarrow> rune_state) \<Rightarrow> ic_utxo list \<Rightarrow> rune_amounts \<Rightarrow> ic_utxo list \<Rightarrow>
     (rune_state, deposit_error + (rune_amounts \<times> ic_utxo list)) task"
where
  "collect_amounts rn aw [] acc used = return (Inr (acc, used))"
| "collect_amounts rn aw (u # us) acc used =
     andTry (answer (aw 0) (case get_rune_amounts rn u of
       None \<Rightarrow> Inl DeUnavailable | Some m \<Rightarrow> Inr m)) (\<lambda>m.
     if m = [] then collect_amounts rn (\<lambda>k. aw (k + 1)) us acc used
     else collect_amounts rn (\<lambda>k. aw (k + 1)) us (fold add_amount m acc) (used @ [u]))"

definition get_mint_amounts ::
  "rune_env \<Rightarrow> (nat \<Rightarrow> rune_state \<Rightarrow> rune_state) \<Rightarrow> ic_utxo list \<Rightarrow> rune_amounts option \<Rightarrow>
     (rune_state, deposit_error + ((rune_info \<times> u128) list \<times> ic_utxo list)) task"
where
  "get_mint_amounts rn aw utxos requested_amounts =
     andTry (collect_amounts rn aw utxos [] []) (\<lambda>(amounts, used_utxos).
     if amounts = [] then return (Inl NoRunesToDeposit)
     else if (case requested_amounts of None \<Rightarrow> False | Some r \<Rightarrow> \<not> amounts_eq amounts r)
     then return (Inl (DeInvalidAmounts (the requested_amounts) amounts))
     else andThen (fill_rune_infos rn (aw (length utxos)) amounts) (\<lambda>r. case r of
         None \<Rightarrow> return (Inl DeUnavailable)
       | Some infos \<Rightarrow> return (Inr (infos, used_utxos))))"

section \<open>Mint orders\<close>

definition rune_make_order ::
  "id256_codec \<Rightarrow> rune_env \<Rightarrow> rune_state \<Rightarrow> h160 \<Rightarrow> u128 \<Rightarrow> rune_info \<Rightarrow> u32 \<Rightarrow> mint_order"
where
  "rune_make_order cd rn s eth_address amount info n =
     \<lparr>mo_amount = ucast amount,
      mo_sender = from_evm_address cd eth_address (rune_chain_id (sr_config s)),
      mo_src_token = rn_id256_of_rune rn (rune_info_id info), mo_recipient = eth_address,
      mo_dst_token = 0, mo_nonce = n, mo_sender_chain_id = rune_chain_id (sr_config s),
      mo_recipient_chain_id = rbf_erc20_chain_id (sr_bft s),
      mo_name = name_array (rn_show_rune rn) info, mo_symbol = symbol_array (rn_show_rune rn) info,
      mo_decimals = rinfo_decimals info, mo_approve_spender = 0, mo_approve_amount = 0,
      mo_fee_payer = 0\<rparr>"

definition create_mint_order ::
  "'v bridge_env \<Rightarrow> rune_env \<Rightarrow> (rune_state \<Rightarrow> rune_state) \<Rightarrow> h160 \<Rightarrow> u128 \<Rightarrow> rune_info \<Rightarrow> u32 \<Rightarrow>
     (rune_state, deposit_error + signed_mint_order) task"
where
  "create_mint_order env rn aw eth_address amount info n =
     andThen (reading (\<lambda>s. rune_make_order (env_codec env) rn s eth_address amount info n)) (\<lambda>order.
     answer aw (case env_encode_and_sign env order of
       None \<Rightarrow> Inl DeSign | Some signed_order \<Rightarrow> Inr signed_order))"

text \<open>\<open>get_nonce\<close> returns the counter and increments it, with wrap-around.\<close>

definition get_nonce :: "(rune_state, u32) task" where
  "get_nonce = andThen (reading sr_nonce) (\<lambda>n.
     andThen (modify (\<lambda>s. s\<lparr>sr_nonce := n + 1\<rparr>)) (\<lambda>_. return n))"

fun create_mint_orders ::
  "'v bridge_env \<Rightarrow> rune_env \<Rightarrow> (nat \<Rightarrow> rune_state \<Rightarrow> rune_state) \<Rightarrow> h160 \<Rightarrow> (rune_info \<times> u128) list \<Rightarrow>
     (rune_state, deposit_error + mint_order_details list) task"
where
  "create_mint_orders env rn aw eth_address [] = return (Inr [])"
| "create_mint_orders env rn aw eth_address ((info, amount) # rest) =
     andThen get_nonce (\<lambda>n.
     andTry (create_mint_order env rn (aw 0) eth_address amount info n) (\<lambda>order.
     andTry (create_mint_orders env rn (\<lambda>k. aw (k + 1)) eth_address rest) (\<lambda>orders.
     return (Inr (\<lparr>md_rune_name = rinfo_name info, md_amount = amount,
                   md_status = OrderCreated order n\<rparr> # orders)))))"

definition rune_send_mint_order ::
  "'v bridge_env \<Rightarrow> (nat \<Rightarrow> rune_state \<Rightarrow> rune_state) \<Rightarrow> signed_mint_order \<Rightarrow>
     (rune_state, deposit_error + h256) task"
where
  "rune_send_mint_order env aw order =
     andTry (answer (aw 0) (case env_signer_address env of
       None \<Rightarrow> Inl DeSign | Some a \<Rightarrow> Inr a)) (\<lambda>sender.
     andThen (reading rune_evm_info) (\<lambda>evm_info.
     case params evm_info of
       None \<Rightarrow> return (Inl DeNotInitialized)
     | Some ps \<Rightarrow>
         (case mint_transaction (env_encode_input env) sender (bridge_contract evm_info)
                (ucast (evm_nonce ps)) (gas_price ps) order (ucast (chain_id ps)) of
            Ok tx \<Rightarrow>
              andTry (answer (aw 1) (case env_sign_transaction env tx of
                None \<Rightarrow> Inl DeSign | Some sig \<Rightarrow> Inr sig)) (\<lambda>(r, s, v).
              let tx = tx\<lparr>tx_r := r, tx_s := s, tx_v := v\<rparr>;
                  tx = tx\<lparr>tx_hash := env_tx_hash env tx\<rparr> in
              andTry (answer (aw 2) (case env_send_raw_transaction env (link evm_info) tx of
                None \<Rightarrow> Inl DeEvm | Some i \<Rightarrow> Inr i)) (\<lambda>i.
              andThen (modify (\<lambda>s. s\<lparr>sr_params :=
                map_option (\<lambda>p. p\<lparr>evm_nonce := evm_nonce p + 1\<rparr>) (sr_params s)\<rparr>)) (\<lambda>_.
              return (Inr i))))
          | Err (f :: failure) \<Rightarrow> panic
          | Panic \<Rightarrow> panic)))"

text \<open>The loop over the orders; the flag says whether an order was sent.\<close>

fun send_mint_orders ::
  "'v bridge_env \<Rightarrow> (nat \<Rightarrow> rune_state \<Rightarrow> rune_state) \<Rightarrow> mint_order_details list \<Rightarrow>
     (rune_state, bool \<times> mint_order_details list) task"
where
  "send_mint_orders env aw [] = return (False, [])"
| "send_mint_orders env aw (d # ds) =
     andThen (case md_status d of
         OrderCreated order n \<Rightarrow>
           andThen (rune_send_mint_order env aw order) (\<lambda>r. return (case r of
             Inr tx_id \<Rightarrow> (True, d\<lparr>md_status := OrderSent order n tx_id\<rparr>)
           | Inl _ \<Rightarrow> (False, d)))
       | _ \<Rightarrow> return (False, d)) (\<lambda>(changed, d').
     andThen (send_mint_orders env (\<lambda>k. aw (k + 3)) ds) (\<lambda>(changes, ds').
     return (changed \<or> changes, d' # ds')))"

section \<open>The steps of a deposit\<close>

datatype control_flow = Continue | Break

text \<open>
  \<open>prepare_mint_orders\<close>. Every way out but the last records why it waits or gives up, and leaves
  the loop.
\<close>

definition prepare_mint_orders ::
  "'v bridge_env \<Rightarrow> rune_env \<Rightarrow> (nat \<Rightarrow> rune_state \<Rightarrow> rune_state) \<Rightarrow> operation_id \<Rightarrow>
     rune_deposit_payload \<Rightarrow> (rune_state, control_flow) task"
where
  "prepare_mint_orders env rn aw i request =
     (let wait = (\<lambda>bail_status. andThen (modify (wait_for_inputs rn i bail_status)) (\<lambda>_. return Break)) in
     andThen (reading (\<lambda>s. rc_network (sr_config s))) (\<lambda>network.
     andThen (unwrap (get_transit_address rn network (dp_dst_address request))) (\<lambda>transit_address.
     andThen (get_deposit_utxos rn (aw 0) transit_address) (\<lambda>r. case r of
       Inl err \<Rightarrow> wait (DepositInternalError (FailedWith err))
     | Inr response \<Rightarrow>
       if gr_utxos response = [] then wait (NothingToDeposit (gr_tip_height response))
       else
     andThen (reading (\<lambda>s. validate_utxo_confirmations (rc_min_confirmations (sr_config s)) response))
       (\<lambda>valid. case valid of
       Inl min_confirmations \<Rightarrow>
         andThen (modify (wait_for_confirmations i response min_confirmations)) (\<lambda>_. return Break)
     | Inr _ \<Rightarrow>
     andThen (get_mint_amounts rn (\<lambda>k. aw (k + 1)) (gr_utxos response) (dp_requested_amounts request))
       (\<lambda>r. case r of
       Inl err \<Rightarrow> wait (DepositInternalError (FailedWith err))
     | Inr (amounts, used_utxos) \<Rightarrow>
       if amounts = [] then wait (NothingToDeposit (gr_tip_height response))
       else
     andThen (reading (\<lambda>s. has_used_utxos (sr_ledger s) used_utxos)) (\<lambda>used.
     andThen (unwrap used) (\<lambda>used.
     if used then wait (DepositInternalError ConsumedConcurrently)
     else
     andThen (create_mint_orders env rn (\<lambda>k. aw (k + 2 + length (gr_utxos response)))
       (dp_dst_address request) amounts) (\<lambda>r. case r of
       Inl err \<Rightarrow> wait (DepositInternalError (MintOrderFailed err))
     | Inr orders \<Rightarrow>
     andThen (modify (update_request_status i request (MintOrdersCreated orders))) (\<lambda>_.
     andThen (reading (\<lambda>s. mark_used_utxos (rn_now rn) used_utxos
       (rn_show_address rn transit_address) (sr_ledger s))) (\<lambda>l.
     andThen (unwrap l) (\<lambda>l.
     andThen (modify (ledger_mod (\<lambda>_. l))) (\<lambda>_.
     return Continue)))))))))))))"

definition execute_request_step ::
  "'v bridge_env \<Rightarrow> rune_env \<Rightarrow> (nat \<Rightarrow> rune_state \<Rightarrow> rune_state) \<Rightarrow> operation_id \<Rightarrow>
     rune_deposit_payload \<Rightarrow> (rune_state, control_flow) task"
where
  "execute_request_step env rn aw i request = (case dp_status request of
       DepositScheduled \<Rightarrow> prepare_mint_orders env rn aw i request
     | WaitingForInputs _ _ _ _ _ \<Rightarrow> prepare_mint_orders env rn aw i request
     | WaitingForConfirmations _ _ _ _ \<Rightarrow> prepare_mint_orders env rn aw i request
     | MintOrdersCreated orders \<Rightarrow>
         andThen (send_mint_orders env aw orders) (\<lambda>(has_changes, updated).
         andThen (if has_changes
             then modify (update_request_status i request (MintOrdersCreated updated))
             else return ()) (\<lambda>_.
         return Break))
     | _ \<Rightarrow> return Break)"

text \<open>
  The loop, with the interference of its \<open>k\<close>-th round in \<open>aw k\<close>; \<open>None\<close> when the fuel is used up.
\<close>

fun process_deposit_request ::
  "nat \<Rightarrow> 'v bridge_env \<Rightarrow> rune_env \<Rightarrow> (nat \<Rightarrow> nat \<Rightarrow> rune_state \<Rightarrow> rune_state) \<Rightarrow> operation_id \<Rightarrow>
     (rune_state, unit option) task"
where
  "process_deposit_request 0 env rn aw i = return None"
| "process_deposit_request (Suc fuel) env rn aw i =
     andThen (reading (\<lambda>s. find_deposit s i)) (\<lambda>r. case r of
       None \<Rightarrow> return (Some ())
     | Some request \<Rightarrow>
         andThen (execute_request_step env rn (aw 0) i request) (\<lambda>c. case c of
           Break \<Rightarrow> return (Some ())
         | Continue \<Rightarrow> process_deposit_request fuel env rn (\<lambda>k. aw (k + 1)) i))"

section \<open>Completion\<close>

definition complete_deposit_request ::
  "operation_id \<Rightarrow> rune_deposit_payload \<Rightarrow> mint_order_details list \<Rightarrow> rune_state \<Rightarrow> rune_state"
where
  "complete_deposit_request i request orders = update_request_status i request
     (DepositMinted (map (\<lambda>d. (md_rune_name d, md_amount d,
        case md_status d of OrderCompleted tx_id \<Rightarrow> tx_id | _ \<Rightarrow> 0)) orders))"

text \<open>The loop over the orders of a request; the flag is \<open>is_updated\<close>.\<close>

fun complete_orders :: "u32 \<Rightarrow> mint_order_details list \<Rightarrow> bool \<times> mint_order_details list" where
  "complete_orders n [] = (False, [])"
| "complete_orders n (d # ds) = (case complete_orders n ds of (updated, ds') \<Rightarrow>
     (case md_status d of
        OrderSent _ m tx_id \<Rightarrow>
          if m = n then (True, d\<lparr>md_status := OrderCompleted tx_id\<rparr> # ds') else (updated, d # ds')
      | _ \<Rightarrow> (updated, d # ds')))"

definition is_completed :: "mint_order_details \<Rightarrow> bool" where
  "is_completed d \<longleftrightarrow> (case md_status d of OrderCompleted _ \<Rightarrow> True | _ \<Rightarrow> False)"

text \<open>
  The loop over the requests of an address: it stops at the first one with an order of the nonce.
  When other orders are still open the request is written back as it was read.
\<close>

fun complete_in_requests ::
  "u32 \<Rightarrow> (operation_id \<times> rune_operation) list \<Rightarrow> rune_state \<Rightarrow> rune_state"
where
  "complete_in_requests n [] s = s"
| "complete_in_requests n ((i, request) # rest) s = (case request of
      RuneDeposit p \<Rightarrow>
        (case dp_status p of
           MintOrdersCreated orders \<Rightarrow>
             (case complete_orders n orders of (is_updated, orders') \<Rightarrow>
                if is_updated
                then if list_all is_completed orders' then complete_deposit_request i p orders' s
                     else rune_ops_update i (RuneDeposit p) s
                else complete_in_requests n rest s)
         | _ \<Rightarrow> complete_in_requests n rest s)
    | _ \<Rightarrow> complete_in_requests n rest s)"

definition complete_mint_request :: "h160 \<Rightarrow> u32 \<Rightarrow> rune_state \<Rightarrow> rune_state" where
  "complete_mint_request dst order_nonce s =
     complete_in_requests order_nonce (get_for_address (sr_ops s) dst) s"

end
