(* ===== verification/Rune_Withdrawal.thy ===== *)
theory Rune_Withdrawal
  imports Rune_Bridge
begin

text \<open>
  Withdrawals of the rune bridge (\<open>rune-bridge/src/core/withdrawal.rs\<close>), the fee rate and the
  sending of transactions (\<open>core/utxo_provider.rs\<close>), and the daily removal of used outputs
  (\<open>task.rs\<close>).
\<close>

section \<open>Requests\<close>

definition invalid_withdrawal :: "invalid_reason \<Rightarrow> rune_withdrawal_payload" where
  "invalid_withdrawal reason = \<lparr>wp_rune_info = rune_info_invalid, wp_amount = 0, wp_request_ts = 0,
     wp_sender = 0, wp_dst_address = [], wp_status = InvalidRequest reason\<rparr>"

text \<open>\<open>RuneWithdrawalPayload::new\<close>; \<open>None\<close> is the panic on an amount of more than 128 bits.\<close>

definition new_withdrawal ::
  "id256_codec \<Rightarrow> rune_env \<Rightarrow> rune_state \<Rightarrow> burnt_event_data \<Rightarrow> rune_withdrawal_payload option"
where
  "new_withdrawal cd rn s burnt = map_option (\<lambda>amount.
     case from_utf8 (be_recipient_id burnt) of
       None \<Rightarrow> invalid_withdrawal RecipientNotUtf8
     | Some address_string \<Rightarrow>
     (case rn_parse_address rn address_string of
       None \<Rightarrow> invalid_withdrawal RecipientNotAddress
     | Some address \<Rightarrow>
     (case from_slice cd (be_to_token burnt) of
       None \<Rightarrow> invalid_withdrawal TokenNotId256
     | Some token_id \<Rightarrow>
     (case rn_rune_of_id256 rn token_id of
       None \<Rightarrow> invalid_withdrawal TokenNotRuneId
     | Some rune_id \<Rightarrow>
     (case state_rune_info s rune_id of
       None \<Rightarrow> invalid_withdrawal RuneNotKnown
     | Some info \<Rightarrow>
         \<lparr>wp_rune_info = info, wp_amount = amount, wp_request_ts = rn_now rn,
          wp_sender = be_sender burnt, wp_dst_address = rn_show_address rn address,
          wp_status = WithdrawalScheduled\<rparr>))))) (as_u128 (be_amount burnt))"

text \<open>\<open>RuneWithdrawalPayload::dst_address\<close>; \<open>None\<close> is the panic.\<close>

definition withdrawal_dst_address :: "rune_env \<Rightarrow> rune_withdrawal_payload \<Rightarrow> address option" where
  "withdrawal_dst_address rn p = rn_parse_address rn (wp_dst_address p)"

datatype withdraw_error =
    NoInputs
  | TransactionCreation
  | TransactionSigning
  | TransactionSending
  | FeeRateRequest
  | WithdrawOperationNotFound
  | NotAWithdrawal
  | NotScheduled

section \<open>Transactions\<close>

definition DEFAULT_REGTEST_FEE :: u64 where
  "DEFAULT_REGTEST_FEE = 10000"

definition get_fee_rate :: "rune_env \<Rightarrow> btc_network \<Rightarrow> withdraw_error + u64" where
  "get_fee_rate rn network = (case rn_fee_percentiles rn of
       None \<Rightarrow> Inl FeeRateRequest
     | Some response \<Rightarrow>
         let middle_percentile =
           (if response = []
            then if network = BtcRegtest then Some DEFAULT_REGTEST_FEE else None
            else Some (response ! (length response div 2)))
         in (case middle_percentile of
               None \<Rightarrow> Inl FeeRateRequest
             | Some m \<Rightarrow> (case rn_from_sat_per_vb rn (m div 1000) of
                   None \<Rightarrow> Inl FeeRateRequest | Some r \<Rightarrow> Inr r)))"

definition send_tx ::
  "rune_env \<Rightarrow> (rune_state \<Rightarrow> rune_state) \<Rightarrow> btc_transaction \<Rightarrow> (rune_state, withdraw_error + unit) task"
where
  "send_tx rn aw tx =
     answer aw (if rn_send_transaction rn tx then Inr () else Inl TransactionSending)"

definition get_change_address :: "rune_env \<Rightarrow> btc_network \<Rightarrow> address option" where
  "get_change_address rn network = get_transit_address rn network 0"

definition get_change_derivation_path :: "bytes list" where
  "get_change_derivation_path = get_derivation_path_ic 0"

definition build_withdraw_transaction ::
  "rune_env \<Rightarrow> (nat \<Rightarrow> rune_state \<Rightarrow> rune_state) \<Rightarrow> btc_network \<Rightarrow> u128 \<Rightarrow> address \<Rightarrow> address \<Rightarrow>
     rune_id \<Rightarrow> tx_input_info list \<Rightarrow> (rune_state, withdraw_error + btc_transaction) task"
where
  "build_withdraw_transaction rn aw network amount dst change_address rune inputs =
     (if inputs = [] then return (Inl NoInputs)
      else
        andThen (reading (\<lambda>s. sr_master_key s \<and> btc_signer_ready s)) (\<lambda>ready.
        if \<not> ready then panic
        else
          andThen (unwrap (get_change_address rn network)) (\<lambda>rune_change_address.
          andTry (answer (aw 0) (get_fee_rate rn network)) (\<lambda>fee_rate.
          case rn_create_edict_tx rn \<lparr>ed_rune = rune, ed_inputs = inputs, ed_destination = dst,
              ed_change_address = change_address, ed_rune_change_address = rune_change_address,
              ed_amount = amount, ed_fee_rate = fee_rate\<rparr> of
            None \<Rightarrow> return (Inl TransactionCreation)
          | Some unsigned_tx \<Rightarrow>
              andThen (answer (aw 1) (rn_sign_tx rn unsigned_tx inputs)) (\<lambda>r. case r of
                Ok signed_tx \<Rightarrow> return (Inr signed_tx)
              | Err _ \<Rightarrow> return (Inl TransactionSigning)
              | Panic \<Rightarrow> panic)))))"

section \<open>The withdrawal\<close>

text \<open>The inputs at the sender's deposit address.\<close>

definition funding_input ::
  "bytes \<Rightarrow> derivation_path \<Rightarrow> ic_utxo \<Rightarrow> tx_input_info option"
where
  "funding_input script path u = map_option (\<lambda>k. \<lparr>in_outpoint = k, in_value = iu_value u,
     in_script_pubkey = script, in_derivation_path = path\<rparr>) (utxo_key_of (iu_outpoint u))"

text \<open>\<open>CHANGE_OUTPOINT_INDEX\<close> is 1; the assertion on that output is a panic.\<close>

definition change_utxo ::
  "rune_env \<Rightarrow> btc_network \<Rightarrow> btc_transaction \<Rightarrow> (ic_utxo \<times> bytes) option"
where
  "change_utxo rn network tx = (case get_change_address rn network of
       None \<Rightarrow> None
     | Some change_address \<Rightarrow>
         let script = rn_script_pubkey rn change_address in
         if 1 < length (bt_outputs tx) \<and> snd (bt_outputs tx ! 1) = script
         then Some (\<lparr>iu_outpoint = \<lparr>iop_txid = rn_txid rn tx, iop_vout = 1\<rparr>,
                     iu_value = fst (bt_outputs tx ! 1), iu_height = 0\<rparr>, script)
         else None)"

definition mark_inputs :: "u64 \<Rightarrow> bytes \<Rightarrow> tx_input_info list \<Rightarrow> utxo_ledger \<Rightarrow> utxo_ledger" where
  "mark_inputs now owner inputs l = fold (\<lambda>v. mark_as_used now (in_outpoint v) owner) inputs l"

definition set_withdrawal_status ::
  "operation_id \<Rightarrow> rune_withdrawal_payload \<Rightarrow> withdrawal_status \<Rightarrow> rune_state \<Rightarrow> rune_state"
where
  "set_withdrawal_status i p status = rune_ops_update i (RuneWithdrawal (p\<lparr>wp_status := status\<rparr>))"

text \<open>What follows a successful \<open>send_tx\<close>.\<close>

definition record_sent ::
  "rune_env \<Rightarrow> btc_network \<Rightarrow> operation_id \<Rightarrow> rune_withdrawal_payload \<Rightarrow> address \<Rightarrow>
     tx_input_info list \<Rightarrow> btc_transaction \<Rightarrow> (rune_state, withdraw_error + bytes) task"
where
  "record_sent rn network i p dst utxos tx =
     andThen (modify (ledger_mod (mark_inputs (rn_now rn) (rn_show_address rn dst) utxos))) (\<lambda>_.
     andThen (unwrap (change_utxo rn network tx)) (\<lambda>(change, script).
     andThen (reading (\<lambda>s. ledger_deposit [change] script get_change_derivation_path (sr_ledger s))) (\<lambda>l.
     andThen (unwrap l) (\<lambda>l.
     andThen (modify (ledger_mod (\<lambda>_. l))) (\<lambda>_.
     andThen (modify (set_withdrawal_status i p (TxSent tx))) (\<lambda>_.
     return (Inr (rn_txid rn tx))))))))"

definition withdraw ::
  "rune_env \<Rightarrow> (nat \<Rightarrow> rune_state \<Rightarrow> rune_state) \<Rightarrow> operation_id \<Rightarrow>
     (rune_state, withdraw_error + bytes) task"
where
  "withdraw rn aw i =
     andThen (reading (\<lambda>s. rc_network (sr_config s))) (\<lambda>network.
     andThen (reading (\<lambda>s. get_operation (sr_ops s) i)) (\<lambda>operation. case operation of
       None \<Rightarrow> return (Inl WithdrawOperationNotFound)
     | Some (RuneDeposit _) \<Rightarrow> return (Inl NotAWithdrawal)
     | Some (RuneWithdrawal p) \<Rightarrow>
     andThen (unwrap (withdrawal_dst_address rn p)) (\<lambda>dst.
     if wp_status p \<noteq> WithdrawalScheduled then return (Inl NotScheduled)
     else
     andThen (reading (\<lambda>s. load_unspent_utxos (sr_ledger s))) (\<lambda>unspent.
     andThen (unwrap unspent) (\<lambda>(_, unspent).
     andThen (unwrap (get_transit_address rn network (wp_sender p))) (\<lambda>funding_address.
     andTry (answer (aw 0) (case rn_get_utxos rn funding_address of
       None \<Rightarrow> Inl NoInputs | Some r \<Rightarrow> Inr r)) (\<lambda>response.
     andThen (unwrap (get_derivation_path (wp_sender p))) (\<lambda>path.
     andThen (unwrap (all_or_none (funding_input (rn_script_pubkey rn funding_address) path)
       (gr_utxos response))) (\<lambda>funding_utxos.
     let utxos = unspent @ funding_utxos in
     andTry (build_withdraw_transaction rn (\<lambda>k. aw (k + 1)) network (wp_amount p) dst
       funding_address (rune_info_id (wp_rune_info p)) utxos) (\<lambda>tx.
     andThen (modify (set_withdrawal_status i p (TxSigned tx))) (\<lambda>_.
     andTry (send_tx rn (aw 3) tx) (\<lambda>_.
     record_sent rn network i p dst utxos tx))))))))))))"

section \<open>Removal of used outputs\<close>

definition AVG_BLOCK_TIME :: nat where
  "AVG_BLOCK_TIME = 600000000000"

text \<open>\<open>UsedUtxoDetails::owner_address\<close>\<close>

definition owner_address :: "rune_env \<Rightarrow> btc_network \<Rightarrow> used_utxo_details \<Rightarrow> address option" where
  "owner_address rn network d = (case rn_parse_address rn (uu_owner_address d) of
       None \<Rightarrow> None
     | Some a \<Rightarrow> if rn_valid_for rn a network then Some a else None)"

text \<open>
  \<open>get_owner_utxos\<close>: all pages. \<open>None\<close> when the pages never end, \<open>Some None\<close> on an error.
\<close>

partial_function (option) get_owner_utxos ::
  "(utxo_filter \<Rightarrow> (ic_utxo list \<times> bytes option) option) \<Rightarrow> utxo_filter \<Rightarrow> ic_utxo list \<Rightarrow>
     ic_utxo list option option"
where
  "get_owner_utxos get flt utxos = (case get flt of
       None \<Rightarrow> Some None
     | Some (us, next_page) \<Rightarrow> (case next_page of
           None \<Rightarrow> Some (Some (utxos @ us))
         | Some page \<Rightarrow> get_owner_utxos get (Page page) (utxos @ us)))"

declare get_owner_utxos.simps [code]

definition remove_used_utxo :: "utxo_key \<Rightarrow> ic_utxo list \<Rightarrow> utxo_ledger \<Rightarrow> utxo_ledger" where
  "remove_used_utxo k owner_utxos l =
     (let is_utxo_spent = \<not> list_ex (\<lambda>u. iop_txid (iu_outpoint u) = key_tx_id k \<and>
            iop_vout (iu_outpoint u) = key_vout k) owner_utxos
      in if is_utxo_spent then remove_spent_utxo k l else remove_unspent_utxo k l)"

text \<open>The outputs used long enough ago; \<open>Duration\<close>s do not wrap around here.\<close>

definition utxos_to_check :: "u64 \<Rightarrow> u32 \<Rightarrow> utxo_ledger \<Rightarrow> (utxo_key \<times> used_utxo_details) list" where
  "utxos_to_check now min_confirmations l = filter (\<lambda>(_, details).
     unat (uu_used_at details) + unat min_confirmations * AVG_BLOCK_TIME \<le> unat now) (load_used_utxos l)"

text \<open>
  The keys grouped by owner, in the order of an iteration over the \<open>HashMap\<close>, and the ledger
  without the outputs whose owner is not a valid address.
\<close>

fun push_owner :: "address \<Rightarrow> utxo_key \<Rightarrow> (address \<times> utxo_key list) list \<Rightarrow> (address \<times> utxo_key list) list" where
  "push_owner a k [] = [(a, [k])]"
| "push_owner a k ((b, ks) # m) = (if b = a then (b, ks @ [k]) # m else (b, ks) # push_owner a k m)"

fun group_by_owner ::
  "rune_env \<Rightarrow> btc_network \<Rightarrow> (utxo_key \<times> used_utxo_details) list \<Rightarrow> utxo_ledger \<Rightarrow>
     (address \<times> utxo_key list) list \<Rightarrow> (address \<times> utxo_key list) list \<times> utxo_ledger"
where
  "group_by_owner rn network [] l groups = (groups, l)"
| "group_by_owner rn network ((k, d) # rest) l groups = (case owner_address rn network d of
      None \<Rightarrow> group_by_owner rn network rest (remove_spent_utxo k l) groups
    | Some a \<Rightarrow> group_by_owner rn network rest l (push_owner a k groups))"

fun check_owners ::
  "rune_env \<Rightarrow> (nat \<Rightarrow> rune_state \<Rightarrow> rune_state) \<Rightarrow> u32 \<Rightarrow> (address \<times> utxo_key list) list \<Rightarrow>
     (rune_state, unit) task"
where
  "check_owners rn aw min_confirmations [] = return ()"
| "check_owners rn aw min_confirmations ((owner, keys) # rest) =
     andThen (call_forever (aw 0)
       (get_owner_utxos (rn_get_utxos_page rn owner) (MinConfirmations min_confirmations) [])) (\<lambda>r.
     andThen (case r of
         None \<Rightarrow> return ()
       | Some owner_utxos \<Rightarrow>
           modify (ledger_mod (fold (\<lambda>k. remove_used_utxo k owner_utxos) keys))) (\<lambda>_.
     check_owners rn (\<lambda>k. aw (k + 1)) min_confirmations rest))"

definition remove_used_utxos_task ::
  "rune_env \<Rightarrow> (nat \<Rightarrow> rune_state \<Rightarrow> rune_state) \<Rightarrow> (rune_state, unit) task"
where
  "remove_used_utxos_task rn aw =
     andThen (reading (\<lambda>s. rc_min_confirmations (sr_config s))) (\<lambda>min_confirmations.
     andThen (reading (\<lambda>s. group_by_owner rn (rc_network (sr_config s))
       (utxos_to_check (rn_now rn) min_confirmations (sr_ledger s)) (sr_ledger s) [])) (\<lambda>(groups, l).
     andThen (modify (ledger_mod (\<lambda>_. l))) (\<lambda>_.
     check_owners rn aw min_confirmations groups)))"

end
