(* ===== verification/Rune_Canister.thy ===== *)
theory Rune_Canister
  imports Rune_Deposit Rune_Withdrawal
begin

text \<open>
  The tasks of the rune bridge's scheduler (\<open>rune-bridge/src/scheduler.rs\<close>) and the calls of its
  canister (\<open>canister.rs\<close>).
\<close>

section \<open>Tasks\<close>

definition rune_init_evm_state ::
  "'v bridge_env \<Rightarrow> (nat \<Rightarrow> rune_state \<Rightarrow> rune_state) \<Rightarrow> (rune_state, unit) task"
where
  "rune_init_evm_state env aw =
     andThen (reading (\<lambda>s. link (rune_evm_info s))) (\<lambda>client.
     andThen (call (aw 0) (env_signer_address env)) (\<lambda>address.
     andThen (call_outcome (aw 1) (query_link env client address)) (\<lambda>evm_params.
     modify (\<lambda>s. s\<lparr>sr_params := Some evm_params\<rparr>))))"

text \<open>\<open>RuneMinterNotification::decode\<close>\<close>

definition DEPOSIT_TYPE :: u32 where
  "DEPOSIT_TYPE = 1"

definition decode_notification ::
  "rune_env \<Rightarrow> notify_minter_event_data \<Rightarrow> rune_deposit_request option"
where
  "decode_notification rn event_data =
     (if ne_notification_type event_data = DEPOSIT_TYPE
      then rn_decode_deposit rn (ne_user_data event_data) else None)"

definition rune_retry_options :: task_options where
  "rune_retry_options =
     \<lparr>retry_policy = Some (MaxRetries (- 1)), backoff_policy = Some (Fixed 5)\<rparr>"

text \<open>
  \<open>task_by_log\<close>, with the operation it may create; \<open>None\<close> is a panic. \<open>RuneDeposit::get\<close> panics
  without a signer.
\<close>

definition rune_task_by_log ::
  "'v bridge_env \<Rightarrow> rune_env \<Rightarrow> evm_log \<Rightarrow> rune_state \<Rightarrow>
     ((rune_task \<times> task_options) option \<times> rune_state) option"
where
  "rune_task_by_log env rn log s = (case from_log (env_parse_log env) log of
       Ok (Burnt burnt) \<Rightarrow> map_option (\<lambda>p.
         case new_operation rune_complete (be_sender burnt) (RuneWithdrawal p) (sr_ops s) of
           (i, ops) \<Rightarrow> (Some (WithdrawTask i, rune_retry_options), s\<lparr>sr_ops := ops\<rparr>))
         (new_withdrawal (env_codec env) rn s burnt)
     | Ok (Minted minted) \<Rightarrow> Some (Some (RuneRemoveMintOrder minted, rune_retry_options), s)
     | Ok (Notify event) \<Rightarrow>
         (case decode_notification rn event of
            None \<Rightarrow> Some (None, s)
          | Some request \<Rightarrow>
              if btc_signer_ready s
              then (case create_deposit_request rn (rq_dst_address request) (rq_amounts request) s of
                      (i, s) \<Rightarrow> Some (Some (DepositTask i, default_options), s))
              else None)
     | Err _ \<Rightarrow> Some (None, s)
     | Panic \<Rightarrow> None)"

fun rune_tasks_by_logs ::
  "'v bridge_env \<Rightarrow> rune_env \<Rightarrow> evm_log list \<Rightarrow> rune_state \<Rightarrow>
     ((rune_task \<times> task_options) list \<times> rune_state) option"
where
  "rune_tasks_by_logs env rn [] s = Some ([], s)"
| "rune_tasks_by_logs env rn (log # logs) s = (case rune_task_by_log env rn log s of
      None \<Rightarrow> None
    | Some (t, s) \<Rightarrow> map_option (\<lambda>(ts, s). (case t of None \<Rightarrow> ts | Some t \<Rightarrow> t # ts, s))
        (rune_tasks_by_logs env rn logs s))"

definition rune_collect_evm_events ::
  "'v bridge_env \<Rightarrow> rune_env \<Rightarrow> (nat \<Rightarrow> rune_state \<Rightarrow> rune_state) \<Rightarrow> (rune_state, unit) task"
where
  "rune_collect_evm_events env rn aw =
     andThen (reading rune_evm_info) (\<lambda>evm_info.
     case params evm_info of
       None \<Rightarrow> return ()
     | Some ps \<Rightarrow>
         andThen (call (aw 0) (env_block_number env (link evm_info))) (\<lambda>last_block.
         andThen (call_forever (aw 1) (collect_link env (link evm_info) (next_block ps) last_block
           (bridge_contract evm_info))) (\<lambda>logs.
         if logs = [] then return ()
         else
           andThen (modify (\<lambda>s. s\<lparr>sr_params := Some (ps\<lparr>next_block := last_block + 1\<rparr>)\<rparr>)) (\<lambda>_.
           andThen (reading (rune_tasks_by_logs env rn logs)) (\<lambda>r.
           andThen (unwrap r) (\<lambda>(ts, s').
           modify (\<lambda>_. rune_append_tasks ts s')))))))"

text \<open>The deposit task; \<open>RuneDeposit::get\<close> panics without a signer.\<close>

definition rune_deposit_task ::
  "'v bridge_env \<Rightarrow> rune_env \<Rightarrow> (nat \<Rightarrow> nat \<Rightarrow> rune_state \<Rightarrow> rune_state) \<Rightarrow> operation_id \<Rightarrow>
     (rune_state, unit) task"
where
  "rune_deposit_task env rn aw i =
     andThen (reading btc_signer_ready) (\<lambda>ready.
     if \<not> ready then panic
     else andThen (process_deposit_request 2 env rn aw i) (\<lambda>_. return ()))"

definition rune_remove_mint_order :: "minted_event_data \<Rightarrow> (rune_state, unit) task" where
  "rune_remove_mint_order minted =
     andThen (reading btc_signer_ready) (\<lambda>ready.
     if \<not> ready then panic
     else modify (complete_mint_request (me_recipient minted) (me_nonce minted)))"

text \<open>\<open>RuneBridgeTask::execute\<close>\<close>

fun rune_execute ::
  "'v bridge_env \<Rightarrow> rune_env \<Rightarrow> (nat \<Rightarrow> nat \<Rightarrow> rune_state \<Rightarrow> rune_state) \<Rightarrow> rune_task \<Rightarrow>
     (rune_state, unit) task"
where
  "rune_execute env rn aw RuneInitEvmState = rune_init_evm_state env (aw 0)"
| "rune_execute env rn aw RuneCollectEvmEvents = rune_collect_evm_events env rn (aw 0)"
| "rune_execute env rn aw (DepositTask i) = rune_deposit_task env rn aw i"
| "rune_execute env rn aw (RuneRemoveMintOrder minted) = rune_remove_mint_order minted"
| "rune_execute env rn aw (WithdrawTask i) =
     andThen (reading btc_signer_ready) (\<lambda>ready.
     if \<not> ready then panic
     else andThen (withdraw rn (aw 0) i) (\<lambda>r. case r of
       Inl _ \<Rightarrow> fail CallFailed | Inr _ \<Rightarrow> return ()))"

section \<open>The canister\<close>

definition rune_configure :: "rune_config \<Rightarrow> rune_state \<Rightarrow> rune_state option" where
  "rune_configure config s =
     (if rune_config_valid config then Some (s\<lparr>sr_config := config\<rparr>) else None)"

definition rune_init :: "rune_config \<Rightarrow> rune_state \<Rightarrow> (unit, unit) outcome \<times> rune_state" where
  "rune_init config s = (case rune_configure config s of
       None \<Rightarrow> (Panic, s)
     | Some s' \<Rightarrow> (Ok (), rune_append_tasks [(RuneInitEvmState,
         \<lparr>retry_policy = Some (MaxRetries 5), backoff_policy = Some (Exponential 2 2)\<rparr>)] s'))"

definition rune_timer :: "rune_state \<Rightarrow> rune_state" where
  "rune_timer = rune_append_tasks [(RuneCollectEvmEvents,
     \<lparr>retry_policy = Some Infinite, backoff_policy = Some (Fixed 1)\<rparr>)]"

text \<open>
  \<open>get_deposit_address\<close> derives the key from the master key, whatever the signer is; it panics
  before the master key is known.
\<close>

definition get_deposit_address ::
  "rune_env \<Rightarrow> rune_state \<Rightarrow> h160 \<Rightarrow> (unit, bytes) outcome"
where
  "get_deposit_address rn s eth_address =
     (if \<not> sr_master_key s then Panic
      else case get_derivation_path eth_address of
        None \<Rightarrow> Panic
      | Some path \<Rightarrow> (case rn_derive_pub rn path of
            None \<Rightarrow> Err ()
          | Some key \<Rightarrow> Ok (rn_show_address rn (rn_p2wpkh rn key (rc_network (sr_config s))))))"

definition rune_get_operations_list :: "rune_state \<Rightarrow> h160 \<Rightarrow> (operation_id \<times> rune_operation) list" where
  "rune_get_operations_list s wallet_address = get_for_address (sr_ops s) wallet_address"

definition rune_check_admin :: "principal \<Rightarrow> rune_state \<Rightarrow> bool" where
  "rune_check_admin caller s \<longleftrightarrow> caller = rc_admin (sr_config s)"

text \<open>\<open>ok\<close>: the management canister returned a well-formed key.\<close>

definition admin_configure_ecdsa ::
  "principal \<Rightarrow> (rune_state \<Rightarrow> rune_state) \<Rightarrow> bool \<Rightarrow> (rune_state, unit) task"
where
  "admin_configure_ecdsa caller aw ok =
     andThen (reading (rune_check_admin caller)) (\<lambda>admin.
     if \<not> admin then panic
     else andThen (answer aw ok) (\<lambda>ok.
     if ok then modify (\<lambda>s. s\<lparr>sr_master_key := True\<rparr>) else panic))"

definition rune_admin_configure_bft_bridge ::
  "principal \<Rightarrow> rune_bft_config \<Rightarrow> rune_state \<Rightarrow> (unit, unit) outcome \<times> rune_state"
where
  "rune_admin_configure_bft_bridge caller config s =
     (if rune_check_admin caller s then (Ok (), s\<lparr>sr_bft := config\<rparr>) else (Panic, s))"

text \<open>\<open>get_rune_balances\<close>: every error is a panic.\<close>

definition get_rune_balances ::
  "rune_env \<Rightarrow> (nat \<Rightarrow> rune_state \<Rightarrow> rune_state) \<Rightarrow> bytes \<Rightarrow>
     (rune_state, (rune_info \<times> u128) list) task"
where
  "get_rune_balances rn aw btc_address =
     andThen (unwrap (rn_parse_address rn btc_address)) (\<lambda>address.
     andThen (reading btc_signer_ready) (\<lambda>ready.
     if \<not> ready then panic
     else
       andThen (get_deposit_utxos rn (aw 0) address) (\<lambda>r. case r of
         Inl _ \<Rightarrow> panic
       | Inr utxos \<Rightarrow>
           andThen (get_mint_amounts rn (\<lambda>k. aw (k + 1)) (gr_utxos utxos) None) (\<lambda>r. case r of
             Inl _ \<Rightarrow> panic
           | Inr (amounts, _) \<Rightarrow> return amounts))))"

end
