(* ===== verification/Rune_Invariant.thy ===== *)
theory Rune_Invariant
  imports Rune_Canister
begin

text \<open>
  Invariants of the rune bridge. The locale \<open>rune_invariant\<close> is what a predicate on the state has to
  keep so that the handlers of deposits keep it; it is interpreted for the well-formedness of the
  operation store (\<open>ok\<close>) and for the whole invariant of the bridge (\<open>inv\<close>), which every task keeps.
\<close>

section \<open>Invariants of deposits\<close>

locale rune_invariant =
  fixes I :: "rune_state \<Rightarrow> bool"
  assumes params_inv: "I s \<Longrightarrow> I (s\<lparr>sr_params := map_option f (sr_params s)\<rparr>)"
    and runes_inv: "I s \<Longrightarrow> I (s\<lparr>sr_runes := y\<rparr>)"
    and nonce_inv: "I s \<Longrightarrow> I (s\<lparr>sr_nonce := z\<rparr>)"
    and tasks_inv: "I s \<Longrightarrow> I (rune_append_tasks [(DepositTask i, opts)] s)"
    and update_inv: "I s \<Longrightarrow> I (rune_ops_update i p s)"
    and mark_inv: "I s \<Longrightarrow> mark_used_utxos now us owner (sr_ledger s) = Some l \<Longrightarrow> I (ledger_mod (\<lambda>_. l) s)"
begin

lemmas state_inv = params_inv runes_inv nonce_inv tasks_inv update_inv

lemma status_inv: "I s \<Longrightarrow> I (update_request_status i p x s)"
  by (simp add: update_request_status_def update_inv)

lemma waits_inv:
  "I s \<Longrightarrow> I (wait_for_inputs rn i b s)" "I s \<Longrightarrow> I (wait_for_confirmations i resp n s)"
  by (simp_all add: wait_for_inputs_def wait_for_confirmations_def reschedule_request_def Let_def
      tasks_inv status_inv split: option.split)

lemma get_deposit_utxos_inv:
  assumes "keeps I aw"
  shows "maintains I (get_deposit_utxos rn (aw n) a)"
  unfolding get_deposit_utxos_def by (intro maintains_intros keepsD[OF assms])

lemma collect_amounts_inv: "keeps I aw \<Longrightarrow> maintains I (collect_amounts rn aw us acc used)"
proof (induction us arbitrary: aw acc used)
  case (Cons u us)
  show ?case
    using Cons.IH[OF keeps_shift[OF Cons.prems]]
    by (auto intro!: maintains_intros keepsD[OF Cons.prems])
qed (simp add: maintains_intros)

lemma get_mint_amounts_inv:
  assumes "keeps I aw"
  shows "maintains I (get_mint_amounts rn aw us req)"
  unfolding get_mint_amounts_def fill_rune_infos_def fill_rune_infos_from_indexer_def
  by (auto intro!: maintains_intros collect_amounts_inv[OF assms] keepsD[OF assms] runes_inv
      split: option.split)

lemma create_mint_orders_inv: "keeps I aw \<Longrightarrow> maintains I (create_mint_orders env rn aw a infos)"
proof (induction infos arbitrary: aw)
  case (Cons x infos)
  show ?case
    using Cons.IH[OF keeps_shift[OF Cons.prems]]
    by (cases x) (auto intro!: maintains_intros keepsD[OF Cons.prems] nonce_inv
        simp: get_nonce_def create_mint_order_def)
qed (simp add: maintains_intros)

lemma send_mint_order_inv:
  assumes "keeps I aw"
  shows "maintains I (rune_send_mint_order env aw order)"
  unfolding rune_send_mint_order_def Let_def
  by (auto intro!: maintains_intros keepsD[OF assms] params_inv split: option.split outcome.split)

lemma send_mint_orders_inv: "keeps I aw \<Longrightarrow> maintains I (send_mint_orders env aw ds)"
proof (induction ds arbitrary: aw)
  case (Cons d ds)
  show ?case
    using Cons.IH[OF keeps_shift[OF Cons.prems]]
    by (auto intro!: maintains_intros send_mint_order_inv[OF Cons.prems] split: mint_order_status.split)
qed (simp add: maintains_intros)

lemma prepare_mint_orders_inv:
  assumes "keeps I aw"
  shows "maintains I (prepare_mint_orders env rn aw i request)"
proof (rule maintainsI)
  fix c s assume inv: "I c" "I s"
  note keep = keeps_shift[OF assms]
  show "wp (prepare_mint_orders env rn aw i request) (\<lambda>_ c' s'. I c' \<and> I s') c s"
    unfolding prepare_mint_orders_def Let_def
    by (auto simp: wp_simps inv waits_inv status_inv split!: option.split outcome.split sum.split
        intro!: maintains_wp[OF get_deposit_utxos_inv[OF assms]] maintains_wp[OF get_mint_amounts_inv[OF keep]]
          maintains_wp[OF create_mint_orders_inv[OF keep]] mark_inv)
qed

lemma execute_request_step_inv:
  assumes "keeps I aw"
  shows "maintains I (execute_request_step env rn aw i request)"
  unfolding execute_request_step_def
  by (auto intro!: maintains_intros prepare_mint_orders_inv[OF assms] send_mint_orders_inv[OF assms] status_inv
      split: deposit_request_status.split)

lemma process_deposit_request_inv:
  "(\<And>k. keeps I (aw k)) \<Longrightarrow> maintains I (process_deposit_request fuel env rn aw i)"
proof (induction fuel arbitrary: aw)
  case (Suc fuel)
  have "maintains I (process_deposit_request fuel env rn (\<lambda>k. aw (k + 1)) i)"
    using Suc by simp
  then show ?case
    using Suc.prems
    by (auto intro!: maintains_intros execute_request_step_inv split: option.split control_flow.split)
qed (simp add: maintains_intros)

lemma complete_in_requests_inv: "I s \<Longrightarrow> I (complete_in_requests n requests s)"
  by (induction n requests s rule: complete_in_requests.induct)
    (auto simp: complete_deposit_request_def status_inv update_inv
      split: rune_operation.split deposit_request_status.split prod.split)

end

section \<open>The invariant of the bridge\<close>

definition rune_ok :: "rune_state \<Rightarrow> bool" where
  "rune_ok s \<longleftrightarrow> wf_store rune_complete (sr_ops s)"

definition rune_inv :: "rune_state \<Rightarrow> bool" where
  "rune_inv s \<longleftrightarrow> rune_ok s \<and> ledger_inv (sr_ledger s)"

lemma rune_ok_same [simp]:
  "rune_ok (s\<lparr>sr_params := x\<rparr>) = rune_ok s" "rune_ok (s\<lparr>sr_runes := y\<rparr>) = rune_ok s"
  "rune_ok (s\<lparr>sr_nonce := z\<rparr>) = rune_ok s" "rune_ok (ledger_mod f s) = rune_ok s"
  "rune_ok (rune_append_tasks ts s) = rune_ok s"
  by (simp_all add: rune_ok_def ledger_mod_def rune_append_tasks_def)

lemma rune_inv_same [simp]:
  "rune_inv (s\<lparr>sr_params := x\<rparr>) = rune_inv s" "rune_inv (rune_append_tasks ts s) = rune_inv s"
  by (simp_all add: rune_inv_def rune_append_tasks_def rune_ok_def)

lemma rune_ok_update [simp]: "rune_ok s \<Longrightarrow> rune_ok (rune_ops_update i p s)"
  by (simp add: rune_ok_def rune_ops_update_def os.update_inv)

lemma rune_ledger_same [simp]:
  "sr_ledger (rune_ops_update i p s) = sr_ledger s" "sr_ledger (rune_append_tasks ts s) = sr_ledger s"
  "sr_ledger (ledger_mod f s) = f (sr_ledger s)"
  by (simp_all add: rune_ops_update_def rune_append_tasks_def ledger_mod_def)

lemma mark_used_utxos_frame:
  "mark_used_utxos now us owner l = Some l' \<Longrightarrow>
     utxo_storage l' = utxo_storage l \<and> (ledger_inv l \<longrightarrow> ledger_inv l')"
proof (induction us arbitrary: l)
  case (Cons u us)
  then show ?case
    using lb.reserve_inv[of l, where u = "\<lparr>uu_used_at = now, uu_owner_address = owner\<rparr>"]
    by (auto simp: mark_as_used_def split: option.splits)
qed simp

interpretation ok: rune_invariant rune_ok
  by unfold_locales simp_all

interpretation inv: rune_invariant rune_inv
  by unfold_locales (auto simp: rune_inv_def dest: mark_used_utxos_frame)

lemmas rune_ok_simps [simp] = ok.status_inv ok.waits_inv

section \<open>The invariant of withdrawals\<close>

lemma change_path_ok: "ud_derivation_path d = get_change_derivation_path \<Longrightarrow> path_ok d"
  unfolding path_ok_def get_change_derivation_path_def get_derivation_path_ic_def
  using path_parts_convert[OF chunks_exact_parts] by force

lemma put_change_inv:
  "ledger_inv l \<Longrightarrow> ledger_inv (ledger_put k
     \<lparr>ud_value = v, ud_script_buf = script, ud_derivation_path = get_change_derivation_path\<rparr> l)"
  by (rule lb.put_inv) (simp_all add: change_path_ok)

lemma rune_inv_ledger: "rune_inv s \<Longrightarrow> (ledger_inv (sr_ledger s) \<Longrightarrow> ledger_inv (f (sr_ledger s))) \<Longrightarrow> rune_inv (ledger_mod f s)"
  by (simp add: rune_inv_def)

lemma mark_inputs_inv: "ledger_inv l \<Longrightarrow> ledger_inv (mark_inputs now owner ins l)"
  unfolding mark_inputs_def
  using lb.reserve_inv[where u = "\<lparr>uu_used_at = now, uu_owner_address = owner\<rparr>"]
  by (induction ins arbitrary: l) auto

lemma record_sent_inv: "maintains rune_inv (record_sent rn network i p dst utxos tx)"
proof (rule maintainsI)
  fix c s assume inv: "rune_inv c" "rune_inv s"
  then show "wp (record_sent rn network i p dst utxos tx) (\<lambda>_ c' s'. rune_inv c' \<and> rune_inv s') c s"
    unfolding record_sent_def
    by (auto simp: wp_simps rune_inv_def set_withdrawal_status_def mark_inputs_inv put_change_inv
        split: option.split)
qed

lemma withdraw_inv:
  assumes "keeps rune_inv aw"
  shows "maintains rune_inv (withdraw rn aw i)"
  unfolding withdraw_def build_withdraw_transaction_def send_tx_def Let_def
  by (auto intro!: maintains_intros keepsD[OF assms] record_sent_inv
      simp: set_withdrawal_status_def inv.update_inv
      split: option.split rune_operation.split outcome.split)

section \<open>Removal of used outputs\<close>

lemma remove_used_utxo_inv: "ledger_inv l \<Longrightarrow> ledger_inv (remove_used_utxo k us l)"
  by (simp add: remove_used_utxo_def Let_def lb.forget_inv lb.release_inv)

lemma group_by_owner_inv:
  "ledger_inv l \<Longrightarrow> ledger_inv (snd (group_by_owner rn network es l groups))"
  by (induction rn network es l groups rule: group_by_owner.induct)
    (auto simp: lb.forget_inv split: option.split)

lemma check_owners_inv: "keeps rune_inv aw \<Longrightarrow> maintains rune_inv (check_owners rn aw n groups)"
proof (induction groups arbitrary: aw)
  case (Cons g groups)
  have "ledger_inv l \<Longrightarrow> ledger_inv (fold (\<lambda>k. remove_used_utxo k us) keys l)" for l us keys
    by (induction keys arbitrary: l) (simp_all add: remove_used_utxo_inv)
  then show ?case
    using Cons.IH[OF keeps_shift[OF Cons.prems]]
    by (cases g) (auto intro!: maintains_intros keepsD[OF Cons.prems] rune_inv_ledger split: option.split)
qed (simp add: maintains_intros)

lemma remove_used_utxos_task_inv:
  assumes "keeps rune_inv aw"
  shows "maintains rune_inv (remove_used_utxos_task rn aw)"
proof (rule maintainsI)
  fix c s assume inv: "rune_inv c" "rune_inv s"
  then have "ledger_inv (snd (group_by_owner rn n es (sr_ledger s) []))" for n es
    by (simp add: group_by_owner_inv rune_inv_def)
  with inv show "wp (remove_used_utxos_task rn aw) (\<lambda>_ c' s'. rune_inv c' \<and> rune_inv s') c s"
    unfolding remove_used_utxos_task_def
    by (auto simp: wp_simps case_prod_beta rune_inv_def[of "ledger_mod _ _"] rune_inv_def[of s]
        intro!: maintains_wp[OF check_owners_inv[OF assms]])
qed

section \<open>New operations\<close>

lemma rune_task_by_log_inv:
  assumes "rune_inv s" and "0 < ids_left (sr_ops s)" and "rune_task_by_log env rn log s = Some (t, s')"
  shows "rune_inv s' \<and> ids_left (sr_ops s) \<le> Suc (ids_left (sr_ops s'))"
proof -
  have new: "rune_inv (s\<lparr>sr_ops := snd (new_operation rune_complete a p (sr_ops s))\<rparr>)"
    "Suc (ids_left (snd (new_operation rune_complete a p (sr_ops s)))) = ids_left (sr_ops s)" for a p
    using os.create_inv[OF _ assms(2), of rune_complete] os.create_room[OF assms(2)] assms(1)
    by (simp_all add: rune_inv_def rune_ok_def)
  show ?thesis
    using assms(1,3) new
    by (auto simp: rune_task_by_log_def create_deposit_request_def case_prod_beta
        split: outcome.splits bridge_event.splits option.splits if_splits)
qed

lemma rune_tasks_by_logs_inv:
  "rune_inv s \<Longrightarrow> length logs \<le> ids_left (sr_ops s) \<Longrightarrow>
     rune_tasks_by_logs env rn logs s = Some (ts, s') \<Longrightarrow> rune_inv s'"
proof (induction logs arbitrary: s ts s')
  case (Cons log logs)
  then obtain t s1 ts1 where "rune_task_by_log env rn log s = Some (t, s1)"
      "rune_tasks_by_logs env rn logs s1 = Some (ts1, s')"
    by (auto split: option.splits)
  then show ?case
    using rune_task_by_log_inv[of s env rn log t s1] Cons.prems(1,2) Cons.IH[of s1 ts1 s'] by auto
qed simp

lemma rune_collect_inv:
  assumes "keeps rune_inv aw" and "rune_inv c" and "rune_inv s"
    and "\<And>lnk f t b logs. collect_link env lnk f t b = Some logs \<Longrightarrow>
      length logs \<le> ids_left (sr_ops (aw 1 (aw 0 s)))"
  shows "wp (rune_collect_evm_events env rn aw) (\<lambda>_ c' s'. rune_inv c' \<and> rune_inv s') c s"
  unfolding rune_collect_evm_events_def
  using assms(2,3) keepsD[OF assms(1)]
  by (auto simp: wp_simps split!: option.split elim!: rune_tasks_by_logs_inv[rotated 2] dest!: assms(4))


lemma rune_execute_inv:
  assumes "\<And>k. keeps rune_inv (aw k)" and "rune_inv c" and "rune_inv s"
    and "\<And>lnk f t b logs. collect_link env lnk f t b = Some logs \<Longrightarrow>
      length logs \<le> ids_left (sr_ops (aw 0 1 (aw 0 0 s)))"
  shows "wp (rune_execute env rn aw task) (\<lambda>_ c' s'. rune_inv c' \<and> rune_inv s') c s"
proof (cases task)
  case RuneCollectEvmEvents
  then show ?thesis using rune_collect_inv[OF assms(1)[of 0] assms(2-4)] by simp
next
  case RuneInitEvmState
  have "maintains rune_inv (rune_init_evm_state env (aw 0))"
    unfolding rune_init_evm_state_def
    by (intro maintains_intros keepsD[OF assms(1)]) simp_all
  then show ?thesis using RuneInitEvmState assms(2,3) by (simp add: maintains_def)
next
  case (DepositTask i)
  have "maintains rune_inv (rune_deposit_task env rn aw i)"
    unfolding rune_deposit_task_def
    by (auto intro!: maintains_intros inv.process_deposit_request_inv assms(1))
  then show ?thesis using DepositTask assms(2,3) by (simp add: maintains_def)
next
  case (RuneRemoveMintOrder minted)
  have "maintains rune_inv (rune_remove_mint_order minted)"
    unfolding rune_remove_mint_order_def complete_mint_request_def
    by (auto intro!: maintains_intros inv.complete_in_requests_inv)
  then show ?thesis using RuneRemoveMintOrder assms(2,3) by (simp add: maintains_def)
next
  case (WithdrawTask i)
  have "maintains rune_inv (rune_execute env rn aw (WithdrawTask i))"
    by (auto intro!: maintains_intros withdraw_inv assms(1) split: sum.split)
  then show ?thesis using WithdrawTask assms(2,3) by (simp add: maintains_def)
qed

end
