(* ===== verification/Rune_Safety.thy ===== *)
theory Rune_Safety
  imports Rune_Invariant
begin

text \<open>
  Properties of the rune bridge: a deposit task always ends, what a withdrawal leaves behind, and
  where deposits are minted twice or never completed.
\<close>

section \<open>Deposits end\<close>

text \<open>A request whose next step leaves the loop.\<close>

definition settled :: "operation_id \<Rightarrow> rune_state \<Rightarrow> bool" where
  "settled i s \<longleftrightarrow> (\<forall>p. find_deposit s i = Some p \<longrightarrow> deposit_complete p \<or> (\<exists>orders. dp_status p = MintOrdersCreated orders))"

lemma settled_ledger [simp]: "settled i (ledger_mod f s) = settled i s"
  by (simp add: settled_def find_deposit_def ledger_mod_def)

lemma update_settled:
  assumes "rune_ok s"
  shows "settled i (update_request_status i p (MintOrdersCreated orders) s)"
proof -
  have wf: "wf_store rune_complete (sr_ops s)" using assms by (simp add: rune_ok_def)
  show ?thesis
  proof (cases "find_operation (sr_ops s) i")
    case None
    then show ?thesis
      using os.update_unknown[OF wf None]
      by (simp add: settled_def find_deposit_def update_request_status_def rune_ops_update_def get_operation_find)
  next
    case (Some x)
    obtain a q where x: "x = (a, q)" by force
    show ?thesis
    proof (cases "rune_complete q")
      case True
      then show ?thesis
        using os.update_complete[OF wf, of i a q] Some x
        by (auto simp: settled_def find_deposit_def update_request_status_def rune_ops_update_def
            get_operation_find split: rune_operation.splits)
    next
      case False
      then show ?thesis
        using os.update_incomplete[OF wf, of i a q "RuneDeposit (p\<lparr>dp_status := MintOrdersCreated orders\<rparr>)"] Some x
        by (simp add: settled_def find_deposit_def update_request_status_def rune_ops_update_def
            get_operation_find deposit_complete_def)
    qed
  qed
qed

lemma wp_prepare_continue:
  assumes "keeps rune_ok aw" and "rune_ok c" and "rune_ok s"
  shows "wp (prepare_mint_orders env rn aw i request) (\<lambda>r c' s'. r = Ok Continue \<longrightarrow> rune_ok c' \<and> rune_ok s' \<and> settled i s') c s"
proof -
  note keep = keeps_shift[OF assms(1)]
  note leaf = update_settled
  show ?thesis
    unfolding prepare_mint_orders_def Let_def
    by (auto simp: wp_simps leaf split!: option.split outcome.split sum.split
        intro!: maintains_wp[OF ok.get_deposit_utxos_inv[OF assms(1)]]
          maintains_wp[OF ok.get_mint_amounts_inv[OF keep]]
          maintains_wp[OF ok.create_mint_orders_inv[OF keep]] assms(2,3))
qed


lemma settled_step:
  assumes "settled i s" and "find_deposit s i = Some request"
    and "execute_request_step env rn aw i request (c, s) = (Ok Continue, c', s')"
  shows False
  using assms
  by (auto simp: settled_def execute_request_step_def deposit_complete_def task_simps
      split: deposit_request_status.splits prod.splits outcome.splits if_splits)

lemma process_twice:
  assumes "\<And>k. keeps rune_ok (aw k)" and "rune_ok c" and "rune_ok s"
  shows "process_deposit_request (Suc (Suc fuel)) env rn aw i (c, s) =
      process_deposit_request (Suc (Suc 0)) env rn aw i (c, s)" (is ?same)
    and "fst (process_deposit_request (Suc (Suc fuel)) env rn aw i (c, s)) \<noteq> Ok None" (is ?returns)
proof -
  have step: "execute_request_step env rn (aw 0) i request (c, s) = (Ok Continue, c', s') \<Longrightarrow> settled i s'"
    for request c' s'
    using wp_prepare_continue[OF assms(1)[of 0] assms(2,3), of env rn i request]
    by (auto simp: execute_request_step_def task_simps wp_def
        split: deposit_request_status.splits prod.splits outcome.splits if_splits)
  have "?same \<and> ?returns"
    by (auto simp: task_simps dest!: step dest: settled_step
        split: option.split prod.splits outcome.split control_flow.split)
  then show ?same ?returns by blast+
qed

text \<open>
  C18: A deposit task always ends. Whatever other messages do to the bridge between its awaited
  calls, as long as they keep the operation store well-formed, the loop of
  \<open>process_deposit_request\<close> goes round at most twice: every step but the creation of the mint orders
  leaves it, and after the orders were created the next round only sends them.
\<close>

theorem process_deposit_request_returns:
  assumes "\<And>k. keeps rune_ok (aw k)" and "rune_ok s" and "2 \<le> fuel"
  shows "run_task (process_deposit_request fuel env rn aw i) s = run_task (process_deposit_request 2 env rn aw i) s \<and>
    fst (run_task (process_deposit_request 2 env rn aw i) s) \<noteq> Ok None"
proof -
  obtain k where k: "fuel = Suc (Suc k)" using assms(3) by (metis add_2_eq_Suc le_Suc_ex)
  note twice = process_twice[where aw = aw, OF assms(1,2,2)]
  have "fst (run_task m s) \<noteq> Ok None" if "fst (m (s, s)) \<noteq> Ok None" for m :: "(rune_state, unit option) task"
    using that by (auto simp: run_task_def split: prod.splits outcome.splits)
  then show ?thesis
    unfolding k numeral_2_eq_2 using twice(2)[of 0 env rn i] twice(1)[of k env rn i]
    by (simp only: run_task_def) blast
qed

section \<open>Completion\<close>

definition complete_order :: "u32 \<Rightarrow> mint_order_details \<Rightarrow> mint_order_details" where
  "complete_order n d = (case md_status d of
     OrderSent _ m tx_id \<Rightarrow> if m = n then d\<lparr>md_status := OrderCompleted tx_id\<rparr> else d | _ \<Rightarrow> d)"

lemma complete_orders_map: "snd (complete_orders n ds) = map (complete_order n) ds"
  by (induction ds) (auto simp: complete_order_def split: prod.split mint_order_status.split)

lemma open_orders_left:
  assumes "d \<in> set ds" and "md_status d = OrderSent x m t" and "m \<noteq> n"
  shows "\<not> list_all is_completed (snd (complete_orders n ds))"
proof -
  have "complete_order n d = d" using assms(2,3) by (simp add: complete_order_def)
  then have "\<not> is_completed (complete_order n d)" using assms(2) by (simp add: is_completed_def)
  then show ?thesis using assms(1) by (auto simp: complete_orders_map list_all_iff)
qed

lemma other_update_keeps:
  assumes "rune_ok s" and "find_operation (sr_ops s) i = Some (a, p)" and "\<not> rune_complete p"
    and "j \<noteq> i \<or> q = p"
  shows "find_operation (sr_ops (rune_ops_update j q s)) i = Some (a, p)"
proof (cases "j = i")
  case True
  then show ?thesis
    using assms os.update_incomplete[of rune_complete "sr_ops s" i a p p]
    by (simp add: rune_ok_def rune_ops_update_def)
next
  case False
  then show ?thesis
    using assms os.update_others[of rune_complete "sr_ops s" i j a p q]
    by (auto simp: rune_ok_def rune_ops_update_def)
qed

lemma complete_in_requests_keeps:
  assumes "rune_ok s" and "find_operation (sr_ops s) i = Some (a, RuneDeposit p)"
    and "dp_status p = MintOrdersCreated orders"
    and "\<not> list_all is_completed (snd (complete_orders n orders))"
    and "\<And>j q. (j, q) \<in> set requests \<Longrightarrow> get_operation (sr_ops s) j = Some q"
  shows "rune_ok (complete_in_requests n requests s) \<and>
    find_operation (sr_ops (complete_in_requests n requests s)) i = Some (a, RuneDeposit p)"
  using assms(5)
proof (induction requests)
  case Nil
  then show ?case using assms(1,2) by simp
next
  case (Cons r rest)
  obtain j q where r: "r = (j, q)" by force
  have open_p: "\<not> rune_complete (RuneDeposit p)" using assms(3) by (simp add: deposit_complete_def)
  have q: "q = RuneDeposit p" if "j = i"
    using Cons.prems[of j q] assms(2) that r by (simp add: get_operation_find)
  note keeps = other_update_keeps[OF assms(1,2) open_p]
  have IH: "rune_ok (complete_in_requests n rest s) \<and>
      find_operation (sr_ops (complete_in_requests n rest s)) i = Some (a, RuneDeposit p)"
    using Cons by simp
  have done_j: "j \<noteq> i" if "q = RuneDeposit p'" "dp_status p' = MintOrdersCreated orders'"
      "list_all is_completed (snd (complete_orders n orders'))" for p' orders'
    using that q assms(3,4) by auto
  show ?case
    using IH keeps done_j q assms(1)
    by (auto simp: r complete_deposit_request_def update_request_status_def
        split: rune_operation.split deposit_request_status.split prod.split)
qed

text \<open>
  C29: A deposit of two runes is never completed. Once two of its orders were sent, no sequence of
  \<open>Minted\<close> events, whatever their recipients and nonces, changes the request: when the first of the
  orders is reported as minted, \<open>complete_mint_request\<close> writes back the request it has read instead
  of the one with the completed order, so no event ever finds the others completed.
\<close>

theorem rune_two_orders_never_complete:
  assumes "rune_ok s" and "find_operation (sr_ops s) i = Some (a, RuneDeposit p)"
    and "dp_status p = MintOrdersCreated orders"
    and "d \<in> set orders" and "md_status d = OrderSent x m t"
    and "d' \<in> set orders" and "md_status d' = OrderSent x' m' t'" and "m \<noteq> m'"
  shows "find_operation (sr_ops (fold (\<lambda>(recipient, n). complete_mint_request recipient n) events s)) i =
    Some (a, RuneDeposit p)"
proof -
  have left: "\<not> list_all is_completed (snd (complete_orders n orders))" for n
    using open_orders_left[OF assms(4,5)] open_orders_left[OF assms(6,7)] assms(8) by metis
  have "rune_ok (fold (\<lambda>(recipient, n). complete_mint_request recipient n) events s) \<and>
    find_operation (sr_ops (fold (\<lambda>(recipient, n). complete_mint_request recipient n) events s)) i =
      Some (a, RuneDeposit p)"
    using assms(1,2)
  proof (induction events arbitrary: s)
    case (Cons e events)
    have "rune_ok (complete_mint_request (fst e) (snd e) s) \<and>
        find_operation (sr_ops (complete_mint_request (fst e) (snd e) s)) i = Some (a, RuneDeposit p)"
      unfolding complete_mint_request_def
      by (rule complete_in_requests_keeps[OF Cons.prems assms(3) left]) (rule get_for_address_get)
    then show ?case using Cons.IH by (cases e) simp
  qed simp
  then show ?thesis by blast
qed

section \<open>Withdrawals\<close>

lemma withdraw_unreadable:
  assumes "find_operation (sr_ops s) i = Some (a, RuneWithdrawal p)" and "withdrawal_dst_address rn p = None"
  shows "run_task (rune_execute env rn aw (WithdrawTask i)) s = (Panic, s)"
  using assms by (simp add: run_task_def task_simps withdraw_def get_operation_find)

lemma new_withdrawal_invalid:
  assumes "new_withdrawal cd rn s burnt = Some p" and "wp_status p \<noteq> WithdrawalScheduled"
  shows "\<exists>reason. p = invalid_withdrawal reason"
  using assms
  by (cases "as_u128 (be_amount burnt)") (auto simp: new_withdrawal_def split: option.splits)

text \<open>
  C35: An invalid withdrawal request makes its task panic. For a burn with an invalid recipient, token
  or rune the bridge records the reason and schedules the withdrawal; the recorded request has an
  empty destination, which \<open>withdraw\<close> parses before it looks at the status, so every run of the
  task panics (the empty text is not a Bitcoin address).
\<close>

theorem rune_invalid_withdrawal_panics:
  assumes "rune_ok s" and "0 < ids_left (sr_ops s)"
    and "from_log (env_parse_log env) log = Ok (Burnt burnt)"
    and "new_withdrawal (env_codec env) rn s burnt = Some p" and "wp_status p \<noteq> WithdrawalScheduled"
    and "rn_parse_address rn [] = None"
  shows "\<exists>i s' reason.
    rune_task_by_log env rn log s = Some (Some (WithdrawTask i, rune_retry_options), s') \<and>
    find_operation (sr_ops s') i = Some (be_sender burnt, RuneWithdrawal (invalid_withdrawal reason)) \<and>
    (\<forall>env' aw. run_task (rune_execute (env' :: 'v bridge_env) rn aw (WithdrawTask i)) s' = (Panic, s'))"
proof -
  obtain reason where p: "p = invalid_withdrawal reason" using new_withdrawal_invalid[OF assms(4,5)] by blast
  let ?ops = "new_operation rune_complete (be_sender burnt) (RuneWithdrawal p) (sr_ops s)"
  have find: "find_operation (snd ?ops) (fst ?ops) = Some (be_sender burnt, RuneWithdrawal p)"
    using os.create_lookup[of rune_complete "sr_ops s"] assms(1,2) by (simp add: rune_ok_def)
  have "withdrawal_dst_address rn p = None"
    using assms(6) by (simp add: withdrawal_dst_address_def p invalid_withdrawal_def)
  then have "run_task (rune_execute env' rn aw (WithdrawTask (fst ?ops))) (s\<lparr>sr_ops := snd ?ops\<rparr>) =
      (Panic, s\<lparr>sr_ops := snd ?ops\<rparr>)" for env' :: "'v bridge_env" and aw
    using find by (intro withdraw_unreadable) simp_all
  moreover have "rune_task_by_log env rn log s =
      Some (Some (WithdrawTask (fst ?ops), rune_retry_options), s\<lparr>sr_ops := snd ?ops\<rparr>)"
    using assms(3,4) by (simp add: rune_task_by_log_def case_prod_beta)
  ultimately show ?thesis using find p by fastforce
qed


definition quiet_rune :: "(nat \<Rightarrow> rune_state \<Rightarrow> rune_state) \<Rightarrow> bool" where
  "quiet_rune aw \<longleftrightarrow> (\<forall>n s. aw n s = s)"

lemma quiet_runeD: "quiet_rune aw \<Longrightarrow> aw n s = s"
  by (simp add: quiet_rune_def)

lemma mark_inputs_used:
  "omap_get (used_utxos_registry (mark_inputs now owner ins l)) k =
     (if k \<in> in_outpoint ` set ins then Some \<lparr>uu_used_at = now, uu_owner_address = owner\<rparr>
      else omap_get (used_utxos_registry l) k)"
  unfolding mark_inputs_def
  by (induction ins arbitrary: l) (auto simp: mark_as_used_def omap_simps)

lemma wp_build_withdraw_transaction:
  assumes "quiet_rune aw"
    and "\<And>r c'. c' \<in> {c, s} \<Longrightarrow> r = Panic \<or> (\<exists>tx. r = Ok (Inr tx)) \<or>
      (\<exists>e. r = Ok (Inl e) \<and> e \<noteq> TransactionSending) \<Longrightarrow> Q r c' s"
  shows "wp (build_withdraw_transaction rn aw network amount dst change rune ins) Q c s"
proof -
  have fee: "e \<noteq> TransactionSending" if "get_fee_rate rn network = Inl e" for e
    using that by (auto simp: get_fee_rate_def Let_def split: option.splits if_splits)
  show ?thesis
    unfolding build_withdraw_transaction_def
    by (auto simp: wp_simps quiet_runeD[OF assms(1)] fee intro!: assms(2)
        split: option.split sum.split outcome.split)
qed

text \<open>The state after a withdrawal whose transaction was sent.\<close>

definition withdrawn ::
  "rune_env \<Rightarrow> operation_id \<Rightarrow> rune_withdrawal_payload \<Rightarrow> address \<Rightarrow> tx_input_info list \<Rightarrow>
     btc_transaction \<Rightarrow> rune_state \<Rightarrow> rune_state \<Rightarrow> bool"
where
  "withdrawn rn i p dst ins tx s s' \<longleftrightarrow>
     sr_ops s' = update_operation rune_complete i (RuneWithdrawal (p\<lparr>wp_status := TxSent tx\<rparr>)) (sr_ops s) \<and>
     (\<forall>k. omap_get (used_utxos_registry (sr_ledger s')) k =
       (if k \<in> in_outpoint ` set ins
        then Some \<lparr>uu_used_at = rn_now rn, uu_owner_address = rn_show_address rn dst\<rparr>
        else omap_get (used_utxos_registry (sr_ledger s)) k)) \<and>
     (\<exists>d. omap_get (utxo_storage (sr_ledger s')) (UtxoKey (rn_txid rn tx) 1) = Some d \<and>
        path_ok d \<and> ud_value d = fst (bt_outputs tx ! 1))"

lemma wp_record_sent:
  assumes panic: "\<And>s'. Q Panic c s'"
    and sent: "\<And>s'. withdrawn rn i p dst ins tx s s' \<Longrightarrow> Q (Ok (Inr (rn_txid rn tx))) c s'"
  shows "wp (record_sent rn network i p dst ins tx) Q c s"
  unfolding record_sent_def
  by (auto simp: wp_simps panic change_utxo_def utxo_key_of_def Let_def ledger_mod_def
      set_withdrawal_status_def rune_ops_update_def withdrawn_def mark_inputs_used ledger_put_def
      omap_simps intro!: sent change_path_ok split: option.splits if_splits)


definition withdrawal_outcome ::
  "rune_env \<Rightarrow> operation_id \<Rightarrow> rune_withdrawal_payload \<Rightarrow> rune_state \<Rightarrow>
     (scheduler_error, withdraw_error + bytes) outcome \<Rightarrow> rune_state \<Rightarrow> bool"
where
  "withdrawal_outcome rn i p s r s' \<longleftrightarrow> (case r of
       Ok (Inr txid) \<Rightarrow> \<exists>tx dst ks ins funding.
         txid = rn_txid rn tx \<and> rn_send_transaction rn tx \<and>
         withdrawal_dst_address rn p = Some dst \<and> load_unspent_utxos (sr_ledger s) = Some (ks, ins) \<and>
         withdrawn rn i p dst (ins @ funding) tx (set_withdrawal_status i p (TxSigned tx) s) s'
     | Ok (Inl e) \<Rightarrow>
         if e = TransactionSending
         then \<exists>tx. s' = set_withdrawal_status i p (TxSigned tx) s \<and> withdrawal_dst_address rn p \<noteq> None
         else s' = s
     | Err _ \<Rightarrow> False
     | Panic \<Rightarrow> s' = s \<or> (\<exists>tx. s' = set_withdrawal_status i p (TxSigned tx) s))"

lemma wp_withdraw:
  assumes "quiet_rune aw" and "find_operation (sr_ops s) i = Some (a, RuneWithdrawal p)"
    and "wp_status p = WithdrawalScheduled"
  shows "wp (withdraw rn aw i) (\<lambda>r c' s'. withdrawal_outcome rn i p s r (if r = Panic then c' else s')) s s"
proof -
  have quiet: "quiet_rune (\<lambda>k. aw (f k))" for f using assms(1) by (simp add: quiet_rune_def)
  have get: "get_operation (sr_ops s) i = Some (RuneWithdrawal p)"
    using assms(2) by (simp add: get_operation_find)
  show ?thesis
    unfolding withdraw_def
    by (auto simp: wp_simps get assms(3) Let_def send_tx_def quiet_runeD[OF assms(1)] withdrawal_outcome_def
      intro!: wp_build_withdraw_transaction[OF quiet] wp_record_sent split!: option.split sum.split outcome.split)
qed

lemma set_status_find:
  assumes "rune_ok s" and "find_operation (sr_ops s) i = Some (a, RuneWithdrawal p)"
    and "wp_status p = WithdrawalScheduled"
  shows "find_operation (sr_ops (set_withdrawal_status i p (TxSigned tx) s)) i =
    Some (a, RuneWithdrawal (p\<lparr>wp_status := TxSigned tx\<rparr>))"
  using assms os.update_incomplete[of rune_complete "sr_ops s" i a "RuneWithdrawal p"]
  by (simp add: rune_ok_def set_withdrawal_status_def rune_ops_update_def withdrawal_complete_def)


section \<open>Amounts and orders\<close>

text \<open>What \<open>get_mint_amounts\<close> computes from the answers of the indexer.\<close>

fun collected ::
  "rune_env \<Rightarrow> ic_utxo list \<Rightarrow> rune_amounts \<Rightarrow> ic_utxo list \<Rightarrow> deposit_error + (rune_amounts \<times> ic_utxo list)"
where
  "collected rn [] acc used = Inr (acc, used)"
| "collected rn (u # us) acc used = (case get_rune_amounts rn u of
      None \<Rightarrow> Inl DeUnavailable
    | Some m \<Rightarrow> if m = [] then collected rn us acc used
        else collected rn us (fold add_amount m acc) (used @ [u]))"

lemma wp_collect_amounts:
  "(\<And>c'. Q (Ok (collected rn us acc used)) c' s) \<Longrightarrow> wp (collect_amounts rn (\<lambda>_ s. s) us acc used) Q c s"
  by (induction us arbitrary: acc used c) (auto simp: wp_simps split: option.splits sum.split)

definition filled ::
  "rune_env \<Rightarrow> (rune_name \<times> rune_info) list \<Rightarrow> rune_amounts \<Rightarrow>
     ((rune_info \<times> u128) list \<times> (rune_name \<times> rune_info) list) option"
where
  "filled rn runes amounts = (case with_infos runes amounts of
       Some v \<Rightarrow> Some (v, runes)
     | None \<Rightarrow> (case rn_runes rn of
           None \<Rightarrow> None
         | Some l \<Rightarrow> map_option (\<lambda>v. (v, rune_map l)) (with_infos (rune_map l) amounts)))"

lemma wp_fill_rune_infos:
  assumes "\<And>c'. Q (Ok (map_option fst (filled rn (sr_runes s) amounts))) c'
      (case filled rn (sr_runes s) amounts of None \<Rightarrow> s | Some (_, runes) \<Rightarrow> s\<lparr>sr_runes := runes\<rparr>)"
  shows "wp (fill_rune_infos rn (\<lambda>s. s) amounts) Q c s"
  using assms
  by (auto simp: fill_rune_infos_def fill_rune_infos_from_indexer_def wp_simps filled_def
      split: option.splits)

definition mint_amounts ::
  "rune_env \<Rightarrow> (rune_name \<times> rune_info) list \<Rightarrow> ic_utxo list \<Rightarrow> rune_amounts option \<Rightarrow>
     ((rune_info \<times> u128) list \<times> ic_utxo list \<times> (rune_name \<times> rune_info) list) option"
where
  "mint_amounts rn runes us requested = (case collected rn us [] [] of
       Inl _ \<Rightarrow> None
     | Inr (amounts, used) \<Rightarrow>
         if amounts = [] \<or> (case requested of None \<Rightarrow> False | Some r \<Rightarrow> \<not> amounts_eq amounts r) then None
         else map_option (\<lambda>(infos, runes'). (infos, used, runes')) (filled rn runes amounts))"

lemma wp_get_mint_amounts:
  assumes "mint_amounts rn (sr_runes s) us req = Some (infos, used, runes)"
    and "\<And>c'. Q (Ok (Inr (infos, used))) c' (s\<lparr>sr_runes := runes\<rparr>)"
  shows "wp (get_mint_amounts rn (\<lambda>_ s. s) us req) Q c s"
proof -
  obtain amounts where "collected rn us [] [] = Inr (amounts, used)" "amounts \<noteq> []"
      "\<not> (case req of None \<Rightarrow> False | Some r \<Rightarrow> \<not> amounts_eq amounts r)"
      "filled rn (sr_runes s) amounts = Some (infos, runes)"
    using assms(1) by (auto simp: mint_amounts_def split: sum.splits if_splits)
  then show ?thesis
    unfolding get_mint_amounts_def
    by (auto simp: wp_simps assms(2) intro!: wp_collect_amounts wp_fill_rune_infos)
qed

definition order_amounts :: "mint_order_details list \<Rightarrow> (rune_name \<times> u128) list" where
  "order_amounts ds = map (\<lambda>d. (md_rune_name d, md_amount d)) ds"

text \<open>Orders that were created with consecutive nonces.\<close>

fun numbered :: "u32 \<Rightarrow> mint_order_details list \<Rightarrow> bool" where
  "numbered n [] \<longleftrightarrow> True"
| "numbered n (d # ds) \<longleftrightarrow> (\<exists>order. md_status d = OrderCreated order n) \<and> numbered (n + 1) ds"

lemma wp_create_mint_orders:
  assumes "\<And>order. env_encode_and_sign env order \<noteq> None"
    and "\<And>orders n c'. order_amounts orders = map (\<lambda>(info, a). (rinfo_name info, a)) infos \<Longrightarrow>
      numbered (sr_nonce s) orders \<Longrightarrow> Q (Ok (Inr orders)) c' (s\<lparr>sr_nonce := n\<rparr>)"
  shows "wp (create_mint_orders env rn (\<lambda>_ s. s) a infos) Q c s"
  using assms(2)
proof (induction infos arbitrary: Q c s)
  case Nil
  then show ?case using Nil[of "[]" c "sr_nonce s"] by (simp add: wp_simps order_amounts_def)
next
  case (Cons x infos)
  obtain info m where x: "x = (info, m)" by force
  have sign: "\<exists>y. env_encode_and_sign env order = Some y" for order using assms(1) by blast
  show ?case
    using sign
    by (auto simp: x wp_simps get_nonce_def create_mint_order_def order_amounts_def
        intro!: Cons.IH Cons.prems split: option.split)
      (metis option.distinct(1))
qed

lemma wp_send_mint_orders:
  assumes "\<And>c' s'. Q Panic c' s'"
    and "\<And>ch ds' c' ps. order_amounts ds' = order_amounts ds \<Longrightarrow> Q (Ok (ch, ds')) c' (s\<lparr>sr_params := ps\<rparr>)"
  shows "wp (send_mint_orders env (\<lambda>_ s. s) ds) Q c s"
  using assms
proof (induction ds arbitrary: Q c s)
  case Nil
  then show ?case using Nil(2)[of "[]" False c "sr_params s"] by (simp add: wp_simps order_amounts_def)
next
  case (Cons d ds)
  show ?case
    by (auto simp: wp_simps rune_send_mint_order_def Let_def order_amounts_def
        intro!: Cons.IH Cons.prems
        split: mint_order_status.split option.split outcome.split prod.split)
qed

text \<open>Outputs the ledger does not store are never filtered out, whether marked as used or not.\<close>

definition not_stored :: "utxo_ledger \<Rightarrow> ic_utxo list \<Rightarrow> bool" where
  "not_stored l us \<longleftrightarrow> list_all (\<lambda>u. omap_get (utxo_storage l)
     (UtxoKey (iop_txid (iu_outpoint u)) (iop_vout (iu_outpoint u))) = None) us"

lemma not_stored_kept:
  assumes "ledger_inv l" and "not_stored l us"
  shows "us = gr_utxos response \<Longrightarrow> filter_out_used_utxos l response = Some response"
    and "set used \<subseteq> set us \<Longrightarrow> has_used_utxos l used = Some False"
proof -
  obtain ins where ins: "load_unspent_utxos l = Some (map fst (unspent_entries l), ins)"
      "map in_outpoint ins = map fst (unspent_entries l)"
    using load_unspent_ok[OF assms(1)] by blast
  have stored: "omap_get (utxo_storage l) (in_outpoint v) \<noteq> None" if "v \<in> set ins" for v
    using that ins(2) unspent_entries_keys(2)[of l] assms(1)
    by (metis (mono_tags, lifting) image_eqI image_set ledger_inv_def mem_Collect_eq)
  have fresh: "\<not> is_existing ins u" if "u \<in> set us" for u
    using that assms(2) stored
    by (auto simp: not_stored_def list_all_iff is_existing_def list_ex_iff) (metis option.distinct(1) utxo_key.collapse)
  show "us = gr_utxos response \<Longrightarrow> filter_out_used_utxos l response = Some response"
    using fresh by (auto simp: filter_out_used_utxos_def ins(1) filter_True)
  show "set used \<subseteq> set us \<Longrightarrow> has_used_utxos l used = Some False"
    using fresh by (auto simp: has_used_utxos_def ins(1) list_ex_iff)
qed

lemma collected_subset:
  "collected rn us acc used = Inr (amounts, used') \<Longrightarrow> set used' \<subseteq> set used \<union> set us"
  by (induction us arbitrary: acc used) (fastforce split: option.splits if_splits)+

lemma with_infos_empty: "with_infos runes amounts = Some v \<Longrightarrow> v = [] \<longleftrightarrow> amounts = []"
  by (cases amounts) (auto simp: with_infos_def split: option.splits)

lemma mint_amounts_used:
  assumes "mint_amounts rn runes us req = Some (infos, used, runes')"
  shows "set used \<subseteq> set us" and "infos \<noteq> []"
proof -
  obtain amounts where c: "collected rn us [] [] = Inr (amounts, used)" "amounts \<noteq> []"
      "filled rn runes amounts = Some (infos, runes')"
    using assms by (auto simp: mint_amounts_def split: sum.splits if_splits)
  show "set used \<subseteq> set us" using collected_subset[OF c(1)] by simp
  show "infos \<noteq> []" using c(2,3) with_infos_empty by (fastforce simp: filled_def split: option.splits)
qed

lemma find_deposit_alt: "find_deposit s i = Some p \<longleftrightarrow> (\<exists>a. find_operation (sr_ops s) i = Some (a, RuneDeposit p))"
  by (auto simp: find_deposit_def get_operation_find split: option.splits rune_operation.splits)

lemma update_found:
  assumes "rune_ok s" and "find_deposit s i = Some p" and "\<not> deposit_complete p" and "\<not> deposit_complete (q\<lparr>dp_status := st\<rparr>)"
  shows "find_deposit (update_request_status i q st s) i = Some (q\<lparr>dp_status := st\<rparr>)"
  using assms os.update_incomplete[of rune_complete "sr_ops s" i]
  by (auto simp: find_deposit_alt rune_ok_def update_request_status_def rune_ops_update_def)

lemma find_deposit_same [simp]:
  "find_deposit (s\<lparr>sr_params := x\<rparr>) i = find_deposit s i" "find_deposit (s\<lparr>sr_runes := y\<rparr>) i = find_deposit s i"
  "find_deposit (s\<lparr>sr_nonce := z\<rparr>) i = find_deposit s i" "find_deposit (ledger_mod f s) i = find_deposit s i"
  by (simp_all add: find_deposit_def ledger_mod_def)

text \<open>The outputs at the deposit address of a request, confirmed, and what can be minted for them.\<close>

definition mintable ::
  "rune_env \<Rightarrow> rune_state \<Rightarrow> rune_deposit_payload \<Rightarrow> get_utxos_response \<Rightarrow> (rune_info \<times> u128) list \<Rightarrow> bool"
where
  "mintable rn s p response infos \<longleftrightarrow>
     (\<exists>address used runes.
       get_transit_address rn (rc_network (sr_config s)) (dp_dst_address p) = Some address \<and>
       rn_get_utxos rn address = Some response \<and>
       rc_min_confirmations (sr_config s) \<le> utxo_min_confirmations response \<and>
       mint_amounts rn (sr_runes s) (gr_utxos response) (dp_requested_amounts p) = Some (infos, used, runes))"

text \<open>What the deposit of one request leaves alone.\<close>

definition deposit_frame :: "operation_id \<Rightarrow> (rune_name \<times> rune_info) list \<Rightarrow> rune_state \<Rightarrow> rune_state \<Rightarrow> bool" where
  "deposit_frame i runes s s' \<longleftrightarrow> rune_ok s' \<and> ledger_inv (sr_ledger s') \<and> sr_config s' = sr_config s \<and>
     sr_master_key s' = sr_master_key s \<and> sr_runes s' = runes \<and> utxo_storage (sr_ledger s') = utxo_storage (sr_ledger s) \<and>
     operations_log (sr_ops s') = operations_log (sr_ops s) \<and>
     max_operation_log_size (sr_ops s') = max_operation_log_size (sr_ops s) \<and>
     (\<forall>j. map_option fst (find_operation (sr_ops s') j) = map_option fst (find_operation (sr_ops s) j)) \<and>
     (\<forall>j. j \<noteq> i \<longrightarrow> find_operation (sr_ops s') j = find_operation (sr_ops s) j)"

lemma deposit_frame_find:
  "deposit_frame i runes s s' \<Longrightarrow> j \<noteq> i \<Longrightarrow> find_deposit s' j = find_deposit s j"
  by (simp add: deposit_frame_def find_deposit_def get_operation_find)

lemma orders_update_ops:
  "operations_log (sr_ops (update_request_status i p (MintOrdersCreated orders) s)) = operations_log (sr_ops s)"
  "max_operation_log_size (sr_ops (update_request_status i p (MintOrdersCreated orders) s)) =
     max_operation_log_size (sr_ops s)"
  "map_option fst (find_operation (sr_ops (update_request_status i p (MintOrdersCreated orders) s)) j) =
     map_option fst (find_operation (sr_ops s) j)"
  "j \<noteq> i \<Longrightarrow> find_operation (sr_ops (update_request_status i p (MintOrdersCreated orders) s)) j =
     find_operation (sr_ops s) j"
  by (simp_all add: update_request_status_def rune_ops_update_def open_update_others open_update_log open_update_wallet
      deposit_complete_def)

lemma update_request_status_fields [simp]:
  "sr_params (update_request_status i p st s) = sr_params s"
  "sr_master_key (update_request_status i p st s) = sr_master_key s"
  "sr_config (update_request_status i p st s) = sr_config s"
  "sr_runes (update_request_status i p st s) = sr_runes s"
  "sr_ledger (update_request_status i p st s) = sr_ledger s"
  by (simp_all add: update_request_status_def rune_ops_update_def)

lemma ledger_mod_fields [simp]:
  "sr_config (ledger_mod f s) = sr_config s" "sr_runes (ledger_mod f s) = sr_runes s"
  "sr_ops (ledger_mod f s) = sr_ops s" "sr_params (ledger_mod f s) = sr_params s"
  "sr_master_key (ledger_mod f s) = sr_master_key s"
  by (simp_all add: ledger_mod_def)

lemma deposit_frame_step:
  assumes "rune_ok s" and "ledger_inv (sr_ledger s)"
    and "mark_used_utxos now used owner (sr_ledger s) = Some l"
  shows "deposit_frame i runes s
    (ledger_mod (\<lambda>_. l) (update_request_status i p (MintOrdersCreated orders) (s\<lparr>sr_runes := runes, sr_nonce := n\<rparr>)))"
  using assms mark_used_utxos_frame[OF assms(3)]
  by (auto simp: deposit_frame_def orders_update_ops)

lemma deposit_frame_again:
  assumes "deposit_frame i runes s s'"
  shows "deposit_frame i runes s (update_request_status i p (MintOrdersCreated orders) (s'\<lparr>sr_params := ps\<rparr>))"
    and "deposit_frame i runes s (s'\<lparr>sr_params := ps\<rparr>)"
  using assms by (auto simp: deposit_frame_def orders_update_ops)

lemma marked_used:
  "list_all (\<lambda>u. length (iop_txid (iu_outpoint u)) = 32) us \<Longrightarrow> mark_used_utxos now us owner l \<noteq> None"
  by (induction us arbitrary: l) (simp_all add: utxo_key_of_def)

lemma wp_prepare_mintable:
  assumes "rune_ok s" and "ledger_inv (sr_ledger s)" and "find_deposit s i = Some p" and "\<not> deposit_complete p"
    and "\<And>order. env_encode_and_sign env order \<noteq> None"
    and "get_transit_address rn (rc_network (sr_config s)) (dp_dst_address p) = Some address"
    and "rn_get_utxos rn address = Some response"
    and "rc_min_confirmations (sr_config s) \<le> utxo_min_confirmations response"
    and "mint_amounts rn (sr_runes s) (gr_utxos response) (dp_requested_amounts p) = Some (infos, used, runes)"
    and "not_stored (sr_ledger s) (gr_utxos response)"
    and panic: "\<And>c' s'. \<not> list_all (\<lambda>u. length (iop_txid (iu_outpoint u)) = 32) (gr_utxos response) \<Longrightarrow> Q Panic c' s'"
    and cont: "\<And>orders c' s'. deposit_frame i runes s s' \<Longrightarrow> sr_params s' = sr_params s \<Longrightarrow>
      find_deposit s' i = Some (p\<lparr>dp_status := MintOrdersCreated orders\<rparr>) \<Longrightarrow>
      order_amounts orders = map (\<lambda>(info, a). (rinfo_name info, a)) infos \<Longrightarrow>
      numbered (sr_nonce s) orders \<Longrightarrow> Q (Ok Continue) c' s'"
  shows "wp (prepare_mint_orders env rn (\<lambda>_ s. s) i p) Q c s"
proof -
  note kept = not_stored_kept[OF assms(2,10)]
  have ne: "gr_utxos response \<noteq> []" using assms(9) by (auto simp: mint_amounts_def)
  have found: "find_deposit (update_request_status i p (MintOrdersCreated orders) (s\<lparr>sr_runes := runes, sr_nonce := n\<rparr>)) i =
      Some (p\<lparr>dp_status := MintOrdersCreated orders\<rparr>)" for orders n
    using assms(1,3,4) by (intro update_found) (auto simp: deposit_complete_def)
  have leaf: "Q (Ok Continue) c' (ledger_mod (\<lambda>_. l)
      (update_request_status i p (MintOrdersCreated orders) (s\<lparr>sr_runes := runes, sr_nonce := n\<rparr>)))"
    if "mark_used_utxos now used owner (sr_ledger s) = Some l"
      "order_amounts orders = map (\<lambda>(info, a). (rinfo_name info, a)) infos" "numbered (sr_nonce s) orders"
    for now owner l orders n c'
    using that found by (intro cont deposit_frame_step[OF assms(1,2)]) simp_all
  have marked: "mark_used_utxos now used owner l = None \<Longrightarrow> Q Panic c' s'" for now owner l c' s'
    using marked_used[of used now owner l] mint_amounts_used(1)[OF assms(9)]
    by (intro panic) (auto simp: list_all_iff)
  show ?thesis
    unfolding prepare_mint_orders_def Let_def
    using assms(6-8) mint_amounts_used[OF assms(9)] ne
    by (auto simp: wp_simps get_deposit_utxos_def kept validate_utxo_confirmations_def
        intro!: wp_get_mint_amounts[OF assms(9)] wp_create_mint_orders[OF assms(5)] leaf marked
        split: option.split)
qed


lemma mint_amounts_again:
  "mint_amounts rn runes us req = Some (infos, used, runes') \<Longrightarrow>
     mint_amounts rn runes' us req = Some (infos, used, runes')"
  by (auto simp: mint_amounts_def filled_def split: sum.splits if_splits option.splits)

lemma process_mintable:
  assumes "rune_ok s" and "ledger_inv (sr_ledger s)" and "not_stored (sr_ledger s) (gr_utxos response)"
    and "find_deposit s i = Some p" and "dp_status p = DepositScheduled"
    and "mintable rn s p response infos" and "\<And>order. env_encode_and_sign env order \<noteq> None"
    and "run_task (process_deposit_request 2 env rn (\<lambda>_ _ s. s) i) s = (Ok r, s')"
  shows "\<exists>orders runes. find_deposit s' i = Some (p\<lparr>dp_status := MintOrdersCreated orders\<rparr>) \<and>
    order_amounts orders = map (\<lambda>(info, a). (rinfo_name info, a)) infos \<and>
    deposit_frame i runes s s' \<and> (\<forall>q. dp_dst_address q = dp_dst_address p \<longrightarrow>
      dp_requested_amounts q = dp_requested_amounts p \<longrightarrow> mintable rn s' q response infos)"
proof -
  obtain address used runes where m: "get_transit_address rn (rc_network (sr_config s)) (dp_dst_address p) = Some address"
      "rn_get_utxos rn address = Some response" "rc_min_confirmations (sr_config s) \<le> utxo_min_confirmations response"
      "mint_amounts rn (sr_runes s) (gr_utxos response) (dp_requested_amounts p) = Some (infos, used, runes)"
    using assms(6) by (auto simp: mintable_def)
  let ?p = "\<lambda>orders. p\<lparr>dp_status := MintOrdersCreated orders\<rparr>"
  let ?P = "\<lambda>t. \<exists>orders. find_deposit t i = Some (?p orders) \<and>
    order_amounts orders = map (\<lambda>(info, a). (rinfo_name info, a)) infos \<and> deposit_frame i runes s t"
  have incomplete: "\<not> deposit_complete p" using assms(5) by (simp add: deposit_complete_def)
  have step2: "wp (execute_request_step env rn (\<lambda>_ s. s) i (?p orders))
      (\<lambda>r c' s'. (r = Ok Break \<longrightarrow> ?P s') \<and> r \<noteq> Ok Continue) c t"
    if "deposit_frame i runes s t" "find_deposit t i = Some (?p orders)"
      "order_amounts orders = map (\<lambda>(info, a). (rinfo_name info, a)) infos" for orders c t
    using that update_found[where i = i and p = "?p orders" and q = "?p orders"]
    by (auto simp: execute_request_step_def wp_simps deposit_complete_def deposit_frame_again
        deposit_frame_def[of _ _ _ t] intro!: wp_send_mint_orders)
  have "wp (process_deposit_request 2 env rn (\<lambda>_ _ s. s) i) (\<lambda>r c' t. \<forall>x. r = Ok x \<longrightarrow> ?P (if r = Panic then c' else t)) s s"
    using assms(4,5)
    by (auto simp: numeral_2_eq_2 wp_simps execute_request_step_def[of _ _ _ _ p]
        intro!: wp_prepare_mintable[OF assms(1,2,4) incomplete assms(7) m assms(3)] wp_mono[OF step2]
        split: control_flow.split outcome.split)
  from run_task_wpD[OF assms(8) this] obtain orders where o: "find_deposit s' i = Some (?p orders)"
      "order_amounts orders = map (\<lambda>(info, a). (rinfo_name info, a)) infos" "deposit_frame i runes s s'"
    by blast
  moreover have "mintable rn s' q response infos"
    if "dp_dst_address q = dp_dst_address p" "dp_requested_amounts q = dp_requested_amounts p" for q
    using m that o(3) mint_amounts_again[OF m(4)] unfolding mintable_def deposit_frame_def by auto
  ultimately show ?thesis by blast
qed

text \<open>
  C7: The same outputs are minted twice. Two requests for one recipient, processed one after the
  other while the Bitcoin canister reports the same outputs, both end with signed mint orders for
  the full amounts: the outputs of the first one are marked as used, but the filter only looks at
  outputs the ledger stores, and deposited outputs are never stored.
\<close>

theorem rune_utxos_minted_twice:
  assumes "rune_ok s" and "ledger_inv (sr_ledger s)" and "not_stored (sr_ledger s) (gr_utxos response)"
    and "find_deposit s i = Some p" and "dp_status p = DepositScheduled"
    and "find_deposit s j = Some q" and "dp_status q = DepositScheduled" and "i \<noteq> j"
    and "dp_dst_address q = dp_dst_address p" and "dp_requested_amounts q = dp_requested_amounts p"
    and "mintable rn s p response infos" and "\<And>order. env_encode_and_sign env order \<noteq> None"
    and "run_task (process_deposit_request 2 env rn (\<lambda>_ _ s. s) i) s = (Ok r, s1)"
    and "run_task (process_deposit_request 2 env rn (\<lambda>_ _ s. s) j) s1 = (Ok r', s2)"
  shows "\<exists>orders orders'.
    find_deposit s1 i = Some (p\<lparr>dp_status := MintOrdersCreated orders\<rparr>) \<and>
    find_deposit s2 j = Some (q\<lparr>dp_status := MintOrdersCreated orders'\<rparr>) \<and>
    order_amounts orders = map (\<lambda>(info, a). (rinfo_name info, a)) infos \<and>
    order_amounts orders' = order_amounts orders \<and> orders \<noteq> []"
proof -
  obtain orders runes where 1: "find_deposit s1 i = Some (p\<lparr>dp_status := MintOrdersCreated orders\<rparr>)"
      "order_amounts orders = map (\<lambda>(info, a). (rinfo_name info, a)) infos"
      "deposit_frame i runes s s1" "mintable rn s1 q response infos"
    using process_mintable[OF assms(1-5,11,12,13)] assms(9,10) by blast
  have "\<not> deposit_complete q" using assms(7) by (simp add: deposit_complete_def)
  then have s1: "rune_ok s1" "ledger_inv (sr_ledger s1)" "not_stored (sr_ledger s1) (gr_utxos response)"
      "find_deposit s1 j = Some q"
    using 1(3) assms(3,6,8) deposit_frame_find[OF 1(3), of j] by (auto simp: deposit_frame_def not_stored_def)
  have "infos \<noteq> []" using assms(11) mint_amounts_used(2) unfolding mintable_def by blast
  then have "orders \<noteq> []" using 1(2) by (auto simp: order_amounts_def)
  then show ?thesis
    using process_mintable[OF s1 assms(7) 1(4) assms(12,14)] 1(1,2) by metis
qed

section \<open>Concrete runs\<close>

definition sample_utxo_at :: "u32 \<Rightarrow> ic_utxo" where
  "sample_utxo_at vout = \<lparr>iu_outpoint = \<lparr>iop_txid = replicate 32 1, iop_vout = vout\<rparr>, iu_value = 546, iu_height = 100\<rparr>"

text \<open>One output with 500 units of rune 9 at every address; the empty string is no address.\<close>

definition sample_rune_env :: rune_env where
  "sample_rune_env = \<lparr>rn_now = 1000, rn_public_key = (\<lambda>_. []), rn_derive_pub = (\<lambda>_. None),
     rn_p2wpkh = (\<lambda>_ _. ''bc1''), rn_script_pubkey = (\<lambda>_. [5]),
     rn_parse_address = (\<lambda>bs. if bs = [] then None else Some ''bc1''), rn_show_address = (\<lambda>_. [98]),
     rn_valid_for = (\<lambda>_ _. True), rn_show_rune = (\<lambda>_. [65]),
     rn_id256_of_rune = (\<lambda>_. Id256 []), rn_rune_of_id256 = (\<lambda>_. Some \<lparr>ri_block = 3, ri_tx = 4\<rparr>),
     rn_get_utxos = (\<lambda>_. Some \<lparr>gr_utxos = [sample_utxo_at 0], gr_tip_height = 200\<rparr>),
     rn_get_utxos_page = (\<lambda>_ _. Some ([], None)), rn_fee_percentiles = Some [],
     rn_from_sat_per_vb = Some, rn_send_transaction = (\<lambda>_. False),
     rn_rune_outputs = (\<lambda>_. Some [(9, 500)]),
     rn_runes = Some [(\<lparr>ri_block = 3, ri_tx = 4\<rparr>, 9, 2)],
     rn_create_edict_tx = (\<lambda>_. Some \<lparr>bt_inputs = [], bt_outputs = [(1, []), (7, [5])]\<rparr>),
     rn_sign_tx = (\<lambda>tx _. Ok tx), rn_txid = (\<lambda>_. replicate 32 2), rn_decode_deposit = (\<lambda>_. None)\<rparr>"

definition rune_sign_env :: "u256 bridge_env" where
  "rune_sign_env = offline_env\<lparr>env_encode_and_sign := (\<lambda>order. Some [ucast (mo_amount order)])\<rparr>"

definition sample_deposit :: "deposit_request_status \<Rightarrow> rune_deposit_payload" where
  "sample_deposit st = \<lparr>dp_dst_address = 5, dp_requested_amounts = None, dp_request_ts = 900, dp_status = st\<rparr>"

definition sample_rune_state :: "rune_operation list \<Rightarrow> rune_state" where
  "sample_rune_state ps = rune_default_state\<lparr>sr_master_key := True,
     sr_ops := fold (\<lambda>p st. snd (new_operation rune_complete 5 p st)) ps (with_memory None 0)\<rparr>"

abbreviation two_deposits :: rune_state where
  "two_deposits \<equiv> sample_rune_state (replicate 2 (RuneDeposit (sample_deposit DepositScheduled)))"

lemma sample_ops_wf:
  "wf_store c st \<Longrightarrow> length ps \<le> ids_left st \<Longrightarrow> wf_store c (fold (\<lambda>p st. snd (new_operation c a p st)) ps st)"
proof (induction ps arbitrary: st)
  case (Cons p ps)
  then have pos: "0 < ids_left st" by simp
  show ?case
    using Cons.IH[OF os.create_inv[OF Cons.prems(1) pos]] os.create_room[OF pos, of c a p] Cons.prems(2)
    by simp
qed simp

lemma sample_rune_ok: "length ps \<le> 10 \<Longrightarrow> rune_ok (sample_rune_state ps)"
proof -
  have "ids_left (with_memory None 0 :: rune_operation op_store) = 2 ^ 64 - 1"
    by (simp add: unsigned_minus_1_eq_mask mask_eq_exp_minus_1)
  then show "length ps \<le> 10 \<Longrightarrow> rune_ok (sample_rune_state ps)"
    unfolding rune_ok_def sample_rune_state_def
    by (simp, intro sample_ops_wf) (simp_all add: with_memory_wf default_store_options_def)
qed

lemma sample_ledger_inv: "ledger_inv (sr_ledger (sample_rune_state ps))"
  by (simp add: sample_rune_state_def rune_default_state_def ledger_default_def ledger_inv_def)

theorem process_deposit_request_returns_witness:
  "run_task (process_deposit_request 7 rune_sign_env sample_rune_env (\<lambda>_ _ s. s) 0) two_deposits =
     run_task (process_deposit_request 2 rune_sign_env sample_rune_env (\<lambda>_ _ s. s) 0) two_deposits"
  by (rule process_deposit_request_returns[THEN conjunct1]) (simp_all add: keeps_id sample_rune_ok)

lemma two_deposits_find:
  "find_deposit two_deposits 0 = Some (sample_deposit DepositScheduled)"
  "find_deposit two_deposits 1 = Some (sample_deposit DepositScheduled)"
  by code_simp+

lemma two_deposits_mintable:
  "mintable sample_rune_env two_deposits (sample_deposit DepositScheduled)
     \<lparr>gr_utxos = [sample_utxo_at 0], gr_tip_height = 200\<rparr>
     [(\<lparr>rinfo_name = 9, rinfo_decimals = 2, rinfo_block = 3, rinfo_tx = 4\<rparr>, 500)]"
  unfolding mintable_def
  by (intro exI[of _ "''bc1''"] exI[of _ "[sample_utxo_at 0]"]
      exI[of _ "[(9, \<lparr>rinfo_name = 9, rinfo_decimals = 2, rinfo_block = 3, rinfo_tx = 4\<rparr>)]"] conjI; code_simp)

theorem rune_utxos_minted_twice_witness:
  "\<exists>s1 s2 orders orders'.
     find_deposit s1 0 = Some ((sample_deposit DepositScheduled)\<lparr>dp_status := MintOrdersCreated orders\<rparr>) \<and>
     find_deposit s2 1 = Some ((sample_deposit DepositScheduled)\<lparr>dp_status := MintOrdersCreated orders'\<rparr>) \<and>
     order_amounts orders = [(9, 500)] \<and> order_amounts orders' = [(9, 500)]"
proof -
  let ?run = "\<lambda>i s. run_task (process_deposit_request 2 rune_sign_env sample_rune_env (\<lambda>_ _ s. s) i) s"
  obtain s1 where 1: "?run 0 two_deposits = (Ok (Some ()), s1)"
  proof -
    have "fst (?run 0 two_deposits) = Ok (Some ())" by code_simp
    then show ?thesis using that by (metis prod.collapse)
  qed
  obtain s2 where 2: "?run 1 s1 = (Ok (Some ()), s2)"
  proof -
    have "fst (?run 1 (snd (?run 0 two_deposits))) = Ok (Some ())" by code_simp
    then show ?thesis using that 1 by (metis prod.collapse snd_conv)
  qed
  have stored: "not_stored (sr_ledger two_deposits) (gr_utxos \<lparr>gr_utxos = [sample_utxo_at 0], gr_tip_height = 200\<rparr>)"
    by code_simp
  show ?thesis
    using rune_utxos_minted_twice[OF sample_rune_ok sample_ledger_inv stored two_deposits_find(1) _
        two_deposits_find(2) _ _ _ _ two_deposits_mintable _ 1 2]
    by (fastforce simp: sample_deposit_def rune_sign_env_def)
qed

definition two_orders :: "mint_order_details list" where
  "two_orders = [\<lparr>md_rune_name = 9, md_amount = 500, md_status = OrderSent [1] 0 7\<rparr>,
     \<lparr>md_rune_name = 8, md_amount = 300, md_status = OrderSent [2] 1 6\<rparr>]"

theorem rune_two_orders_never_complete_witness:
  "find_operation (sr_ops (fold (\<lambda>(recipient, n). complete_mint_request recipient n) [(5, 0), (5, 1)]
       (sample_rune_state [RuneDeposit (sample_deposit (MintOrdersCreated two_orders))]))) 0 =
     Some (5, RuneDeposit (sample_deposit (MintOrdersCreated two_orders)))"
proof -
  let ?s = "sample_rune_state [RuneDeposit (sample_deposit (MintOrdersCreated two_orders))]"
  have find: "find_operation (sr_ops ?s) 0 = Some (5, RuneDeposit (sample_deposit (MintOrdersCreated two_orders)))"
    by code_simp
  show ?thesis
    by (rule rune_two_orders_never_complete[OF sample_rune_ok find, where d = "two_orders ! 0" and d' = "two_orders ! 1"
          and m = 0 and m' = 1 and x = "[1]" and x' = "[2]" and t = 7 and t' = 6 and orders = two_orders])
      (simp_all add: sample_deposit_def two_orders_def)
qed

theorem rune_invalid_withdrawal_panics_witness:
  "\<exists>i s' reason.
     rune_task_by_log (offline_env\<lparr>env_parse_log := sample_parser (Burnt (sample_burn\<lparr>be_recipient_id := [255]\<rparr>))\<rparr>)
       sample_rune_env \<lparr>log_address = 0, log_topics = [], log_data = []\<rparr> rune_default_state =
         Some (Some (WithdrawTask i, rune_retry_options), s') \<and>
     find_operation (sr_ops s') i = Some (7, RuneWithdrawal (invalid_withdrawal reason)) \<and>
     run_task (rune_execute offline_env sample_rune_env (\<lambda>_ _ s. s) (WithdrawTask i)) s' = (Panic, s')"
proof -
  let ?b = "sample_burn\<lparr>be_recipient_id := [255]\<rparr>"
  let ?env = "offline_env\<lparr>env_parse_log := sample_parser (Burnt ?b)\<rparr>"
  have ok: "rune_ok rune_default_state"
    by (simp add: rune_ok_def rune_default_state_def with_memory_wf default_store_options_def)
  have new: "new_withdrawal (env_codec ?env) sample_rune_env rune_default_state ?b = Some (invalid_withdrawal RecipientNotUtf8)"
    by (simp add: new_withdrawal_def from_utf8_def utf8_valid.simps[of "[255]"] utf8_width_def
        sample_burn_def as_u128_def)
  have ids: "0 < ids_left (sr_ops rune_default_state)"
    by (simp add: rune_default_state_def unsigned_minus_1_eq_mask mask_eq_exp_minus_1)
  have log: "from_log (env_parse_log ?env) \<lparr>log_address = 0, log_topics = [], log_data = []\<rparr> = Ok (Burnt ?b)"
    by (simp add: sample_parser_burnt)
  have "wp_status (invalid_withdrawal RecipientNotUtf8) \<noteq> WithdrawalScheduled"
    "rn_parse_address sample_rune_env [] = None" "be_sender ?b = 7"
    by (simp_all add: invalid_withdrawal_def sample_rune_env_def sample_burn_def)
  then show ?thesis
    using rune_invalid_withdrawal_panics[OF ok ids log new] by metis
qed

definition sample_withdrawal :: rune_withdrawal_payload where
  "sample_withdrawal = \<lparr>wp_rune_info = rune_info_invalid, wp_amount = 10, wp_request_ts = 1, wp_sender = 5,
     wp_dst_address = [98], wp_status = WithdrawalScheduled\<rparr>"


end
