(* ===== verification/Rune_Progress.thy ===== *)
theory Rune_Progress
  imports Rune_Safety
begin

text \<open>
  Behaviour of the rune bridge over whole tasks: every task keeps the invariant of
  \<open>Rune_Invariant\<close>, the daily removal of used outputs, and deposits that run to their end.
\<close>

section \<open>The invariant of every task\<close>

text \<open>
  C11: Every task of the rune bridge keeps its invariant. Whatever the services answer and whatever
  other messages do between the awaited calls, as long as they keep it too, the operation store
  stays well-formed (with room for the operations of the collected logs), and the ledger's maps stay
  ordered with a usable derivation path for every output, so that listing the unspent outputs never
  panics. The same holds for the daily removal of used outputs.
\<close>

theorem rune_tasks_keep_inv:
  assumes "\<And>k. keeps rune_inv (aw k)" and "rune_inv s"
    and "\<And>lnk f t b logs. collect_link env lnk f t b = Some logs \<Longrightarrow>
      length logs \<le> ids_left (sr_ops (aw 0 1 (aw 0 0 s)))"
    and "m = rune_execute env rn aw task \<or> m = remove_used_utxos_task rn (aw 0)"
    and "run_task m s = (r, s')"
  shows "rune_inv s' \<and> (\<exists>ks ins. load_unspent_utxos (sr_ledger s') = Some (ks, ins) \<and> map in_outpoint ins = ks)"
proof -
  have "wp m (\<lambda>_ c' t. rune_inv c' \<and> rune_inv t) s s"
    using assms(4) rune_execute_inv[where aw = aw and s = s, OF assms(1,2,2,3)] remove_used_utxos_task_inv[OF assms(1)] assms(2)
    by (auto simp: maintains_def)
  then have "wp m (\<lambda>r c' t. rune_inv (if r = Panic then c' else t)) s s" by (rule wp_mono) simp
  from run_task_wpD[OF assms(5) this] have "rune_inv s'" .
  then show ?thesis using load_unspent_ok[of "sr_ledger s'"] by (auto simp: rune_inv_def)
qed

theorem rune_tasks_keep_inv_witness:
  "\<exists>r s'. run_task (rune_execute offline_env sample_rune_env (\<lambda>_ _ s. s) (WithdrawTask 3)) rune_default_state = (r, s') \<and>
     rune_inv s'"
proof -
  let ?m = "rune_execute offline_env sample_rune_env (\<lambda>_ _ s. s) (WithdrawTask 3)"
  obtain r s' where run: "run_task ?m rune_default_state = (r, s')" by force
  have inv: "rune_inv rune_default_state"
    by (simp add: rune_inv_def rune_ok_def rune_default_state_def with_memory_wf default_store_options_def
        ledger_inv_def ledger_default_def)
  have "rune_inv s' \<and> (\<exists>ks ins. load_unspent_utxos (sr_ledger s') = Some (ks, ins) \<and> map in_outpoint ins = ks)"
  proof (rule rune_tasks_keep_inv[where aw = "\<lambda>_ _ s. s" and env = offline_env and rn = sample_rune_env
        and task = "WithdrawTask 3" and m = ?m, OF keeps_id inv _ disjI1[OF refl] run])
    fix lnk f t b logs assume "collect_link offline_env lnk f t b = Some logs"
    then show "length logs \<le> ids_left (sr_ops rune_default_state)"
      using collect_link_rejected by (fastforce simp: offline_env_def)
  qed
  then show ?thesis using run by blast
qed

section \<open>The removal of used outputs\<close>

datatype utxo_fate = Kept | Released | Forgotten

definition listed :: "utxo_key \<Rightarrow> ic_utxo list \<Rightarrow> bool" where
  "listed k us \<longleftrightarrow> (\<exists>u\<in>set us. iop_txid (iu_outpoint u) = key_tx_id k \<and> iop_vout (iu_outpoint u) = key_vout k)"

text \<open>
  What the daily removal is to do with an output, from its entry in the registry of used outputs and
  the outputs \<open>outs a\<close> that the Bitcoin canister lists for an address, \<open>None\<close> when it answers an error.
\<close>

definition utxo_fate_of ::
  "rune_env \<Rightarrow> (address \<Rightarrow> ic_utxo list option) \<Rightarrow> rune_state \<Rightarrow> utxo_key \<Rightarrow> utxo_fate"
where
  "utxo_fate_of rn outs s k = (case omap_get (used_utxos_registry (sr_ledger s)) k of
       None \<Rightarrow> Kept
     | Some d \<Rightarrow>
         if unat (rn_now rn) < unat (uu_used_at d) + unat (rc_min_confirmations (sr_config s)) * AVG_BLOCK_TIME
         then Kept
         else (case owner_address rn (rc_network (sr_config s)) d of
             None \<Rightarrow> Forgotten
           | Some a \<Rightarrow> (case outs a of
               None \<Rightarrow> Kept
             | Some us \<Rightarrow> if listed k us then Released else Forgotten)))"

definition grouped :: "(address \<times> utxo_key list) list \<Rightarrow> address \<Rightarrow> utxo_key \<Rightarrow> bool" where
  "grouped groups a k \<longleftrightarrow> (\<exists>ks. (a, ks) \<in> set groups \<and> k \<in> set ks)"

lemma grouped_simps [simp]:
  "\<not> grouped [] a k"
  "grouped ((b, ks) # groups) a k \<longleftrightarrow> a = b \<and> k \<in> set ks \<or> grouped groups a k"
  by (auto simp: grouped_def)

lemma grouped_push [simp]:
  "grouped (push_owner b j groups) a k \<longleftrightarrow> a = b \<and> k = j \<or> grouped groups a k"
  by (induction b j groups rule: push_owner.induct) auto

lemma group_by_owner_grouped:
  "grouped (fst (group_by_owner rn network es l groups)) a k \<longleftrightarrow>
     grouped groups a k \<or> (\<exists>d. (k, d) \<in> set es \<and> owner_address rn network d = Some a)"
  by (induction rn network es l groups rule: group_by_owner.induct) (auto split: option.splits)

lemma group_by_owner_ledger:
  "omap_get (utxo_storage (snd (group_by_owner rn network es l groups))) k =
     (if \<exists>d. (k, d) \<in> set es \<and> owner_address rn network d = None then None else omap_get (utxo_storage l) k)"
  "omap_get (used_utxos_registry (snd (group_by_owner rn network es l groups))) k =
     (if \<exists>d. (k, d) \<in> set es \<and> owner_address rn network d = None then None
      else omap_get (used_utxos_registry l) k)"
  by (induction rn network es l groups rule: group_by_owner.induct)
    (auto simp: lb.stored_forget lb.reserved_forget split: option.splits)

lemma remove_used_utxo_lookup:
  "omap_get (utxo_storage (remove_used_utxo j us l)) k =
     (if k = j \<and> \<not> listed j us then None else omap_get (utxo_storage l) k)"
  "omap_get (used_utxos_registry (remove_used_utxo j us l)) k =
     (if k = j then None else omap_get (used_utxos_registry l) k)"
  by (auto simp: remove_used_utxo_def listed_def list_ex_iff lb.stored_forget lb.reserved_forget
      lb.stored_release lb.reserved_release)

lemma remove_used_utxos_lookup:
  "omap_get (utxo_storage (fold (\<lambda>k. remove_used_utxo k us) ks l)) k =
     (if k \<in> set ks \<and> \<not> listed k us then None else omap_get (utxo_storage l) k)"
  "omap_get (used_utxos_registry (fold (\<lambda>k. remove_used_utxo k us) ks l)) k =
     (if k \<in> set ks then None else omap_get (used_utxos_registry l) k)"
  by (induction ks arbitrary: l) (auto simp: remove_used_utxo_lookup)

definition freed :: "(address \<Rightarrow> ic_utxo list option) \<Rightarrow> (address \<times> utxo_key list) list \<Rightarrow> utxo_key \<Rightarrow> bool" where
  "freed outs groups k \<longleftrightarrow> (\<exists>a us. grouped groups a k \<and> outs a = Some us)"

definition spent :: "(address \<Rightarrow> ic_utxo list option) \<Rightarrow> (address \<times> utxo_key list) list \<Rightarrow> utxo_key \<Rightarrow> bool" where
  "spent outs groups k \<longleftrightarrow> (\<exists>a us. grouped groups a k \<and> outs a = Some us \<and> \<not> listed k us)"

lemma freed_spent_simps [simp]:
  "\<not> freed outs [] k" "\<not> spent outs [] k"
  "outs a = None \<Longrightarrow> freed outs ((a, ks) # groups) k \<longleftrightarrow> freed outs groups k"
  "outs a = None \<Longrightarrow> spent outs ((a, ks) # groups) k \<longleftrightarrow> spent outs groups k"
  "outs a = Some us \<Longrightarrow> freed outs ((a, ks) # groups) k \<longleftrightarrow> k \<in> set ks \<or> freed outs groups k"
  "outs a = Some us \<Longrightarrow> spent outs ((a, ks) # groups) k \<longleftrightarrow> k \<in> set ks \<and> \<not> listed k us \<or> spent outs groups k"
  by (auto simp: freed_def spent_def)

lemma wp_check_owners:
  assumes "\<And>a. get_owner_utxos (rn_get_utxos_page rn a) (MinConfirmations n) [] = Some (outs a)"
    and "\<And>k s. sr_ledger (aw k s) = sr_ledger s"
    and "\<And>c' s'.
        (\<And>k. omap_get (utxo_storage (sr_ledger s')) k =
          (if spent outs groups k then None else omap_get (utxo_storage (sr_ledger s)) k)) \<Longrightarrow>
        (\<And>k. omap_get (used_utxos_registry (sr_ledger s')) k =
          (if freed outs groups k then None else omap_get (used_utxos_registry (sr_ledger s)) k)) \<Longrightarrow>
        Q (Ok ()) c' s'"
  shows "wp (check_owners rn aw n groups) Q c s"
  using assms(2,3)
proof (induction groups arbitrary: aw c s)
  case Nil
  then show ?case by (simp add: wp_simps)
next
  case (Cons g groups)
  obtain a ks where g: "g = (a, ks)" by (cases g)
  show ?case
    unfolding g check_owners.simps wp_simps assms(1)
    by (cases "outs a")
      (auto simp: wp_simps Cons.prems(1) g remove_used_utxos_lookup intro!: Cons.IH Cons.prems(2))
qed

lemma utxos_to_check_set:
  assumes "ordered (used_utxos_registry l)"
  shows "(k, d) \<in> set (utxos_to_check now n l) \<longleftrightarrow>
    omap_get (used_utxos_registry l) k = Some d \<and>
    unat (uu_used_at d) + unat n * AVG_BLOCK_TIME \<le> unat now"
  using om.keys_distinct[of "used_utxos_registry l"] assms
  by (auto simp: utxos_to_check_def load_used_utxos_def)

lemma removed_as_fated:
  assumes "\<And>a. get_owner_utxos (rn_get_utxos_page rn a)
      (MinConfirmations (rc_min_confirmations (sr_config s))) [] = Some (outs a)"
    and "\<And>k s. sr_ledger (aw k s) = sr_ledger s"
    and "ordered (used_utxos_registry (sr_ledger s))"
    and "run_task (remove_used_utxos_task rn aw) s = (r, s')"
  shows "r = Ok () \<and>
    omap_get (utxo_storage (sr_ledger s')) k =
      (if utxo_fate_of rn outs s k = Forgotten then None else omap_get (utxo_storage (sr_ledger s)) k) \<and>
    omap_get (used_utxos_registry (sr_ledger s')) k =
      (if utxo_fate_of rn outs s k = Kept then omap_get (used_utxos_registry (sr_ledger s)) k else None)"
    (is "?P r s'")
proof -
  let ?n = "rc_min_confirmations (sr_config s)" and ?net = "rc_network (sr_config s)"
  let ?es = "utxos_to_check (rn_now rn) ?n (sr_ledger s)"
  have "wp (remove_used_utxos_task rn aw) (\<lambda>r c t. ?P r (if r = Panic then c else t)) s s"
    unfolding remove_used_utxos_task_def
    by (auto simp: wp_simps case_prod_beta group_by_owner_ledger freed_def spent_def group_by_owner_grouped
        utxos_to_check_set[OF assms(3)] utxo_fate_of_def not_less
        intro!: wp_check_owners[OF assms(1,2)] split: option.split)
  from run_task_wpD[OF assms(4) this] show ?thesis by simp
qed

text \<open>
  C13: What the daily removal of used outputs does with every output of the ledger, when the Bitcoin
  canister ends its lists and nothing else changes the ledger meanwhile. An output used long enough ago
  becomes available again exactly when the address recorded with it still lists it, is dropped
  when the address does not list it or is no valid address of the network, and stays as it is
  when the canister answers an error; all other outputs stay as they are.
\<close>

theorem remove_used_utxos_exact:
  assumes "\<And>a. get_owner_utxos (rn_get_utxos_page rn a)
      (MinConfirmations (rc_min_confirmations (sr_config s))) [] = Some (outs a)"
    and "\<And>k s. sr_ledger (aw k s) = sr_ledger s"
    and "ordered (used_utxos_registry (sr_ledger s))"
    and "run_task (remove_used_utxos_task rn aw) s = (r, s')"
  shows "r = Ok () \<and>
    omap_get (utxo_storage (sr_ledger s')) k =
      (if utxo_fate_of rn outs s k = Forgotten then None else omap_get (utxo_storage (sr_ledger s)) k) \<and>
    omap_get (used_utxos_registry (sr_ledger s')) k =
      (if utxo_fate_of rn outs s k = Kept then omap_get (used_utxos_registry (sr_ledger s)) k else None)"
  by (rule removed_as_fated[OF assms])

definition sending_env :: rune_env where
  "sending_env = sample_rune_env\<lparr>rn_send_transaction := \<lambda>_. True\<rparr>"

text \<open>One output in the ledger and a scheduled withdrawal, which has been sent much later.\<close>

definition stocked_state :: rune_state where
  "stocked_state = rune_default_state\<lparr>sr_master_key := True,
     sr_ops := snd (new_operation rune_complete 5 (RuneWithdrawal sample_withdrawal)
       (with_memory (Some \<lparr>max_operations_count = 3, cache_size = 3\<rparr>) 0)),
     sr_ledger := ledger_put (UtxoKey [1] 0)
       \<lparr>ud_value = 5, ud_script_buf = [], ud_derivation_path = []\<rparr> ledger_default\<rparr>"

definition later_env :: rune_env where
  "later_env = sending_env\<lparr>rn_now := 10 ^ 15\<rparr>"

lemma later_pages:
  "get_owner_utxos (rn_get_utxos_page later_env a) flt [] = Some (Some [])"
  by (subst get_owner_utxos.simps) (simp add: later_env_def sending_env_def sample_rune_env_def)

text \<open>
  C14: A withdrawal records its inputs with the address of the recipient instead of the address
  that owned them. When its transaction is never mined, the daily removal asks for the outputs of
  the recipient, does not find the inputs among them and drops them from the ledger, although the
  bridge still owns them: whatever the Bitcoin canister lists for other addresses, they are not made
  available again.
\<close>

theorem rune_unspent_inputs_forgotten:
  assumes "quiet_rune aw" and "find_operation (sr_ops s) i = Some (a, RuneWithdrawal p)"
    and "wp_status p = WithdrawalScheduled" and "run_task (withdraw rn aw i) s = (Ok (Inr txid), s1)"
    and "load_unspent_utxos (sr_ledger s) = Some (ks, ins)" and "k \<in> in_outpoint ` set ins"
    and "withdrawal_dst_address rn p = Some dst"
    \<comment> \<open>a later state with the same entry for the input\<close>
    and "ordered (used_utxos_registry (sr_ledger t))"
    and "omap_get (used_utxos_registry (sr_ledger t)) k = omap_get (used_utxos_registry (sr_ledger s1)) k"
    and "unat (rn_now rn) + unat (rc_min_confirmations (sr_config t)) * AVG_BLOCK_TIME \<le> unat (rn_now rn')"
    \<comment> \<open>the recipient is an address and does not own the input\<close>
    and "rn_parse_address rn' (rn_show_address rn dst) = Some dst" and "rn_valid_for rn' dst (rc_network (sr_config t))"
    and "\<And>b. get_owner_utxos (rn_get_utxos_page rn' b)
      (MinConfirmations (rc_min_confirmations (sr_config t))) [] = Some (outs b)"
    and "outs dst = Some us" and "\<not> listed k us"
    and "\<And>n s. sr_ledger (aw' n s) = sr_ledger s"
  shows "\<exists>t'. run_task (remove_used_utxos_task rn' aw') t = (Ok (), t') \<and>
    omap_get (utxo_storage (sr_ledger t')) k = None \<and> omap_get (used_utxos_registry (sr_ledger t')) k = None"
proof -
  have "withdrawal_outcome rn i p s (Ok (Inr txid)) s1"
    by (rule run_task_wpD[OF assms(4) wp_withdraw[OF assms(1-3)]])
  then have "omap_get (used_utxos_registry (sr_ledger t)) k =
      Some \<lparr>uu_used_at = rn_now rn, uu_owner_address = rn_show_address rn dst\<rparr>"
    using assms(5-7,9) by (auto simp: withdrawal_outcome_def withdrawn_def)
  then have fate: "utxo_fate_of rn' outs t k = Forgotten"
    using assms(10-12,14,15) by (simp add: utxo_fate_of_def owner_address_def)
  obtain r t' where run: "run_task (remove_used_utxos_task rn' aw') t = (r, t')" by fastforce
  show ?thesis
    using removed_as_fated[OF assms(13,16,8) run, of k] run fate by auto
qed

definition sent_state :: rune_state where
  "sent_state = snd (run_task (withdraw sending_env (\<lambda>_ s. s) 0) stocked_state)"

lemma sent_run:
  "run_task (withdraw sending_env (\<lambda>_ s. s) 0) stocked_state = (Ok (Inr (replicate 32 2)), sent_state)"
proof -
  have "fst (run_task (withdraw sending_env (\<lambda>_ s. s) 0) stocked_state) = Ok (Inr (replicate 32 2))" by code_simp
  then show ?thesis by (metis sent_state_def prod.collapse)
qed

lemma stocked_unspent:
  "load_unspent_utxos (sr_ledger stocked_state) = Some ([UtxoKey [1] 0],
     [\<lparr>in_outpoint = UtxoKey [1] 0, in_value = 5, in_script_pubkey = [], in_derivation_path = []\<rparr>])"
  by code_simp

lemma sent_ledger:
  "omap_get (utxo_storage (sr_ledger sent_state)) (UtxoKey [1] 0) \<noteq> None"
  "ordered (used_utxos_registry (sr_ledger sent_state))"
  "rc_min_confirmations (sr_config sent_state) = 12"
  by code_simp+

theorem rune_unspent_inputs_forgotten_witness:
  "\<exists>t'. run_task (withdraw sending_env (\<lambda>_ s. s) 0) stocked_state = (Ok (Inr (replicate 32 2)), sent_state) \<and>
     omap_get (utxo_storage (sr_ledger sent_state)) (UtxoKey [1] 0) \<noteq> None \<and>
     run_task (remove_used_utxos_task later_env (\<lambda>_ s. s)) sent_state = (Ok (), t') \<and>
     omap_get (utxo_storage (sr_ledger t')) (UtxoKey [1] 0) = None"
proof -
  have quiet: "quiet_rune (\<lambda>_ s. s)" by (simp add: quiet_rune_def)
  have find: "find_operation (sr_ops stocked_state) 0 = Some (5, RuneWithdrawal sample_withdrawal)" by code_simp
  have sched: "wp_status sample_withdrawal = WithdrawalScheduled" by (simp add: sample_withdrawal_def)
  have dst: "withdrawal_dst_address sending_env sample_withdrawal = Some ''bc1''" by code_simp
  have aged: "unat (rn_now sending_env) + unat (rc_min_confirmations (sr_config sent_state)) * AVG_BLOCK_TIME
      \<le> unat (rn_now later_env)"
    by (simp add: sent_ledger sending_env_def later_env_def sample_rune_env_def AVG_BLOCK_TIME_def)
  have "rn_parse_address later_env (rn_show_address sending_env ''bc1'') = Some ''bc1''"
    "rn_valid_for later_env ''bc1'' (rc_network (sr_config sent_state))" "\<not> listed (UtxoKey [1] 0) []"
    by (simp_all add: sending_env_def later_env_def sample_rune_env_def listed_def)
  from rune_unspent_inputs_forgotten[OF quiet find sched sent_run stocked_unspent _ dst sent_ledger(2) refl aged
      this(1,2) later_pages refl this(3), of "\<lambda>_ s. s"]
  show ?thesis using sent_run sent_ledger(1) by auto
qed

text \<open>The address lists the output again.\<close>

definition relisting_env :: rune_env where
  "relisting_env = later_env\<lparr>rn_get_utxos_page := \<lambda>_ _. Some
     ([\<lparr>iu_outpoint = \<lparr>iop_txid = [1], iop_vout = 0\<rparr>, iu_value = 5, iu_height = 0\<rparr>], None)\<rparr>"

theorem remove_used_utxos_exact_witness:
  "\<exists>t'. run_task (remove_used_utxos_task relisting_env (\<lambda>_ s. s)) sent_state = (Ok (), t') \<and>
     omap_get (utxo_storage (sr_ledger t')) (UtxoKey [1] 0) \<noteq> None \<and>
     omap_get (used_utxos_registry (sr_ledger sent_state)) (UtxoKey [1] 0) \<noteq> None \<and>
     omap_get (used_utxos_registry (sr_ledger t')) (UtxoKey [1] 0) = None"
proof -
  let ?us = "[\<lparr>iu_outpoint = \<lparr>iop_txid = [1], iop_vout = 0\<rparr>, iu_value = 5, iu_height = 0\<rparr>]"
  obtain r t' where run: "run_task (remove_used_utxos_task relisting_env (\<lambda>_ s. s)) sent_state = (r, t')"
    by fastforce
  have pages: "get_owner_utxos (rn_get_utxos_page relisting_env a) flt [] = Some (Some ?us)" for a flt
    by (subst get_owner_utxos.simps) (simp add: relisting_env_def)
  have entry: "omap_get (used_utxos_registry (sr_ledger sent_state)) (UtxoKey [1] 0) =
      Some \<lparr>uu_used_at = 1000, uu_owner_address = [98]\<rparr>"
    by code_simp
  have "utxo_fate_of relisting_env (\<lambda>_. Some ?us) sent_state (UtxoKey [1] 0) = Released"
    by (simp add: utxo_fate_of_def entry sent_ledger owner_address_def listed_def AVG_BLOCK_TIME_def
        relisting_env_def later_env_def sending_env_def sample_rune_env_def)
  then show ?thesis
    using remove_used_utxos_exact[OF pages _ sent_ledger(2) run, of "UtxoKey [1] 0"] run entry sent_ledger(1) by auto
qed

section \<open>Deposits complete\<close>

text \<open>The services that send a mint transaction do their part.\<close>

definition can_send :: "'v bridge_env \<Rightarrow> rune_state \<Rightarrow> bool" where
  "can_send env s \<longleftrightarrow> env_signer_address env \<noteq> None \<and> sr_params s \<noteq> None \<and>
     (\<forall>data. env_encode_input env MINT [TBytes data] \<noteq> None) \<and>
     (\<forall>tx. env_sign_transaction env tx \<noteq> None) \<and> (\<forall>lnk tx. env_send_raw_transaction env lnk tx \<noteq> None)"

lemma wp_send_single:
  assumes "can_send env s" and "md_status d = OrderCreated order n"
    and "\<And>tx c' ps. Q (Ok (True, [d\<lparr>md_status := OrderSent order n tx\<rparr>])) c' (s\<lparr>sr_params := ps\<rparr>)"
  shows "wp (send_mint_orders env (\<lambda>_ s. s) [d]) Q c s"
proof -
  obtain sender ps where env: "env_signer_address env = Some sender" "sr_params s = Some ps"
    using assms(1) by (auto simp: can_send_def)
  have ok: "env_encode_input env MINT [TBytes data] \<noteq> None" "env_sign_transaction env tx \<noteq> None"
      "env_send_raw_transaction env lnk tx \<noteq> None" for data tx lnk
    using assms(1) unfolding can_send_def by blast+
  show ?thesis
    by (simp add: wp_simps assms(2) env rune_send_mint_order_def rune_evm_info_def mint_transaction_def
        Let_def assms(3) ok del: not_None_eq split: option.split outcome.split)
qed

text \<open>A request with one order that was sent with nonce \<open>n\<close>.\<close>

definition one_sent :: "u32 \<Rightarrow> rune_name \<Rightarrow> u128 \<Rightarrow> h256 \<Rightarrow> rune_deposit_payload \<Rightarrow> bool" where
  "one_sent n name amount tx q \<longleftrightarrow> (\<exists>order. dp_status q =
     MintOrdersCreated [\<lparr>md_rune_name = name, md_amount = amount, md_status = OrderSent order n tx\<rparr>])"

lemma single_order:
  assumes "order_amounts orders = [(name, amount)]" and "numbered n orders"
  shows "\<exists>order. orders = [\<lparr>md_rune_name = name, md_amount = amount, md_status = OrderCreated order n\<rparr>]"
proof -
  obtain d where d: "orders = [d]" "md_rune_name d = name" "md_amount d = amount"
    using assms(1) by (cases orders) (auto simp: order_amounts_def)
  with assms(2) show ?thesis by (cases d) auto
qed

lemma process_sends:
  assumes "rune_ok s" and "ledger_inv (sr_ledger s)" and "not_stored (sr_ledger s) (gr_utxos response)"
    and "find_deposit s i = Some p" and "dp_status p = DepositScheduled"
    and "mintable rn s p response [(info, amount)]" and "\<And>order. env_encode_and_sign env order \<noteq> None"
    and "list_all (\<lambda>u. length (iop_txid (iu_outpoint u)) = 32) (gr_utxos response)" and "can_send env s"
    and "\<And>c' s' runes tx st. deposit_frame i runes s s' \<Longrightarrow> find_deposit s' i = Some (p\<lparr>dp_status := st\<rparr>) \<Longrightarrow>
      one_sent (sr_nonce s) (rinfo_name info) amount tx (p\<lparr>dp_status := st\<rparr>) \<Longrightarrow> Q (Ok (Some ())) c' s'"
  shows "wp (process_deposit_request 2 env rn (\<lambda>_ _ s. s) i) Q c s"
proof -
  obtain address used runes where m: "get_transit_address rn (rc_network (sr_config s)) (dp_dst_address p) = Some address"
      "rn_get_utxos rn address = Some response" "rc_min_confirmations (sr_config s) \<le> utxo_min_confirmations response"
      "mint_amounts rn (sr_runes s) (gr_utxos response) (dp_requested_amounts p) = Some ([(info, amount)], used, runes)"
    using assms(6) by (auto simp: mintable_def)
  let ?p = "\<lambda>orders. p\<lparr>dp_status := MintOrdersCreated orders\<rparr>"
  have incomplete: "\<not> deposit_complete p" using assms(5) by (simp add: deposit_complete_def)
  have step2: "wp (execute_request_step env rn (\<lambda>_ s. s) i (?p orders)) (\<lambda>r c' s'. r = Ok Break \<and> Q (Ok (Some ())) c' s') c t"
    if frame: "deposit_frame i runes s t" and ps: "sr_params t = sr_params s" and find: "find_deposit t i = Some (?p orders)"
      and am: "order_amounts orders = [(rinfo_name info, amount)]" and num: "numbered (sr_nonce s) orders" for orders c t
  proof -
    obtain order where orders: "orders =
        [\<lparr>md_rune_name = rinfo_name info, md_amount = amount, md_status = OrderCreated order (sr_nonce s)\<rparr>]"
      using single_order[OF am num] by blast
    have "can_send env t" using assms(9) ps by (simp add: can_send_def)
    moreover have "find_deposit (update_request_status i (?p orders) (MintOrdersCreated os) (t\<lparr>sr_params := x\<rparr>)) i = Some (?p os)" for os x
      using frame find update_found[where s = "t\<lparr>sr_params := x\<rparr>" and i = i and p = "?p orders" and q = "?p orders"]
      by (auto simp: deposit_frame_def deposit_complete_def)
    ultimately show ?thesis
      unfolding execute_request_step_def orders
      by (auto simp: wp_simps one_sent_def orders simp del: send_mint_orders.simps intro!: wp_send_single assms(10)[OF deposit_frame_again(1)[OF frame]])
  qed
  show ?thesis
    using assms(4,5)
    by (auto simp: numeral_2_eq_2 wp_simps execute_request_step_def[of _ _ _ _ p]
        intro!: wp_prepare_mintable[OF assms(1,2,4) incomplete assms(7) m assms(3)] wp_mono[OF step2] assms(8)
        split: control_flow.split outcome.split)
qed

text \<open>No order of the request was sent with nonce \<open>n\<close>.\<close>

definition not_sent_with :: "u32 \<Rightarrow> rune_operation \<Rightarrow> bool" where
  "not_sent_with n q \<longleftrightarrow> (\<forall>r orders d order tx. q = RuneDeposit r \<longrightarrow> dp_status r = MintOrdersCreated orders \<longrightarrow>
     d \<in> set orders \<longrightarrow> md_status d \<noteq> OrderSent order n tx)"

lemma not_sent_orders:
  "(\<And>d order tx. d \<in> set ds \<Longrightarrow> md_status d \<noteq> OrderSent order n tx) \<Longrightarrow> \<not> fst (complete_orders n ds)"
  by (induction ds) (auto split: prod.split mint_order_status.split)

lemma complete_in_requests_skip:
  "not_sent_with n q \<Longrightarrow> complete_in_requests n ((j, q) # rest) s = complete_in_requests n rest s"
  using not_sent_orders[of _ n]
  by (fastforce simp: not_sent_with_def split: rune_operation.split deposit_request_status.split prod.split)

lemma complete_in_requests_single:
  assumes "one_sent n name amount tx q" and "(i, RuneDeposit q) \<in> set requests"
    and "\<And>j r. (j, r) \<in> set requests \<Longrightarrow> j = i \<and> r = RuneDeposit q \<or> not_sent_with n r"
  shows "complete_in_requests n requests s =
    update_request_status i q (DepositMinted [(name, amount, tx)]) s"
  using assms(2,3)
proof (induction requests)
  case (Cons x requests)
  obtain j r where x: "x = (j, r)" by force
  show ?case
  proof (cases "not_sent_with n r")
    case True
    then have "x \<noteq> (i, RuneDeposit q)" using assms(1) by (auto simp: x one_sent_def not_sent_with_def)
    then show ?thesis
      using Cons.IH Cons.prems complete_in_requests_skip[OF True, of j requests s]
      by (simp add: x del: complete_in_requests.simps) blast
  next
    case False
    then have "j = i" "r = RuneDeposit q" using Cons.prems(2)[of j r] by (auto simp: x)
    then show ?thesis
      using assms(1)
      by (auto simp: x one_sent_def complete_deposit_request_def is_completed_def)
  qed
qed simp

lemma minted_found:
  assumes "rune_ok s" and "find_operation (sr_ops s) i = Some (a, RuneDeposit q)" and "one_sent n name amount tx q"
    and "\<And>j r. j \<noteq> i \<Longrightarrow> find_operation (sr_ops s) j = Some (a, r) \<Longrightarrow> not_sent_with n r"
    and "length (operations_log (sr_ops s)) < unat (max_operation_log_size (sr_ops s))"
  shows "find_operation (sr_ops (complete_mint_request a n s)) i =
    Some (a, RuneDeposit (q\<lparr>dp_status := DepositMinted [(name, amount, tx)]\<rparr>))"
proof -
  let ?p = "RuneDeposit (q\<lparr>dp_status := DepositMinted [(name, amount, tx)]\<rparr>)"
  have wf: "wf_store rune_complete (sr_ops s)" using assms(1) by (simp add: rune_ok_def)
  have listing: "(j, r) \<in> set (get_for_address (sr_ops s) a) \<longleftrightarrow> find_operation (sr_ops s) j = Some (a, r)" for j r
    using get_for_address_set[OF wf, of a] by blast
  have others: "j = i \<and> r = RuneDeposit q \<or> not_sent_with n r" if "find_operation (sr_ops s) j = Some (a, r)" for j r
    using that assms(2,4) by (cases "j = i") simp_all
  have "complete_mint_request a n s = update_request_status i q (DepositMinted [(name, amount, tx)]) s"
    unfolding complete_mint_request_def
    using assms(2) others by (intro complete_in_requests_single[OF assms(3)]) (simp_all only: listing)
  moreover obtain e where "omap_get (incomplete_operations (sr_ops s)) i = Some e" "dst_address e = a"
    using find_open[of rune_complete, OF _ assms(2)] wf assms(3)
    by (auto simp: wf_store_def one_sent_def deposit_complete_def)
  ultimately show ?thesis
    using completion_find[OF wf, of i e ?p i] assms(5)
    by (auto simp: update_request_status_def rune_ops_update_def deposit_complete_def)
qed

text \<open>The order of a request was sent; what else there is for the recipient is as before.\<close>

definition order_sent ::
  "operation_id \<Rightarrow> h160 \<Rightarrow> rune_deposit_payload \<Rightarrow> rune_name \<Rightarrow> u128 \<Rightarrow> rune_state \<Rightarrow> rune_state \<Rightarrow> bool"
where
  "order_sent i a p name amount s s' \<longleftrightarrow> rune_ok s' \<and> btc_signer_ready s' = btc_signer_ready s \<and>
     operations_log (sr_ops s') = operations_log (sr_ops s) \<and>
     max_operation_log_size (sr_ops s') = max_operation_log_size (sr_ops s) \<and>
     (\<forall>j. j \<noteq> i \<longrightarrow> find_operation (sr_ops s') j = find_operation (sr_ops s) j) \<and>
     (\<exists>st tx. find_operation (sr_ops s') i = Some (a, RuneDeposit (p\<lparr>dp_status := st\<rparr>)) \<and>
        one_sent (sr_nonce s) name amount tx (p\<lparr>dp_status := st\<rparr>))"

lemma order_sent_frame:
  assumes "deposit_frame i runes s s'" and "find_deposit s' i = Some (p\<lparr>dp_status := st\<rparr>)"
    and "one_sent (sr_nonce s) name amount tx (p\<lparr>dp_status := st\<rparr>)"
    and "find_operation (sr_ops s) i = Some (a, x)"
  shows "order_sent i a p name amount s s'"
proof -
  have "map_option fst (find_operation (sr_ops s') i) = Some a"
    using assms(1,4) by (simp add: deposit_frame_def)
  then have "find_operation (sr_ops s') i = Some (a, RuneDeposit (p\<lparr>dp_status := st\<rparr>))"
    using assms(2) by (auto simp: find_deposit_alt)
  then show ?thesis
    using assms(1,3) by (auto simp: deposit_frame_def order_sent_def btc_signer_ready_def)
qed

lemma deposit_task_sends:
  assumes "rune_inv s" and "btc_signer_ready s" and "find_operation (sr_ops s) i = Some (a, RuneDeposit p)"
    and "dp_status p = DepositScheduled"
    and "mintable rn s p response [(info, amount)]" and "not_stored (sr_ledger s) (gr_utxos response)"
    and "list_all (\<lambda>u. length (iop_txid (iu_outpoint u)) = 32) (gr_utxos response)"
    and "\<And>order. env_encode_and_sign env order \<noteq> None" and "can_send env s"
  shows "\<exists>s1. run_task (rune_execute env rn (\<lambda>_ _ s. s) (DepositTask i)) s = (Ok (), s1) \<and>
    order_sent i a p (rinfo_name info) amount s s1"
proof -
  have inv: "rune_ok s" "ledger_inv (sr_ledger s)" using assms(1) by (simp_all add: rune_inv_def)
  have find: "find_deposit s i = Some p" using assms(3) by (simp add: find_deposit_alt)
  have sends: "wp (process_deposit_request 2 env rn (\<lambda>_ _ s. s) i)
      (\<lambda>r c t. r = Ok (Some ()) \<and> order_sent i a p (rinfo_name info) amount s t) s s"
    by (rule process_sends[OF inv assms(6) find assms(4,5,8,7,9)]) (simp add: order_sent_frame[OF _ _ _ assms(3)])
  have task: "wp (rune_execute env rn (\<lambda>_ _ s. s) (DepositTask i))
      (\<lambda>r c t. r = Ok () \<and> order_sent i a p (rinfo_name info) amount s (if r = Panic then c else t)) s s"
    unfolding rune_execute.simps rune_deposit_task_def wp_simps using assms(2)
    by (auto simp: wp_simps intro!: wp_mono[OF sends])
  obtain r s1 where run: "run_task (rune_execute env rn (\<lambda>_ _ s. s) (DepositTask i)) s = (r, s1)"
    by (rule prod.exhaust)
  from run_task_wpD[OF run task] run show ?thesis by blast
qed

text \<open>
  C12: A deposit of one rune completes. Let a request be scheduled, the outputs at its deposit address
  be confirmed and hold an amount of one rune, the signers and the EVM do their part, and no other
  message come between. Then the task of the request ends with a mint order for the amount that was
  sent with the next nonce of the bridge, and the \<open>Minted\<close> event of that order makes the request
  \<open>Minted\<close> with the amount and the transaction, provided no other order to the recipient was sent with the
  nonce and the log of completed operations has room.
\<close>

theorem rune_deposit_completes:
  assumes "rune_inv s" and "btc_signer_ready s" and "find_operation (sr_ops s) i = Some (a, RuneDeposit p)"
    and "dp_status p = DepositScheduled" and "dp_dst_address p = a"
    and "mintable rn s p response [(info, amount)]" and "not_stored (sr_ledger s) (gr_utxos response)"
    and "list_all (\<lambda>u. length (iop_txid (iu_outpoint u)) = 32) (gr_utxos response)"
    and "\<And>order. env_encode_and_sign env order \<noteq> None" and "can_send env s"
    and "\<And>j q. j \<noteq> i \<Longrightarrow> find_operation (sr_ops s) j = Some (a, q) \<Longrightarrow> not_sent_with (sr_nonce s) q"
    and "length (operations_log (sr_ops s)) < unat (max_operation_log_size (sr_ops s))"
    and "me_recipient minted = a" and "me_nonce minted = sr_nonce s"
  shows "\<exists>s1 s2 tx. run_task (rune_execute env rn (\<lambda>_ _ s. s) (DepositTask i)) s = (Ok (), s1) \<and>
    run_task (rune_execute env rn (\<lambda>_ _ s. s) (RuneRemoveMintOrder minted)) s1 = (Ok (), s2) \<and>
    find_operation (sr_ops s2) i =
      Some (a, RuneDeposit (p\<lparr>dp_status := DepositMinted [(rinfo_name info, amount, tx)]\<rparr>))"
proof -
  obtain s1 where s1: "run_task (rune_execute env rn (\<lambda>_ _ s. s) (DepositTask i)) s = (Ok (), s1)"
      "order_sent i a p (rinfo_name info) amount s s1"
    using deposit_task_sends[OF assms(1-4,6-10)] by blast
  then obtain st tx where q: "find_operation (sr_ops s1) i = Some (a, RuneDeposit (p\<lparr>dp_status := st\<rparr>))"
      "one_sent (sr_nonce s) (rinfo_name info) amount tx (p\<lparr>dp_status := st\<rparr>)"
    by (auto simp: order_sent_def)
  have "run_task (rune_execute env rn (\<lambda>_ _ s. s) (RuneRemoveMintOrder minted)) s1 =
      (Ok (), complete_mint_request a (sr_nonce s) s1)"
    using s1(2) assms(2,13,14) by (simp add: order_sent_def run_task_def rune_remove_mint_order_def task_simps)
  moreover have "find_operation (sr_ops (complete_mint_request a (sr_nonce s) s1)) i =
      Some (a, RuneDeposit (p\<lparr>dp_status := DepositMinted [(rinfo_name info, amount, tx)]\<rparr>))"
    using minted_found[OF _ q] s1(2) assms(11,12) by (simp add: order_sent_def)
  ultimately show ?thesis using s1(1) by blast
qed

definition rune_send_env :: "u256 bridge_env" where
  "rune_send_env = rune_sign_env\<lparr>env_signer_address := Some 1, env_encode_input := \<lambda>_ _. Some [],
     env_sign_transaction := \<lambda>_. Some (1, 1, 1), env_send_raw_transaction := \<lambda>_ _. Some 77\<rparr>"

definition one_deposit :: rune_state where
  "one_deposit = (sample_rune_state [RuneDeposit (sample_deposit DepositScheduled)])
     \<lparr>sr_params := Some \<lparr>chain_id = 1, next_block = 2, evm_nonce = 3, gas_price = 4\<rparr>\<rparr>"

lemma one_deposit_mintable:
  "mintable sample_rune_env one_deposit (sample_deposit DepositScheduled)
     \<lparr>gr_utxos = [sample_utxo_at 0], gr_tip_height = 200\<rparr>
     [(\<lparr>rinfo_name = 9, rinfo_decimals = 2, rinfo_block = 3, rinfo_tx = 4\<rparr>, 500)]"
  unfolding mintable_def
  by (intro exI[of _ "''bc1''"] exI[of _ "[sample_utxo_at 0]"]
      exI[of _ "[(9, \<lparr>rinfo_name = 9, rinfo_decimals = 2, rinfo_block = 3, rinfo_tx = 4\<rparr>)]"] conjI; code_simp)

lemma one_deposit_ops:
  "sr_ops one_deposit = snd (new_operation rune_complete 5 (RuneDeposit (sample_deposit DepositScheduled)) (with_memory None 0))"
  by (simp add: one_deposit_def sample_rune_state_def)

lemma one_deposit_only:
  "find_operation (sr_ops one_deposit) j =
     (if j = 0 then Some (5, RuneDeposit (sample_deposit DepositScheduled)) else None)"
  by (simp add: one_deposit_ops new_operation_def next_id_def with_memory_def find_operation_def get_entry_def
      omap_insert_def sample_deposit_def deposit_complete_def)

lemma one_deposit_inv: "rune_inv one_deposit"
  using sample_rune_ok[of "[RuneDeposit (sample_deposit DepositScheduled)]"]
  by (simp add: rune_inv_def rune_ok_def one_deposit_def sample_rune_state_def rune_default_state_def ledger_inv_def
      ledger_default_def)

theorem rune_deposit_completes_witness:
  "\<exists>s1 s2 tx. run_task (rune_execute rune_send_env sample_rune_env (\<lambda>_ _ s. s) (DepositTask 0)) one_deposit = (Ok (), s1) \<and>
     run_task (rune_execute rune_send_env sample_rune_env (\<lambda>_ _ s. s) (RuneRemoveMintOrder
       \<lparr>me_amount = 500, me_from_token = [], me_sender_id = [], me_to_erc20 = 8, me_recipient = 5,
        me_nonce = sr_nonce one_deposit\<rparr>)) s1 = (Ok (), s2) \<and>
     find_operation (sr_ops s2) 0 = Some (5, RuneDeposit (sample_deposit (DepositMinted [(9, 500, tx)])))"
proof -
  have ready: "btc_signer_ready one_deposit" by code_simp
  have find: "find_operation (sr_ops one_deposit) 0 = Some (5, RuneDeposit (sample_deposit DepositScheduled))"
    by (simp add: one_deposit_only)
  have room: "length (operations_log (sr_ops one_deposit)) < unat (max_operation_log_size (sr_ops one_deposit))"
    by (simp add: one_deposit_ops new_operation_def next_id_def with_memory_def default_store_options_def
        sample_deposit_def deposit_complete_def)
  have stored: "not_stored (sr_ledger one_deposit) (gr_utxos \<lparr>gr_utxos = [sample_utxo_at 0], gr_tip_height = 200\<rparr>)"
    by code_simp
  have sign: "env_encode_and_sign rune_send_env order \<noteq> None" for order
    by (simp add: rune_send_env_def rune_sign_env_def)
  have "can_send rune_send_env one_deposit"
    by (simp add: can_send_def rune_send_env_def one_deposit_def)
  note completes = rune_deposit_completes[OF one_deposit_inv ready find _ _ one_deposit_mintable stored _ sign this _ room]
  show ?thesis
    using completes[of "\<lparr>me_amount = 500, me_from_token = [], me_sender_id = [], me_to_erc20 = 8, me_recipient = 5,
        me_nonce = sr_nonce one_deposit\<rparr>"]
    by (simp add: one_deposit_only sample_utxo_at_def sample_deposit_def)
qed

end
