(* ===== verification/Rune_Queries.thy ===== *)
theory Rune_Queries
  imports Rune_Canister
begin

text \<open>
  The client of the \<open>ord\<close> indexer (\<open>rune-bridge/src/core/index_provider.rs\<close>) and \<open>create_edict_tx\<close> of the
  canister, which builds an unsigned transaction for its caller. The HTTP outcall, the JSON parser and
  \<open>hex\<close> are parameters.
\<close>

section \<open>The indexer\<close>

text \<open>\<open>SpacedRune\<close>; \<open>OutputResponse\<close>, of a \<open>Pile\<close> the amount.\<close>

record spaced_rune =
  sp_rune :: rune_name
  sp_spacers :: u32

record output_response =
  or_address :: string
  or_runes :: "(spaced_rune \<times> u128) list"
  or_spent :: bool

record http_get =
  hg_url :: string
  hg_max_response_bytes :: "u64 option"
  hg_headers :: "(string \<times> string) list"

text \<open>The management canister's answer to a request with the given cycles, and the parsers.\<close>

record indexer =
  ix_http_request :: "http_get \<Rightarrow> u128 \<Rightarrow> bytes option"
  ix_output_of :: "bytes \<Rightarrow> output_response option"
  ix_runes_of :: "bytes \<Rightarrow> (rune_id \<times> spaced_rune \<times> u8) list option"
  ix_hex :: "bytes \<Rightarrow> string"

definition CYCLES_PER_HTTP_REQUEST :: u128 where
  "CYCLES_PER_HTTP_REQUEST = 500000000"

definition MAX_RESPONSE_BYTES :: u64 where
  "MAX_RESPONSE_BYTES = 10000"

definition ord_http_request ::
  "indexer \<Rightarrow> (bytes \<Rightarrow> 'a option) \<Rightarrow> string \<Rightarrow> string \<Rightarrow> deposit_error + 'a"
where
  "ord_http_request ix parse url uri =
     (case ix_http_request ix \<lparr>hg_url = url @ ''/'' @ uri, hg_max_response_bytes = Some MAX_RESPONSE_BYTES,
          hg_headers = [(''Accept'', ''application/json'')]\<rparr> CYCLES_PER_HTTP_REQUEST of
        None \<Rightarrow> Inl DeUnavailable
      | Some body \<Rightarrow> (case parse body of None \<Rightarrow> Inl DeUnavailable | Some r \<Rightarrow> Inr r))"

text \<open>The decimal text of a number\<close>

fun show_nat :: "nat \<Rightarrow> string" where
  "show_nat n = (if n < 10 then [] else show_nat (n div 10)) @ [char_of (48 + n mod 10)]"

declare show_nat.simps [simp del]

definition format_outpoint :: "(bytes \<Rightarrow> string) \<Rightarrow> ic_outpoint \<Rightarrow> string" where
  "format_outpoint hex op = hex (rev (iop_txid op)) @ '':'' @ show_nat (unat (iop_vout op))"

definition get_tx_outputs :: "indexer \<Rightarrow> string \<Rightarrow> ic_utxo \<Rightarrow> deposit_error + output_response" where
  "get_tx_outputs ix url utxo =
     ord_http_request ix (ix_output_of ix) url (''output/'' @ format_outpoint (ix_hex ix) (iu_outpoint utxo))"

definition get_rune_list :: "indexer \<Rightarrow> string \<Rightarrow> deposit_error + (rune_id \<times> spaced_rune \<times> u8) list" where
  "get_rune_list ix url = ord_http_request ix (ix_runes_of ix) url ''runes''"

text \<open>What the deposits get from this client.\<close>

definition with_indexer :: "indexer \<Rightarrow> string \<Rightarrow> rune_env \<Rightarrow> rune_env" where
  "with_indexer ix url rn = rn\<lparr>
     rn_rune_outputs := \<lambda>utxo. (case get_tx_outputs ix url utxo of
         Inl _ \<Rightarrow> None | Inr r \<Rightarrow> Some (map (\<lambda>(sp, amount). (sp_rune sp, amount)) (or_runes r))),
     rn_runes := (case get_rune_list ix url of
         Inl _ \<Rightarrow> None | Inr l \<Rightarrow> Some (map (\<lambda>(i, sp, d). (i, sp_rune sp, d)) l))\<rparr>"

section \<open>Unsigned transactions\<close>

record create_edict_tx_args =
  ce_from_address :: bytes
  ce_destination :: bytes
  ce_rune_name :: string
  ce_amount :: u128
  ce_change_address :: "bytes option"

text \<open>\<open>create_edict_tx\<close>, every error of which is a panic; the text of a rune and the encoding are given.\<close>

definition create_edict_tx ::
  "indexer \<Rightarrow> rune_env \<Rightarrow> (spaced_rune \<Rightarrow> string) \<Rightarrow> (btc_transaction \<Rightarrow> bytes) \<Rightarrow>
     (nat \<Rightarrow> rune_state \<Rightarrow> rune_state) \<Rightarrow> create_edict_tx_args \<Rightarrow> (rune_state, bytes) task"
where
  "create_edict_tx ix rn show_rune encode aw args =
     andThen (unwrap (rn_parse_address rn (ce_from_address args))) (\<lambda>from_addr.
     andThen (unwrap (rn_parse_address rn (ce_destination args))) (\<lambda>to_addr.
     andThen (unwrap (case ce_change_address args of
       None \<Rightarrow> Some from_addr | Some a \<Rightarrow> rn_parse_address rn a)) (\<lambda>change_addr.
     andThen (reading (\<lambda>s. indexer_url (sr_config s))) (\<lambda>url.
     andThen (answer (aw 0) (get_rune_list ix url)) (\<lambda>r.
     andThen (unwrap (case r of Inl _ \<Rightarrow> None | Inr l \<Rightarrow> Some l)) (\<lambda>runes_list.
     andThen (unwrap (List.find (\<lambda>(_, sp, _). ce_rune_name args = show_rune sp) runes_list)) (\<lambda>(rune, _, _).
     andThen (reading (\<lambda>s. rc_network (sr_config s))) (\<lambda>network.
     andThen (answer (aw 1) (rn_get_utxos rn from_addr)) (\<lambda>r.
     andThen (unwrap r) (\<lambda>input_utxos.
     andThen (unwrap (those (map (funding_input (rn_script_pubkey rn from_addr) []) (gr_utxos input_utxos)))) (\<lambda>inputs.
     andThen (answer (aw 2) (get_fee_rate rn network)) (\<lambda>r.
     andThen (unwrap (case r of Inl _ \<Rightarrow> None | Inr f \<Rightarrow> Some f)) (\<lambda>fee_rate.
     andThen (reading (\<lambda>s. sr_master_key s \<and> btc_signer_ready s)) (\<lambda>ready.
     if \<not> ready then panic
     else andThen (unwrap (rn_create_edict_tx rn \<lparr>ed_rune = rune, ed_inputs = inputs, ed_destination = to_addr,
         ed_change_address = change_addr, ed_rune_change_address = change_addr, ed_amount = ce_amount args,
         ed_fee_rate = fee_rate\<rparr>)) (\<lambda>unsigned_tx.
       return (encode unsigned_tx))))))))))))))))"

text \<open>\<open>get_evm_address\<close>\<close>

definition rune_get_evm_address ::
  "'v bridge_env \<Rightarrow> (rune_state \<Rightarrow> rune_state) \<Rightarrow> (rune_state, h160 option) task"
where
  "rune_get_evm_address env aw = answer aw (env_signer_address env)"

section \<open>Outputs are asked for one by one\<close>

definition read_digits :: "string \<Rightarrow> nat" where
  "read_digits s = foldl (\<lambda>n c. n * 10 + (of_char c - 48)) 0 s"

lemma read_show_nat: "read_digits (show_nat n) = n"
proof (induction n rule: show_nat.induct)
  case (1 n)
  have "(of_char (char_of (48 + n mod 10) :: char) :: nat) = 48 + n mod 10" by simp
  then show ?case
    using 1 by (subst show_nat.simps) (simp add: read_digits_def)
qed

lemma show_nat_inj: "show_nat m = show_nat n \<Longrightarrow> m = n"
  by (metis read_show_nat)

text \<open>\<open>hex\<close>: different bytes have different texts, without a colon.\<close>

definition hex_laws :: "(bytes \<Rightarrow> string) \<Rightarrow> bool" where
  "hex_laws hex \<longleftrightarrow> inj hex \<and> (\<forall>bs. CHR '':'' \<notin> set (hex bs))"

lemma split_colon:
  "CHR '':'' \<notin> set a \<Longrightarrow> CHR '':'' \<notin> set b \<Longrightarrow> a @ '':'' @ c = b @ '':'' @ d \<Longrightarrow> a = b \<and> c = d"
  by (auto simp: append_eq_append_conv2 append_eq_Cons_conv Cons_eq_append_conv)

text \<open>Different outputs have different texts, so the indexer is never asked for another output.\<close>

theorem format_outpoint_inj:
  assumes "hex_laws hex" and "format_outpoint hex a = format_outpoint hex b"
  shows "a = b"
proof -
  have "hex (rev (iop_txid a)) = hex (rev (iop_txid b)) \<and> show_nat (unat (iop_vout a)) = show_nat (unat (iop_vout b))"
    using assms unfolding format_outpoint_def hex_laws_def by (intro split_colon) blast+
  then show ?thesis
    using assms(1) by (auto simp: hex_laws_def word_unat_eq_iff dest!: injD show_nat_inj intro!: ic_outpoint.equality)
qed

lemma get_rune_amounts_indexer:
  "get_rune_amounts (with_indexer ix url rn) utxo = (case get_tx_outputs ix url utxo of
     Inl _ \<Rightarrow> None | Inr r \<Rightarrow> Some (collect_map (map (\<lambda>(sp, amount). (sp_rune sp, amount)) (or_runes r))))"
  by (simp add: get_rune_amounts_def with_indexer_def split: sum.split)

section \<open>What an unsigned transaction spends\<close>

text \<open>
  A transaction that is returned is for the first rune of the list with the name, spends all outputs of the
  sender, and its change goes to the change address, or back to the sender. The bridge's state is left
  as the awaited calls found it.
\<close>

theorem create_edict_tx_returns:
  assumes "run_task (create_edict_tx ix rn show_rune encode aw args) s = (Ok bytes, s')"
  shows "\<exists>from_addr runes rune sp d resp inputs fee tx.
    rn_parse_address rn (ce_from_address args) = Some from_addr \<and>
    get_rune_list ix (indexer_url (sr_config s)) = Inr runes \<and>
    List.find (\<lambda>(_, sp, _). ce_rune_name args = show_rune sp) runes = Some (rune, sp, d) \<and>
    rn_get_utxos rn from_addr = Some resp \<and>
    map Some inputs = map (funding_input (rn_script_pubkey rn from_addr) []) (gr_utxos resp) \<and>
    get_fee_rate rn (rc_network (sr_config (aw 0 s))) = Inr fee \<and>
    rn_create_edict_tx rn \<lparr>ed_rune = rune, ed_inputs = inputs,
      ed_destination = the (rn_parse_address rn (ce_destination args)),
      ed_change_address = (case ce_change_address args of None \<Rightarrow> from_addr | Some a \<Rightarrow> the (rn_parse_address rn a)),
      ed_rune_change_address = (case ce_change_address args of None \<Rightarrow> from_addr | Some a \<Rightarrow> the (rn_parse_address rn a)),
      ed_amount = ce_amount args, ed_fee_rate = fee\<rparr> = Some tx \<and>
    bytes = encode tx \<and> s' = aw 2 (aw 1 (aw 0 s))"
proof -
  have those: "those xs = Some ys \<Longrightarrow> map Some ys = xs" for xs :: "'z option list" and ys
    by (induction xs arbitrary: ys) (auto split: option.splits)
  have unwrap: "unwrap x cs = (Ok v, cs') \<longleftrightarrow> x = Some v \<and> cs = cs'"
    for x :: "'z option" and cs cs' :: "rune_state \<times> rune_state" and v
    by (cases x) (auto simp: task_simps)
  show ?thesis
    using assms
    by (auto simp: run_task_def create_edict_tx_def task_simps unwrap dest!: those
        split: option.splits sum.splits prod.splits outcome.splits if_splits)
qed

end
