(* ===== verification/Upgrade.thy ===== *)
theory Upgrade
  imports Rune_Invariant Btc_Bridge
begin

text \<open>
  Upgrades of the rune bridge and of the BTC bridge (\<open>post_upgrade\<close> of their canisters). An upgrade
  keeps stable memory only: the stores, the ledger and the pending tasks. The rest of \<open>State\<close> lives
  in a \<open>thread_local\<close> and starts from its default again; no code saves it, and \<open>post_upgrade\<close> only sets
  the timers. Shown: neither bridge works after an upgrade, and nobody can configure it again.
\<close>

section \<open>The rune bridge\<close>

definition rune_upgrade :: "rune_state \<Rightarrow> rune_state" where
  "rune_upgrade s = rune_default_state\<lparr>sr_ledger := sr_ledger s, sr_ops := sr_ops s, sr_tasks := sr_tasks s\<rparr>"

text \<open>
  What the canister does between two upgrades: timers, pending tasks with other steps in between their
  calls, and calls. The management canister, the default admin, makes no such calls.
\<close>

inductive rune_steps :: "rune_state \<Rightarrow> rune_state \<Rightarrow> bool" where
  idle: "rune_steps s s"
| timer: "rune_steps s t \<Longrightarrow> rune_steps s (rune_timer t)"
| task: "rune_steps s t \<Longrightarrow> (task, opts) \<in> set (sr_tasks t) \<Longrightarrow> (\<And>k j x. rune_steps x (aw k j x)) \<Longrightarrow>
    run_task (rune_execute (env :: u256 bridge_env) rn aw task) t = (r, u) \<Longrightarrow> rune_steps s u"
| cleanup: "rune_steps s t \<Longrightarrow> (\<And>j x. rune_steps x (aw1 j x)) \<Longrightarrow>
    run_task (remove_used_utxos_task rn aw1) t = (r, u) \<Longrightarrow> rune_steps s u"
| balances: "rune_steps s t \<Longrightarrow> (\<And>j x. rune_steps x (aw1 j x)) \<Longrightarrow>
    run_task (get_rune_balances rn aw1 address) t = (r2, u) \<Longrightarrow> rune_steps s u"
| ecdsa: "rune_steps s t \<Longrightarrow> caller \<noteq> ManagementCanister \<Longrightarrow> (\<And>x. rune_steps x (aw0 x)) \<Longrightarrow>
    run_task (admin_configure_ecdsa caller aw0 ok) t = (r, u) \<Longrightarrow> rune_steps s u"
| bft: "rune_steps s t \<Longrightarrow> caller \<noteq> ManagementCanister \<Longrightarrow>
    rune_admin_configure_bft_bridge caller cfg t = (r3, u) \<Longrightarrow> rune_steps s u"

text \<open>Not configured, nothing pending that would configure it, and the number of the next operation.\<close>

definition rune_stopped :: "u64 \<Rightarrow> rune_state \<Rightarrow> bool" where
  "rune_stopped n s \<longleftrightarrow> sr_config s = rune_default_config \<and> sr_bft s = sr_bft rune_default_state \<and>
     sr_params s = None \<and> \<not> sr_master_key s \<and> RuneInitEvmState \<notin> fst ` set (sr_tasks s) \<and>
     operation_id_counter (sr_ops s) = n"

interpretation stopped: rune_invariant "rune_stopped n"
  by unfold_locales
    (auto simp: rune_stopped_def rune_append_tasks_def rune_ops_update_def ledger_mod_def)

lemma rune_stopped_ledger [simp]: "rune_stopped n (ledger_mod f s) = rune_stopped n s"
  by (simp add: rune_stopped_def ledger_mod_def)

lemma withdraw_stopped:
  assumes "keeps (rune_stopped n) aw"
  shows "maintains (rune_stopped n) (withdraw rn aw i)"
proof -
  have "maintains (rune_stopped n) (record_sent rn network i p dst utxos tx)" for network p dst utxos tx
    unfolding record_sent_def
    by (auto intro!: maintains_intros stopped.update_inv simp: set_withdrawal_status_def split: option.split)
  then show ?thesis
    unfolding withdraw_def build_withdraw_transaction_def send_tx_def Let_def
    by (auto intro!: maintains_intros keepsD[OF assms] stopped.update_inv
        simp: set_withdrawal_status_def split: option.split rune_operation.split outcome.split)
qed

lemma cleanup_stopped:
  assumes "keeps (rune_stopped n) aw"
  shows "maintains (rune_stopped n) (remove_used_utxos_task rn aw)"
proof -
  have "maintains (rune_stopped n) (check_owners rn aw m groups)" if "keeps (rune_stopped n) aw" for aw m groups
    using that
  proof (induction groups arbitrary: aw)
    case (Cons g groups)
    show ?case
      using Cons.IH[OF keeps_shift[OF Cons.prems]]
      by (cases g) (auto intro!: maintains_intros keepsD[OF Cons.prems] split: option.split)
  qed (simp add: maintains_intros)
  then show ?thesis
    unfolding remove_used_utxos_task_def using assms
    by (auto intro!: maintains_intros simp: case_prod_beta)
qed

lemma rune_execute_stopped:
  assumes "\<And>k. keeps (rune_stopped n) (aw k)" and "task \<noteq> RuneInitEvmState"
    and "rune_stopped n c" and "rune_stopped n s"
  shows "wp (rune_execute env rn aw task) (\<lambda>_ c' s'. rune_stopped n c' \<and> rune_stopped n s') c s"
proof (cases task)
  case RuneCollectEvmEvents
  then show ?thesis
    using assms(3,4) by (simp add: rune_collect_evm_events_def wp_simps rune_evm_info_def rune_stopped_def)
next
  case (DepositTask i)
  have "maintains (rune_stopped n) (rune_deposit_task env rn aw i)"
    unfolding rune_deposit_task_def
    by (auto intro!: maintains_intros stopped.process_deposit_request_inv assms(1))
  then show ?thesis using DepositTask assms(3,4) by (simp add: maintains_def)
next
  case (RuneRemoveMintOrder minted)
  have "maintains (rune_stopped n) (rune_remove_mint_order minted)"
    unfolding rune_remove_mint_order_def complete_mint_request_def
    by (auto intro!: maintains_intros stopped.complete_in_requests_inv)
  then show ?thesis using RuneRemoveMintOrder assms(3,4) by (simp add: maintains_def)
next
  case (WithdrawTask i)
  have "maintains (rune_stopped n) (rune_execute env rn aw (WithdrawTask i))"
    by (auto intro!: maintains_intros withdraw_stopped assms(1) split: sum.split)
  then show ?thesis using WithdrawTask assms(3,4) by (simp add: maintains_def)
qed (use assms(2) in simp)

lemma balances_stopped:
  assumes "keeps (rune_stopped n) aw"
  shows "maintains (rune_stopped n) (get_rune_balances rn aw address)"
  unfolding get_rune_balances_def
  by (auto intro!: maintains_intros stopped.get_deposit_utxos_inv[OF assms]
      stopped.get_mint_amounts_inv[OF keeps_shift[OF assms]] split: sum.split)

lemma rune_steps_stopped: "rune_steps s t \<Longrightarrow> rune_stopped n s \<Longrightarrow> rune_stopped n t"
proof (induction rule: rune_steps.induct)
  case (timer s t)
  then show ?case by (auto simp: rune_stopped_def rune_timer_def rune_append_tasks_def)
next
  case (task s t task opts aw env rn r u)
  have stopped: "keeps (rune_stopped n) (aw k)" "rune_stopped n t" for k using task by (simp_all add: keeps_def)
  moreover have "task \<noteq> RuneInitEvmState"
    using task.hyps(2) stopped(2) by (auto simp: rune_stopped_def image_iff)
  ultimately show ?case
    using run_task_wpD[OF task.hyps(4), where P = "\<lambda>_. rune_stopped n", OF wp_mono[OF rune_execute_stopped[where n = n]]]
    by simp
next
  case (cleanup s t aw1 rn r u)
  then have "keeps (rune_stopped n) aw1" by (simp add: keeps_def)
  from maintains_run[OF cleanup_stopped[OF this] _ cleanup.hyps(3)] show ?case using cleanup by simp
next
  case (balances s t aw1 rn address r2 u)
  then have "keeps (rune_stopped n) aw1" by (simp add: keeps_def)
  from maintains_run[OF balances_stopped[OF this] _ balances.hyps(3)] show ?case using balances by simp
next
  case (ecdsa s t caller aw0 ok r u)
  then show ?case
    by (auto simp: run_task_def admin_configure_ecdsa_def rune_check_admin_def rune_stopped_def
        rune_default_config_def task_simps)
next
  case (bft s t caller cfg r3 u)
  then show ?case
    by (auto simp: rune_admin_configure_bft_bridge_def rune_check_admin_def rune_stopped_def rune_default_config_def)
qed simp

text \<open>
  C9: An upgrade stops the rune bridge. Once its initialisation task has run, whatever happens after an
  upgrade the EVM parameters stay unknown, the bridge contract unset and the master key missing, no
  operation is ever created again, and every configuration by a caller is refused: the configuration is
  not in stable memory and the default admin is the management canister.
\<close>

theorem rune_upgrade_stops:
  assumes "RuneInitEvmState \<notin> fst ` set (sr_tasks s)" and "rune_steps (rune_upgrade s) t"
  shows "sr_params t = None \<and> rbf_bridge_address (sr_bft t) = 0 \<and> \<not> sr_master_key t \<and>
    operation_id_counter (sr_ops t) = operation_id_counter (sr_ops s) \<and>
    (\<forall>caller cfg. caller \<noteq> ManagementCanister \<longrightarrow> rune_admin_configure_bft_bridge caller cfg t = (Panic, t))"
proof -
  have "rune_stopped (operation_id_counter (sr_ops s)) (rune_upgrade s)"
    using assms(1) by (simp add: rune_stopped_def rune_upgrade_def rune_default_state_def)
  from rune_steps_stopped[OF assms(2) this] show ?thesis
    by (simp add: rune_stopped_def rune_default_state_def rune_default_config_def
        rune_admin_configure_bft_bridge_def rune_check_admin_def)
qed

text \<open>The default state with a configured contract, and a timer after the upgrade.\<close>

theorem rune_upgrade_stops_witness:
  "sr_params (rune_timer (rune_upgrade (rune_default_state\<lparr>sr_bft := \<lparr>rbf_erc20_chain_id = 1, rbf_bridge_address = 9\<rparr>\<rparr>))) = None \<and>
   rune_admin_configure_bft_bridge (Principal [1]) \<lparr>rbf_erc20_chain_id = 1, rbf_bridge_address = 9\<rparr>
     (rune_timer (rune_upgrade (rune_default_state\<lparr>sr_bft := \<lparr>rbf_erc20_chain_id = 1, rbf_bridge_address = 9\<rparr>\<rparr>))) =
   (Panic, rune_timer (rune_upgrade (rune_default_state\<lparr>sr_bft := \<lparr>rbf_erc20_chain_id = 1, rbf_bridge_address = 9\<rparr>\<rparr>)))"
  using rune_upgrade_stops[OF _ timer[OF idle], of "rune_default_state\<lparr>sr_bft := \<lparr>rbf_erc20_chain_id = 1, rbf_bridge_address = 9\<rparr>\<rparr>"]
  by (simp add: rune_default_state_def)

section \<open>The BTC bridge\<close>

definition btc_upgrade :: "btc_state \<Rightarrow> btc_state" where
  "btc_upgrade s = btc_default_state\<lparr>sb_orders := sb_orders s, sb_burns := sb_burns s, sb_tasks := sb_tasks s,
     sb_sent := sb_sent s\<rparr>"

inductive btc_steps :: "btc_state \<Rightarrow> btc_state \<Rightarrow> bool" where
  btc_idle: "btc_steps s s"
| btc_tick: "btc_steps s t \<Longrightarrow> btc_steps s (btc_timer t)"
| btc_run: "btc_steps s t \<Longrightarrow> (task, opts) \<in> set (sb_tasks t) \<Longrightarrow> (\<And>j x. btc_steps x (aw j x)) \<Longrightarrow>
    run_task (btc_execute (env :: u256 bridge_env) ck aw task) t = (r, u) \<Longrightarrow> btc_steps s u"
| btc_deposit: "btc_steps s t \<Longrightarrow> (\<And>j x. btc_steps x (aw j x)) \<Longrightarrow>
    run_task (btc_to_erc20 (env :: u256 bridge_env) ck aw address) t = (r2, u) \<Longrightarrow> btc_steps s u"
| btc_admin: "btc_steps s t \<Longrightarrow> caller \<noteq> ManagementCanister \<Longrightarrow>
    admin_configure_bft_bridge caller cfg t = (r3, u) \<Longrightarrow> btc_steps s u"

text \<open>Not configured, and no withdrawals but those of \<open>B\<close>.\<close>

definition btc_stopped :: "burnt_event_data set \<Rightarrow> btc_state \<Rightarrow> bool" where
  "btc_stopped B s \<longleftrightarrow> sb_config s = btc_default_config \<and> sb_bft s = bft_default_config \<and> sb_params s = None \<and>
     BtcInitEvmState \<notin> fst ` set (sb_tasks s) \<and> {b. MintBtc b \<in> fst ` set (sb_tasks s)} \<subseteq> B"

lemma btc_stopped_simps [simp]:
  "btc_stopped B (s\<lparr>sb_params := map_option f (sb_params s)\<rparr>) = btc_stopped B s"
  "btc_stopped B (s\<lparr>sb_sent := x\<rparr>) = btc_stopped B s" "btc_stopped B (s\<lparr>sb_orders := y\<rparr>) = btc_stopped B s"
  "btc_stopped B (burns_mod g s) = btc_stopped B s" "btc_stopped B (store_mint_order cd order a n s) = btc_stopped B s"
  "btc_stopped B (schedule_mint a s) = btc_stopped B s" "btc_stopped B (btc_timer s) = btc_stopped B s"
  by (auto simp: btc_stopped_def burns_mod_def store_mint_order_def schedule_mint_def btc_timer_def btc_append_tasks_def)

lemma transfer_stopped:
  assumes "keeps (btc_stopped B) aw"
  shows "maintains (btc_stopped B) (ask_transfer ck (aw n) arg)"
  unfolding ask_transfer_def by (auto intro!: maintains_intros keepsD[OF assms])

lemma mint_erc20_stopped:
  assumes "keeps (btc_stopped B) aw"
  shows "maintains (btc_stopped B) (mint_erc20 env ck aw a amount n)"
proof -
  note keep = keepsD[OF assms] keepsD[OF keeps_shift[OF assms]]
  have "maintains (btc_stopped B) (send_mint_order env (\<lambda>k. aw (k + 2)) order)" for order
    unfolding send_mint_order_def Let_def
    by (auto intro!: maintains_intros keep split: option.split outcome.split)
  then show ?thesis
    unfolding mint_erc20_def btc_prepare_mint_order_def transfer_ckbtc_from_subaccount_def Let_def
    by (auto intro!: maintains_intros transfer_stopped[OF assms] keep split: sum.split option.split)
qed

lemma mint_utxos_stopped: "keeps (btc_stopped B) aw \<Longrightarrow> maintains (btc_stopped B) (mint_utxos env ck aw a us)"
proof (induction us arbitrary: aw)
  case (Cons u us)
  show ?case
    using Cons.IH[OF keeps_shift[OF Cons.prems]]
    by (auto intro!: maintains_intros mint_erc20_stopped[OF Cons.prems] split: utxo_status.split)
qed (simp add: maintains_intros)

lemma btc_to_erc20_stopped:
  assumes "keeps (btc_stopped B) aw"
  shows "maintains (btc_stopped B) (btc_to_erc20 env ck aw a)"
  unfolding btc_to_erc20_def request_update_balance_def
  by (auto intro!: maintains_intros keepsD[OF assms] mint_utxos_stopped[OF keeps_shift[OF assms]]
      split: sum.split update_balance_error.split option.split)

lemma burn_ckbtc_stopped:
  assumes "keeps (btc_stopped B) aw"
  shows "maintains (btc_stopped B) (burn_ckbtc ck aw i address amount)"
  unfolding burn_ckbtc_def get_ckbtc_withdrawal_account_def transfer_ckbtc_def request_btc_withdrawal_def Let_def
  by (auto intro!: maintains_intros keepsD[OF assms] transfer_stopped[OF assms] split: sum.split option.split)

lemma btc_execute_stopped:
  assumes "keeps (btc_stopped B) aw" and "task \<noteq> BtcInitEvmState" and "btc_stopped B c" and "btc_stopped B s"
  shows "wp (btc_execute env ck aw task) (\<lambda>_ c' s'. btc_stopped B c' \<and> btc_stopped B s') c s"
proof (cases task)
  case BtcCollectEvmEvents
  then show ?thesis
    using assms(3,4) by (simp add: btc_collect_evm_events_def wp_simps btc_evm_info_def btc_stopped_def)
next
  case (BtcRemoveMintOrder minted)
  have "maintains (btc_stopped B) (btc_remove_mint_order (env_codec env) minted)"
    unfolding btc_remove_mint_order_def by (auto intro!: maintains_intros)
  then show ?thesis using BtcRemoveMintOrder assms(3,4) by (simp add: maintains_def)
next
  case (MintErc20 address)
  have "maintains (btc_stopped B) (andThen (btc_to_erc20 env ck (\<lambda>k. aw (k + 2)) address) (\<lambda>_. return ()))"
    by (intro maintains_intros btc_to_erc20_stopped[OF keeps_shift[OF assms(1)]])
  moreover have "wp (andThen (btc_update_evm_params env aw) k) Q c s = wp (k ()) Q c s"
    for k :: "unit \<Rightarrow> (btc_state, unit) task" and Q
    using assms(4) by (simp add: btc_update_evm_params_def wp_simps btc_evm_info_def btc_stopped_def)
  ultimately show ?thesis
    using MintErc20 assms(3,4) unfolding maintains_def by simp
next
  case (MintBtc burnt)
  have "maintains (btc_stopped B) (btc_execute env ck aw (MintBtc burnt))"
    by (auto intro!: maintains_intros burn_ckbtc_stopped[OF assms(1)] split: option.split sum.split)
  then show ?thesis using MintBtc assms(3,4) by (simp add: maintains_def)
qed (use assms(2) in simp)

lemma btc_steps_stopped: "btc_steps s t \<Longrightarrow> btc_stopped B s \<Longrightarrow> btc_stopped B t"
proof (induction rule: btc_steps.induct)
  case (btc_run s t task opts aw env ck r u)
  have stopped: "keeps (btc_stopped B) aw" "btc_stopped B t" using btc_run by (simp_all add: keeps_def)
  moreover have "task \<noteq> BtcInitEvmState"
    using btc_run.hyps(2) stopped(2) by (auto simp: btc_stopped_def image_iff)
  ultimately show ?case
    using run_task_wpD[OF btc_run.hyps(4), where P = "\<lambda>_. btc_stopped B", OF wp_mono[OF btc_execute_stopped[where B = B]]]
    by simp
next
  case (btc_deposit s t aw env ck address r2 u)
  then have "keeps (btc_stopped B) aw" by (simp add: keeps_def)
  from maintains_run[OF btc_to_erc20_stopped[OF this] _ btc_deposit.hyps(3)] show ?case using btc_deposit by simp
next
  case (btc_admin s t caller cfg r3 u)
  then show ?case
    by (auto simp: admin_configure_bft_bridge_def btc_check_admin_def btc_stopped_def btc_default_config_def)
qed simp_all

text \<open>
  C10: An upgrade stops the BTC bridge. Once its initialisation task has run, whatever happens after an
  upgrade the EVM parameters stay unknown, no burn is collected again (the withdrawals in the
  scheduler are those from before), and every configuration by a caller is refused.
\<close>

theorem btc_upgrade_stops:
  assumes "BtcInitEvmState \<notin> fst ` set (sb_tasks s)" and "btc_steps (btc_upgrade s) t"
  shows "sb_params t = None \<and> bf_bridge_address (sb_bft t) = 0 \<and>
    (\<forall>b. MintBtc b \<in> fst ` set (sb_tasks t) \<longrightarrow> MintBtc b \<in> fst ` set (sb_tasks s)) \<and>
    (\<forall>caller cfg. caller \<noteq> ManagementCanister \<longrightarrow> admin_configure_bft_bridge caller cfg t = (Panic, t))"
proof -
  have "btc_stopped {b. MintBtc b \<in> fst ` set (sb_tasks s)} (btc_upgrade s)"
    using assms(1) by (simp add: btc_stopped_def btc_upgrade_def btc_default_state_def)
  from btc_steps_stopped[OF assms(2) this] show ?thesis
    by (auto simp: btc_stopped_def btc_default_config_def bft_default_config_def
        admin_configure_bft_bridge_def btc_check_admin_def)
qed

theorem btc_upgrade_stops_witness:
  "sb_params (btc_timer (btc_upgrade (btc_default_state\<lparr>sb_params := Some (sample_params 1)\<rparr>))) = None"
  using btc_upgrade_stops[OF _ btc_tick[OF btc_idle], of "btc_default_state\<lparr>sb_params := Some (sample_params 1)\<rparr>"]
  by (simp add: btc_default_state_def)

end
