(* ===== verification/Log_Settings.thy ===== *)
theory Log_Settings
  imports Icrc2_Minter
begin

text \<open>
  The logger settings of the ICRC-2 bridge and of the ERC-20 bridge (\<open>state/log.rs\<close> of both) and the
  stored signer (\<open>icrc2-minter/src/state/signer.rs\<close>). The settings are in stable memory, the running
  logger is not. The logger of \<open>ic_log\<close> and the making of a signer are parameters.
\<close>

section \<open>Settings and loggers\<close>

text \<open>\<open>LogSettings\<close>: the filter and what the bridges do not look at.\<close>

record 'r log_settings =
  ls_log_filter :: "string option"
  ls_rest :: 'r

text \<open>\<open>ic_log\<close>: whether settings fit the stable cell, \<open>init_log\<close> and \<open>update_filters\<close>.\<close>

record ('r, 'c) log_env =
  le_storable :: "'r log_settings \<Rightarrow> bool"
  le_init_log :: "'r log_settings \<Rightarrow> 'c option"
  le_update_filters :: "string \<Rightarrow> 'c \<Rightarrow> 'c"
  le_default :: "'r log_settings"

record ('r, 'c) logger_config_service =
  lg_settings :: "'r log_settings"
  lg_config :: "'c option"

definition logger_default :: "('r, 'c) log_env \<Rightarrow> ('r, 'c) logger_config_service" where
  "logger_default env = \<lparr>lg_settings = le_default env, lg_config = None\<rparr>"

datatype log_error = LoggerAlreadyInitialized | LogStorageError | LoggerInitError | LoggerNotInitialized

text \<open>An upgrade keeps stable memory.\<close>

definition logger_upgrade :: "('r, 'c) logger_config_service \<Rightarrow> ('r, 'c) logger_config_service" where
  "logger_upgrade g = g\<lparr>lg_config := None\<rparr>"

section \<open>The ICRC-2 bridge\<close>

definition icrc2_log_reload ::
  "('r, 'c) log_env \<Rightarrow> ('r, 'c) logger_config_service \<Rightarrow> (log_error + unit) \<times> ('r, 'c) logger_config_service"
where
  "icrc2_log_reload env g =
     (if lg_config g \<noteq> None then (Inl LoggerAlreadyInitialized, g)
      else case le_init_log env (lg_settings g) of
        None \<Rightarrow> (Inl LoggerInitError, g)
      | Some c \<Rightarrow> (Inr (), g\<lparr>lg_config := Some c\<rparr>))"

definition icrc2_log_init ::
  "('r, 'c) log_env \<Rightarrow> 'r log_settings \<Rightarrow> ('r, 'c) logger_config_service \<Rightarrow>
     (log_error + unit) \<times> ('r, 'c) logger_config_service"
where
  "icrc2_log_init env log_settings g =
     (if lg_config g \<noteq> None then (Inl LoggerAlreadyInitialized, g)
      else if \<not> le_storable env log_settings then (Inl LogStorageError, g)
      else let g = g\<lparr>lg_settings := log_settings\<rparr> in
        case le_init_log env (lg_settings g) of
          None \<Rightarrow> (Inl LoggerInitError, g)
        | Some c \<Rightarrow> (Inr (), g\<lparr>lg_config := Some c\<rparr>))"

definition icrc2_update_log_settings ::
  "('r, 'c) log_env \<Rightarrow> string \<Rightarrow> ('r, 'c) logger_config_service \<Rightarrow> (log_error + unit) \<times> ('r, 'c) logger_config_service"
where
  "icrc2_update_log_settings env f g = (let log_settings = (lg_settings g)\<lparr>ls_log_filter := Some f\<rparr> in
     if le_storable env log_settings then (Inr (), g\<lparr>lg_settings := log_settings\<rparr>) else (Inl LogStorageError, g))"

definition icrc2_log_set_filter ::
  "('r, 'c) log_env \<Rightarrow> string \<Rightarrow> ('r, 'c) logger_config_service \<Rightarrow> (log_error + unit) \<times> ('r, 'c) logger_config_service"
where
  "icrc2_log_set_filter env f g = (case icrc2_update_log_settings env f g of
       (Inl e, g) \<Rightarrow> (Inl e, g)
     | (Inr _, g) \<Rightarrow> (case lg_config g of
           Some c \<Rightarrow> (Inr (), g\<lparr>lg_config := Some (le_update_filters env f c)\<rparr>)
         | None \<Rightarrow> (Inl LoggerNotInitialized, g)))"

text \<open>
  The canister's \<open>set_logger_filter\<close>: only for the owner. \<open>init\<close> and \<open>post_upgrade\<close> print an error of the
  logger and go on.
\<close>

definition icrc2_set_logger_filter ::
  "('r, 'c) log_env \<Rightarrow> principal \<Rightarrow> icrc2_config \<Rightarrow> string \<Rightarrow> ('r, 'c) logger_config_service \<Rightarrow>
     ((minter_error + log_error) + unit) \<times> ('r, 'c) logger_config_service"
where
  "icrc2_set_logger_filter env caller cfg f g = (case inspect_check_is_owner caller cfg of
       Inl e \<Rightarrow> (Inl (Inl e), g)
     | Inr _ \<Rightarrow> (case icrc2_log_set_filter env f g of (r, g) \<Rightarrow> (map_sum Inr id r, g)))"

definition icrc2_init_logger ::
  "('r, 'c) log_env \<Rightarrow> 'r log_settings option \<Rightarrow> ('r, 'c) logger_config_service \<Rightarrow> ('r, 'c) logger_config_service"
where
  "icrc2_init_logger env log_settings g =
     snd (icrc2_log_init env (case log_settings of None \<Rightarrow> le_default env | Some l \<Rightarrow> l) g)"

definition icrc2_post_upgrade ::
  "('r, 'c) log_env \<Rightarrow> ('r, 'c) logger_config_service \<Rightarrow> ('r, 'c) logger_config_service"
where
  "icrc2_post_upgrade env g = snd (icrc2_log_reload env (logger_upgrade g))"

section \<open>The ERC-20 bridge\<close>

text \<open>Every error is a panic, \<open>None\<close>; \<open>post_upgrade\<close> does not start the logger.\<close>

definition erc20_log_init ::
  "('r, 'c) log_env \<Rightarrow> 'r log_settings \<Rightarrow> ('r, 'c) logger_config_service \<Rightarrow> ('r, 'c) logger_config_service option"
where
  "erc20_log_init env log_settings g =
     (if le_storable env log_settings
      then map_option (\<lambda>c. \<lparr>lg_settings = log_settings, lg_config = Some c\<rparr>) (le_init_log env log_settings)
      else None)"

definition erc20_update_log_settings ::
  "('r, 'c) log_env \<Rightarrow> string \<Rightarrow> ('r, 'c) logger_config_service \<Rightarrow> ('r, 'c) logger_config_service option"
where
  "erc20_update_log_settings env f g = (let log_settings = (lg_settings g)\<lparr>ls_log_filter := Some f\<rparr> in
     if le_storable env log_settings then Some (g\<lparr>lg_settings := log_settings\<rparr>) else None)"

definition erc20_log_set_filter ::
  "('r, 'c) log_env \<Rightarrow> string \<Rightarrow> ('r, 'c) logger_config_service \<Rightarrow> ('r, 'c) logger_config_service option"
where
  "erc20_log_set_filter env f g =
     map_option (\<lambda>g. g\<lparr>lg_config := map_option (le_update_filters env f) (lg_config g)\<rparr>)
       (erc20_update_log_settings env f g)"

definition erc20_init_logger ::
  "('r, 'c) log_env \<Rightarrow> 'r log_settings option \<Rightarrow> ('r, 'c) logger_config_service \<Rightarrow> ('r, 'c) logger_config_service option"
where
  "erc20_init_logger env log_settings g = (case log_settings of None \<Rightarrow> Some g | Some l \<Rightarrow> erc20_log_init env l g)"

definition erc20_post_upgrade :: "('r, 'c) logger_config_service \<Rightarrow> ('r, 'c) logger_config_service" where
  "erc20_post_upgrade g = logger_upgrade g"

section \<open>The signer\<close>

text \<open>\<open>SignerInfo::reset\<close>: an error of \<open>make_signer\<close> leaves the stored signer.\<close>

definition signer_reset :: "('t \<Rightarrow> u32 \<Rightarrow> 's option) \<Rightarrow> 't \<Rightarrow> u32 \<Rightarrow> 's \<Rightarrow> (unit + unit) \<times> 's" where
  "signer_reset make_signer signing_type chain s = (case make_signer signing_type chain of
       None \<Rightarrow> (Inl (), s) | Some signer \<Rightarrow> (Inr (), signer))"

section \<open>Filters and upgrades\<close>

text \<open>
  A filter that the owner set successfully is the filter of the logger after an upgrade: it is made from
  the stored settings with that filter. A second initialisation does not change the settings.
\<close>

theorem icrc2_filter_survives_upgrade:
  assumes "icrc2_set_logger_filter env caller cfg f g = (Inr (), g')"
  shows "caller = cfg2_owner cfg \<and>
    lg_config (icrc2_post_upgrade env g') = le_init_log env ((lg_settings g)\<lparr>ls_log_filter := Some f\<rparr>) \<and>
    icrc2_log_init env l g' = (Inl LoggerAlreadyInitialized, g')"
  using assms
  by (auto simp: icrc2_set_logger_filter_def inspect_check_is_owner_def icrc2_log_set_filter_def
      icrc2_update_log_settings_def icrc2_post_upgrade_def icrc2_log_reload_def logger_upgrade_def icrc2_log_init_def
      Let_def split: sum.splits option.splits prod.splits if_splits)

text \<open>A filter is stored even when the call fails because no logger runs.\<close>

lemma icrc2_filter_stored:
  assumes "icrc2_log_set_filter env f g = (Inl LoggerNotInitialized, g')"
  shows "ls_log_filter (lg_settings g') = Some f \<and> lg_config g' = None"
  using assms
  by (auto simp: icrc2_log_set_filter_def icrc2_update_log_settings_def Let_def
      split: sum.splits option.splits prod.splits if_splits)

text \<open>The ERC-20 bridge has no logger after an upgrade, whatever filters are set later.\<close>

theorem erc20_logger_lost:
  assumes "fold (\<lambda>f g. Option.bind g (erc20_log_set_filter env f)) fs (Some (erc20_post_upgrade g)) = Some g'"
  shows "lg_config g' = None"
proof -
  have "pred_option (\<lambda>g. lg_config g = None)
    (fold (\<lambda>f g. Option.bind g (erc20_log_set_filter env f)) fs (Some (erc20_post_upgrade g)))"
    by (rule fold_invariant[where Q = "\<lambda>_. True"])
      (auto simp: erc20_post_upgrade_def logger_upgrade_def erc20_log_set_filter_def erc20_update_log_settings_def
        Let_def Option.bind_eq_Some_conv pred_option_def)
  then show ?thesis by (simp add: assms)
qed

theorem icrc2_filter_survives_upgrade_witness:
  "lg_config (icrc2_post_upgrade \<lparr>le_storable = \<lambda>_. True, le_init_log = ls_log_filter, le_update_filters = \<lambda>f _. f,
       le_default = \<lparr>ls_log_filter = None, ls_rest = ()\<rparr>\<rparr>
     (snd (icrc2_set_logger_filter \<lparr>le_storable = \<lambda>_. True, le_init_log = ls_log_filter, le_update_filters = \<lambda>f _. f,
         le_default = \<lparr>ls_log_filter = None, ls_rest = ()\<rparr>\<rparr> (cfg2_owner icrc2_default_config) icrc2_default_config ''info''
       \<lparr>lg_settings = \<lparr>ls_log_filter = Some ''error'', ls_rest = ()\<rparr>, lg_config = Some ''error''\<rparr>))) = Some ''info''"
  using icrc2_filter_survives_upgrade[of "\<lparr>le_storable = \<lambda>_. True, le_init_log = ls_log_filter, le_update_filters = \<lambda>f _. f,
      le_default = \<lparr>ls_log_filter = None, ls_rest = ()\<rparr>\<rparr>" "cfg2_owner icrc2_default_config" icrc2_default_config "''info''"
    "\<lparr>lg_settings = \<lparr>ls_log_filter = Some ''error'', ls_rest = ()\<rparr>, lg_config = Some ''error''\<rparr>"]
  by (simp add: icrc2_set_logger_filter_def inspect_check_is_owner_def icrc2_log_set_filter_def
      icrc2_update_log_settings_def)

end
