(* ===== verification/Bridge_Check.thy ===== *)
theory Bridge_Check
  imports Bridge_Env
begin

text \<open>
  The check of a bridge contract and the data of a valid burn
  (\<open>icrc2-minter/src/tokens/bft_bridge.rs\<close>). The JSON-RPC client, the signer, \<open>hex\<close>, \<open>ethabi\<close> and the
  code of the compiled contract are parameters.
\<close>

section \<open>Valid burns\<close>

record ('src, 'dst) valid_burn =
  vb_amount :: u256
  vb_sender :: 'src
  vb_src_token :: 'src
  vb_sender_chain_id :: u32
  vb_recipient :: 'dst
  vb_to_token :: 'dst
  vb_recipient_chain_id :: u32
  vb_nonce :: u32
  vb_name :: bytes
  vb_symbol :: bytes
  vb_decimals :: u8

definition map_src :: "('s \<Rightarrow> 't) \<Rightarrow> ('s, 'd) valid_burn \<Rightarrow> ('t, 'd) valid_burn" where
  "map_src f b = \<lparr>vb_amount = vb_amount b, vb_sender = f (vb_sender b), vb_src_token = f (vb_src_token b),
     vb_sender_chain_id = vb_sender_chain_id b, vb_recipient = vb_recipient b, vb_to_token = vb_to_token b,
     vb_recipient_chain_id = vb_recipient_chain_id b, vb_nonce = vb_nonce b, vb_name = vb_name b,
     vb_symbol = vb_symbol b, vb_decimals = vb_decimals b\<rparr>"

definition try_map_src :: "('s \<Rightarrow> 'e + 't) \<Rightarrow> ('s, 'd) valid_burn \<Rightarrow> 'e + ('t, 'd) valid_burn" where
  "try_map_src f b = (case f (vb_sender b) of
       Inl e \<Rightarrow> Inl e
     | Inr sender \<Rightarrow> (case f (vb_src_token b) of
           Inl e \<Rightarrow> Inl e
         | Inr src_token \<Rightarrow> Inr \<lparr>vb_amount = vb_amount b, vb_sender = sender, vb_src_token = src_token,
             vb_sender_chain_id = vb_sender_chain_id b, vb_recipient = vb_recipient b, vb_to_token = vb_to_token b,
             vb_recipient_chain_id = vb_recipient_chain_id b, vb_nonce = vb_nonce b, vb_name = vb_name b,
             vb_symbol = vb_symbol b, vb_decimals = vb_decimals b\<rparr>))"

definition map_dst :: "('d \<Rightarrow> 'e) \<Rightarrow> ('s, 'd) valid_burn \<Rightarrow> ('s, 'e) valid_burn" where
  "map_dst f b = \<lparr>vb_amount = vb_amount b, vb_sender = vb_sender b, vb_src_token = vb_src_token b,
     vb_sender_chain_id = vb_sender_chain_id b, vb_recipient = f (vb_recipient b), vb_to_token = f (vb_to_token b),
     vb_recipient_chain_id = vb_recipient_chain_id b, vb_nonce = vb_nonce b, vb_name = vb_name b,
     vb_symbol = vb_symbol b, vb_decimals = vb_decimals b\<rparr>"

definition try_map_dst :: "('d \<Rightarrow> 'e + 't) \<Rightarrow> ('s, 'd) valid_burn \<Rightarrow> 'e + ('s, 't) valid_burn" where
  "try_map_dst f b = (case f (vb_recipient b) of
       Inl e \<Rightarrow> Inl e
     | Inr recipient \<Rightarrow> (case f (vb_to_token b) of
           Inl e \<Rightarrow> Inl e
         | Inr to_token \<Rightarrow> Inr \<lparr>vb_amount = vb_amount b, vb_sender = vb_sender b, vb_src_token = vb_src_token b,
             vb_sender_chain_id = vb_sender_chain_id b, vb_recipient = recipient, vb_to_token = to_token,
             vb_recipient_chain_id = vb_recipient_chain_id b, vb_nonce = vb_nonce b, vb_name = vb_name b,
             vb_symbol = vb_symbol b, vb_decimals = vb_decimals b\<rparr>))"

section \<open>The check\<close>

datatype check_error = CheckInternal | InvalidBftBridgeContract

record eth_call_request =
  ec_from :: "h160 option"
  ec_to :: "h160 option"
  ec_gas :: "u256 option"
  ec_data :: "bytes option"

record check_env =
  ck_get_code :: "h160 \<Rightarrow> string option"
  ck_hex_decode :: "string \<Rightarrow> bytes option"
  ck_deployed_code :: bytes
  ck_signer_address :: "h160 option"
  ck_encode_input :: "abi_function \<Rightarrow> token list \<Rightarrow> bytes option"
  ck_eth_call :: "eth_call_request \<Rightarrow> string option"
  ck_decode_output :: "abi_function \<Rightarrow> bytes \<Rightarrow> token list option"

definition DEFAULT_TX_GAS_LIMIT :: u256 where
  "DEFAULT_TX_GAS_LIMIT = 3000000"

definition check_bft_bridge_contract :: "check_env \<Rightarrow> h160 \<Rightarrow> check_error + unit" where
  "check_bft_bridge_contract env bft_address =
     (case ck_get_code env bft_address of None \<Rightarrow> Inl CheckInternal | Some code \<Rightarrow>
     (case ck_hex_decode env (trim_0x code) of None \<Rightarrow> Inl CheckInternal | Some code_bytes \<Rightarrow>
     if code_bytes \<noteq> ck_deployed_code env then Inl InvalidBftBridgeContract else
     (case ck_signer_address env of None \<Rightarrow> Inl CheckInternal | Some minter_address \<Rightarrow>
     (case ck_encode_input env MINTER_CANISTER_ADDRESS [] of None \<Rightarrow> Inl CheckInternal | Some input \<Rightarrow>
     (case ck_eth_call env \<lparr>ec_from = Some minter_address, ec_to = Some bft_address,
         ec_gas = Some DEFAULT_TX_GAS_LIMIT, ec_data = Some input\<rparr> of None \<Rightarrow> Inl CheckInternal | Some result \<Rightarrow>
     (case ck_hex_decode env (trim_0x result) of None \<Rightarrow> Inl CheckInternal | Some call_result \<Rightarrow>
     (case ck_decode_output env MINTER_CANISTER_ADDRESS call_result of
        None \<Rightarrow> Inl CheckInternal
      | Some [TAddress contract_minter_address] \<Rightarrow>
          if contract_minter_address \<noteq> minter_address then Inl InvalidBftBridgeContract else Inr ()
      | Some _ \<Rightarrow> Inl CheckInternal)))))))"

section \<open>Laws\<close>

lemma map_src_id: "map_src id b = b" and map_dst_id: "map_dst id b = b"
  by (simp_all add: map_src_def map_dst_def)

lemma map_src_comp: "map_src f (map_src g b) = map_src (f \<circ> g) b"
  by (simp add: map_src_def)

lemma map_dst_comp: "map_dst f (map_dst g b) = map_dst (f \<circ> g) b"
  by (simp add: map_dst_def)

lemma map_src_dst: "map_src f (map_dst g b) = map_dst g (map_src f b)"
  by (simp add: map_src_def map_dst_def)

lemma try_map_src_total: "try_map_src (\<lambda>x. Inr (f x)) b = Inr (map_src f b)"
  by (simp add: try_map_src_def map_src_def)

lemma try_map_dst_total: "try_map_dst (\<lambda>x. Inr (f x)) b = Inr (map_dst f b)"
  by (simp add: try_map_dst_def map_dst_def)

text \<open>A conversion back undoes a conversion of both fields.\<close>

theorem try_map_src_back:
  assumes "try_map_src f b = Inr b'" and "\<And>x y. f x = Inr y \<Longrightarrow> g y = x"
  shows "map_src g b' = b"
proof -
  have "g y = x" if "f x = Inr y" for x y using assms(2) that .
  then show ?thesis using assms(1) by (auto simp: try_map_src_def map_src_def split: sum.splits)
qed

text \<open>
  The check accepts exactly a contract whose code is the deployed code of the bridge and whose minter is
  the address of the signer.
\<close>

theorem check_accepts_iff:
  "check_bft_bridge_contract env bft_address = Inr () \<longleftrightarrow>
     (\<exists>code minter input result bs.
        ck_get_code env bft_address = Some code \<and> ck_hex_decode env (trim_0x code) = Some (ck_deployed_code env) \<and>
        ck_signer_address env = Some minter \<and> ck_encode_input env MINTER_CANISTER_ADDRESS [] = Some input \<and>
        ck_eth_call env \<lparr>ec_from = Some minter, ec_to = Some bft_address, ec_gas = Some DEFAULT_TX_GAS_LIMIT,
          ec_data = Some input\<rparr> = Some result \<and>
        ck_hex_decode env (trim_0x result) = Some bs \<and>
        ck_decode_output env MINTER_CANISTER_ADDRESS bs = Some [TAddress minter])"
  by (auto simp: check_bft_bridge_contract_def split: option.splits if_splits list.splits token.splits)

end
