(* ===== verification/Solidity_Helper.thy ===== *)
theory Solidity_Helper
  imports Prelude "HOL-Library.AList"
begin

text \<open>
  The build helper for the contracts (\<open>solidity-helper/src/lib.rs\<close>): it runs \<open>forge\<close> only when the
  modification times of the watched sources changed, and reads the compiled contracts. \<open>forge\<close>,
  \<open>serde_json\<close> and \<open>hex\<close> are parameters. Directories are trees; a \<open>HashMap\<close> is the list of its entries.
\<close>

section \<open>Files\<close>

text \<open>A path is the list of its components, the root is the empty list.\<close>

type_synonym path = "string list"

text \<open>
  A file with its modification time in nanoseconds from the epoch and its text (\<open>None\<close> when it cannot
  be read), a directory, and a directory that cannot be read.
\<close>

datatype fs_node = FsFile int "string option" | FsDir "(string \<times> fs_node) list" | FsDenied

text \<open>\<open>Path::{parent, extension, file_stem}\<close>\<close>

definition parent :: "path \<Rightarrow> path option" where
  "parent p = (if p = [] then None else Some (butlast p))"

text \<open>The text before and after the last dot; \<open>None\<close> when there is none.\<close>

definition split_last_dot :: "string \<Rightarrow> (string \<times> string) option" where
  "split_last_dot name = (let tail = takeWhile (\<lambda>c. c \<noteq> CHR ''.'') (rev name) in
     if length tail = length name then None
     else Some (take (length name - length tail - 1) name, rev tail))"

definition file_stem :: "string \<Rightarrow> string" where
  "file_stem name = (if name = ''..'' then name else case split_last_dot name of
       Some (before, after) \<Rightarrow> if before = [] then name else before
     | None \<Rightarrow> name)"

definition extension :: "string \<Rightarrow> string option" where
  "extension name = (if name = ''..'' then None else case split_last_dot name of
       Some (before, after) \<Rightarrow> if before = [] then None else Some after
     | None \<Rightarrow> None)"

definition contains_text :: "string \<Rightarrow> string \<Rightarrow> bool" where
  "contains_text part s = list_ex (\<lambda>n. take (length part) (drop n s) = part) [0..<Suc (length s)]"

section \<open>Data\<close>

text \<open>\<open>SolidityHelperError\<close>\<close>

datatype solidity_helper_error =
  GenericError | FromHexError | IoError | SerdeJsonError | JsonFieldNotFoundError string

text \<open>\<open>serde_json::Value\<close>\<close>

datatype json =
  JNull | JBool bool | JNumber string | JString string | JArray "json list" | JObject "(string \<times> json) list"

fun json_get :: "string \<Rightarrow> json \<Rightarrow> json option" where
  "json_get k (JObject es) = map_of es k"
| "json_get k _ = None"

fun json_str :: "json \<Rightarrow> string option" where
  "json_str (JString s) = Some s"
| "json_str _ = None"

record solidity_contract =
  sc_name :: string
  sc_bytecode :: bytes
  sc_bytecode_hex :: string
  sc_deployed_bytecode :: bytes
  sc_deployed_bytecode_hex :: string
  sc_method_identifiers :: "(string \<times> string) list"

record built_contracts =
  bc_contracts :: "(string \<times> solidity_contract) list"
  bc_output_dir :: path

record file_times =
  ft_files :: "(path \<times> nat) list"
  ft_output_dir :: path

definition file_times_new :: "path \<Rightarrow> file_times" where
  "file_times_new output_dir = \<lparr>ft_files = [], ft_output_dir = output_dir\<rparr>"

record solidity_builder =
  sb_subpaths_to_watch :: "path list"
  sb_times_file_path :: path
  sb_solidity_root_path :: path
  sb_workspace_root_path :: path

text \<open>
  What the builder gets from outside: \<open>forge\<close>, which is given the directories and the output directory
  and either cannot be started or ends with an exit status and a new content of the output
  directory; the parsers; whether directories and the times file can be written; the random name.
\<close>

record build_env =
  bv_forge :: "(path \<Rightarrow> fs_node option) \<Rightarrow> path \<Rightarrow> (bool \<times> fs_node) option"
  bv_from_str :: "string \<Rightarrow> json option"
  bv_hex_decode :: "string \<Rightarrow> bytes option"
  bv_writable :: "path \<Rightarrow> bool"
  bv_random_name :: string

text \<open>The directories, and what \<open>load_file_times\<close> reads from the times file.\<close>

record build_state =
  bs_dirs :: "path \<Rightarrow> fs_node option"
  bs_times :: "file_times option"

section \<open>The builder\<close>

text \<open>\<open>workspace_root_path\<close>, from the value of \<open>CARGO_MANIFEST_DIR\<close>\<close>

definition workspace_root_path :: "path option \<Rightarrow> solidity_helper_error + path" where
  "workspace_root_path cargo_manifest_dir = (case cargo_manifest_dir of
       None \<Rightarrow> Inl GenericError
     | Some dir \<Rightarrow> (case Option.bind (parent dir) parent of None \<Rightarrow> Inl GenericError | Some p \<Rightarrow> Inr p))"

definition solidity_builder_new :: "path option \<Rightarrow> solidity_helper_error + solidity_builder" where
  "solidity_builder_new cargo_manifest_dir = (case workspace_root_path cargo_manifest_dir of
       Inl e \<Rightarrow> Inl e
     | Inr root \<Rightarrow> Inr
         \<lparr>sb_subpaths_to_watch = [root @ [''solidity'', ''src'']],
          sb_times_file_path = root @ [''target'', ''.solidity_file_timestamps.json''],
          sb_solidity_root_path = root @ [''solidity''], sb_workspace_root_path = root\<rparr>)"

text \<open>The modification time in seconds, 0 before the epoch.\<close>

definition modified_secs :: "int \<Rightarrow> nat" where
  "modified_secs t = nat (t div 1000000000)"

text \<open>\<open>scan_dir_file_times\<close>: the entries of a directory, with the files found so far.\<close>

fun scan_entries ::
  "path \<Rightarrow> (string \<times> fs_node) list \<Rightarrow> (path \<times> nat) list \<Rightarrow> solidity_helper_error + (path \<times> nat) list"
where
  "scan_entries p [] files = Inr files"
| "scan_entries p ((n, FsFile t c) # es) files =
     scan_entries p es (AList.update (p @ [n]) (modified_secs t) files)"
| "scan_entries p ((n, FsDir sub) # es) files = (case scan_entries (p @ [n]) sub files of
      Inl e \<Rightarrow> Inl e
    | Inr files' \<Rightarrow> scan_entries p es files')"
| "scan_entries p ((n, FsDenied) # es) files = Inl IoError"

definition scan_dir_file_times ::
  "(path \<Rightarrow> fs_node option) \<Rightarrow> (path \<times> nat) list \<Rightarrow> path \<Rightarrow> solidity_helper_error + (path \<times> nat) list"
where
  "scan_dir_file_times dirs files p = (case dirs p of
       Some (FsDir es) \<Rightarrow> scan_entries p es files
     | _ \<Rightarrow> Inl IoError)"

fun scan_subpaths ::
  "(path \<Rightarrow> fs_node option) \<Rightarrow> path list \<Rightarrow> (path \<times> nat) list \<Rightarrow> solidity_helper_error + (path \<times> nat) list"
where
  "scan_subpaths dirs [] files = Inr files"
| "scan_subpaths dirs (p # ps) files = (case scan_dir_file_times dirs files p of
      Inl e \<Rightarrow> Inl e
    | Inr files' \<Rightarrow> scan_subpaths dirs ps files')"

definition scan_file_times ::
  "solidity_builder \<Rightarrow> (path \<Rightarrow> fs_node option) \<Rightarrow> path \<Rightarrow> solidity_helper_error + file_times"
where
  "scan_file_times b dirs output_dir =
     (case scan_subpaths dirs (sb_subpaths_to_watch b) (ft_files (file_times_new output_dir)) of
        Inl e \<Rightarrow> Inl e
      | Inr files \<Rightarrow> Inr ((file_times_new output_dir)\<lparr>ft_files := files\<rparr>))"

definition have_files_changed ::
  "solidity_builder \<Rightarrow> (path \<Rightarrow> fs_node option) \<Rightarrow> file_times \<Rightarrow> path \<Rightarrow> solidity_helper_error + bool"
where
  "have_files_changed b dirs current output_dir = (case scan_file_times b dirs output_dir of
       Inl e \<Rightarrow> Inl e
     | Inr new \<Rightarrow>
         if length (ft_files current) \<noteq> length (ft_files new) then Inr True
         else Inr (list_ex (\<lambda>k. map_of (ft_files current) k \<noteq> map_of (ft_files new) k)
           (map fst (ft_files current) @ map fst (ft_files new))))"

definition save_file_times ::
  "build_env \<Rightarrow> solidity_builder \<Rightarrow> path \<Rightarrow> build_state \<Rightarrow> (solidity_helper_error + unit) \<times> build_state"
where
  "save_file_times env b output_dir s = (case scan_file_times b (bs_dirs s) output_dir of
       Inl e \<Rightarrow> (Inl e, s)
     | Inr new \<Rightarrow>
         if bv_writable env (sb_times_file_path b) then (Inr (), s\<lparr>bs_times := Some new\<rparr>)
         else (Inl IoError, s))"

section \<open>Compiled contracts\<close>

text \<open>\<open>contract_paths\<close>: the \<open>.json\<close> files one level below the output directory, by their stem.\<close>

definition contract_paths ::
  "(path \<Rightarrow> fs_node option) \<Rightarrow> path \<Rightarrow> solidity_helper_error + (string \<times> path \<times> fs_node) list"
where
  "contract_paths dirs output_dir = (case dirs output_dir of
       Some (FsDir es) \<Rightarrow> Inr (fold (\<lambda>(k, v). AList.update k v)
         (concat (map (\<lambda>(d, node). case node of
             FsDir sub \<Rightarrow> map (\<lambda>(n, f). (file_stem n, output_dir @ [d, n], f))
               (filter (\<lambda>(n, _). extension n = Some ''json'') sub)
           | _ \<Rightarrow> []) es)) [])
     | _ \<Rightarrow> Inl IoError)"

definition json_object :: "string \<Rightarrow> json \<Rightarrow> string option" where
  "json_object field value = map_option trim_0x
     (Option.bind (Option.bind (json_get field value) (json_get ''object'')) json_str)"

text \<open>\<open>serde_json::from_value::<HashMap<String, String>>\<close>\<close>

definition string_map :: "json \<Rightarrow> (string \<times> string) list option" where
  "string_map v = (case v of
       JObject es \<Rightarrow> if list_all (\<lambda>(_, x). json_str x \<noteq> None) es
         then Some (map (\<lambda>(k, x). (k, the (json_str x))) es) else None
     | _ \<Rightarrow> None)"

definition parse_json_contract ::
  "build_env \<Rightarrow> string \<Rightarrow> string \<Rightarrow> solidity_helper_error + solidity_contract"
where
  "parse_json_contract env text contract_name = (case bv_from_str env text of
       None \<Rightarrow> Inl SerdeJsonError
     | Some v \<Rightarrow>
     (case json_object ''bytecode'' v of
       None \<Rightarrow> Inl (JsonFieldNotFoundError ''bytecode'')
     | Some bytecode_hex \<Rightarrow>
     (case bv_hex_decode env bytecode_hex of
       None \<Rightarrow> Inl FromHexError
     | Some bytecode \<Rightarrow>
     (case json_object ''deployedBytecode'' v of
       None \<Rightarrow> Inl (JsonFieldNotFoundError ''deployedBytecode'')
     | Some deployed_hex \<Rightarrow>
     (case bv_hex_decode env deployed_hex of
       None \<Rightarrow> Inl FromHexError
     | Some deployed \<Rightarrow>
     (case (case json_get ''methodIdentifiers'' v of None \<Rightarrow> Some [] | Some m \<Rightarrow> string_map m) of
       None \<Rightarrow> Inl SerdeJsonError
     | Some ids \<Rightarrow> Inr \<lparr>sc_name = contract_name, sc_bytecode = bytecode, sc_bytecode_hex = bytecode_hex,
         sc_deployed_bytecode = deployed, sc_deployed_bytecode_hex = deployed_hex,
         sc_method_identifiers = ids\<rparr>))))))"

fun parse_contracts ::
  "build_env \<Rightarrow> (string \<times> path \<times> fs_node) list \<Rightarrow> (string \<times> solidity_contract) list \<Rightarrow>
     solidity_helper_error + (string \<times> solidity_contract) list"
where
  "parse_contracts env [] contracts = Inr contracts"
| "parse_contracts env ((name, path, node) # rest) contracts =
     (if list_ex (contains_text ''build-info'') path then parse_contracts env rest contracts
      else case node of
        FsFile _ (Some text) \<Rightarrow> (case parse_json_contract env text name of
            Inl e \<Rightarrow> Inl e
          | Inr c \<Rightarrow> parse_contracts env rest (AList.update name c contracts))
      | _ \<Rightarrow> Inl IoError)"

definition get_solidity_contracts ::
  "build_env \<Rightarrow> (path \<Rightarrow> fs_node option) \<Rightarrow> path \<Rightarrow> solidity_helper_error + (string \<times> solidity_contract) list"
where
  "get_solidity_contracts env dirs output_dir = (case contract_paths dirs output_dir of
       Inl e \<Rightarrow> Inl e
     | Inr paths \<Rightarrow> parse_contracts env paths [])"

text \<open>\<open>create_dir_all\<close>\<close>

definition create_dir_all :: "build_env \<Rightarrow> path \<Rightarrow> (path \<Rightarrow> fs_node option) \<Rightarrow> (path \<Rightarrow> fs_node option) option" where
  "create_dir_all env p dirs = (case dirs p of
       Some (FsFile _ _) \<Rightarrow> None
     | Some _ \<Rightarrow> Some dirs
     | None \<Rightarrow> if bv_writable env p then Some (dirs(p \<mapsto> FsDir [])) else None)"

text \<open>\<open>compile_solidity_contracts\<close>: the exit status of \<open>forge\<close> is not looked at.\<close>

definition compile_solidity_contracts ::
  "build_env \<Rightarrow> path \<Rightarrow> build_state \<Rightarrow>
     (solidity_helper_error + (string \<times> solidity_contract) list) \<times> build_state"
where
  "compile_solidity_contracts env output_dir s = (case create_dir_all env output_dir (bs_dirs s) of
       None \<Rightarrow> (Inl IoError, s)
     | Some dirs \<Rightarrow> (case bv_forge env dirs output_dir of
           None \<Rightarrow> (Inl IoError, s\<lparr>bs_dirs := dirs\<rparr>)
         | Some (_, out) \<Rightarrow>
             let dirs = dirs(output_dir \<mapsto> out)
             in (get_solidity_contracts env dirs output_dir, s\<lparr>bs_dirs := dirs\<rparr>)))"

definition build_updated_contracts ::
  "build_env \<Rightarrow> solidity_builder \<Rightarrow> build_state \<Rightarrow> (solidity_helper_error + built_contracts) \<times> build_state"
where
  "build_updated_contracts env b s =
     (let current_file_times = bs_times s;
          output_dir = (case current_file_times of
              Some t \<Rightarrow> ft_output_dir t
            | None \<Rightarrow> sb_workspace_root_path b @ [''target'', bv_random_name env]);
          built = map_sum id (\<lambda>contracts. \<lparr>bc_contracts = contracts, bc_output_dir = output_dir\<rparr>)
      in case (case current_file_times of
            Some t \<Rightarrow> have_files_changed b (bs_dirs s) t output_dir | None \<Rightarrow> Inr True) of
        Inl e \<Rightarrow> (Inl e, s)
      | Inr True \<Rightarrow>
          (case compile_solidity_contracts env output_dir s of
             (Inl e, s) \<Rightarrow> (Inl e, s)
           | (Inr contracts, s) \<Rightarrow> (case save_file_times env b output_dir s of
                 (Inl e, s) \<Rightarrow> (Inl e, s)
               | (Inr _, s) \<Rightarrow> (built (Inr contracts), s)))
      | Inr False \<Rightarrow> (built (get_solidity_contracts env (bs_dirs s) output_dir), s))"

section \<open>Change detection\<close>

lemma scan_entries_distinct:
  "scan_entries p es files = Inr files' \<Longrightarrow> distinct (map fst files) \<Longrightarrow> distinct (map fst files')"
  by (induction p es files arbitrary: files' rule: scan_entries.induct)
    (auto simp: distinct_update split: sum.splits)

lemma scan_subpaths_distinct:
  "scan_subpaths dirs ps files = Inr files' \<Longrightarrow> distinct (map fst files) \<Longrightarrow> distinct (map fst files')"
  by (induction dirs ps files rule: scan_subpaths.induct)
    (auto simp: scan_dir_file_times_def scan_entries_distinct split: sum.splits option.splits fs_node.splits)

lemma scan_file_times_new:
  assumes "scan_file_times b dirs output_dir = Inr new"
  shows "distinct (map fst (ft_files new))" and "ft_output_dir new = output_dir"
  using assms scan_subpaths_distinct by (fastforce simp: scan_file_times_def file_times_new_def split: sum.splits)+

lemma same_map_length:
  assumes "distinct (map fst xs)" and "distinct (map fst ys)" and "map_of xs = map_of ys"
  shows "length xs = length ys"
proof -
  have "set (map fst zs) = dom (map_of zs)" for zs :: "('a \<times> 'b) list" by (simp add: dom_map_of_conv_image_fst)
  then have "card (set (map fst xs)) = card (set (map fst ys))" using assms(3) by simp
  then show ?thesis using assms(1,2) by (simp add: distinct_card del: set_map)
qed

lemma differing_key:
  "map_of xs \<noteq> map_of ys \<longleftrightarrow> list_ex (\<lambda>k. map_of xs k \<noteq> map_of ys k) (map fst xs @ map fst ys)"
proof -
  have "k \<in> set (map fst xs @ map fst ys)" if "map_of xs k \<noteq> map_of ys k" for k
  proof -
    have "k \<in> dom (map_of xs) \<union> dom (map_of ys)" using that by (metis UnCI domIff)
    then show ?thesis by (simp add: dom_map_of_conv_image_fst)
  qed
  then show ?thesis unfolding list_ex_iff by (metis ext)
qed

text \<open>
  Sources count as changed exactly when the map from paths to modification times in seconds
  differs from the recorded one.
\<close>

theorem have_files_changed_exact:
  assumes "distinct (map fst (ft_files current))" and "scan_file_times b dirs output_dir = Inr new"
  shows "have_files_changed b dirs current output_dir = Inr (map_of (ft_files current) \<noteq> map_of (ft_files new))"
proof (cases "length (ft_files current) = length (ft_files new)")
  case True
  then show ?thesis unfolding differing_key by (simp add: have_files_changed_def assms(2))
next
  case False
  then have "map_of (ft_files current) \<noteq> map_of (ft_files new)"
    using same_map_length[OF assms(1) scan_file_times_new(1)[OF assms(2)]] by blast
  then show ?thesis using False by (simp add: have_files_changed_def assms(2))
qed

lemma unchanged_times:
  assumes "scan_file_times b dirs output_dir = Inr new"
  shows "have_files_changed b dirs new output_dir = Inr False"
  using assms by (auto simp: have_files_changed_def list_ex_iff)

section \<open>Cached builds\<close>

lemma get_contracts_same:
  assumes "bv_from_str env' = bv_from_str env" and "bv_hex_decode env' = bv_hex_decode env"
    and "dirs' output_dir = dirs output_dir"
  shows "get_solidity_contracts env' dirs' output_dir = get_solidity_contracts env dirs output_dir"
proof -
  have "parse_json_contract env' x name = parse_json_contract env x name" for x name
    unfolding parse_json_contract_def assms(1,2) ..
  then have "parse_contracts env' ps cs = parse_contracts env ps cs" for ps cs
    by (induction env ps cs rule: parse_contracts.induct) (simp_all split: fs_node.split option.split sum.split)
  then show ?thesis unfolding get_solidity_contracts_def contract_paths_def assms(3) by (simp split: sum.split)
qed

lemma built_state:
  assumes "build_updated_contracts env b s = (Inr built, s1)"
  shows "get_solidity_contracts env (bs_dirs s1) (bc_output_dir built) = Inr (bc_contracts built) \<and>
    (\<exists>t. bs_times s1 = Some t \<and> ft_output_dir t = bc_output_dir built \<and>
       have_files_changed b (bs_dirs s1) t (bc_output_dir built) = Inr False)"
proof -
  have sum: "map_sum id f x = Inr y \<longleftrightarrow> (\<exists>z. x = Inr z \<and> y = f z)" for f :: "'z \<Rightarrow> built_contracts" and x y
    by (cases x) auto
  show ?thesis
    using assms
    by (auto simp: build_updated_contracts_def compile_solidity_contracts_def save_file_times_def Let_def sum
        dest: unchanged_times scan_file_times_new(2)
        split: option.splits sum.splits bool.splits prod.splits if_splits)
qed

text \<open>
  C31: A build is not repeated. After a build that returned, whether or not \<open>forge\<close> succeeded, a later
  build with the same output directory and sources of the same modification times in seconds
  returns the same contracts, whatever \<open>forge\<close> would do now: it is not run. A failed compilation is
  therefore not tried again, and its errors are never seen.
\<close>

theorem build_not_repeated:
  assumes "build_updated_contracts env b s = (Inr built, s1)"
    and "bs_times s2 = bs_times s1" and "bs_dirs s2 (bc_output_dir built) = bs_dirs s1 (bc_output_dir built)"
    and "scan_file_times b (bs_dirs s2) (bc_output_dir built) = scan_file_times b (bs_dirs s1) (bc_output_dir built)"
    and "bv_from_str env' = bv_from_str env" and "bv_hex_decode env' = bv_hex_decode env"
  shows "build_updated_contracts env' b s2 = (Inr built, s2)"
proof -
  obtain t where t: "get_solidity_contracts env (bs_dirs s1) (bc_output_dir built) = Inr (bc_contracts built)"
      "bs_times s1 = Some t" "ft_output_dir t = bc_output_dir built"
      "have_files_changed b (bs_dirs s1) t (bc_output_dir built) = Inr False"
    using built_state[OF assms(1)] by blast
  have "have_files_changed b (bs_dirs s2) t (bc_output_dir built) = Inr False"
    using t(4) assms(4) by (simp add: have_files_changed_def)
  then show ?thesis
    using t(1-3) get_contracts_same[where dirs = "bs_dirs s1" and dirs' = "bs_dirs s2", OF assms(5,6,3)] assms(2)
    by (simp add: build_updated_contracts_def Let_def)
qed

section \<open>Concrete builds\<close>

text \<open>One source; \<open>forge\<close> fails and leaves the output directory empty, later it would work.\<close>

definition sample_builder :: solidity_builder where
  "sample_builder = \<lparr>sb_subpaths_to_watch = [[''w'', ''solidity'', ''src'']], sb_times_file_path = [''w'', ''times''],
     sb_solidity_root_path = [''w'', ''solidity''], sb_workspace_root_path = [''w'']\<rparr>"

definition failing_forge :: build_env where
  "failing_forge = \<lparr>bv_forge = \<lambda>_ _. Some (False, FsDir []), bv_from_str = \<lambda>_. Some (JObject
       [(''bytecode'', JObject [(''object'', JString ''0x01'')]), (''deployedBytecode'', JObject [(''object'', JString ''02'')])]),
     bv_hex_decode = \<lambda>_. Some [1], bv_writable = \<lambda>_. True, bv_random_name = ''17''\<rparr>"

definition working_forge :: build_env where
  "working_forge = failing_forge\<lparr>bv_forge := \<lambda>_ _. Some (True,
     FsDir [(''A.sol'', FsDir [(''A.json'', FsFile 5 (Some ''code''))])])\<rparr>"

definition sample_sources :: build_state where
  "sample_sources = \<lparr>bs_dirs = [[''w'', ''solidity'', ''src''] \<mapsto> FsDir [(''A.sol'', FsFile 3000000001 (Some ''source''))]],
     bs_times = None\<rparr>"

lemma sample_scan:
  "scan_file_times sample_builder (bs_dirs sample_sources) [''o''] =
     Inr \<lparr>ft_files = [([''w'', ''solidity'', ''src'', ''A.sol''], 3)], ft_output_dir = [''o'']\<rparr>"
  by (simp add: scan_file_times_def scan_dir_file_times_def sample_builder_def sample_sources_def
      file_times_new_def modified_secs_def)

theorem have_files_changed_exact_witness:
  "have_files_changed sample_builder (bs_dirs sample_sources)
     \<lparr>ft_files = [([''w'', ''solidity'', ''src'', ''A.sol''], 2)], ft_output_dir = [''o'']\<rparr> [''o''] = Inr True"
  using have_files_changed_exact[OF _ sample_scan,
      of "\<lparr>ft_files = [([''w'', ''solidity'', ''src'', ''A.sol''], 2)], ft_output_dir = [''o'']\<rparr>"]
  by (simp add: fun_eq_iff)

lemma first_build_fails:
  "fst (build_updated_contracts failing_forge sample_builder sample_sources) =
     Inr \<lparr>bc_contracts = [], bc_output_dir = [''w'', ''target'', ''17'']\<rparr>"
  by code_simp

lemma fresh_build_works:
  "map_sum id (\<lambda>r. map fst (bc_contracts r)) (fst (build_updated_contracts working_forge sample_builder sample_sources)) =
     Inr [''A'']"
  by code_simp

theorem build_not_repeated_witness:
  "\<exists>s1. build_updated_contracts failing_forge sample_builder sample_sources =
       (Inr \<lparr>bc_contracts = [], bc_output_dir = [''w'', ''target'', ''17'']\<rparr>, s1) \<and>
     build_updated_contracts working_forge sample_builder s1 =
       (Inr \<lparr>bc_contracts = [], bc_output_dir = [''w'', ''target'', ''17'']\<rparr>, s1)"
proof -
  obtain s1 where 1: "build_updated_contracts failing_forge sample_builder sample_sources =
      (Inr \<lparr>bc_contracts = [], bc_output_dir = [''w'', ''target'', ''17'']\<rparr>, s1)"
    using first_build_fails by (metis prod.collapse)
  show ?thesis
    using build_not_repeated[OF 1 refl refl refl, of working_forge] 1 by (simp add: working_forge_def)
qed

end
