(* ===== verification/Contract_Code.thy ===== *)
theory Contract_Code
  imports Solidity_Helper
begin

text \<open>
  The code of the contracts in the canisters: the build script of \<open>minter-contract-utils\<close> (\<open>build.rs\<close>)
  passes the compiled contracts to the compiler as environment variables, from which the constants of
  \<open>build_data.rs\<close> are decoded when they are first used.
\<close>

section \<open>The build script\<close>

text \<open>The variables set so far; a missing contract is a panic, \<open>None\<close>.\<close>

type_synonym env_vars = "(string \<times> string) list"

definition get_solidity_contract :: "(string \<times> solidity_contract) list \<Rightarrow> string \<Rightarrow> solidity_contract option" where
  "get_solidity_contract contracts contract_name = map_of contracts contract_name"

definition set_contract_code ::
  "(string \<times> solidity_contract) list \<Rightarrow> string \<Rightarrow> string \<Rightarrow> env_vars option \<Rightarrow> env_vars option"
where
  "set_contract_code contracts contract_name env_var vars = Option.bind vars (\<lambda>vs.
     map_option (\<lambda>c. vs @ [(env_var, sc_bytecode_hex c)]) (get_solidity_contract contracts contract_name))"

definition set_deployed_contract_code ::
  "(string \<times> solidity_contract) list \<Rightarrow> string \<Rightarrow> string \<Rightarrow> env_vars option \<Rightarrow> env_vars option"
where
  "set_deployed_contract_code contracts contract_name env_var vars = Option.bind vars (\<lambda>vs.
     map_option (\<lambda>c. vs @ [(env_var, sc_deployed_bytecode_hex c)]) (get_solidity_contract contracts contract_name))"

definition contract_vars :: "(string \<times> solidity_contract) list \<Rightarrow> env_vars option" where
  "contract_vars cs =
     set_contract_code cs ''UUPSProxy'' ''BUILD_SMART_CONTRACT_UUPS_PROXY_HEX_CODE''
    (set_contract_code cs ''WatermelonToken'' ''BUILD_SMART_CONTRACT_TEST_WTM_HEX_CODE''
    (set_deployed_contract_code cs ''BFTBridge'' ''BUILD_SMART_CONTRACT_BFT_BRIDGE_DEPLOYED_HEX_CODE''
    (set_contract_code cs ''FeeCharge'' ''BUILD_SMART_CONTRACT_FEE_CHARGE_HEX_CODE''
    (set_contract_code cs ''BFTBridge'' ''BUILD_SMART_CONTRACT_BFT_BRIDGE_HEX_CODE''
    (set_contract_code cs ''WrappedToken'' ''BUILD_SMART_CONTRACT_WRAPPED_TOKEN_HEX_CODE'' (Some []))))))"

text \<open>\<open>main\<close>, with the value of \<open>CARGO_MANIFEST_DIR\<close>\<close>

definition build_main ::
  "build_env \<Rightarrow> path option \<Rightarrow> build_state \<Rightarrow> (solidity_helper_error, env_vars) outcome \<times> build_state"
where
  "build_main env cargo_manifest_dir s = (case solidity_builder_new cargo_manifest_dir of
       Inl _ \<Rightarrow> (Panic, s)
     | Inr b \<Rightarrow> (case build_updated_contracts env b s of
           (Inl err, s) \<Rightarrow> (Err err, s)
         | (Inr built, s) \<Rightarrow>
             (case contract_vars (bc_contracts built) of None \<Rightarrow> (Panic, s) | Some vs \<Rightarrow> (Ok vs, s))))"

section \<open>The constants\<close>

text \<open>\<open>get_contract_code(env!(...))\<close>; \<open>None\<close> is the panic.\<close>

definition get_contract_code :: "(string \<Rightarrow> bytes option) \<Rightarrow> env_vars \<Rightarrow> string \<Rightarrow> bytes option" where
  "get_contract_code hex_decode vars env_name = Option.bind (map_of vars env_name) hex_decode"

definition BFT_BRIDGE_SMART_CONTRACT_DEPLOYED_CODE :: "(string \<Rightarrow> bytes option) \<Rightarrow> env_vars \<Rightarrow> bytes option" where
  "BFT_BRIDGE_SMART_CONTRACT_DEPLOYED_CODE hex_decode vars =
     get_contract_code hex_decode vars ''BUILD_SMART_CONTRACT_BFT_BRIDGE_DEPLOYED_HEX_CODE''"

definition BFT_BRIDGE_SMART_CONTRACT_CODE :: "(string \<Rightarrow> bytes option) \<Rightarrow> env_vars \<Rightarrow> bytes option" where
  "BFT_BRIDGE_SMART_CONTRACT_CODE hex_decode vars =
     get_contract_code hex_decode vars ''BUILD_SMART_CONTRACT_BFT_BRIDGE_HEX_CODE''"

definition FEE_CHARGE_SMART_CONTRACT_CODE :: "(string \<Rightarrow> bytes option) \<Rightarrow> env_vars \<Rightarrow> bytes option" where
  "FEE_CHARGE_SMART_CONTRACT_CODE hex_decode vars =
     get_contract_code hex_decode vars ''BUILD_SMART_CONTRACT_FEE_CHARGE_HEX_CODE''"

definition UUPS_PROXY_SMART_CONTRACT_CODE :: "(string \<Rightarrow> bytes option) \<Rightarrow> env_vars \<Rightarrow> bytes option" where
  "UUPS_PROXY_SMART_CONTRACT_CODE hex_decode vars =
     get_contract_code hex_decode vars ''BUILD_SMART_CONTRACT_UUPS_PROXY_HEX_CODE''"

definition WRAPPED_TOKEN_SMART_CONTRACT_CODE :: "(string \<Rightarrow> bytes option) \<Rightarrow> env_vars \<Rightarrow> bytes option" where
  "WRAPPED_TOKEN_SMART_CONTRACT_CODE hex_decode vars =
     get_contract_code hex_decode vars ''BUILD_SMART_CONTRACT_WRAPPED_TOKEN_HEX_CODE''"

definition TEST_WTM_HEX_CODE :: "(string \<Rightarrow> bytes option) \<Rightarrow> env_vars \<Rightarrow> bytes option" where
  "TEST_WTM_HEX_CODE hex_decode vars = get_contract_code hex_decode vars ''BUILD_SMART_CONTRACT_TEST_WTM_HEX_CODE''"

lemmas code_defs = BFT_BRIDGE_SMART_CONTRACT_DEPLOYED_CODE_def BFT_BRIDGE_SMART_CONTRACT_CODE_def
  FEE_CHARGE_SMART_CONTRACT_CODE_def UUPS_PROXY_SMART_CONTRACT_CODE_def WRAPPED_TOKEN_SMART_CONTRACT_CODE_def
  TEST_WTM_HEX_CODE_def get_contract_code_def

section \<open>The constants are the compiled contracts\<close>

text \<open>The text of a contract's code decodes to its bytes.\<close>

definition contract_ok :: "build_env \<Rightarrow> solidity_contract \<Rightarrow> bool" where
  "contract_ok env c \<longleftrightarrow> bv_hex_decode env (sc_bytecode_hex c) = Some (sc_bytecode c) \<and>
     bv_hex_decode env (sc_deployed_bytecode_hex c) = Some (sc_deployed_bytecode c)"

lemma parse_json_contract_ok: "parse_json_contract env code name = Inr c \<Longrightarrow> contract_ok env c"
  by (auto simp: parse_json_contract_def contract_ok_def split: option.splits)

lemma parse_contracts_ok:
  "parse_contracts env paths contracts = Inr contracts' \<Longrightarrow> list_all (\<lambda>x. contract_ok env (snd x)) contracts \<Longrightarrow>
     list_all (\<lambda>x. contract_ok env (snd x)) contracts'"
proof (induction env paths contracts rule: parse_contracts.induct)
  case (2 env name path node rest contracts)
  have "list_all (\<lambda>x. contract_ok env (snd x)) (AList.update name c contracts)" if "contract_ok env c" for c
    using 2(4) that by (induction contracts) auto
  with 2 show ?case
    by (auto split: if_splits fs_node.splits option.splits sum.splits) (metis parse_json_contract_ok)
qed simp

lemma built_contracts_ok:
  assumes "build_updated_contracts env b s = (Inr built, s')" and "map_of (bc_contracts built) name = Some c"
  shows "contract_ok env c"
proof -
  have "list_all (\<lambda>x. contract_ok env (snd x)) (bc_contracts built)"
    using built_state[OF assms(1)] parse_contracts_ok[where contracts = "[]"]
    by (auto simp: get_solidity_contracts_def split: sum.splits)
  then show ?thesis using map_of_SomeD[OF assms(2)] by (auto simp: list_all_iff)
qed

text \<open>
  C30: The constants of a build that succeeded are the bytes of the compiled contracts of that name, so that
  decoding them never panics: the texts that were passed on were decoded when the contracts were read.
\<close>

theorem contract_codes_decode:
  assumes "solidity_builder_new dir = Inr b" and "build_main env dir s = (Ok vars, s')"
  shows "\<exists>built. build_updated_contracts env b s = (Inr built, s') \<and>
    list_all (\<lambda>(name, code). \<exists>c. map_of (bc_contracts built) name = Some c \<and>
        code (bv_hex_decode env) vars = Some (sc_bytecode c))
      [(''BFTBridge'', BFT_BRIDGE_SMART_CONTRACT_CODE), (''FeeCharge'', FEE_CHARGE_SMART_CONTRACT_CODE),
       (''UUPSProxy'', UUPS_PROXY_SMART_CONTRACT_CODE), (''WrappedToken'', WRAPPED_TOKEN_SMART_CONTRACT_CODE),
       (''WatermelonToken'', TEST_WTM_HEX_CODE)] \<and>
    (\<exists>c. map_of (bc_contracts built) ''BFTBridge'' = Some c \<and>
      BFT_BRIDGE_SMART_CONTRACT_DEPLOYED_CODE (bv_hex_decode env) vars = Some (sc_deployed_bytecode c))"
proof -
  obtain built where built: "build_updated_contracts env b s = (Inr built, s')" "contract_vars (bc_contracts built) = Some vars"
    using assms by (auto simp: build_main_def split: prod.splits sum.splits option.splits)
  have ok: "contract_ok env c" if "map_of (bc_contracts built) name = Some c" for name c
    using built_contracts_ok[OF built(1) that] .
  show ?thesis
    using built(2) ok unfolding contract_vars_def
    by (intro exI[of _ built] conjI built(1))
      (auto simp: set_contract_code_def set_deployed_contract_code_def get_solidity_contract_def code_defs contract_ok_def
        Option.bind_eq_Some_conv)
qed

section \<open>A concrete build\<close>

text \<open>\<open>forge\<close> leaves the five contracts; every file has the same text.\<close>

definition bridge_forge :: build_env where
  "bridge_forge = working_forge\<lparr>bv_forge := \<lambda>_ _. Some (True, FsDir
     (map (\<lambda>n. (n @ ''.sol'', FsDir [(n @ ''.json'', FsFile 5 (Some ''code''))]))
       [''WrappedToken'', ''BFTBridge'', ''FeeCharge'', ''WatermelonToken'', ''UUPSProxy'']))\<rparr>"

lemma bridge_build:
  "fst (build_main bridge_forge (Some [''w'', ''src'', ''minter-contract-utils'']) sample_sources) =
     Ok [(''BUILD_SMART_CONTRACT_WRAPPED_TOKEN_HEX_CODE'', ''01''), (''BUILD_SMART_CONTRACT_BFT_BRIDGE_HEX_CODE'', ''01''),
         (''BUILD_SMART_CONTRACT_FEE_CHARGE_HEX_CODE'', ''01''), (''BUILD_SMART_CONTRACT_BFT_BRIDGE_DEPLOYED_HEX_CODE'', ''02''),
         (''BUILD_SMART_CONTRACT_TEST_WTM_HEX_CODE'', ''01''), (''BUILD_SMART_CONTRACT_UUPS_PROXY_HEX_CODE'', ''01'')]"
  by code_simp

theorem contract_codes_decode_witness:
  "\<exists>vars s' (built :: built_contracts) c. build_main bridge_forge (Some [''w'', ''src'', ''minter-contract-utils'']) sample_sources = (Ok vars, s') \<and>
     map_of (bc_contracts built) ''BFTBridge'' = Some c \<and>
     BFT_BRIDGE_SMART_CONTRACT_DEPLOYED_CODE (bv_hex_decode bridge_forge) vars = Some (sc_deployed_bytecode c)"
proof -
  obtain vars s' where 1: "build_main bridge_forge (Some [''w'', ''src'', ''minter-contract-utils'']) sample_sources = (Ok vars, s')"
    using bridge_build by (metis prod.collapse)
  have 2: "solidity_builder_new (Some [''w'', ''src'', ''minter-contract-utils'']) = Inr
    \<lparr>sb_subpaths_to_watch = [[''w'', ''solidity'', ''src'']], sb_times_file_path = [''w'', ''target'', ''.solidity_file_timestamps.json''],
     sb_solidity_root_path = [''w'', ''solidity''], sb_workspace_root_path = [''w'']\<rparr>"
    by (simp add: solidity_builder_new_def workspace_root_path_def parent_def)
  obtain built :: built_contracts and c where "map_of (bc_contracts built) ''BFTBridge'' = Some c"
      "BFT_BRIDGE_SMART_CONTRACT_DEPLOYED_CODE (bv_hex_decode bridge_forge) vars = Some (sc_deployed_bytecode c)"
    using contract_codes_decode[OF 2 1] by (elim exE conjE) (rule that)
  with 1 show ?thesis by (intro exI conjI)
qed

end
