(* ===== verification/Token_Api.thy ===== *)
theory Token_Api
  imports Abi
begin

text \<open>
  The declarations of the wrapped token and of the fee charge contract
  (\<open>minter-contract-utils/src/wrapped_token_api.rs\<close>, \<open>fee_charge_api.rs\<close>).
\<close>

section \<open>Wrapped tokens\<close>

definition WRAPPED_TOKEN_CONSTRUCTOR :: "abi_param list" where
  "WRAPPED_TOKEN_CONSTRUCTOR =
    [\<lparr>p_name = ''name'', p_kind = PString\<rparr>, \<lparr>p_name = ''symbol'', p_kind = PString\<rparr>,
     \<lparr>p_name = ''owner'', p_kind = PAddress\<rparr>]"

definition TRANSFER :: abi_function where
  "TRANSFER = \<lparr>fn_name = ''transfer'',
     fn_inputs = [\<lparr>p_name = ''to'', p_kind = PAddress\<rparr>, \<lparr>p_name = ''amount'', p_kind = PUint 256\<rparr>],
     fn_outputs = [\<lparr>p_name = [], p_kind = PBool\<rparr>],
     fn_state_mutability = NonPayable\<rparr>"

definition ERC_20_APPROVE :: abi_function where
  "ERC_20_APPROVE = \<lparr>fn_name = ''approve'',
     fn_inputs = [\<lparr>p_name = ''spender'', p_kind = PAddress\<rparr>, \<lparr>p_name = ''amount'', p_kind = PUint 256\<rparr>],
     fn_outputs = [\<lparr>p_name = [], p_kind = PBool\<rparr>],
     fn_state_mutability = NonPayable\<rparr>"

definition ERC_20_BALANCE :: abi_function where
  "ERC_20_BALANCE = \<lparr>fn_name = ''balanceOf'',
     fn_inputs = [\<lparr>p_name = ''_owner'', p_kind = PAddress\<rparr>],
     fn_outputs = [\<lparr>p_name = [], p_kind = PUint 256\<rparr>],
     fn_state_mutability = NonPayable\<rparr>"

definition ERC_20_ALLOWANCE :: abi_function where
  "ERC_20_ALLOWANCE = \<lparr>fn_name = ''allowance'',
     fn_inputs = [\<lparr>p_name = ''_owner'', p_kind = PAddress\<rparr>, \<lparr>p_name = ''_spender'', p_kind = PAddress\<rparr>],
     fn_outputs = [\<lparr>p_name = ''remaining'', p_kind = PUint 256\<rparr>],
     fn_state_mutability = View\<rparr>"

section \<open>Fee charge\<close>

definition FEE_CHARGE_CONSTRUCTOR :: "abi_param list" where
  "FEE_CHARGE_CONSTRUCTOR = [\<lparr>p_name = ''minterAddress'', p_kind = PArray PAddress\<rparr>]"

definition NATIVE_TOKEN_BALANCE :: abi_function where
  "NATIVE_TOKEN_BALANCE = \<lparr>fn_name = ''nativeTokenBalance'',
     fn_inputs = [\<lparr>p_name = ''user'', p_kind = PAddress\<rparr>],
     fn_outputs = [\<lparr>p_name = ''balance'', p_kind = PUint 256\<rparr>],
     fn_state_mutability = View\<rparr>"

definition NATIVE_TOKEN_DEPOSIT :: abi_function where
  "NATIVE_TOKEN_DEPOSIT = \<lparr>fn_name = ''nativeTokenDeposit'',
     fn_inputs = [\<lparr>p_name = ''approvedSenderIDs'', p_kind = PArray (PFixedBytes 32)\<rparr>],
     fn_outputs = [\<lparr>p_name = ''balance'', p_kind = PUint 256\<rparr>],
     fn_state_mutability = Payable\<rparr>"

definition REMOVE_APPROVED_SPENDER_IDS :: abi_function where
  "REMOVE_APPROVED_SPENDER_IDS = \<lparr>fn_name = ''removeApprovedSenderIDs'',
     fn_inputs = [\<lparr>p_name = ''approvedSenderIDs'', p_kind = PArray (PFixedBytes 32)\<rparr>],
     fn_outputs = [],
     fn_state_mutability = NonPayable\<rparr>"

end
