(* ===== verification/Bridge_Tool.thy ===== *)
theory Bridge_Tool
  imports Icrc2_Minter Token_Api "HOL-Library.Sublist"
begin

text \<open>
  The command line client (\<open>bridge-tool/src/main.rs\<close>). A command is a task over the list of calls it
  has made: what the EVM canister answers may depend on all calls before. A panic ends the tool. What
  a command prints is its result. Wallets, the signing of transactions, \<open>hex\<close>, \<open>ethabi\<close>, candid and
  the client of the EVM canister are parameters.
\<close>

section \<open>Environment\<close>

text \<open>A wallet is its private key.\<close>

type_synonym wallet = bytes

record tool_receipt =
  rc_status :: "u64 option"
  rc_contract_address :: "h160 option"
  rc_output :: "bytes option"

datatype tool_call =
    ChainIdCall | AccountCall h160 | CountCall h160 | SendCall evm_transaction | ReceiptCall h256
  | SleepCall | EthCall h160 h160 bytes | MintCall h160

type_synonym history = "tool_call list"

text \<open>\<open>None\<close> is an error, on which the tool panics. \<open>te_now\<close> is the clock in milliseconds.\<close>

record tool_env =
  te_connect :: "principal \<Rightarrow> string \<Rightarrow> string \<Rightarrow> bool"
  te_hex_decode :: "string \<Rightarrow> bytes option"
  te_wallet_of :: "bytes \<Rightarrow> wallet option"
  te_new_wallet :: wallet
  te_address :: "wallet \<Rightarrow> h160"
  te_build :: "wallet \<Rightarrow> evm_transaction \<Rightarrow> evm_transaction option"
  te_base_fee :: u256
  te_encode_input :: "abi_function \<Rightarrow> token list \<Rightarrow> bytes option"
  te_decode_output :: "abi_function \<Rightarrow> bytes \<Rightarrow> token list option"
  te_encode_constructor :: "abi_param list \<Rightarrow> bytes \<Rightarrow> token list \<Rightarrow> bytes option"
  te_encode_burn :: "icrc2_burn_reason \<Rightarrow> bytes"
  te_bft_code :: bytes
  te_proxy_code :: bytes
  te_fee_charge_code :: bytes
  te_contract_address :: "h160 \<Rightarrow> u64 \<Rightarrow> h160"
  te_codec :: id256_codec
  te_from_btc_tx_index :: "u64 \<Rightarrow> u32 \<Rightarrow> id256"
  te_principal_of_text :: "string \<Rightarrow> principal option"
  te_now :: "history \<Rightarrow> nat"
  te_chain_id :: "history \<Rightarrow> u64 option"
  te_account_nonce :: "history \<Rightarrow> h160 \<Rightarrow> u256 option"
  te_transaction_count :: "history \<Rightarrow> h160 \<Rightarrow> u256 option"
  te_send :: "history \<Rightarrow> evm_transaction \<Rightarrow> h256 option"
  te_receipt :: "history \<Rightarrow> h256 \<Rightarrow> tool_receipt option option"
  te_eth_call :: "history \<Rightarrow> h160 \<Rightarrow> h160 \<Rightarrow> bytes \<Rightarrow> string option"
  te_mint_native :: "history \<Rightarrow> h160 \<Rightarrow> u256 \<Rightarrow> h256 option"

text \<open>A call and its answer, \<open>expect\<close>ed.\<close>

definition ask :: "tool_call \<Rightarrow> (history \<Rightarrow> 'a option) \<Rightarrow> (history, 'a) task" where
  "ask c f = andThen (reading f) (\<lambda>r. andThen (answer (\<lambda>h. h @ [c]) r) unwrap)"

definition connect :: "tool_env \<Rightarrow> principal \<Rightarrow> string \<Rightarrow> string \<Rightarrow> (history, unit) task" where
  "connect env evm identity host = (if te_connect env evm identity host then return () else panic)"

definition IDENTITY_PATH :: string where
  "IDENTITY_PATH = ''src/bridge-tool/identity.pem''"

definition DEFAULT_HOST :: string where
  "DEFAULT_HOST = ''http://127.0.0.1:4943''"

definition or_default :: "'a \<Rightarrow> 'a option \<Rightarrow> 'a" where
  "or_default d x = (case x of None \<Rightarrow> d | Some v \<Rightarrow> v)"

text \<open>\<open>H160::from_slice(&hex::decode(s.trim_start_matches("0x")))\<close>\<close>

definition h160_from_slice :: "bytes \<Rightarrow> h160 option" where
  "h160_from_slice bs = (if length bs = 20 then Some (h160_of_bytes bs) else None)"

definition tool_address :: "tool_env \<Rightarrow> string \<Rightarrow> h160 option" where
  "tool_address env s = Option.bind (te_hex_decode env (trim_0x s)) h160_from_slice"

section \<open>Transactions\<close>

definition MAX_TX_TIMEOUT_SEC :: nat where
  "MAX_TX_TIMEOUT_SEC = 6"

text \<open>The loop of \<open>wait_for_tx_success\<close>; \<open>None\<close> when the fuel is used up.\<close>

fun wait_loop :: "nat \<Rightarrow> tool_env \<Rightarrow> nat \<Rightarrow> h256 \<Rightarrow> (history, tool_receipt option) task" where
  "wait_loop 0 env start hash = return None"
| "wait_loop (Suc fuel) env start hash =
     andThen (reading (te_now env)) (\<lambda>now.
     if now - start < MAX_TX_TIMEOUT_SEC * 1000 then
       andThen (ask (ReceiptCall hash) (\<lambda>h. te_receipt env h hash)) (\<lambda>r. case r of
         Some receipt \<Rightarrow> if rc_status receipt \<noteq> Some 1 then panic else return (Some receipt)
       | None \<Rightarrow> andThen (answer (\<lambda>h. h @ [SleepCall]) ()) (\<lambda>_. wait_loop fuel env start hash))
     else panic)"

definition wait_for_tx_success :: "tool_env \<Rightarrow> h256 \<Rightarrow> (history, tool_receipt) task" where
  "wait_for_tx_success env hash =
     andThen (reading (te_now env)) (\<lambda>start. andThen (wait_loop 13 env start hash) unwrap)"

text \<open>A transaction with the price of the tool, built, sent and waited for.\<close>

definition tool_transaction ::
  "tool_env \<Rightarrow> wallet \<Rightarrow> h160 option \<Rightarrow> u256 \<Rightarrow> u256 \<Rightarrow> bytes \<Rightarrow> u64 \<Rightarrow> evm_transaction"
where
  "tool_transaction env w to n gas input chain =
     \<lparr>tx_from = te_address env w, tx_to = to, tx_nonce = n, tx_value = 0, tx_gas = gas,
      tx_gas_price = Some (te_base_fee env * 2), tx_input = input, tx_chain_id = Some (ucast chain),
      tx_r = 0, tx_s = 0, tx_v = 0, tx_hash = 0\<rparr>"

definition send_and_wait :: "tool_env \<Rightarrow> wallet \<Rightarrow> evm_transaction \<Rightarrow> (history, tool_receipt) task" where
  "send_and_wait env w tx =
     andThen (unwrap (te_build env w tx)) (\<lambda>tx.
     andThen (ask (SendCall tx) (\<lambda>h. te_send env h tx)) (\<lambda>hash.
     wait_for_tx_success env hash))"

text \<open>A call of a function of a contract, with the nonce of the account.\<close>

definition call_contract ::
  "tool_env \<Rightarrow> wallet \<Rightarrow> h160 \<Rightarrow> abi_function \<Rightarrow> token list \<Rightarrow> u64 \<Rightarrow> (history, tool_receipt) task"
where
  "call_contract env w to f tokens chain =
     andThen (unwrap (te_encode_input env f tokens)) (\<lambda>input.
     andThen (ask (AccountCall (te_address env w)) (\<lambda>h. te_account_nonce env h (te_address env w))) (\<lambda>n.
     send_and_wait env w (tool_transaction env w (Some to) n 5000000 input chain)))"

section \<open>Wallets\<close>

definition mint_tokens :: "tool_env \<Rightarrow> wallet \<Rightarrow> (history, unit) task" where
  "mint_tokens env w =
     andThen (ask (MintCall (te_address env w))
       (\<lambda>h. te_mint_native env h (te_address env w) (ucast (- 1 :: u128)))) (\<lambda>hash.
     andThen (wait_for_tx_success env hash) (\<lambda>_. return ()))"

definition create_new_wallet :: "tool_env \<Rightarrow> (history, wallet) task" where
  "create_new_wallet env =
     (let w = te_new_wallet env in andThen (mint_tokens env w) (\<lambda>_. return w))"

definition wallet_from_text :: "tool_env \<Rightarrow> string \<Rightarrow> wallet option" where
  "wallet_from_text env s = Option.bind (te_hex_decode env (trim_0x s)) (te_wallet_of env)"

definition get_wallet :: "tool_env \<Rightarrow> string option \<Rightarrow> (history, wallet) task" where
  "get_wallet env pk = (case pk of
       Some v \<Rightarrow> unwrap (wallet_from_text env v)
     | None \<Rightarrow> create_new_wallet env)"

section \<open>Token ids\<close>

text \<open>\<open>str::parse\<close> of an unsigned integer below \<open>bound\<close>.\<close>

definition digit :: "char \<Rightarrow> nat option" where
  "digit c = (let n = of_char c :: nat in if 48 \<le> n \<and> n \<le> 57 then Some (n - 48) else None)"

fun parse_digits :: "nat \<Rightarrow> string \<Rightarrow> nat \<Rightarrow> nat option" where
  "parse_digits bound [] acc = Some acc"
| "parse_digits bound (c # s) acc = (case digit c of
      None \<Rightarrow> None
    | Some d \<Rightarrow> if acc * 10 + d < bound then parse_digits bound s (acc * 10 + d) else None)"

definition parse_uint :: "nat \<Rightarrow> string \<Rightarrow> nat option" where
  "parse_uint bound s = (let digits = (case s of c # r \<Rightarrow> if c = CHR ''+'' then r else s | [] \<Rightarrow> []) in
     if digits = [] then None else parse_digits bound digits 0)"

text \<open>\<open>str::split\<close> at a character\<close>

fun split_at :: "char \<Rightarrow> string \<Rightarrow> string list" where
  "split_at c [] = [[]]"
| "split_at c (d # s) = (if d = c then [] # split_at c s
     else case split_at c s of p # ps \<Rightarrow> (d # p) # ps | [] \<Rightarrow> [[d]])"

definition decode_token_id :: "tool_env \<Rightarrow> string \<Rightarrow> (unit, id256 option) outcome" where
  "decode_token_id env id_string =
     (let hex = (case te_hex_decode env id_string of
            Some bs \<Rightarrow> if length bs = 32 then Some bs else None | None \<Rightarrow> None)
      in case hex of
        Some bs \<Rightarrow> Ok (from_slice (te_codec env) bs)
      | None \<Rightarrow> (case split_at CHR '':'' id_string of
            [block_id, tx_index] \<Rightarrow>
              (case (parse_uint (2 ^ 64) block_id, parse_uint (2 ^ 32) tx_index) of
                 (Some b, Some i) \<Rightarrow> Ok (Some (te_from_btc_tx_index env (of_nat b) (of_nat i)))
               | _ \<Rightarrow> Panic)
          | _ \<Rightarrow> Ok (map_option (from_principal (te_codec env)) (te_principal_of_text env id_string))))"

section \<open>Commands\<close>

record get_nonce_args =
  gn_evm :: principal
  gn_wallet :: "string option"
  gn_ic_host :: "string option"

definition tool_get_nonce :: "tool_env \<Rightarrow> get_nonce_args \<Rightarrow> (history, u256) task" where
  "tool_get_nonce env args =
     andThen (connect env (gn_evm args) IDENTITY_PATH (or_default DEFAULT_HOST (gn_ic_host args))) (\<lambda>_.
     andThen (get_wallet env (gn_wallet args)) (\<lambda>w.
     ask (CountCall (te_address env w)) (\<lambda>h. te_transaction_count env h (te_address env w))))"

record deposit_icrc_args =
  di_evm :: principal
  di_bft_bridge :: string
  di_amount :: u128
  di_sender :: principal
  di_token :: principal
  di_ic_host :: "string option"
  di_wallet :: "string option"

definition deposit_icrc :: "tool_env \<Rightarrow> deposit_icrc_args \<Rightarrow> (history, tool_receipt) task" where
  "deposit_icrc env args =
     andThen (unwrap (tool_address env (di_bft_bridge args))) (\<lambda>bft_bridge.
     andThen (connect env (di_evm args) IDENTITY_PATH (or_default DEFAULT_HOST (di_ic_host args))) (\<lambda>_.
     andThen (get_wallet env (di_wallet args)) (\<lambda>w.
     andThen (ask ChainIdCall (te_chain_id env)) (\<lambda>chain.
     let data = \<lparr>ib_sender = di_sender args, ib_amount = ucast (di_amount args), ib_token = di_token args,
           ib_from_subaccount = None, ib_recipient = te_address env w, ib_approve_after_mint = None,
           ib_fee_payer = None\<rparr> in
     call_contract env w bft_bridge NOTIFY_MINTER [TUint 0, TBytes (te_encode_burn env data)] chain))))"

record deploy_bft_args =
  db_minter_address :: string
  db_fee_charge_address :: "string option"
  db_is_wrapped_side :: bool
  db_evm :: principal
  db_ic_host :: "string option"
  db_wallet :: "string option"
  db_identity_path :: "string option"

definition deploy_contract :: "tool_env \<Rightarrow> wallet \<Rightarrow> bytes \<Rightarrow> u64 \<Rightarrow> (history, h160) task" where
  "deploy_contract env w input chain =
     andThen (ask (CountCall (te_address env w)) (\<lambda>h. te_transaction_count env h (te_address env w))) (\<lambda>n.
     andThen (send_and_wait env w (tool_transaction env w None n 5000000 input chain)) (\<lambda>receipt.
     unwrap (rc_contract_address receipt)))"

text \<open>The addresses of the implementation and of its proxy.\<close>

definition deploy_bft_bridge :: "tool_env \<Rightarrow> deploy_bft_args \<Rightarrow> (history, h160 \<times> h160) task" where
  "deploy_bft_bridge env args =
     andThen (unwrap (tool_address env (db_minter_address args))) (\<lambda>minter.
     andThen (connect env (db_evm args) (or_default IDENTITY_PATH (db_identity_path args))
       (or_default DEFAULT_HOST (db_ic_host args))) (\<lambda>_.
     andThen (get_wallet env (db_wallet args)) (\<lambda>w.
     andThen (ask ChainIdCall (te_chain_id env)) (\<lambda>chain.
     andThen (unwrap (case db_fee_charge_address args of None \<Rightarrow> Some 0 | Some s \<Rightarrow> tool_address env s)) (\<lambda>fee_charge.
     andThen (unwrap (te_encode_constructor env CONSTRUCTOR (te_bft_code env) [])) (\<lambda>bft_contract_input.
     andThen (deploy_contract env w bft_contract_input chain) (\<lambda>bft_contract_address.
     andThen (unwrap (te_encode_input env PROXY_INITIALISER
       [TAddress minter, TAddress fee_charge, TBool (db_is_wrapped_side args)])) (\<lambda>initialize_data.
     andThen (unwrap (te_encode_constructor env PROXY_CONSTRUCTOR (te_proxy_code env)
       [TAddress bft_contract_address, TBytes initialize_data])) (\<lambda>proxy_input.
     andThen (deploy_contract env w proxy_input chain) (\<lambda>bft_proxy_address.
     return (bft_contract_address, bft_proxy_address)))))))))))"

record deploy_fee_charge_args =
  df_evm :: principal
  df_identity_path :: "string option"
  df_ic_host :: "string option"
  df_wallet :: string
  df_nonce :: u64
  df_bridges :: "string list"

definition deploy_fee_charge :: "tool_env \<Rightarrow> deploy_fee_charge_args \<Rightarrow> (history, h160) task" where
  "deploy_fee_charge env args =
     andThen (connect env (df_evm args) (or_default IDENTITY_PATH (df_identity_path args))
       (or_default DEFAULT_HOST (df_ic_host args))) (\<lambda>_.
     andThen (get_wallet env (Some (df_wallet args))) (\<lambda>w.
     andThen (unwrap (if list_all (\<lambda>s. tool_address env s \<noteq> None) (df_bridges args)
       then Some (map (\<lambda>s. TAddress (the (tool_address env s))) (df_bridges args)) else None)) (\<lambda>addresses.
     andThen (unwrap (te_encode_constructor env FEE_CHARGE_CONSTRUCTOR (te_fee_charge_code env)
       [TArray addresses])) (\<lambda>input.
     andThen (ask ChainIdCall (te_chain_id env)) (\<lambda>chain.
     andThen (send_and_wait env w
       (tool_transaction env w None (ucast (df_nonce args)) 4000000 input chain)) (\<lambda>receipt.
     unwrap (rc_contract_address receipt)))))))"

record expected_contract_address_args =
  ea_wallet :: string
  ea_nonce :: u64

definition expected_contract_address ::
  "tool_env \<Rightarrow> expected_contract_address_args \<Rightarrow> (history, h160) task"
where
  "expected_contract_address env args =
     andThen (unwrap (wallet_from_text env (ea_wallet args))) (\<lambda>w.
     return (te_contract_address env (te_address env w) (ea_nonce args)))"

record create_token_args =
  ct_bft_bridge_address :: string
  ct_token_name :: string
  ct_token_id :: string
  ct_evm_canister :: principal
  ct_ic_host :: "string option"
  ct_identity_path :: "string option"
  ct_wallet :: "string option"

definition create_token :: "tool_env \<Rightarrow> create_token_args \<Rightarrow> (history, h160) task" where
  "create_token env args =
     andThen (unwrap (tool_address env (ct_bft_bridge_address args))) (\<lambda>bft_bridge.
     andThen (unwrap (case decode_token_id env (ct_token_id args) of Ok i \<Rightarrow> i | _ \<Rightarrow> None)) (\<lambda>token_id.
     andThen (connect env (ct_evm_canister args) (or_default IDENTITY_PATH (ct_identity_path args))
       (or_default DEFAULT_HOST (ct_ic_host args))) (\<lambda>_.
     andThen (get_wallet env (ct_wallet args)) (\<lambda>w.
     andThen (ask ChainIdCall (te_chain_id env)) (\<lambda>chain.
     andThen (call_contract env w bft_bridge DEPLOY_WRAPPED_TOKEN
       [TString (ct_token_name args), TString (ct_token_name args), TFixedBytes (id256_bytes token_id)] chain) (\<lambda>receipt.
     andThen (unwrap (rc_output receipt)) (\<lambda>output.
     andThen (unwrap (te_decode_output env DEPLOY_WRAPPED_TOKEN output)) (\<lambda>ts.
     unwrap (case ts of [] \<Rightarrow> None | t # _ \<Rightarrow> into_address t)))))))))"

text \<open>\<open>create_wallet\<close> prints the address and the key of the new wallet.\<close>

definition create_wallet :: "tool_env \<Rightarrow> principal \<Rightarrow> (history, h160 \<times> wallet) task" where
  "create_wallet env evm_canister =
     andThen (connect env evm_canister IDENTITY_PATH DEFAULT_HOST) (\<lambda>_.
     andThen (create_new_wallet env) (\<lambda>w. return (te_address env w, w)))"

text \<open>The form in which the address is printed is not modelled.\<close>

record wallet_address_args =
  wa_wallet :: string
  wa_candid :: bool

definition wallet_address :: "tool_env \<Rightarrow> wallet_address_args \<Rightarrow> (history, h160) task" where
  "wallet_address env args =
     andThen (unwrap (wallet_from_text env (wa_wallet args))) (\<lambda>w. return (te_address env w))"

record burn_wrapped_args =
  bw_wallet :: string
  bw_evm_canister :: principal
  bw_bft_bridge :: string
  bw_token_address :: string
  bw_address :: bytes
  bw_amount :: u128

text \<open>\<open>u128::from_str_radix(_, 16)\<close>\<close>

definition hex_digit :: "char \<Rightarrow> nat option" where
  "hex_digit c = (let n = of_char c :: nat in
     if 48 \<le> n \<and> n \<le> 57 then Some (n - 48)
     else if 97 \<le> n \<and> n \<le> 102 then Some (n - 87)
     else if 65 \<le> n \<and> n \<le> 70 then Some (n - 55) else None)"

fun hex_digits :: "string \<Rightarrow> nat \<Rightarrow> nat option" where
  "hex_digits [] acc = Some acc"
| "hex_digits (c # s) acc = (case hex_digit c of
      None \<Rightarrow> None
    | Some d \<Rightarrow> if acc * 16 + d < 2 ^ 128 then hex_digits s (acc * 16 + d) else None)"

definition u128_from_hex :: "string \<Rightarrow> u128 option" where
  "u128_from_hex s = (let digits = (case s of c # r \<Rightarrow> if c = CHR ''+'' then r else s | [] \<Rightarrow> []) in
     if digits = [] then None else map_option of_nat (hex_digits digits 0))"

definition wrapped_balance :: "tool_env \<Rightarrow> wallet \<Rightarrow> h160 \<Rightarrow> (history, u128) task" where
  "wrapped_balance env w tok =
     andThen (unwrap (te_encode_input env ERC_20_BALANCE [TAddress (te_address env w)])) (\<lambda>input.
     andThen (ask (EthCall (te_address env w) tok input)
       (\<lambda>h. te_eth_call env h (te_address env w) tok input)) (\<lambda>result.
     unwrap (u128_from_hex (trim_0x result))))"

definition approve_tokens :: "burn_wrapped_args \<Rightarrow> h160 \<Rightarrow> token list" where
  "approve_tokens args bft_bridge = [TAddress bft_bridge, TUint (ucast (bw_amount args))]"

definition burn_tokens :: "burn_wrapped_args \<Rightarrow> h160 \<Rightarrow> token list" where
  "burn_tokens args tok = [TUint (ucast (bw_amount args)), TAddress tok, TBytes (bw_address args)]"

text \<open>The balance before the burn is printed.\<close>

definition burn_wrapped :: "tool_env \<Rightarrow> burn_wrapped_args \<Rightarrow> (history, u128) task" where
  "burn_wrapped env args =
     andThen (connect env (bw_evm_canister args) IDENTITY_PATH DEFAULT_HOST) (\<lambda>_.
     andThen (get_wallet env (Some (bw_wallet args))) (\<lambda>w.
     andThen (ask ChainIdCall (te_chain_id env)) (\<lambda>chain.
     andThen (unwrap (tool_address env (bw_bft_bridge args))) (\<lambda>bft_bridge.
     andThen (unwrap (tool_address env (bw_token_address args))) (\<lambda>tok.
     andThen (wrapped_balance env w tok) (\<lambda>balance.
     andThen (call_contract env w tok ERC_20_APPROVE (approve_tokens args bft_bridge) chain) (\<lambda>_.
     andThen (call_contract env w bft_bridge BURN (burn_tokens args tok) chain) (\<lambda>_.
     return balance))))))))"

text \<open>\<open>CliCommand\<close> and \<open>main\<close>\<close>

datatype cli_command =
    DeployBftBridge deploy_bft_args | CreateToken create_token_args | CreateWallet principal
  | BurnWrapped burn_wrapped_args | WalletAddress wallet_address_args
  | DeployFeeCharge deploy_fee_charge_args | ExpectedContractAddress expected_contract_address_args
  | DepositIcrc deposit_icrc_args | GetNonce get_nonce_args

datatype tool_output =
    PrintedAddress h160 | PrintedBridge h160 h160 | PrintedWallet h160 wallet | PrintedNonce u256
  | PrintedReceipt tool_receipt | PrintedBalance u128

definition printing :: "('a \<Rightarrow> tool_output) \<Rightarrow> (history, 'a) task \<Rightarrow> (history, tool_output) task" where
  "printing f m = andThen m (\<lambda>x. return (f x))"

fun tool_main :: "tool_env \<Rightarrow> cli_command \<Rightarrow> (history, tool_output) task" where
  "tool_main env (DeployBftBridge args) = printing (\<lambda>(i, p). PrintedBridge i p) (deploy_bft_bridge env args)"
| "tool_main env (CreateToken args) = printing PrintedAddress (create_token env args)"
| "tool_main env (CreateWallet evm) = printing (\<lambda>(a, w). PrintedWallet a w) (create_wallet env evm)"
| "tool_main env (BurnWrapped args) = printing PrintedBalance (burn_wrapped env args)"
| "tool_main env (WalletAddress args) = printing PrintedAddress (wallet_address env args)"
| "tool_main env (DeployFeeCharge args) = printing PrintedAddress (deploy_fee_charge env args)"
| "tool_main env (ExpectedContractAddress args) = printing PrintedAddress (expected_contract_address env args)"
| "tool_main env (DepositIcrc args) = printing PrintedReceipt (deposit_icrc env args)"
| "tool_main env (GetNonce args) = printing PrintedNonce (tool_get_nonce env args)"

section \<open>Waiting\<close>

lemma wp_ask [wp_simps]:
  "wp (ask c f) Q a h = (case f h of None \<Rightarrow> Q Panic (h @ [c]) (h @ [c]) | Some x \<Rightarrow> Q (Ok x) (h @ [c]) (h @ [c]))"
  by (simp add: ask_def wp_simps split: option.split)

text \<open>The clock does not go back, and a sleep takes 500 milliseconds at least.\<close>

definition clock_runs :: "tool_env \<Rightarrow> bool" where
  "clock_runs env \<longleftrightarrow> (\<forall>h c. te_now env h + (if c = SleepCall then 500 else 0) \<le> te_now env (h @ [c]))"

lemma clock_round:
  assumes "clock_runs env"
  shows "te_now env h + 500 \<le> te_now env (h @ [ReceiptCall hash, SleepCall])"
proof -
  have step: "te_now env h + (if c = SleepCall then 500 else 0) \<le> te_now env (h @ [c])" for h c
    using assms unfolding clock_runs_def by blast
  show ?thesis using step[of h "ReceiptCall hash"] step[of "h @ [ReceiptCall hash]" SleepCall] by simp
qed

lemma wait_loop_step:
  "wait_loop (Suc n) env start hash (c, h) =
    (if te_now env h - start < 6000 then
       let h' = h @ [ReceiptCall hash] in
       case te_receipt env h hash of
         None \<Rightarrow> (Panic, h', h')
       | Some None \<Rightarrow> wait_loop n env start hash (h' @ [SleepCall], h' @ [SleepCall])
       | Some (Some r) \<Rightarrow> (if rc_status r = Some 1 then Ok (Some r) else Panic, h', h')
     else (Panic, c, h))"
  by (simp add: task_simps ask_def MAX_TX_TIMEOUT_SEC_def Let_def split: option.split)

declare wait_loop.simps(2) [simp del]

lemma wait_loop_ends:
  assumes "clock_runs env"
  shows "start \<le> te_now env h \<Longrightarrow> 6000 \<le> 500 * k + (te_now env h - start) \<Longrightarrow>
    wait_loop (Suc k + m) env start hash (c, h) = wait_loop (Suc k) env start hash (c, h) \<and>
    fst (wait_loop (Suc k) env start hash (c, h)) \<noteq> Ok None"
proof (induction k arbitrary: c h)
  case 0
  then show ?case by (simp add: wait_loop_step)
next
  case (Suc k)
  let ?h = "h @ [ReceiptCall hash, SleepCall]"
  have "te_now env h + 500 \<le> te_now env ?h" by (rule clock_round[OF assms])
  then have "wait_loop (Suc k + m) env start hash (?h, ?h) = wait_loop (Suc k) env start hash (?h, ?h) \<and>
      fst (wait_loop (Suc k) env start hash (?h, ?h)) \<noteq> Ok None"
    using Suc.prems by (intro Suc.IH) simp_all
  then show ?case
    by (simp add: wait_loop_step[of "Suc (k + m)"] wait_loop_step[of "Suc k"] Let_def split: option.split)
qed

text \<open>
  Waiting for a transaction ends. If the clock does not go back and a sleep takes its half
  second, the loop of \<open>wait_for_tx_success\<close> goes round at most 13 times, whatever the EVM answers.
\<close>

theorem wait_for_tx_returns:
  assumes "clock_runs env" and "13 \<le> fuel"
  shows "wait_loop fuel env (te_now env h) hash (c, h) = wait_loop 13 env (te_now env h) hash (c, h) \<and>
    fst (wait_loop 13 env (te_now env h) hash (c, h)) \<noteq> Ok None"
proof -
  obtain m where "fuel = Suc 12 + m" using assms(2) by (metis Suc_numeral le_Suc_ex semiring_norm(5))
  then show ?thesis
    using wait_loop_ends[OF assms(1), of "te_now env h" h 12 m hash c] by simp
qed

section \<open>Burning wrapped tokens\<close>

text \<open>The transactions sent so far.\<close>

definition sends :: "history \<Rightarrow> evm_transaction list" where
  "sends h = List.map_filter (\<lambda>c. case c of SendCall tx \<Rightarrow> Some tx | _ \<Rightarrow> None) h"

lemma sends_simps [simp]:
  "sends [] = []" "sends (h @ h') = sends h @ sends h'" "sends (SendCall tx # h) = tx # sends h"
  "sends (ChainIdCall # h) = sends h" "sends (AccountCall a # h) = sends h" "sends (CountCall a # h) = sends h"
  "sends (ReceiptCall x # h) = sends h" "sends (SleepCall # h) = sends h" "sends (EthCall a b i # h) = sends h"
  by (simp_all add: sends_def List.map_filter_simps List_map_filter_append)

text \<open>The transaction was sent, and a receipt of its success came back later.\<close>

definition confirmed :: "tool_env \<Rightarrow> history \<Rightarrow> evm_transaction \<Rightarrow> bool" where
  "confirmed env h tx \<longleftrightarrow> (\<exists>h0 h1 hash receipt. te_send env h0 tx = Some hash \<and>
     te_receipt env h1 hash = Some (Some receipt) \<and> rc_status receipt = Some 1 \<and>
     prefix (h0 @ [SendCall tx]) h1 \<and> prefix (h1 @ [ReceiptCall hash]) h)"

text \<open>Building a transaction adds the signature and the hash.\<close>

definition keeps_request :: "tool_env \<Rightarrow> bool" where
  "keeps_request env \<longleftrightarrow> (\<forall>w tx tx'. te_build env w tx = Some tx' \<longrightarrow>
     tx_to tx' = tx_to tx \<and> tx_input tx' = tx_input tx \<and> tx_value tx' = tx_value tx)"

lemma wp_wait_loop_step:
  "wp (wait_loop (Suc n) env start hash) Q c h =
    (if te_now env h - start < 6000 then
       let h' = h @ [ReceiptCall hash] in
       case te_receipt env h hash of
         None \<Rightarrow> Q Panic h' h'
       | Some None \<Rightarrow> wp (wait_loop n env start hash) Q (h' @ [SleepCall]) (h' @ [SleepCall])
       | Some (Some r) \<Rightarrow> Q (if rc_status r = Some 1 then Ok (Some r) else Panic) h' h'
     else Q Panic c h)"
  by (simp add: wp_def wait_loop_step Let_def split: option.split)

definition received :: "tool_env \<Rightarrow> h256 \<Rightarrow> history \<Rightarrow> tool_receipt \<Rightarrow> history \<Rightarrow> bool" where
  "received env hash h receipt h' \<longleftrightarrow>
     (\<exists>h1. te_receipt env h1 hash = Some (Some receipt) \<and> rc_status receipt = Some 1 \<and> prefix h h1 \<and>
        h' = h1 @ [ReceiptCall hash] \<and> sends h' = sends h)"

lemma received_later: "received env hash (h @ x) receipt h' \<Longrightarrow> sends x = [] \<Longrightarrow> received env hash h receipt h'"
  by (auto simp: received_def intro: append_prefixD)

lemma wp_wait_loop:
  "wp (wait_loop n env start hash) (\<lambda>r c' h'. r = Panic \<or> r = Ok None \<or>
     (\<exists>receipt. r = Ok (Some receipt) \<and> received env hash h receipt h')) c h"
proof (induction n arbitrary: c h)
  case (Suc n)
  have "wp (wait_loop n env start hash) (\<lambda>r c' h'. r = Panic \<or> r = Ok None \<or>
      (\<exists>receipt. r = Ok (Some receipt) \<and> received env hash h receipt h')) c (h @ [ReceiptCall hash, SleepCall])" for c
    by (rule wp_mono[OF Suc.IH])
      (auto dest: received_later[where x = "[ReceiptCall hash, SleepCall]"])
  then show ?case
    by (auto simp: wp_wait_loop_step Let_def received_def split: option.split)
qed (simp add: wp_simps)

lemma wp_wait_for_tx_success:
  assumes "\<And>c' h'. Q Panic c' h'" and "\<And>receipt h' c'. received env hash h receipt h' \<Longrightarrow> Q (Ok receipt) c' h'"
  shows "wp (wait_for_tx_success env hash) Q c h"
  unfolding wait_for_tx_success_def wp_simps outcome.case
  by (rule wp_mono[OF wp_wait_loop]) (auto simp: wp_simps intro: assms)

lemma wp_send_and_wait:
  assumes "\<And>c' h'. Q Panic c' h'"
    and "\<And>tx' receipt h' c'. te_build env w tx = Some tx' \<Longrightarrow> sends h' = sends h @ [tx'] \<Longrightarrow>
      confirmed env h' tx' \<Longrightarrow> prefix h h' \<Longrightarrow> Q (Ok receipt) c' h'"
  shows "wp (send_and_wait env w tx) Q c h"
proof -
  have "Q (Ok receipt) c' h'" if "te_build env w tx = Some tx'" "te_send env h tx' = Some hash"
      "received env hash (h @ [SendCall tx']) receipt h'" for tx' hash receipt c' h'
  proof (rule assms(2)[OF that(1)])
    show "sends h' = sends h @ [tx']" using that(3) by (auto simp: received_def)
    show "confirmed env h' tx'"
      using that(2,3) unfolding received_def confirmed_def by blast
    show "prefix h h'" using that(3) by (auto simp: received_def dest: append_prefixD intro: prefix_prefix)
  qed
  then show ?thesis
    unfolding send_and_wait_def
    by (auto simp: wp_simps intro!: assms(1) wp_wait_for_tx_success split: option.split)
qed

lemma wp_call_contract:
  assumes "keeps_request env" and "\<And>c' h'. Q Panic c' h'"
    and "\<And>tx receipt h' c'. tx_to tx = Some to \<Longrightarrow> te_encode_input env f tokens = Some (tx_input tx) \<Longrightarrow>
      sends h' = sends h @ [tx] \<Longrightarrow> confirmed env h' tx \<Longrightarrow> prefix h h' \<Longrightarrow> Q (Ok receipt) c' h'"
  shows "wp (call_contract env w to f tokens chain) Q c h"
  unfolding call_contract_def
  using assms(1)
  by (auto simp: wp_simps keeps_request_def tool_transaction_def dest: append_prefixD
      intro!: assms(2,3) wp_send_and_wait split: option.split)

text \<open>
  C32: Burning wrapped tokens. When the command returns, it has sent exactly two transactions: first
  the approval of the amount for the bridge to the token contract, and only after a receipt of its
  success the burn of the same amount to the bridge contract, whose success was confirmed as well.
\<close>

theorem burn_wrapped_order:
  assumes "keeps_request env" and "run_task (burn_wrapped env args) h = (Ok balance, h')"
  shows "\<exists>bridge tok approve burn h1.
    tool_address env (bw_bft_bridge args) = Some bridge \<and> tool_address env (bw_token_address args) = Some tok \<and>
    sends h' = sends h @ [approve, burn] \<and>
    tx_to approve = Some tok \<and>
    te_encode_input env ERC_20_APPROVE [TAddress bridge, TUint (ucast (bw_amount args))] = Some (tx_input approve) \<and>
    tx_to burn = Some bridge \<and>
    te_encode_input env BURN [TUint (ucast (bw_amount args)), TAddress tok, TBytes (bw_address args)] =
      Some (tx_input burn) \<and>
    prefix h1 h' \<and> sends h1 = sends h @ [approve] \<and> confirmed env h1 approve \<and> confirmed env h' burn"
    (is "?P h'")
proof -
  have "wp (burn_wrapped env args) (\<lambda>r c t. \<forall>x. r = Ok x \<longrightarrow> ?P (if r = Panic then c else t)) h h"
    unfolding burn_wrapped_def connect_def get_wallet_def wrapped_balance_def
    by (auto simp: wp_simps approve_tokens_def burn_tokens_def intro!: wp_call_contract[OF assms(1)]
        split: option.split) blast
  from run_task_wpD[OF assms(2) this] show ?thesis by blast
qed

section \<open>Concrete commands\<close>

text \<open>Every transaction succeeds at once.\<close>

definition sample_tool_env :: tool_env where
  "sample_tool_env = \<lparr>te_connect = \<lambda>_ _ _. True, te_hex_decode = \<lambda>s. Some (replicate 20 (of_nat (length s))),
     te_wallet_of = Some, te_new_wallet = [7], te_address = \<lambda>_. 5,
     te_build = \<lambda>w tx. Some (tx\<lparr>tx_v := 1\<rparr>), te_base_fee = 7,
     te_encode_input = \<lambda>f ts. Some (if fn_name f = ''burn'' then [2] else [1]), te_decode_output = \<lambda>_ _. None,
     te_encode_constructor = \<lambda>_ _ _. None, te_encode_burn = \<lambda>_. [], te_bft_code = [], te_proxy_code = [],
     te_fee_charge_code = [], te_contract_address = \<lambda>_ _. 0, te_codec = plain_codec,
     te_from_btc_tx_index = \<lambda>b i. Id256 [ucast b, ucast i], te_principal_of_text = \<lambda>_. None,
     te_now = \<lambda>h. 500 * length (filter (\<lambda>c. c = SleepCall) h), te_chain_id = \<lambda>_. Some 1,
     te_account_nonce = \<lambda>h _. Some (of_nat (length h)), te_transaction_count = \<lambda>_ _. None,
     te_send = \<lambda>h _. Some (of_nat (length h)),
     te_receipt = \<lambda>_ _. Some (Some \<lparr>rc_status = Some 1, rc_contract_address = None, rc_output = None\<rparr>),
     te_eth_call = \<lambda>_ _ _ _. Some ''0x10'', te_mint_native = \<lambda>_ _ _. None\<rparr>"

definition sample_burn_args :: burn_wrapped_args where
  "sample_burn_args = \<lparr>bw_wallet = ''0x1'', bw_evm_canister = Anonymous, bw_bft_bridge = ''0x22'',
     bw_token_address = ''333'', bw_address = [9], bw_amount = 4\<rparr>"

lemma sample_tool_simps:
  "te_connect sample_tool_env e i h" "te_hex_decode sample_tool_env s = Some (replicate 20 (of_nat (length s)))"
  "te_wallet_of sample_tool_env bs = Some bs" "te_build sample_tool_env w tx = Some (tx\<lparr>tx_v := 1\<rparr>)"
  "te_encode_input sample_tool_env f ts = Some (if fn_name f = ''burn'' then [2] else [1])"
  "te_chain_id sample_tool_env g = Some 1" "te_account_nonce sample_tool_env g a = Some (of_nat (length g))"
  "te_send sample_tool_env g tx = Some (of_nat (length g))"
  "te_receipt sample_tool_env g hash = Some (Some \<lparr>rc_status = Some 1, rc_contract_address = None, rc_output = None\<rparr>)"
  "te_eth_call sample_tool_env g a b input = Some ''0x10''"
  "u128_from_hex ''10'' = Some 16"
  by (simp_all add: sample_tool_env_def u128_from_hex_def hex_digit_def Let_def)

lemma sample_wait:
  "wait_for_tx_success sample_tool_env hash (c, h) = (Ok \<lparr>rc_status = Some 1, rc_contract_address = None, rc_output = None\<rparr>,
     h @ [ReceiptCall hash], h @ [ReceiptCall hash])"
  using wait_loop_step[of 12 sample_tool_env "te_now sample_tool_env h" hash c h]
  by (simp add: wait_for_tx_success_def task_simps Let_def sample_tool_simps)

lemma sample_burn_run:
  "fst (run_task (burn_wrapped sample_tool_env sample_burn_args) []) = Ok 16"
  by (simp add: run_task_def burn_wrapped_def connect_def get_wallet_def wallet_from_text_def tool_address_def
      h160_from_slice_def wrapped_balance_def call_contract_def send_and_wait_def ask_def task_simps sample_wait
      sample_tool_simps BURN_def ERC_20_APPROVE_def ERC_20_BALANCE_def)

theorem wait_for_tx_returns_witness:
  "wait_loop 20 sample_tool_env 0 3 ([], []) = wait_loop 13 sample_tool_env 0 3 ([], []) \<and>
     fst (wait_loop 13 sample_tool_env 0 3 ([], [])) \<noteq> Ok None"
proof -
  have "clock_runs sample_tool_env" by (simp add: clock_runs_def sample_tool_env_def)
  from wait_for_tx_returns[OF this, of 20 "[]" 3 "[]"] show ?thesis by (simp add: sample_tool_env_def)
qed

theorem burn_wrapped_order_witness:
  "\<exists>h' approve burn. run_task (burn_wrapped sample_tool_env sample_burn_args) [] = (Ok 16, h') \<and>
     sends h' = [approve, burn] \<and> tx_input approve = [1] \<and> tx_input burn = [2] \<and>
     confirmed sample_tool_env h' burn"
proof -
  obtain h' where run: "run_task (burn_wrapped sample_tool_env sample_burn_args) [] = (Ok 16, h')"
    using sample_burn_run by (metis prod.collapse)
  have "keeps_request sample_tool_env" by (auto simp: keeps_request_def sample_tool_env_def)
  from burn_wrapped_order[OF this run] run show ?thesis
    by (auto simp: sample_tool_simps ERC_20_APPROVE_def BURN_def)
qed

end
